(* ===== verification/Prelude.thy ===== *)
theory Prelude
  imports Main "HOL-Library.Char_ord"
begin

text \<open>
  Shared vocabulary of the development: the collections of simplification rules, Python's
  exceptions as values, the two sequencing combinators (a result that may be an exception, and a
  state change that may raise), and the string operations of the standard library that the code
  uses (\<^verbatim>\<open>strip\<close>, \<^verbatim>\<open>lower\<close>, \<^verbatim>\<open>upper\<close>, \<^verbatim>\<open>isdigit\<close>, \<^verbatim>\<open>startswith\<close>). Strings are
  ASCII character lists.
\<close>

section \<open>Rule collections\<close>

named_theorems py_simps \<open>unfolding of the sequencing combinators\<close>
named_theorems frame_simps \<open>fields that an operation leaves alone\<close>

section \<open>Exceptions\<close>

text \<open>
  The exception classes the modelled code raises. A message is carried only where the code looks
  at it (the reason stored with a blocked order, or the configuration variable at fault).
\<close>

datatype config_fault =
    NotBoolean | NotInteger | NotDecimal | NotNumber | NotFinite | BelowMinimum | AboveMaximum
  | InvalidMode | UnsupportedSymbol | InvalidLogLevel | InvalidLogFormat
  | BadMonth | PortsEqual | ClientIdsEqual | BackoffOrder | HalfArmed | BadBindAddress

datatype exn =
    ConfigError string config_fault
  | ValueError
  | KeyError
  | IndexError
  | OverflowError
  | InvalidOperation
  | DivisionByZero
  | AttributeError
  | AssertionError
  | OSError
  | TypeError
  | ImportError
  | BarError
  | HistoricalSourceError
  | DatabaseError
  | IntegrityError
  | RuntimeError
  | SignalError
  | ContractError
  | ContractResolutionError
  | OrderValidationError string
  | BrokerError
  | BrokerConnectionError
  | BrokerTimeoutError
  | BrokerPermissionError
  | BrokerContractError
  | BrokerOrderRejectedError
  | BrokerUnsupportedOperationError

type_synonym 'a result = "exn + 'a"

definition ebind :: "'e + 'a \<Rightarrow> ('a \<Rightarrow> 'e + 'b) \<Rightarrow> 'e + 'b" where
  "ebind m f = (case m of Inl e \<Rightarrow> Inl e | Inr x \<Rightarrow> f x)"

definition guard_raise :: "bool \<Rightarrow> 'e \<Rightarrow> 'e + unit" where
  "guard_raise bad e = (if bad then Inl e else Inr ())"

lemma ebind_simps [simp, py_simps]:
  "ebind (Inl e) f = Inl e"
  "ebind (Inr x) f = f x"
  by (simp_all add: ebind_def)

lemma ebind_eq_Inr: "ebind m f = Inr y \<longleftrightarrow> (\<exists>x. m = Inr x \<and> f x = Inr y)"
  by (cases m) simp_all

lemma ebind_eq_Inl: "ebind m f = Inl e \<longleftrightarrow> m = Inl e \<or> (\<exists>x. m = Inr x \<and> f x = Inl e)"
  by (cases m) simp_all

lemma ebind_InrE:
  assumes "ebind m f = Inr y"
  obtains x where "m = Inr x" and "f x = Inr y"
  using assms by (auto simp: ebind_eq_Inr)

lemma guard_raise_simps [simp]:
  "guard_raise True e = Inl e"
  "guard_raise False e = Inr ()"
  by (simp_all add: guard_raise_def)

lemma guard_raise_Inr [simp]: "guard_raise b e = Inr u \<longleftrightarrow> \<not> b"
  by (simp add: guard_raise_def)

lemma guard_raise_Inl [simp]: "guard_raise b e = Inl e' \<longleftrightarrow> b \<and> e' = e"
  by (auto simp: guard_raise_def)

text \<open>
  A state change that may raise. The state is returned in both cases: an exception in Python does
  not undo what was done before it.
\<close>

type_synonym ('s, 'a) action = "'s \<Rightarrow> 'a result \<times> 's"

definition sbind :: "('s, 'a) action \<Rightarrow> ('a \<Rightarrow> ('s, 'b) action) \<Rightarrow> ('s, 'b) action" where
  "sbind m f = (\<lambda>s. case m s of (Inl e, s') \<Rightarrow> (Inl e, s') | (Inr x, s') \<Rightarrow> f x s')"

definition sreturn :: "'a \<Rightarrow> ('s, 'a) action" where
  "sreturn x = (\<lambda>s. (Inr x, s))"

definition sraise :: "exn \<Rightarrow> ('s, 'a) action" where
  "sraise e = (\<lambda>s. (Inl e, s))"

definition slift :: "'a result \<Rightarrow> ('s, 'a) action" where
  "slift r = (\<lambda>s. (r, s))"

text \<open>Reading, changing and testing the state.\<close>

definition sgets :: "('s \<Rightarrow> 'a) \<Rightarrow> ('s, 'a) action" where
  "sgets f = (\<lambda>s. (Inr (f s), s))"

definition smodify :: "('s \<Rightarrow> 's) \<Rightarrow> ('s, unit) action" where
  "smodify f = (\<lambda>s. (Inr (), f s))"

definition sguard :: "bool \<Rightarrow> exn \<Rightarrow> ('s, unit) action" where
  "sguard bad e = (if bad then sraise e else sreturn ())"

text \<open>\<^verbatim>\<open>contextlib.suppress(Exception)\<close>: what was done before the exception stays done.\<close>

definition ssuppress :: "('s, unit) action \<Rightarrow> ('s, unit) action" where
  "ssuppress m = (\<lambda>s. (Inr (), snd (m s)))"

lemma sbind_apply [py_simps]:
  "sbind m f s = (case m s of (Inl e, s') \<Rightarrow> (Inl e, s') | (Inr x, s') \<Rightarrow> f x s')"
  by (simp add: sbind_def)

lemma saction_apply [simp, py_simps]:
  "sreturn x s = (Inr x, s)"
  "sraise e s = (Inl e, s)"
  "slift r s = (r, s)"
  by (simp_all add: sreturn_def sraise_def slift_def)

lemma sstate_apply [simp, py_simps]:
  "sgets f s = (Inr (f s), s)"
  "smodify g s = (Inr (), g s)"
  "sguard b e s = (if b then Inl e else Inr (), s)"
  "ssuppress m s = (Inr (), snd (m s))"
  by (simp_all add: sgets_def smodify_def sguard_def ssuppress_def)

lemma sbind_Inr:
  "sbind m f s = (Inr y, t) \<longleftrightarrow> (\<exists>x u. m s = (Inr x, u) \<and> f x u = (Inr y, t))"
  by (auto simp: sbind_def split: prod.splits sum.splits)

lemma sbind_run [simp]: "m s = (Inr x, u) \<Longrightarrow> sbind m f s = f x u"
  by (simp add: sbind_def)

lemma sbind_fail [simp]: "m s = (Inl e, u) \<Longrightarrow> sbind m f s = (Inl e, u)"
  by (simp add: sbind_def)

lemma sbind_InrE:
  assumes "sbind m f s = (Inr y, t)"
  obtains x u where "m s = (Inr x, u)" and "f x u = (Inr y, t)"
  using assms by (auto simp: sbind_Inr)

text \<open>
  The two ways an action is framed: an observation of the state that it leaves as it was, and a
  predicate that it preserves, whether it returns or raises.
\<close>

definition keeps :: "('s \<Rightarrow> 'v) \<Rightarrow> ('s, 'a) action \<Rightarrow> bool" where
  "keeps g m = (\<forall>s r t. m s = (r, t) \<longrightarrow> g t = g s)"

definition preserves :: "('s \<Rightarrow> bool) \<Rightarrow> ('s, 'a) action \<Rightarrow> bool" where
  "preserves P m = (\<forall>s r t. m s = (r, t) \<longrightarrow> P s \<longrightarrow> P t)"

lemma keepsD: "keeps g m \<Longrightarrow> m s = (r, t) \<Longrightarrow> g t = g s"
  by (simp add: keeps_def)

lemma keepsI: "(\<And>s r t. m s = (r, t) \<Longrightarrow> g t = g s) \<Longrightarrow> keeps g m"
  by (simp add: keeps_def)

lemma preservesD: "preserves P m \<Longrightarrow> m s = (r, t) \<Longrightarrow> P s \<Longrightarrow> P t"
  by (simp add: preserves_def)

lemma preservesI: "(\<And>s r t. m s = (r, t) \<Longrightarrow> P s \<Longrightarrow> P t) \<Longrightarrow> preserves P m"
  by (simp add: preserves_def)

lemma keeps_preserves: "keeps g m \<Longrightarrow> (\<And>s t. g t = g s \<Longrightarrow> P s \<Longrightarrow> P t) \<Longrightarrow> preserves P m"
  unfolding keeps_def preserves_def by blast

lemma keeps_sbind [intro]: "keeps g m \<Longrightarrow> (\<And>x. keeps g (f x)) \<Longrightarrow> keeps g (sbind m f)"
  unfolding keeps_def by (auto simp: sbind_def split: prod.splits sum.splits)

lemma preserves_sbind [intro]: "preserves P m \<Longrightarrow> (\<And>x. preserves P (f x)) \<Longrightarrow> preserves P (sbind m f)"
  unfolding preserves_def by (fastforce simp: sbind_def split: prod.splits sum.splits)

lemma keeps_pure [simp, intro]:
  "keeps g (sreturn x)" "keeps g (slift y)" "keeps g (sraise e)" "keeps g (sgets h)" "keeps g (sguard b e)"
  by (simp_all add: keeps_def sguard_def)

lemma preserves_pure [simp, intro]:
  "preserves P (sreturn x)" "preserves P (slift y)" "preserves P (sraise e)" "preserves P (sgets h)"
  "preserves P (sguard b e)"
  by (simp_all add: preserves_def sguard_def)

lemma keeps_smodify [intro]: "(\<And>s. g (f s) = g s) \<Longrightarrow> keeps g (smodify f)"
  by (auto simp: keeps_def)

lemma preserves_smodify [intro]: "(\<And>s. P s \<Longrightarrow> P (f s)) \<Longrightarrow> preserves P (smodify f)"
  by (auto simp: preserves_def)

lemma keeps_ssuppress [intro]: "keeps g m \<Longrightarrow> keeps g (ssuppress m)"
  unfolding keeps_def by (metis prod.collapse prod.inject sstate_apply(4))

lemma preserves_ssuppress [intro]: "preserves P m \<Longrightarrow> preserves P (ssuppress m)"
  unfolding preserves_def by (metis prod.collapse prod.inject sstate_apply(4))

text \<open>A \<^verbatim>\<open>finally\<close> clause: its own exception replaces what was on its way.\<close>

definition sfinally :: "('s, 'a) action \<Rightarrow> ('s, unit) action \<Rightarrow> ('s, 'a) action" where
  "sfinally m c = (\<lambda>s.
     (case m s of (r, s1) \<Rightarrow> (case c s1 of (Inl e, s2) \<Rightarrow> (Inl e, s2) | (Inr _, s2) \<Rightarrow> (r, s2))))"

lemma keeps_sfinally: "keeps g m \<Longrightarrow> keeps g c \<Longrightarrow> keeps g (sfinally m c)"
  by (auto simp: keeps_def sfinally_def split: prod.splits sum.splits)

text \<open>A fact every component of a sequence preserves is preserved by the sequence.\<close>

lemma sbind_preserves:
  assumes "\<And>r u. m s = (r, u) \<Longrightarrow> P u" and "\<And>x u r t. m s = (Inr x, u) \<Longrightarrow> f x u = (r, t) \<Longrightarrow> P t"
    and "sbind m f s = (r, t)"
  shows "P t"
  using assms by (auto simp: sbind_def split: prod.splits sum.splits)

section \<open>Strings\<close>

definition ch :: "char \<Rightarrow> int" where
  "ch c = of_char c"

definition is_space :: "char \<Rightarrow> bool" where
  "is_space c = (let n = ch c in n = 32 \<or> 9 \<le> n \<and> n \<le> 13 \<or> 28 \<le> n \<and> n \<le> 31)"

definition is_digit :: "char \<Rightarrow> bool" where
  "is_digit c = (let n = ch c in 48 \<le> n \<and> n \<le> 57)"

definition digit_val :: "char \<Rightarrow> int" where
  "digit_val c = ch c - 48"

definition lower_char :: "char \<Rightarrow> char" where
  "lower_char c = (let n = ch c in if 65 \<le> n \<and> n \<le> 90 then char_of (n + 32) else c)"

definition upper_char :: "char \<Rightarrow> char" where
  "upper_char c = (let n = ch c in if 97 \<le> n \<and> n \<le> 122 then char_of (n - 32) else c)"

definition py_lower :: "string \<Rightarrow> string" where
  "py_lower = map lower_char"

definition py_upper :: "string \<Rightarrow> string" where
  "py_upper = map upper_char"

definition py_strip :: "string \<Rightarrow> string" where
  "py_strip s = rev (dropWhile is_space (rev (dropWhile is_space s)))"

text \<open>\<^verbatim>\<open>str.isdigit\<close> is false for the empty string.\<close>

definition py_isdigit :: "string \<Rightarrow> bool" where
  "py_isdigit s = (s \<noteq> [] \<and> list_all is_digit s)"

fun starts_with :: "string \<Rightarrow> string \<Rightarrow> bool" where
  "starts_with [] s = True"
| "starts_with (p # ps) [] = False"
| "starts_with (p # ps) (c # s) = (p = c \<and> starts_with ps s)"

lemma starts_with_take: "starts_with p s \<longleftrightarrow> take (length p) s = p"
  by (induction p s rule: starts_with.induct) auto

text \<open>\<^verbatim>\<open>needle in s\<close>, \<^verbatim>\<open>s.split(c)\<close> and \<^verbatim>\<open>s.split()\<close>.\<close>

fun occurs_in :: "string \<Rightarrow> string \<Rightarrow> bool" where
  "occurs_in needle [] = (needle = [])"
| "occurs_in needle (c # s) = (starts_with needle (c # s) \<or> occurs_in needle s)"

fun split_on :: "char \<Rightarrow> string \<Rightarrow> string list" where
  "split_on c [] = [[]]"
| "split_on c (x # s) =
     (if x = c then [] # split_on c s
      else (case split_on c s of [] \<Rightarrow> [[x]] | w # ws \<Rightarrow> (x # w) # ws))"

fun py_words :: "string \<Rightarrow> string list" where
  "py_words [] = []"
| "py_words (x # s) =
     (if is_space x then py_words s
      else (case s of
              [] \<Rightarrow> [[x]]
            | y # _ \<Rightarrow> if is_space y then [x] # py_words s
                      else (case py_words s of [] \<Rightarrow> [[x]] | w # ws \<Rightarrow> (x # w) # ws)))"

lemma starts_with_refl [simp]: "starts_with s s"
  by (simp add: starts_with_take)

lemma starts_with_append [simp]: "starts_with p (p @ s)"
  by (simp add: starts_with_take)

text \<open>The number written by a digit string.\<close>

definition digits_val :: "string \<Rightarrow> int" where
  "digits_val s = foldl (\<lambda>a c. a * 10 + digit_val c) 0 s"

lemma digit_val_range: "is_digit c \<Longrightarrow> 0 \<le> digit_val c \<and> digit_val c \<le> 9"
  by (auto simp: is_digit_def digit_val_def Let_def)

lemma digits_val_snoc: "digits_val (s @ [c]) = digits_val s * 10 + digit_val c"
  by (simp add: digits_val_def)

lemma digits_val_bounds:
  assumes "list_all is_digit s"
  shows "0 \<le> digits_val s \<and> digits_val s < 10 ^ length s"
  using assms
proof (induction s rule: rev_induct)
  case Nil
  then show ?case by (simp add: digits_val_def)
next
  case (snoc c s)
  then have "0 \<le> digits_val s" "digits_val s \<le> 10 ^ length s - 1" "0 \<le> digit_val c" "digit_val c \<le> 9"
    using digit_val_range [of c] by auto
  then show ?case by (simp add: digits_val_snoc)
qed

text \<open>Decimal rendering of a natural number and of an integer, as \<^verbatim>\<open>str(int)\<close> writes it.\<close>

function nat_digits :: "int \<Rightarrow> string" where
  "nat_digits n = (if n < 10 then [char_of (48 + n)] else nat_digits (n div 10) @ [char_of (48 + n mod 10)])"
  by pat_completeness auto
termination
  by (relation "measure nat") auto

declare nat_digits.simps [simp del]

definition int_str :: "int \<Rightarrow> string" where
  "int_str i = (if i < 0 then CHR ''-'' # nat_digits (- i) else nat_digits i)"

lemma ch_digit: "0 \<le> d \<Longrightarrow> d < 10 \<Longrightarrow> ch (char_of (48 + d)) = 48 + d"
  by (simp add: ch_def)

lemma nat_digits_all_digits: "0 \<le> n \<Longrightarrow> list_all is_digit (nat_digits n)"
proof (induction n rule: nat_digits.induct)
  case (1 n)
  show ?case
  proof (cases "n < 10")
    case True
    with 1 show ?thesis by (subst nat_digits.simps) (simp add: is_digit_def ch_digit)
  next
    case False
    with 1 have "list_all is_digit (nat_digits (n div 10))" by simp
    moreover have "is_digit (char_of (48 + n mod 10))" by (simp add: is_digit_def ch_digit)
    ultimately show ?thesis using False by (subst nat_digits.simps) simp
  qed
qed

lemma digits_val_nat_digits: "0 \<le> n \<Longrightarrow> digits_val (nat_digits n) = n"
proof (induction n rule: nat_digits.induct)
  case (1 n)
  show ?case
  proof (cases "n < 10")
    case True
    with 1 show ?thesis
      by (subst nat_digits.simps) (simp add: digits_val_def digit_val_def ch_digit)
  next
    case False
    with 1 have "digits_val (nat_digits (n div 10)) = n div 10" by simp
    with False show ?thesis
      by (subst nat_digits.simps) (simp add: digits_val_snoc digit_val_def ch_digit)
  qed
qed

lemma nat_digits_inject: "0 \<le> m \<Longrightarrow> 0 \<le> n \<Longrightarrow> nat_digits m = nat_digits n \<longleftrightarrow> m = n"
  by (metis digits_val_nat_digits)

lemma nat_digits_no_minus: "0 \<le> n \<Longrightarrow> CHR ''-'' \<notin> set (nat_digits n)"
proof
  assume "0 \<le> n" and "CHR ''-'' \<in> set (nat_digits n)"
  with nat_digits_all_digits have "is_digit (CHR ''-'')"
    by (auto simp: list_all_iff)
  then show False by (simp add: is_digit_def ch_def)
qed

lemma int_str_inject: "int_str i = int_str j \<longleftrightarrow> i = j"
proof
  assume eq: "int_str i = int_str j"
  have ne: "CHR ''-'' # nat_digits m \<noteq> nat_digits n" if "0 \<le> n" for m n
    using nat_digits_no_minus [OF that] by (metis list.set_intros(1))
  show "i = j"
  proof (cases "i < 0"; cases "j < 0")
    assume "i < 0" "j < 0"
    with eq have "nat_digits (- i) = nat_digits (- j)" by (simp add: int_str_def)
    with \<open>i < 0\<close> \<open>j < 0\<close> show ?thesis using nat_digits_inject [of "- i" "- j"] by simp
  next
    assume "i < 0" "\<not> j < 0"
    with eq ne [of j "- i"] show ?thesis by (simp add: int_str_def)
  next
    assume "\<not> i < 0" "j < 0"
    with eq ne [of i "- j"] show ?thesis by (simp add: int_str_def)
  next
    assume "\<not> i < 0" "\<not> j < 0"
    with eq show ?thesis using nat_digits_inject [of i j] by (simp add: int_str_def)
  qed
qed simp

section \<open>Lists and options\<close>

text \<open>\<^verbatim>\<open>a or b\<close> on an optional value whose present values are all truthy.\<close>

definition or_else :: "'a option \<Rightarrow> 'a \<Rightarrow> 'a" where
  "or_else x d = (case x of None \<Rightarrow> d | Some v \<Rightarrow> v)"

lemma or_else_simps [simp]: "or_else None d = d" "or_else (Some v) d = v"
  by (simp_all add: or_else_def)

text \<open>A check appends its reason when it fails.\<close>

definition reason_if :: "bool \<Rightarrow> 'a \<Rightarrow> 'a list" where
  "reason_if failed r = (if failed then [r] else [])"

lemma reason_if_simps [simp]:
  "reason_if True r = [r]"
  "reason_if False r = []"
  "reason_if b r = [] \<longleftrightarrow> \<not> b"
  "set (reason_if b r) = (if b then {r} else {})"
  "x \<in> set (reason_if b r) \<longleftrightarrow> b \<and> x = r"
  by (auto simp: reason_if_def)

lemma find_Some_mem: "List.find P xs = Some x \<Longrightarrow> x \<in> set xs \<and> P x"
  by (auto simp: find_Some_iff)

lemma filter_unique:
  assumes "distinct (map f xs)" and "x \<in> set xs"
  shows "filter (\<lambda>y. f y = f x) xs = [x]"
  using assms by (induction xs) (auto simp: filter_empty_conv image_iff)

section \<open>Decisions with reasons\<close>

text \<open>
  The contract shared by the transmit gate, the risk manager, the signal validator and the posture
  check: a decision lists every condition that failed and approves exactly when none did.
\<close>

locale approver =
  fixes approves :: "'c \<Rightarrow> bool"
    and reasons :: "'c \<Rightarrow> 'r list"
    and fails :: "'r \<Rightarrow> 'c \<Rightarrow> bool"
  assumes approves_iff: "approves c \<longleftrightarrow> reasons c = []"
    and reasons_iff: "r \<in> set (reasons c) \<longleftrightarrow> fails r c"
begin

lemma approves_iff_none_fails: "approves c \<longleftrightarrow> (\<forall>r. \<not> fails r c)"
  by (simp add: approves_iff reasons_iff [symmetric])

lemma refusal_has_reason: "\<not> approves c \<Longrightarrow> \<exists>r \<in> set (reasons c). fails r c"
  by (auto simp: approves_iff_none_fails reasons_iff)

lemma failing_refuses: "fails r c \<Longrightarrow> \<not> approves c"
  by (auto simp: approves_iff_none_fails)

text \<open>A context that fails no more conditions is approved whenever the other one is.\<close>

lemma approval_mono:
  "(\<And>r. fails r d \<Longrightarrow> fails r c) \<Longrightarrow> approves c \<Longrightarrow> approves d"
  by (auto simp: approves_iff_none_fails)

end

end
