(* ===== verification/PyNum.thy ===== *)
theory PyNum
  imports Prelude Complex_Main
begin

text \<open>
  The numbers of the Python standard library that the program computes with.

  \<^verbatim>\<open>decimal.Decimal\<close>: a coefficient and a power of ten, an infinity, or a NaN. Construction is
  exact; every arithmetic operation rounds its result to the 28 significant digits of the default
  context, half to even. Ordering comparisons raise \<^verbatim>\<open>InvalidOperation\<close> on a NaN. Not modelled:
  the sign of a zero (it only shows in \<^verbatim>\<open>str\<close>), signalling NaNs (read as quiet ones), and the
  exponent limits of the context.

  \<^verbatim>\<open>float\<close>: a rational number, an infinity or a NaN; every operation rounds its exact result to
  the nearest binary64 value, half to even, with overflow to an infinity. \<^verbatim>\<open>**\<close> raises
  \<^verbatim>\<open>OverflowError\<close> when a finite base overflows, as CPython does. Not modelled: the sign of a
  zero.

  \<^verbatim>\<open>int\<close> is \<open>int\<close>. \<^verbatim>\<open>int()\<close>, \<^verbatim>\<open>float()\<close> and \<^verbatim>\<open>Decimal()\<close> of a string follow
  the grammar of CPython for ASCII strings, underscores and the 4300 digit limit included.
\<close>

section \<open>Decimals\<close>

datatype decimal = Dec int int | DInf bool | DNaN

fun dval :: "decimal \<Rightarrow> rat" where
  "dval (Dec c e) = of_int c * 10 powi e"
| "dval _ = 0"

fun dec_finite :: "decimal \<Rightarrow> bool" where
  "dec_finite (Dec c e) = True"
| "dec_finite _ = False"

definition aligned :: "int \<Rightarrow> int \<Rightarrow> int \<Rightarrow> int" where
  "aligned m c e = c * 10 ^ nat (e - m)"

fun dec_less :: "decimal \<Rightarrow> decimal \<Rightarrow> bool result" where
  "dec_less DNaN b = Inl InvalidOperation"
| "dec_less a DNaN = Inl InvalidOperation"
| "dec_less (DInf m) (DInf n) = Inr (m \<and> \<not> n)"
| "dec_less (DInf m) (Dec d f) = Inr m"
| "dec_less (Dec c e) (DInf n) = Inr (\<not> n)"
| "dec_less (Dec c e) (Dec d f) = Inr (aligned (min e f) c e < aligned (min e f) d f)"

fun dec_leq :: "decimal \<Rightarrow> decimal \<Rightarrow> bool result" where
  "dec_leq DNaN b = Inl InvalidOperation"
| "dec_leq a DNaN = Inl InvalidOperation"
| "dec_leq (DInf m) (DInf n) = Inr (m \<or> \<not> n)"
| "dec_leq (DInf m) (Dec d f) = Inr m"
| "dec_leq (Dec c e) (DInf n) = Inr (\<not> n)"
| "dec_leq (Dec c e) (Dec d f) = Inr (aligned (min e f) c e \<le> aligned (min e f) d f)"

fun dec_eq :: "decimal \<Rightarrow> decimal \<Rightarrow> bool" where
  "dec_eq (DInf m) (DInf n) = (m = n)"
| "dec_eq (Dec c e) (Dec d f) = (aligned (min e f) c e = aligned (min e f) d f)"
| "dec_eq _ _ = False"

text \<open>Truth value: everything but a zero.\<close>

fun dec_truthy :: "decimal \<Rightarrow> bool" where
  "dec_truthy (Dec c e) = (c \<noteq> 0)"
| "dec_truthy _ = True"

text \<open>The number of decimal digits of an integer, zero having none.\<close>

function ndig :: "int \<Rightarrow> nat" where
  "ndig n = (if n \<le> 0 then 0 else Suc (ndig (n div 10)))"
  by pat_completeness auto
termination
  by (relation "measure nat") auto

declare ndig.simps [simp del]

definition ndigits :: "int \<Rightarrow> nat" where
  "ndigits c = ndig \<bar>c\<bar>"

definition prec :: nat where
  "prec = 28"

definition div_half_even :: "int \<Rightarrow> int \<Rightarrow> int" where
  "div_half_even a b =
     (let q = a div b; r = a mod b in if 2 * r > b \<or> (2 * r = b \<and> odd q) then q + 1 else q)"

definition dec_fix :: "int \<Rightarrow> int \<Rightarrow> decimal" where
  "dec_fix c e =
     (if \<bar>c\<bar> < 10 ^ prec then Dec c e
      else
        (let k = ndigits c - prec; q = div_half_even \<bar>c\<bar> (10 ^ k)
         in if q = 10 ^ prec then Dec (sgn c * 10 ^ (prec - 1)) (e + int k + 1)
            else Dec (sgn c * q) (e + int k)))"

definition dec_of_int :: "int \<Rightarrow> decimal" where
  "dec_of_int i = Dec i 0"

abbreviation dec_zero :: decimal where
  "dec_zero \<equiv> Dec 0 0"

fun dec_neg :: "decimal \<Rightarrow> decimal" where
  "dec_neg (Dec c e) = dec_fix (- c) e"
| "dec_neg (DInf n) = DInf (\<not> n)"
| "dec_neg DNaN = DNaN"

fun dec_abs :: "decimal \<Rightarrow> decimal" where
  "dec_abs (Dec c e) = dec_fix \<bar>c\<bar> e"
| "dec_abs (DInf n) = DInf False"
| "dec_abs DNaN = DNaN"

fun dec_add :: "decimal \<Rightarrow> decimal \<Rightarrow> decimal result" where
  "dec_add DNaN b = Inr DNaN"
| "dec_add a DNaN = Inr DNaN"
| "dec_add (DInf m) (DInf n) = (if m = n then Inr (DInf m) else Inl InvalidOperation)"
| "dec_add (DInf m) (Dec d f) = Inr (DInf m)"
| "dec_add (Dec c e) (DInf n) = Inr (DInf n)"
| "dec_add (Dec c e) (Dec d f) =
     Inr (dec_fix (aligned (min e f) c e + aligned (min e f) d f) (min e f))"

fun dec_sub :: "decimal \<Rightarrow> decimal \<Rightarrow> decimal result" where
  "dec_sub a (Dec d f) = dec_add a (Dec (- d) f)"
| "dec_sub a (DInf n) = dec_add a (DInf (\<not> n))"
| "dec_sub a DNaN = Inr DNaN"

fun dec_mul :: "decimal \<Rightarrow> decimal \<Rightarrow> decimal result" where
  "dec_mul DNaN b = Inr DNaN"
| "dec_mul a DNaN = Inr DNaN"
| "dec_mul (DInf m) (DInf n) = Inr (DInf (m \<noteq> n))"
| "dec_mul (DInf m) (Dec d f) = (if d = 0 then Inl InvalidOperation else Inr (DInf (m \<noteq> (d < 0))))"
| "dec_mul (Dec c e) (DInf n) = (if c = 0 then Inl InvalidOperation else Inr (DInf ((c < 0) \<noteq> n)))"
| "dec_mul (Dec c e) (Dec d f) = Inr (dec_fix (c * d) (e + f))"

primrec strip_zeros :: "nat \<Rightarrow> int \<Rightarrow> int \<Rightarrow> int \<times> int" where
  "strip_zeros 0 c e = (c, e)"
| "strip_zeros (Suc k) c e = (if c mod 10 = 0 then strip_zeros k (c div 10) (e + 1) else (c, e))"

definition dec_div_finite :: "int \<Rightarrow> int \<Rightarrow> int \<Rightarrow> int \<Rightarrow> decimal" where
  "dec_div_finite c e d f =
     (let shift = int (ndigits d) - int (ndigits c) + int prec + 1;
          x = e - f - shift;
          num = (if shift \<ge> 0 then \<bar>c\<bar> * 10 ^ nat shift else \<bar>c\<bar>);
          den = (if shift \<ge> 0 then \<bar>d\<bar> else \<bar>d\<bar> * 10 ^ nat (- shift));
          q = num div den;
          r = num mod den;
          (q', x') = (if r \<noteq> 0 then (if q mod 5 = 0 then (q + 1, x) else (q, x))
                      else strip_zeros (nat (e - f - x)) q x)
      in dec_fix (sgn c * sgn d * q') x')"

fun dec_div :: "decimal \<Rightarrow> decimal \<Rightarrow> decimal result" where
  "dec_div DNaN b = Inr DNaN"
| "dec_div a DNaN = Inr DNaN"
| "dec_div (DInf m) (DInf n) = Inl InvalidOperation"
| "dec_div (DInf m) (Dec d f) = Inr (DInf (m \<noteq> (d < 0)))"
| "dec_div (Dec c e) (DInf n) = Inr dec_zero"
| "dec_div (Dec c e) (Dec d f) =
     (if d = 0 then Inl (if c = 0 then InvalidOperation else DivisionByZero)
      else if c = 0 then Inr (Dec 0 (e - f))
      else Inr (dec_div_finite c e d f))"

lemma aligned_val: "m \<le> e \<Longrightarrow> of_int (aligned m c e) * (10::rat) powi m = of_int c * 10 powi e"
proof -
  assume "m \<le> e"
  then have "(10::rat) ^ nat (e - m) * 10 powi m = 10 powi e"
    by (simp add: power_int_add [symmetric] flip: power_int_of_nat)
  then show ?thesis by (simp add: aligned_def mult.assoc)
qed

lemma ten_powi_pos [simp]: "(0::rat) < 10 powi e"
  by simp

lemma aligned_cmp:
  "aligned (min e f) c e < aligned (min e f) d f \<longleftrightarrow> dval (Dec c e) < dval (Dec d f)"
  "aligned (min e f) c e \<le> aligned (min e f) d f \<longleftrightarrow> dval (Dec c e) \<le> dval (Dec d f)"
  "aligned (min e f) c e = aligned (min e f) d f \<longleftrightarrow> dval (Dec c e) = dval (Dec d f)"
proof -
  let ?m = "min e f"
  have "dval (Dec c e) = of_int (aligned ?m c e) * 10 powi ?m"
    and "dval (Dec d f) = of_int (aligned ?m d f) * 10 powi ?m"
    by (simp_all add: aligned_val)
  then show "aligned ?m c e < aligned ?m d f \<longleftrightarrow> dval (Dec c e) < dval (Dec d f)"
    and "aligned ?m c e \<le> aligned ?m d f \<longleftrightarrow> dval (Dec c e) \<le> dval (Dec d f)"
    and "aligned ?m c e = aligned ?m d f \<longleftrightarrow> dval (Dec c e) = dval (Dec d f)"
    by (simp_all del: dval.simps)
qed

lemma dec_less_finite:
  "dec_finite a \<Longrightarrow> dec_finite b \<Longrightarrow> dec_less a b = Inr (dval a < dval b)"
  by (cases a; cases b) (simp_all add: aligned_cmp del: dval.simps)

lemma dec_leq_finite:
  "dec_finite a \<Longrightarrow> dec_finite b \<Longrightarrow> dec_leq a b = Inr (dval a \<le> dval b)"
  by (cases a; cases b) (simp_all add: aligned_cmp del: dval.simps)

lemma dec_eq_finite: "dec_finite a \<Longrightarrow> dec_finite b \<Longrightarrow> dec_eq a b \<longleftrightarrow> dval a = dval b"
  by (cases a; cases b) (simp_all add: aligned_cmp del: dval.simps)

lemma dec_fix_exact: "\<bar>c\<bar> < 10 ^ prec \<Longrightarrow> dec_fix c e = Dec c e"
  by (simp add: dec_fix_def)

lemma dec_finite_fix [simp]: "dec_finite (dec_fix c e)"
  by (simp add: dec_fix_def Let_def)

lemma dval_fix_exact: "\<bar>c\<bar> < 10 ^ prec \<Longrightarrow> dval (dec_fix c e) = of_int c * 10 powi e"
  by (simp add: dec_fix_exact)

lemma dec_mul_exact:
  "\<bar>c * d\<bar> < 10 ^ prec \<Longrightarrow> dec_mul (Dec c e) (Dec d f) = Inr (Dec (c * d) (e + f))"
  by (simp add: dec_fix_exact)

lemma dval_mul: "dval (Dec (c * d) (e + f)) = dval (Dec c e) * dval (Dec d f)"
  by (simp add: power_int_add)

text \<open>Rounding keeps the sign of a number.\<close>

lemma div_half_even_nonneg: "0 \<le> a \<Longrightarrow> 0 < b \<Longrightarrow> 0 \<le> div_half_even a b"
  by (simp add: div_half_even_def Let_def pos_imp_zdiv_nonneg_iff add_nonneg_nonneg)

lemma dec_fix_Dec:
  obtains q x where "0 \<le> q" and "dec_fix c e = Dec (sgn c * q) x"
proof (cases "\<bar>c\<bar> < 10 ^ prec")
  case True
  show thesis
    by (rule that [of "\<bar>c\<bar>" e]) (use True in \<open>simp_all add: dec_fix_def sgn_mult_abs\<close>)
next
  case False
  let ?k = "ndigits c - prec"
  have "0 \<le> div_half_even \<bar>c\<bar> (10 ^ ?k)"
    by (rule div_half_even_nonneg) simp_all
  with False show thesis
    by (cases "div_half_even \<bar>c\<bar> (10 ^ ?k) = 10 ^ prec")
      (auto simp: dec_fix_def Let_def intro: that [rotated])
qed

lemma dec_fix_sign:
  shows "0 \<le> c \<Longrightarrow> 0 \<le> dval (dec_fix c e)" and "c \<le> 0 \<Longrightarrow> dval (dec_fix c e) \<le> 0"
proof -
  obtain q x where q: "0 \<le> q" "dec_fix c e = Dec (sgn c * q) x"
    by (rule dec_fix_Dec)
  then show "0 \<le> c \<Longrightarrow> 0 \<le> dval (dec_fix c e)" and "c \<le> 0 \<Longrightarrow> dval (dec_fix c e) \<le> 0"
    by (auto simp: sgn_if mult_le_0_iff)
qed

section \<open>Floats\<close>

datatype pyfloat = Flt rat | FInf bool | FNaN

text \<open>The bit length of an integer.\<close>

function nbits :: "int \<Rightarrow> nat" where
  "nbits n = (if n \<le> 0 then 0 else Suc (nbits (n div 2)))"
  by pat_completeness auto
termination
  by (relation "measure nat") auto

declare nbits.simps [simp del]

text \<open>
  The binary64 value nearest to \<open>n / d\<close>, for \<open>d > 0\<close>: \<open>e\<close> is the binary exponent of the
  quotient, \<open>u\<close> the exponent of the last place, which does not go below that of the subnormals.
\<close>

definition pow2_scale :: "int \<Rightarrow> int \<Rightarrow> int" where
  "pow2_scale a u = a * 2 ^ nat u"

definition rnd_frac :: "int \<Rightarrow> int \<Rightarrow> pyfloat" where
  "rnd_frac n d =
     (if n = 0 then Flt 0
      else
        (let a = \<bar>n\<bar>;
             e0 = int (nbits a) - int (nbits d);
             e = (if pow2_scale a (- e0) < pow2_scale d e0 then e0 - 1 else e0);
             u = max e (- 1022) - 52;
             m = div_half_even (pow2_scale a (- u)) (pow2_scale d u)
         in if pow2_scale m u \<ge> 2 ^ 1024 then FInf (n < 0)
            else Flt (of_int (sgn n * pow2_scale m u) / of_int (2 ^ nat (- u)))))"

definition rnd :: "rat \<Rightarrow> pyfloat" where
  "rnd q = (case quotient_of q of (n, d) \<Rightarrow> rnd_frac n d)"

fun flt_less :: "pyfloat \<Rightarrow> pyfloat \<Rightarrow> bool" where
  "flt_less FNaN b = False"
| "flt_less a FNaN = False"
| "flt_less (FInf m) (FInf n) = (m \<and> \<not> n)"
| "flt_less (FInf m) (Flt y) = m"
| "flt_less (Flt x) (FInf n) = (\<not> n)"
| "flt_less (Flt x) (Flt y) = (x < y)"

fun flt_leq :: "pyfloat \<Rightarrow> pyfloat \<Rightarrow> bool" where
  "flt_leq FNaN b = False"
| "flt_leq a FNaN = False"
| "flt_leq (FInf m) (FInf n) = (m \<or> \<not> n)"
| "flt_leq (FInf m) (Flt y) = m"
| "flt_leq (Flt x) (FInf n) = (\<not> n)"
| "flt_leq (Flt x) (Flt y) = (x \<le> y)"

fun flt_finite :: "pyfloat \<Rightarrow> bool" where
  "flt_finite (Flt x) = True"
| "flt_finite _ = False"

fun flt_mul :: "pyfloat \<Rightarrow> pyfloat \<Rightarrow> pyfloat" where
  "flt_mul FNaN b = FNaN"
| "flt_mul a FNaN = FNaN"
| "flt_mul (FInf m) (FInf n) = FInf (m \<noteq> n)"
| "flt_mul (FInf m) (Flt y) = (if y = 0 then FNaN else FInf (m \<noteq> (y < 0)))"
| "flt_mul (Flt x) (FInf n) = (if x = 0 then FNaN else FInf ((x < 0) \<noteq> n))"
| "flt_mul (Flt x) (Flt y) = rnd (x * y)"

fun flt_add :: "pyfloat \<Rightarrow> pyfloat \<Rightarrow> pyfloat" where
  "flt_add FNaN b = FNaN"
| "flt_add a FNaN = FNaN"
| "flt_add (FInf m) (FInf n) = (if m = n then FInf m else FNaN)"
| "flt_add (FInf m) (Flt y) = FInf m"
| "flt_add (Flt x) (FInf n) = FInf n"
| "flt_add (Flt x) (Flt y) = rnd (x + y)"

text \<open>\<^verbatim>\<open>x ** n\<close> for a natural exponent.\<close>

fun flt_pow :: "pyfloat \<Rightarrow> nat \<Rightarrow> pyfloat result" where
  "flt_pow (Flt x) n = (case rnd (x ^ n) of FInf s \<Rightarrow> Inl OverflowError | r \<Rightarrow> Inr r)"
| "flt_pow (FInf s) n = Inr (if n = 0 then Flt 1 else FInf (s \<and> odd n))"
| "flt_pow FNaN n = Inr (if n = 0 then Flt 1 else FNaN)"

text \<open>\<^verbatim>\<open>min(a, b)\<close>: the second argument only when it is smaller.\<close>

definition flt_min :: "pyfloat \<Rightarrow> pyfloat \<Rightarrow> pyfloat" where
  "flt_min a b = (if flt_less b a then b else a)"

lemma rnd_0 [simp]: "rnd 0 = Flt 0"
  by (simp add: rnd_def rnd_frac_def)

lemma rnd_frac_0 [simp]: "rnd_frac 0 d = Flt 0"
  by (simp add: rnd_frac_def)

text \<open>Powers of two are exact up to the overflow threshold.\<close>

lemma nbits_pow2: "nbits (2 ^ k) = Suc k"
proof (induction k)
  case 0
  show ?case by (subst nbits.simps, subst nbits.simps) simp
next
  case (Suc k)
  then show ?case by (subst nbits.simps) simp
qed

lemma div_half_even_exact: "0 < b \<Longrightarrow> div_half_even (q * b) b = q"
  by (simp add: div_half_even_def Let_def)

lemma rnd_frac_pow2_scaled:
  "rnd_frac (2 ^ k) 1 =
     (if pow2_scale (2 ^ 52) (int k - 52) \<ge> 2 ^ 1024 then FInf False
      else Flt (of_int (pow2_scale (2 ^ 52) (int k - 52)) / of_int (2 ^ nat (52 - int k))))"
proof -
  have n1: "nbits 1 = 1" using nbits_pow2 [of 0] by simp
  have "pow2_scale (2 ^ k) (52 - int k) = 2 ^ 52 * pow2_scale 1 (int k - 52)"
  proof (cases "k \<le> 52")
    case True
    then have "(2::int) ^ k * 2 ^ nat (52 - int k) = 2 ^ 52"
      by (simp flip: power_add add: nat_diff_distrib)
    with True show ?thesis by (simp add: pow2_scale_def)
  next
    case False
    then have "(2::int) ^ 52 * 2 ^ nat (int k - 52) = 2 ^ k"
      by (simp only: power_add [symmetric]) (simp add: nat_diff_distrib)
    with False show ?thesis by (simp add: pow2_scale_def)
  qed
  moreover have "0 < pow2_scale 1 (int k - 52)" by (simp add: pow2_scale_def)
  ultimately have "div_half_even (pow2_scale (2 ^ k) (52 - int k)) (pow2_scale 1 (int k - 52)) = 2 ^ 52"
    by (simp only: div_half_even_exact)
  then show ?thesis
    by (simp add: rnd_frac_def Let_def nbits_pow2 n1 pow2_scale_def)
qed

lemma rnd_frac_pow2:
  "k < 1024 \<Longrightarrow> rnd_frac (2 ^ k) 1 = Flt (2 ^ k)"
  "1024 \<le> k \<Longrightarrow> rnd_frac (2 ^ k) 1 = FInf False"
proof -
  have big: "pow2_scale (2 ^ 52) (int k - 52) = 2 ^ k" if "52 \<le> k"
  proof -
    have "nat (int k - 52) = k - 52" using that by simp
    then have "pow2_scale (2 ^ 52) (int k - 52) = 2 ^ (52 + (k - 52))"
      by (simp only: pow2_scale_def power_add)
    with that show ?thesis by simp
  qed
  show "rnd_frac (2 ^ k) 1 = FInf False" if "1024 \<le> k"
  proof -
    have "(2::int) ^ 1024 \<le> 2 ^ k" using that by (rule power_increasing) simp
    then show ?thesis using big that by (simp add: rnd_frac_pow2_scaled)
  qed
  show "rnd_frac (2 ^ k) 1 = Flt (2 ^ k)" if "k < 1024"
  proof (cases "52 \<le> k")
    case True
    have "(2::int) ^ k < 2 ^ 1024" using that by (rule power_strict_increasing) simp
    then show ?thesis using big [OF True] True by (simp add: rnd_frac_pow2_scaled)
  next
    case False
    then have k: "nat (52 - int k) = 52 - k" by simp
    have "(2::rat) ^ 52 = 2 ^ k * 2 ^ (52 - k)"
      using False by (simp only: power_add [symmetric]) simp
    then have "(2::rat) ^ 52 / 2 ^ (52 - k) = 2 ^ k"
      by (metis nonzero_mult_div_cancel_right power_not_zero zero_neq_numeral)
    with False k show ?thesis by (simp add: rnd_frac_pow2_scaled pow2_scale_def)
  qed
qed

lemma rnd_of_int: "rnd (of_int n) = rnd_frac n 1"
  by (simp add: rnd_def)

lemma flt_pow_two:
  "n < 1024 \<Longrightarrow> flt_pow (Flt 2) n = Inr (Flt (2 ^ n))"
  "1024 \<le> n \<Longrightarrow> flt_pow (Flt 2) n = Inl OverflowError"
  using rnd_of_int [of "2 ^ n"] by (simp_all add: rnd_frac_pow2)

lemma flt_less_irrefl [simp]: "\<not> flt_less a a"
  by (cases a) simp_all

lemma flt_not_less_finite:
  "flt_finite a \<Longrightarrow> flt_finite b \<Longrightarrow> \<not> flt_less a b \<longleftrightarrow> flt_leq b a"
  by (cases a; cases b) auto

lemma flt_min_leq:
  "flt_finite b \<Longrightarrow> a \<noteq> FNaN \<Longrightarrow> flt_leq (flt_min a b) b"
  by (cases a; cases b) (auto simp: flt_min_def)

section \<open>Numbers from strings\<close>

definition take_sign :: "string \<Rightarrow> bool \<times> string" where
  "take_sign s =
     (case s of [] \<Rightarrow> (False, [])
      | c # r \<Rightarrow> if c = CHR ''-'' then (True, r) else if c = CHR ''+'' then (False, r) else (False, s))"

definition signed :: "bool \<Rightarrow> int \<Rightarrow> int" where
  "signed neg i = (if neg then - i else i)"

definition parse_exponent :: "string \<Rightarrow> int option" where
  "parse_exponent s =
     (case take_sign s of (neg, r) \<Rightarrow> if py_isdigit r then Some (signed neg (digits_val r)) else None)"

text \<open>\<^verbatim>\<open>[sign] digits [. digits] [e exponent]\<close>: the coefficient and the power of ten.\<close>

definition parse_literal :: "string \<Rightarrow> (int \<times> int) option" where
  "parse_literal s =
     (let (neg, s1) = take_sign s;
          ip = takeWhile is_digit s1;
          s2 = dropWhile is_digit s1;
          (fp, s3) = (case s2 of [] \<Rightarrow> ([], [])
                      | c # r \<Rightarrow> if c = CHR ''.'' then (takeWhile is_digit r, dropWhile is_digit r)
                                else ([], s2));
          m = signed neg (digits_val (ip @ fp))
      in if ip = [] \<and> fp = [] then None
         else (case s3 of [] \<Rightarrow> Some (m, - int (length fp))
               | c # r \<Rightarrow> if lower_char c = CHR ''e''
                         then map_option (\<lambda>x. (m, x - int (length fp))) (parse_exponent r)
                         else None))"

definition py_decimal :: "string \<Rightarrow> decimal option" where
  "py_decimal raw =
     (let s = filter (\<lambda>c. c \<noteq> CHR ''_'') (py_strip raw);
          (neg, r) = take_sign (py_lower s);
          digits = (\<lambda>t. list_all is_digit t)
      in if r = ''inf'' \<or> r = ''infinity'' then Some (DInf neg)
         else if starts_with ''nan'' r \<and> digits (drop 3 r) \<or> starts_with ''snan'' r \<and> digits (drop 4 r)
         then Some DNaN
         else map_option (\<lambda>(c, e). Dec c e) (parse_literal s))"

text \<open>Digits with single underscores between them.\<close>

fun digits_us :: "string \<Rightarrow> bool" where
  "digits_us [] = False"
| "digits_us [c] = is_digit c"
| "digits_us (c # d # s) = (is_digit c \<and> (if d = CHR ''_'' then digits_us s else digits_us (d # s)))"

definition no_us :: "string \<Rightarrow> string" where
  "no_us = filter (\<lambda>c. c \<noteq> CHR ''_'')"

definition py_int :: "string \<Rightarrow> int option" where
  "py_int raw =
     (case take_sign (py_strip raw) of (neg, s) \<Rightarrow>
        if digits_us s \<and> length (no_us s) \<le> 4300 then Some (signed neg (digits_val (no_us s))) else None)"

text \<open>In a float literal an underscore must stand between two digits.\<close>

fun us_between :: "bool \<Rightarrow> string \<Rightarrow> bool" where
  "us_between prev [] = True"
| "us_between prev (c # s) =
     (if c = CHR ''_'' then prev \<and> (case s of [] \<Rightarrow> False | d # r \<Rightarrow> is_digit d) \<and> us_between False s
      else us_between (is_digit c) s)"

definition py_float :: "string \<Rightarrow> pyfloat option" where
  "py_float raw =
     (let s = py_strip raw; (neg, r) = take_sign (py_lower s)
      in if r = ''inf'' \<or> r = ''infinity'' then Some (FInf neg)
         else if r = ''nan'' then Some FNaN
         else if \<not> us_between False s then None
         else map_option (\<lambda>(c, e). rnd_frac (c * 10 ^ nat e) (10 ^ nat (- e))) (parse_literal (no_us s)))"

section \<open>Rounding errors\<close>

lemma div_half_even_error:
  assumes "0 < b"
  shows "\<bar>of_int (div_half_even a b) - of_int a / of_int b\<bar> \<le> (1 / 2 :: rat)"
proof -
  have b: "(0::rat) < of_int b" using assms by simp
  have "of_int a = of_int b * of_int (a div b) + (of_int (a mod b) :: rat)"
    by (metis mult_div_mod_eq of_int_add of_int_mult)
  then have quot: "of_int a / of_int b = of_int (a div b) + of_int (a mod b) / (of_int b :: rat)"
    using b by (simp add: field_simps)
  have up: "of_int (a mod b) / (of_int b :: rat) \<le> 1/2" if "2 * (a mod b) \<le> b"
  proof -
    have "(2::rat) * of_int (a mod b) \<le> of_int b"
      using that by (metis of_int_le_iff of_int_mult of_int_numeral)
    with b show ?thesis by (simp add: field_simps)
  qed
  have down: "1/2 \<le> of_int (a mod b) / (of_int b :: rat)" if "b \<le> 2 * (a mod b)"
  proof -
    have "of_int b \<le> (2::rat) * of_int (a mod b)"
      using that by (metis of_int_le_iff of_int_mult of_int_numeral)
    with b show ?thesis by (simp add: field_simps)
  qed
  have range: "0 \<le> of_int (a mod b) / (of_int b :: rat)" "of_int (a mod b) / (of_int b :: rat) < 1"
    using assms by simp_all
  show ?thesis
    using up down range unfolding quot div_half_even_def Let_def
    by (auto simp: abs_if)
qed

lemma nbits_bounds:
  "0 < n \<Longrightarrow> 2 ^ (nbits n - 1) \<le> n \<and> n < 2 ^ nbits n \<and> 0 < nbits n"
proof (induction n rule: nbits.induct)
  case (1 n)
  show ?case
  proof (cases "n = 1")
    case True
    then show ?thesis by (simp add: nbits.simps)
  next
    case False
    with 1 have IH: "2 ^ (nbits (n div 2) - 1) \<le> n div 2 \<and> n div 2 < 2 ^ nbits (n div 2) \<and> 0 < nbits (n div 2)"
      by simp
    have s: "nbits n = Suc (nbits (n div 2))"
      using 1(2) by (subst nbits.simps) simp
    have "(2::int) ^ nbits (n div 2) = 2 * 2 ^ (nbits (n div 2) - 1)"
      using IH by (metis power_minus_mult mult.commute)
    with IH have "2 ^ nbits (n div 2) \<le> n" "n < 2 * 2 ^ nbits (n div 2)" by linarith+
    with s show ?thesis by simp
  qed
qed


text \<open>Rounding moves a number by at most half a unit in the last place.\<close>

lemma pow2_scale_ratio:
  "of_int (pow2_scale a (- u)) / of_int (pow2_scale d u) = of_int a / of_int d / power_int (2::rat) u"
  by (cases "0 \<le> u") (simp_all add: pow2_scale_def power_int_def power_inverse divide_simps)

lemma rnd_frac_exponent:
  assumes "n \<noteq> 0" "0 < d"
  defines "e0 \<equiv> int (nbits \<bar>n\<bar>) - int (nbits d)"
  shows "power_int 2 (if pow2_scale \<bar>n\<bar> (- e0) < pow2_scale d e0 then e0 - 1 else e0) \<le> \<bar>of_int n\<bar> / (of_int d :: rat)"
proof (cases "pow2_scale \<bar>n\<bar> (- e0) < pow2_scale d e0")
  case False
  have d: "0 < (of_int (pow2_scale d e0) :: rat)" using assms by (simp add: pow2_scale_def)
  from False have "of_int (pow2_scale d e0) \<le> (of_int (pow2_scale \<bar>n\<bar> (- e0)) :: rat)"
    by (simp only: of_int_le_iff not_less)
  with d have "1 \<le> of_int (pow2_scale \<bar>n\<bar> (- e0)) / (of_int (pow2_scale d e0) :: rat)"
    by simp
  then have "1 \<le> of_int \<bar>n\<bar> / of_int d / power_int (2::rat) e0"
    by (simp only: pow2_scale_ratio)
  then have "power_int 2 e0 \<le> of_int \<bar>n\<bar> / (of_int d :: rat)"
    by (rule iffD1 [OF le_divide_eq_1_pos, rotated]) simp
  with False show ?thesis by simp
next
  case True
  from assms have n: "2 ^ (nbits \<bar>n\<bar> - 1) \<le> \<bar>n\<bar>" "0 < nbits \<bar>n\<bar>" and d: "d < 2 ^ nbits d"
    using nbits_bounds [of "\<bar>n\<bar>"] nbits_bounds [of d] by auto
  have "power_int (2::rat) (e0 - 1) = 2 ^ (nbits \<bar>n\<bar> - 1) / 2 ^ nbits d"
  proof -
    have "e0 - 1 = int (nbits \<bar>n\<bar> - 1) - int (nbits d)" using n(2) by (simp add: e0_def)
    then show ?thesis by (simp add: power_int_diff)
  qed
  also have "\<dots> \<le> of_int \<bar>n\<bar> / of_int d"
  proof (rule frac_le)
    show "2 ^ (nbits \<bar>n\<bar> - 1) \<le> (of_int \<bar>n\<bar> :: rat)"
      using n(1) by (metis of_int_le_iff of_int_numeral of_int_power)
    show "of_int d \<le> (2::rat) ^ nbits d"
      using d by (metis of_int_le_iff of_int_numeral of_int_power less_imp_le)
  qed (use assms in simp_all)
  finally show ?thesis using True by simp
qed

lemma rnd_frac_close:
  assumes d: "0 < d" and r: "rnd_frac n d = Flt r"
  shows "\<bar>r - of_int n / of_int d\<bar> \<le> (\<bar>of_int n / of_int d\<bar> + 1) / 2 ^ 53"
proof (cases "n = 0")
  case True
  with r show ?thesis by simp
next
  case False
  define e0 where "e0 = int (nbits \<bar>n\<bar>) - int (nbits d)"
  define e where "e = (if pow2_scale \<bar>n\<bar> (- e0) < pow2_scale d e0 then e0 - 1 else e0)"
  define u where "u = max e (- 1022) - 52"
  define m where "m = div_half_even (pow2_scale \<bar>n\<bar> (- u)) (pow2_scale d u)"
  define q where "q = \<bar>of_int n :: rat\<bar> / of_int d"
  define P where "P = power_int (2::rat) u"
  have P: "0 < P" by (simp add: P_def)
  have "r = of_int (sgn n * pow2_scale m u) / of_int (2 ^ nat (- u))"
    using r False unfolding rnd_frac_def Let_def e0_def [symmetric] e_def [symmetric] u_def [symmetric] m_def [symmetric]
    by (simp split: if_splits)
  then have value_r: "r = of_int (sgn n) * (of_int m * P)"
    by (cases "0 \<le> u") (simp_all add: P_def pow2_scale_def power_int_def power_inverse divide_simps)
  have "\<bar>of_int m - q / P\<bar> \<le> 1 / 2"
  proof -
    have "0 < pow2_scale d u" using d by (simp add: pow2_scale_def)
    from div_half_even_error [OF this, of "pow2_scale \<bar>n\<bar> (- u)"] show ?thesis
      by (simp only: pow2_scale_ratio m_def q_def P_def of_int_abs)
  qed
  then have "\<bar>of_int m - q / P\<bar> * P \<le> 1 / 2 * P" using P by (intro mult_right_mono) simp_all
  moreover have "\<bar>of_int m - q / P\<bar> * P = \<bar>of_int m * P - q\<bar>"
    using P by (simp add: abs_mult_pos' [symmetric] left_diff_distrib abs_mult_pos)
  ultimately have near: "\<bar>of_int m * P - q\<bar> \<le> P / 2" by simp
  have "P \<le> power_int 2 (e - 52) + power_int 2 (- 1074)"
    by (cases "e \<le> - 1022") (simp_all add: P_def u_def max_def)
  also have "power_int (2::rat) (e - 52) = power_int 2 e / 2 ^ 52"
    by (simp add: power_int_diff)
  also have "power_int 2 e \<le> q"
    unfolding e_def e0_def q_def using False d by (rule rnd_frac_exponent)
  also have "power_int (2::rat) (- 1074) \<le> power_int 2 (- 52)"
    by (rule power_int_increasing) simp_all
  finally have "P \<le> q / 2 ^ 52 + 1 / 2 ^ 52" by (simp add: divide_right_mono)
  with near have "\<bar>of_int m * P - q\<bar> \<le> (q + 1) / 2 ^ 53" by simp
  moreover have "r - of_int n / of_int d = of_int (sgn n) * (of_int m * P - q)"
    unfolding value_r q_def by (cases "0 < n") (use False in \<open>simp_all add: algebra_simps\<close>)
  moreover have "\<bar>of_int (sgn n) :: rat\<bar> = 1" using False by (simp add: sgn_if)
  moreover have "\<bar>of_int n / of_int d\<bar> = q" using d by (simp add: q_def)
  ultimately show ?thesis by (simp add: abs_mult)
qed

lemma rnd_close: "rnd q = Flt r \<Longrightarrow> \<bar>r - q\<bar> \<le> (\<bar>q\<bar> + 1) / 2 ^ 53"
  using rnd_frac_close [of "snd (quotient_of q)" "fst (quotient_of q)" r] quotient_of_denom_pos' [of q]
    quotient_of_div [of q "fst (quotient_of q)" "snd (quotient_of q)"]
  by (simp add: rnd_def split: prod.splits)

text \<open>What overflows is larger than two to the power of a thousand.\<close>

lemma rnd_frac_exponent_upper:
  assumes "n \<noteq> 0" "0 < d"
  defines "e0 \<equiv> int (nbits \<bar>n\<bar>) - int (nbits d)"
  shows "\<bar>of_int n\<bar> / (of_int d :: rat)
    < power_int 2 ((if pow2_scale \<bar>n\<bar> (- e0) < pow2_scale d e0 then e0 - 1 else e0) + 1)"
proof (cases "pow2_scale \<bar>n\<bar> (- e0) < pow2_scale d e0")
  case True
  have d: "0 < (of_int (pow2_scale d e0) :: rat)" using assms by (simp add: pow2_scale_def)
  from True have "of_int (pow2_scale \<bar>n\<bar> (- e0)) < (of_int (pow2_scale d e0) :: rat)"
    by (simp only: of_int_less_iff)
  with d have "of_int (pow2_scale \<bar>n\<bar> (- e0)) / (of_int (pow2_scale d e0) :: rat) < 1"
    by simp
  then have "of_int \<bar>n\<bar> / of_int d / power_int (2::rat) e0 < 1"
    by (simp only: pow2_scale_ratio)
  then have "of_int \<bar>n\<bar> / (of_int d :: rat) < power_int 2 e0"
    by (rule iffD1 [OF divide_less_eq_1_pos, rotated]) simp
  with True show ?thesis by simp
next
  case False
  from assms have n: "\<bar>n\<bar> < 2 ^ nbits \<bar>n\<bar>" and d: "2 ^ (nbits d - 1) \<le> d" "0 < nbits d"
    using nbits_bounds [of "\<bar>n\<bar>"] nbits_bounds [of d] by auto
  have "of_int \<bar>n\<bar> / of_int d < (2::rat) ^ nbits \<bar>n\<bar> / 2 ^ (nbits d - 1)"
  proof (rule frac_less)
    show "of_int \<bar>n\<bar> < (2::rat) ^ nbits \<bar>n\<bar>"
      using n by (metis of_int_less_iff of_int_numeral of_int_power)
    show "(2::rat) ^ (nbits d - 1) \<le> of_int d"
      using d(1) by (metis of_int_le_iff of_int_numeral of_int_power)
  qed simp_all
  also have "\<dots> = power_int 2 (e0 + 1)"
  proof -
    have "e0 + 1 = int (nbits \<bar>n\<bar>) - int (nbits d - 1)" using d(2) by (simp add: e0_def)
    then show ?thesis by (simp add: power_int_diff)
  qed
  finally show ?thesis using False by simp
qed

lemma rnd_frac_finite:
  assumes d: "0 < d" and small: "\<bar>of_int n / of_int d\<bar> \<le> (2 ^ 1000 :: rat)"
  shows "\<exists>r. rnd_frac n d = Flt r"
proof (cases "n = 0")
  case False
  define e0 where "e0 = int (nbits \<bar>n\<bar>) - int (nbits d)"
  define e where "e = (if pow2_scale \<bar>n\<bar> (- e0) < pow2_scale d e0 then e0 - 1 else e0)"
  define u where "u = max e (- 1022) - 52"
  define m where "m = div_half_even (pow2_scale \<bar>n\<bar> (- u)) (pow2_scale d u)"
  define q where "q = \<bar>of_int n :: rat\<bar> / of_int d"
  have "\<bar>of_int m - q / power_int 2 u\<bar> \<le> 1 / 2"
  proof -
    have "0 < pow2_scale d u" using d by (simp add: pow2_scale_def)
    from div_half_even_error [OF this, of "pow2_scale \<bar>n\<bar> (- u)"] show ?thesis
      by (simp only: pow2_scale_ratio m_def q_def of_int_abs)
  qed
  then have m: "of_int m \<le> q / power_int 2 u + 1 / 2" by linarith
  have "q < power_int 2 (e + 1)"
    unfolding e_def e0_def q_def using False d by (rule rnd_frac_exponent_upper)
  also have "\<dots> \<le> power_int 2 (u + 53)" by (rule power_int_increasing) (simp_all add: u_def)
  also have "\<dots> = power_int 2 u * 2 ^ 53" by (simp add: power_int_add)
  finally have "q / power_int 2 u \<le> 2 ^ 53" by (simp add: divide_le_eq mult.commute)
  with m have m53: "of_int m \<le> (2 ^ 53 + 1 :: rat)" by linarith
  have "pow2_scale m u < 2 ^ 1024"
  proof (cases "0 \<le> u")
    case False
    then have "(of_int (pow2_scale m u) :: rat) < of_int (2 ^ 1024)"
      using m53 by (simp add: pow2_scale_def)
    then show ?thesis by (simp only: of_int_less_iff)
  next
    case True
    have e: "e = u + 52" using True by (simp add: u_def max_def split: if_splits)
    have "power_int (2::rat) e \<le> q"
      unfolding e_def e0_def q_def using \<open>n \<noteq> 0\<close> d by (rule rnd_frac_exponent)
    also have "q \<le> 2 ^ 1000"
    proof -
      have "\<bar>of_int n / of_int d\<bar> = q" using d by (simp add: q_def)
      with small show ?thesis by (simp only:)
    qed
    finally have "power_int (2::rat) u * 2 ^ 52 \<le> 2 ^ 1000" by (simp add: e power_int_add)
    then have "power_int (2::rat) u \<le> 2 ^ 948" by simp
    then have "of_int m * power_int (2::rat) u \<le> (2 ^ 53 + 1) * 2 ^ 948"
      using m53 by (intro mult_mono) simp_all
    then have "(of_int (pow2_scale m u) :: rat) \<le> (2 ^ 53 + 1) * 2 ^ 948"
      using True by (simp add: pow2_scale_def power_int_def)
    also have "\<dots> < of_int (2 ^ 1024)" by simp
    finally show ?thesis by (simp only: of_int_less_iff)
  qed
  then show ?thesis
    using False
    unfolding rnd_frac_def Let_def e0_def [symmetric] e_def [symmetric] u_def [symmetric] m_def [symmetric]
    by simp
qed simp

lemma rnd_finite:
  assumes "\<bar>q\<bar> \<le> 2 ^ 1000"
  shows "\<exists>r. rnd q = Flt r"
proof -
  have "\<bar>of_int (fst (quotient_of q)) / of_int (snd (quotient_of q))\<bar> \<le> (2 ^ 1000 :: rat)"
    using assms quotient_of_div [of q "fst (quotient_of q)" "snd (quotient_of q)"] by simp
  from rnd_frac_finite [OF quotient_of_denom_pos' this] show ?thesis
    by (cases "quotient_of q") (simp add: rnd_def)
qed

end
