(* ===== verification/Enums.thy ===== *)
theory Enums
  imports Prelude
begin

text \<open>
  The enumerations of \<^verbatim>\<open>app/enums.py\<close>: one datatype per class with the members in source
  order, the string value of each member, the strict parser shared by the parsable ones, and the
  classifications of \<^verbatim>\<open>OrderStatus\<close>.
\<close>

datatype trading_mode = Mode_Disabled | Mode_Mock | Mode_Paper | Mode_Live
datatype account_type = Acct_Unknown | Acct_Simulated | Acct_Paper | Acct_Live
datatype connection_state = Disconnected | Connecting | Connected | Reconnecting | Failed

datatype application_state =
  App_Starting | App_Disconnected | App_Connecting | App_Reconciling | App_Safe | App_Ready
| App_Halted | App_Error

datatype order_side = Buy | Sell
datatype order_type = Market | Limit | Stop | Stop_Limit | Bracket
datatype time_in_force = Day | GTC | IOC | FOK

datatype order_status =
  St_New | St_Blocked | St_Pending_Submit | St_Submitted | St_Acknowledged | St_Partially_Filled
| St_Filled | St_Cancel_Pending | St_Cancelled | St_Rejected | St_Error

datatype direction = Long | Short | Flat
datatype security_type = Future | Continuous_Future

fun trading_mode_value :: "trading_mode \<Rightarrow> string" where
  "trading_mode_value Mode_Disabled = ''disabled''"
| "trading_mode_value Mode_Mock = ''mock''"
| "trading_mode_value Mode_Paper = ''paper''"
| "trading_mode_value Mode_Live = ''live''"

fun account_type_value :: "account_type \<Rightarrow> string" where
  "account_type_value Acct_Unknown = ''unknown''"
| "account_type_value Acct_Simulated = ''simulated''"
| "account_type_value Acct_Paper = ''paper''"
| "account_type_value Acct_Live = ''live''"

fun order_side_value :: "order_side \<Rightarrow> string" where
  "order_side_value Buy = ''BUY''"
| "order_side_value Sell = ''SELL''"

fun order_type_value :: "order_type \<Rightarrow> string" where
  "order_type_value Market = ''MARKET''"
| "order_type_value Limit = ''LIMIT''"
| "order_type_value Stop = ''STOP''"
| "order_type_value Stop_Limit = ''STOP_LIMIT''"
| "order_type_value Bracket = ''BRACKET''"

fun time_in_force_value :: "time_in_force \<Rightarrow> string" where
  "time_in_force_value Day = ''DAY''"
| "time_in_force_value GTC = ''GTC''"
| "time_in_force_value IOC = ''IOC''"
| "time_in_force_value FOK = ''FOK''"

fun direction_value :: "direction \<Rightarrow> string" where
  "direction_value Long = ''LONG''"
| "direction_value Short = ''SHORT''"
| "direction_value Flat = ''FLAT''"

fun security_type_value :: "security_type \<Rightarrow> string" where
  "security_type_value Future = ''FUT''"
| "security_type_value Continuous_Future = ''CONTFUT''"

fun application_state_value :: "application_state \<Rightarrow> string" where
  "application_state_value App_Starting = ''STARTING''"
| "application_state_value App_Disconnected = ''DISCONNECTED''"
| "application_state_value App_Connecting = ''CONNECTING''"
| "application_state_value App_Reconciling = ''RECONCILING''"
| "application_state_value App_Safe = ''SAFE''"
| "application_state_value App_Ready = ''READY''"
| "application_state_value App_Halted = ''HALTED''"
| "application_state_value App_Error = ''ERROR''"

section \<open>Strict parsing\<close>

text \<open>
  \<^verbatim>\<open>_ParsableEnum.parse\<close>: the first member whose value agrees with the text up to case and
  surrounding space; \<^verbatim>\<open>ValueError\<close> when there is none.
\<close>

definition enum_parse :: "'m list \<Rightarrow> ('m \<Rightarrow> string) \<Rightarrow> string \<Rightarrow> 'm result" where
  "enum_parse members val raw =
     (let candidate = py_lower (py_strip raw)
      in case List.find (\<lambda>m. py_lower (val m) = candidate) members of
           None \<Rightarrow> Inl ValueError
         | Some m \<Rightarrow> Inr m)"

definition parse_trading_mode :: "string \<Rightarrow> trading_mode result" where
  "parse_trading_mode = enum_parse [Mode_Disabled, Mode_Mock, Mode_Paper, Mode_Live] trading_mode_value"

definition parse_account_type :: "string \<Rightarrow> account_type result" where
  "parse_account_type =
     enum_parse [Acct_Unknown, Acct_Simulated, Acct_Paper, Acct_Live] account_type_value"

definition parse_order_side :: "string \<Rightarrow> order_side result" where
  "parse_order_side = enum_parse [Buy, Sell] order_side_value"

definition parse_order_type :: "string \<Rightarrow> order_type result" where
  "parse_order_type = enum_parse [Market, Limit, Stop, Stop_Limit, Bracket] order_type_value"

definition parse_direction :: "string \<Rightarrow> direction result" where
  "parse_direction = enum_parse [Long, Short, Flat] direction_value"

lemma enum_parse_Inr:
  assumes "enum_parse ms val raw = Inr m"
  shows "m \<in> set ms" and "py_lower (val m) = py_lower (py_strip raw)"
  using assms by (auto simp: enum_parse_def Let_def dest: find_Some_mem split: option.splits)

lemma enum_parse_total:
  assumes "m \<in> set ms" and "py_lower (val m) = py_lower (py_strip raw)"
    and "inj_on (\<lambda>m. py_lower (val m)) (set ms)"
  shows "enum_parse ms val raw = Inr m"
proof -
  have "List.find (\<lambda>m. py_lower (val m) = py_lower (py_strip raw)) ms = Some m"
  proof (cases "List.find (\<lambda>m. py_lower (val m) = py_lower (py_strip raw)) ms")
    case None
    with assms(1,2) show ?thesis by (auto simp: find_None_iff)
  next
    case (Some m')
    then have "m' \<in> set ms" "py_lower (val m') = py_lower (val m)"
      using assms(2) by (auto dest: find_Some_mem)
    with assms(1,3) have "m' = m" by (auto dest: inj_onD)
    with Some show ?thesis by simp
  qed
  then show ?thesis by (simp add: enum_parse_def Let_def)
qed

section \<open>Classifications\<close>

definition uses_ibkr_mode :: "trading_mode \<Rightarrow> bool" where
  "uses_ibkr_mode m = (m \<in> set [Mode_Paper, Mode_Live])"

fun side_sign :: "order_side \<Rightarrow> int" where
  "side_sign Buy = 1"
| "side_sign Sell = - 1"

definition terminal_statuses :: "order_status list" where
  "terminal_statuses = [St_Blocked, St_Filled, St_Cancelled, St_Rejected, St_Error]"

definition open_statuses :: "order_status list" where
  "open_statuses =
     [St_Pending_Submit, St_Submitted, St_Acknowledged, St_Partially_Filled, St_Cancel_Pending]"

definition is_terminal :: "order_status \<Rightarrow> bool" where
  "is_terminal s = (s \<in> set terminal_statuses)"

definition is_open_status :: "order_status \<Rightarrow> bool" where
  "is_open_status s = (s \<in> set open_statuses)"

definition reached_broker :: "order_status \<Rightarrow> bool" where
  "reached_broker s = (s \<notin> set [St_New, St_Blocked])"

lemmas status_classes = is_terminal_def is_open_status_def reached_broker_def
  terminal_statuses_def open_statuses_def

text \<open>The classes partition the statuses: only a new order is neither open nor terminal.\<close>

lemma status_partition:
  "\<not> (is_open_status s \<and> is_terminal s)"
  "is_open_status s \<or> is_terminal s \<or> s = St_New"
  by (cases s; simp add: status_classes)+

lemma open_reached_broker: "is_open_status s \<Longrightarrow> reached_broker s"
  by (cases s) (simp_all add: status_classes)

lemma reached_broker_iff: "reached_broker s \<longleftrightarrow> s \<noteq> St_New \<and> s \<noteq> St_Blocked"
  by (simp add: reached_broker_def)

lemma side_sign_cases: "side_sign s = 1 \<or> side_sign s = - 1"
  by (cases s) simp_all

end
