(* ===== verification/Config.thy ===== *)
theory Config
  imports PyNum Enums
begin

text \<open>
  \<^verbatim>\<open>app/config.py\<close>: the strict parsers, the configuration sections, \<^verbatim>\<open>Config.from_env\<close> with
  its checks in source order, \<^verbatim>\<open>Config.validate\<close> and the derived port, and the reconnect
  backoff. The environment is a partial map. A \<^verbatim>\<open>Path\<close> is kept as the string it is built from.
\<close>

type_synonym env = "string \<Rightarrow> string option"

definition true_literals :: "string list" where
  "true_literals = [''true'', ''1'', ''yes'', ''on'']"

definition false_literals :: "string list" where
  "false_literals = [''false'', ''0'', ''no'', ''off'']"

definition valid_log_levels :: "string list" where
  "valid_log_levels = [''CRITICAL'', ''ERROR'', ''WARNING'', ''INFO'', ''DEBUG'']"

definition valid_log_formats :: "string list" where
  "valid_log_formats = [''json'', ''text'']"

definition supported_futures_symbols :: "string list" where
  "supported_futures_symbols = [''MSL'', ''SOL'']"

section \<open>Typed parsers\<close>

definition raw :: "env \<Rightarrow> string \<Rightarrow> string option" where
  "raw env name =
     (case env name of None \<Rightarrow> None
      | Some v \<Rightarrow> (let stripped = py_strip v in if stripped = [] then None else Some stripped))"

definition parse_bool :: "env \<Rightarrow> string \<Rightarrow> bool \<Rightarrow> bool result" where
  "parse_bool env name dflt =
     (case raw env name of None \<Rightarrow> Inr dflt
      | Some v \<Rightarrow>
          (let lowered = py_lower v
           in if lowered \<in> set true_literals then Inr True
              else if lowered \<in> set false_literals then Inr False
              else Inl (ConfigError name NotBoolean)))"

definition parse_int :: "env \<Rightarrow> string \<Rightarrow> int \<Rightarrow> int \<Rightarrow> int option \<Rightarrow> int result" where
  "parse_int env name dflt minimum maximum =
     (case raw env name of None \<Rightarrow> Inr dflt
      | Some v \<Rightarrow>
          (case py_int v of None \<Rightarrow> Inl (ConfigError name NotInteger)
           | Some parsed \<Rightarrow>
               if parsed < minimum then Inl (ConfigError name BelowMinimum)
               else (case maximum of None \<Rightarrow> Inr parsed
                     | Some hi \<Rightarrow> if parsed > hi then Inl (ConfigError name AboveMaximum) else Inr parsed)))"

definition parse_decimal :: "env \<Rightarrow> string \<Rightarrow> decimal \<Rightarrow> decimal \<Rightarrow> decimal result" where
  "parse_decimal env name dflt minimum =
     (case raw env name of None \<Rightarrow> Inr dflt
      | Some v \<Rightarrow>
          (case py_decimal v of None \<Rightarrow> Inl (ConfigError name NotDecimal)
           | Some parsed \<Rightarrow>
               if \<not> dec_finite parsed then Inl (ConfigError name NotFinite)
               else ebind (dec_less parsed minimum)
                      (\<lambda>low. if low then Inl (ConfigError name BelowMinimum) else Inr parsed)))"

definition parse_float :: "env \<Rightarrow> string \<Rightarrow> pyfloat \<Rightarrow> pyfloat \<Rightarrow> pyfloat result" where
  "parse_float env name dflt minimum =
     (case raw env name of None \<Rightarrow> Inr dflt
      | Some v \<Rightarrow>
          (case py_float v of None \<Rightarrow> Inl (ConfigError name NotNumber)
           | Some parsed \<Rightarrow>
               if \<not> flt_finite parsed then Inl (ConfigError name NotFinite)
               else if flt_less parsed minimum then Inl (ConfigError name BelowMinimum)
               else Inr parsed))"

definition parse_str :: "env \<Rightarrow> string \<Rightarrow> string \<Rightarrow> string" where
  "parse_str env name dflt = (case raw env name of None \<Rightarrow> dflt | Some v \<Rightarrow> v)"

lemma parse_int_bounds:
  assumes "parse_int env name dflt mn mx = Inr v" and "mn \<le> dflt" and "\<And>hi. mx = Some hi \<Longrightarrow> dflt \<le> hi"
  shows "mn \<le> v" and "\<And>hi. mx = Some hi \<Longrightarrow> v \<le> hi"
  using assms by (auto simp: parse_int_def not_less split: option.splits if_splits)

lemma parse_decimal_bounds:
  assumes "parse_decimal env name dflt mn = Inr v" and "dec_finite dflt" and "dec_finite mn"
    and "dval mn \<le> dval dflt"
  shows "dec_finite v" and "dval mn \<le> dval v"
  using assms
  by (auto simp: parse_decimal_def dec_less_finite not_less split: option.splits if_splits)

lemma parse_float_bounds:
  assumes "parse_float env name dflt mn = Inr v" and "flt_finite dflt" and "flt_finite mn"
    and "flt_leq mn dflt"
  shows "flt_finite v" and "flt_leq mn v"
  using assms flt_not_less_finite [of _ mn]
  by (auto simp: parse_float_def split: option.splits if_splits)

lemma parse_fault_names_variable:
  "parse_bool env name b = Inl e \<Longrightarrow> \<exists>k. e = ConfigError name k"
  "parse_int env name i mn mx = Inl e \<Longrightarrow> \<exists>k. e = ConfigError name k"
  "parse_float env name x fmn = Inl e \<Longrightarrow> \<exists>k. e = ConfigError name k"
  "parse_decimal env name d dmn = Inl e \<Longrightarrow> dec_finite dmn \<Longrightarrow> \<exists>k. e = ConfigError name k"
  by (auto simp: parse_bool_def parse_int_def parse_float_def parse_decimal_def dec_less_finite Let_def
      split: option.splits if_splits)

section \<open>Sections\<close>

record risk_limits =
  max_position_contracts :: int
  max_order_size :: int
  max_daily_loss_usd :: decimal
  max_orders_per_hour :: int
  max_open_orders :: int
  max_notional_exposure_usd :: decimal

definition default_risk_limits :: risk_limits where
  "default_risk_limits =
     \<lparr> max_position_contracts = 0, max_order_size = 0, max_daily_loss_usd = dec_zero,
       max_orders_per_hour = 0, max_open_orders = 0, max_notional_exposure_usd = dec_zero \<rparr>"

definition any_configured :: "risk_limits \<Rightarrow> bool" where
  "any_configured r =
     (max_position_contracts r \<noteq> 0 \<or> max_order_size r \<noteq> 0 \<or> dec_truthy (max_daily_loss_usd r)
      \<or> max_orders_per_hour r \<noteq> 0 \<or> max_open_orders r \<noteq> 0 \<or> dec_truthy (max_notional_exposure_usd r))"

text \<open>All six comparisons are evaluated before \<^verbatim>\<open>all\<close> sees the tuple, so a NaN limit raises.\<close>

definition all_configured :: "risk_limits \<Rightarrow> bool result" where
  "all_configured r =
     ebind (dec_less dec_zero (max_daily_loss_usd r)) (\<lambda>loss.
     ebind (dec_less dec_zero (max_notional_exposure_usd r)) (\<lambda>notional.
       Inr (max_position_contracts r > 0 \<and> max_order_size r > 0 \<and> loss
            \<and> max_orders_per_hour r > 0 \<and> max_open_orders r > 0 \<and> notional)))"

definition risk_limits_from_env :: "env \<Rightarrow> risk_limits result" where
  "risk_limits_from_env env =
     ebind (parse_int env ''MAX_POSITION_CONTRACTS'' 0 0 None) (\<lambda>pos.
     ebind (parse_int env ''MAX_ORDER_SIZE'' 0 0 None) (\<lambda>size.
     ebind (parse_decimal env ''MAX_DAILY_LOSS_USD'' dec_zero dec_zero) (\<lambda>loss.
     ebind (parse_int env ''MAX_ORDERS_PER_HOUR'' 0 0 None) (\<lambda>per_hour.
     ebind (parse_int env ''MAX_OPEN_ORDERS'' 0 0 None) (\<lambda>open_orders.
     ebind (parse_decimal env ''MAX_NOTIONAL_EXPOSURE_USD'' dec_zero dec_zero) (\<lambda>notional.
       Inr \<lparr> max_position_contracts = pos, max_order_size = size, max_daily_loss_usd = loss,
             max_orders_per_hour = per_hour, max_open_orders = open_orders,
             max_notional_exposure_usd = notional \<rparr>))))))"

record ibkr_config =
  ib_host :: string
  paper_port :: int
  live_port :: int
  client_id :: int
  admin_client_id :: int
  connect_timeout_seconds :: pyfloat

definition default_ibkr_config :: ibkr_config where
  "default_ibkr_config =
     \<lparr> ib_host = ''127.0.0.1'', paper_port = 4002, live_port = 4001, client_id = 10,
       admin_client_id = 110, connect_timeout_seconds = Flt 15 \<rparr>"

definition ibkr_config_from_env :: "env \<Rightarrow> ibkr_config result" where
  "ibkr_config_from_env env =
     (let host = parse_str env ''IB_HOST'' ''127.0.0.1'' in
     ebind (parse_int env ''IB_PAPER_PORT'' 4002 1 (Some 65535)) (\<lambda>paper.
     ebind (parse_int env ''IB_LIVE_PORT'' 4001 1 (Some 65535)) (\<lambda>live.
     ebind (guard_raise (paper = live) (ConfigError ''IB_PAPER_PORT'' PortsEqual)) (\<lambda>_.
     ebind (parse_int env ''IB_CLIENT_ID'' 10 0 (Some (2 ^ 31 - 1))) (\<lambda>client.
     ebind (parse_int env ''IB_ADMIN_CLIENT_ID'' 110 0 (Some (2 ^ 31 - 1))) (\<lambda>admin.
     ebind (guard_raise (client = admin) (ConfigError ''IB_CLIENT_ID'' ClientIdsEqual)) (\<lambda>_.
     ebind (parse_float env ''IB_CONNECT_TIMEOUT_SECONDS'' (Flt 15) (Flt 1)) (\<lambda>timeout.
       Inr \<lparr> ib_host = host, paper_port = paper, live_port = live, client_id = client,
             admin_client_id = admin, connect_timeout_seconds = timeout \<rparr>))))))))"

record reconnect_policy =
  initial_seconds :: pyfloat
  max_seconds :: pyfloat
  multiplier :: pyfloat
  max_attempts :: int

definition default_reconnect_policy :: reconnect_policy where
  "default_reconnect_policy =
     \<lparr> initial_seconds = Flt 2, max_seconds = Flt 300, multiplier = Flt 2, max_attempts = 0 \<rparr>"

definition delay_for_attempt :: "reconnect_policy \<Rightarrow> int \<Rightarrow> pyfloat result" where
  "delay_for_attempt p attempt =
     (if attempt < 1 then Inl ValueError
      else ebind (flt_pow (multiplier p) (nat (attempt - 1)))
             (\<lambda>factor. Inr (flt_min (flt_mul (initial_seconds p) factor) (max_seconds p))))"

definition reconnect_policy_from_env :: "env \<Rightarrow> reconnect_policy result" where
  "reconnect_policy_from_env env =
     ebind (parse_float env ''RECONNECT_INITIAL_SECONDS'' (Flt 2) (rnd_frac 1 10)) (\<lambda>initial.
     ebind (parse_float env ''RECONNECT_MAX_SECONDS'' (Flt 300) (rnd_frac 1 10)) (\<lambda>maximum.
     ebind (guard_raise (flt_less maximum initial) (ConfigError ''RECONNECT_MAX_SECONDS'' BackoffOrder)) (\<lambda>_.
     ebind (parse_float env ''RECONNECT_MULTIPLIER'' (Flt 2) (Flt 1)) (\<lambda>mult.
     ebind (parse_int env ''RECONNECT_MAX_ATTEMPTS'' 0 0 None) (\<lambda>attempts.
       Inr \<lparr> initial_seconds = initial, max_seconds = maximum, multiplier = mult,
             max_attempts = attempts \<rparr>)))))"

section \<open>The root configuration\<close>

record config =
  app_env :: string
  cfg_trading_mode :: trading_mode
  cfg_allow_order_transmit :: bool
  cfg_live_trading_enabled :: bool
  cfg_kill_switch :: bool
  cfg_sol_futures_permission_ready :: bool
  cfg_ibkr :: ibkr_config
  cfg_reconnect :: reconnect_policy
  default_futures_symbol :: string
  default_exchange :: string
  default_currency :: string
  default_contract_month :: "string option"
  cfg_risk :: risk_limits
  cfg_market_data_max_age_seconds :: pyfloat
  market_data_poll_interval_seconds :: pyfloat
  reconcile_interval_seconds :: pyfloat
  cfg_strategy_name :: string
  strategy_enabled :: bool
  database_path :: string
  log_dir :: string
  log_level :: string
  log_format :: string
  log_max_bytes :: int
  log_backup_count :: int
  health_host :: string
  health_port :: int
  git_commit :: string
  build_timestamp :: string

definition default_config :: config where
  "default_config =
     \<lparr> app_env = ''production'', cfg_trading_mode = Mode_Disabled, cfg_allow_order_transmit = False,
       cfg_live_trading_enabled = False, cfg_kill_switch = True,
       cfg_sol_futures_permission_ready = False, cfg_ibkr = default_ibkr_config,
       cfg_reconnect = default_reconnect_policy, default_futures_symbol = ''MSL'',
       default_exchange = ''CME'', default_currency = ''USD'', default_contract_month = None,
       cfg_risk = default_risk_limits, cfg_market_data_max_age_seconds = Flt 0,
       market_data_poll_interval_seconds = Flt 1, reconcile_interval_seconds = Flt 300,
       cfg_strategy_name = ''noop'', strategy_enabled = True,
       database_path = ''/app/data/trading.db'', log_dir = ''/app/logs'', log_level = ''INFO'',
       log_format = ''json'', log_max_bytes = 10 * 1024 * 1024, log_backup_count = 10,
       health_host = ''127.0.0.1'', health_port = 8787, git_commit = ''unknown'',
       build_timestamp = ''unknown'' \<rparr>"

definition ib_port :: "config \<Rightarrow> int option" where
  "ib_port c =
     (if cfg_trading_mode c = Mode_Paper then Some (paper_port (cfg_ibkr c))
      else if cfg_trading_mode c = Mode_Live then Some (live_port (cfg_ibkr c))
      else None)"

definition uses_ibkr :: "config \<Rightarrow> bool" where
  "uses_ibkr c = uses_ibkr_mode (cfg_trading_mode c)"

definition allowed_bind_addresses :: "string list" where
  "allowed_bind_addresses = [''127.0.0.1'', ''::1'', ''localhost'', ''0.0.0.0'']"

definition validate_config :: "config \<Rightarrow> unit result" where
  "validate_config c =
     (if cfg_live_trading_enabled c \<and> cfg_trading_mode c \<noteq> Mode_Live
      then Inl (ConfigError ''LIVE_TRADING_ENABLED'' HalfArmed)
      else if cfg_trading_mode c = Mode_Live \<and> \<not> cfg_live_trading_enabled c
      then Inl (ConfigError ''TRADING_MODE'' HalfArmed)
      else if health_host c \<notin> set allowed_bind_addresses
      then Inl (ConfigError ''HEALTH_HOST'' BadBindAddress)
      else Inr ())"

text \<open>
  The digit test comes first, so the three integer conversions of the source read digit strings.
\<close>

definition validate_contract_month :: "string \<Rightarrow> unit result" where
  "validate_contract_month value =
     (let bad = ConfigError ''DEFAULT_CONTRACT_MONTH'' BadMonth;
          year = digits_val (take 4 value);
          month = digits_val (take 2 (drop 4 value));
          day = digits_val (take 2 (drop 6 value))
      in if \<not> py_isdigit value \<or> length value \<notin> set [6, 8] then Inl bad
         else if \<not> (2000 \<le> year \<and> year \<le> 2100) then Inl bad
         else if \<not> (1 \<le> month \<and> month \<le> 12) then Inl bad
         else if length value = 8 \<and> \<not> (1 \<le> day \<and> day \<le> 31) then Inl bad
         else Inr ())"

definition parse_mode :: "env \<Rightarrow> trading_mode result" where
  "parse_mode env =
     (case parse_trading_mode (parse_str env ''TRADING_MODE'' ''disabled'') of
        Inl _ \<Rightarrow> Inl (ConfigError ''TRADING_MODE'' InvalidMode)
      | Inr m \<Rightarrow> Inr m)"

definition from_env :: "env \<Rightarrow> config result" where
  "from_env env =
     ebind (parse_mode env) (\<lambda>mode.
     let symbol = py_upper (parse_str env ''DEFAULT_FUTURES_SYMBOL'' ''MSL'') in
     ebind (guard_raise (symbol \<notin> set supported_futures_symbols)
              (ConfigError ''DEFAULT_FUTURES_SYMBOL'' UnsupportedSymbol)) (\<lambda>_.
     let level = py_upper (parse_str env ''LOG_LEVEL'' ''INFO'') in
     ebind (guard_raise (level \<notin> set valid_log_levels) (ConfigError ''LOG_LEVEL'' InvalidLogLevel)) (\<lambda>_.
     let fmt = py_lower (parse_str env ''LOG_FORMAT'' ''json'') in
     ebind (guard_raise (fmt \<notin> set valid_log_formats) (ConfigError ''LOG_FORMAT'' InvalidLogFormat)) (\<lambda>_.
     let month = raw env ''DEFAULT_CONTRACT_MONTH'' in
     ebind (case month of None \<Rightarrow> Inr () | Some m \<Rightarrow> validate_contract_month m) (\<lambda>_.
     ebind (parse_bool env ''ALLOW_ORDER_TRANSMIT'' False) (\<lambda>transmit.
     ebind (parse_bool env ''LIVE_TRADING_ENABLED'' False) (\<lambda>live.
     ebind (parse_bool env ''KILL_SWITCH'' True) (\<lambda>kill.
     ebind (parse_bool env ''SOL_FUTURES_PERMISSION_READY'' False) (\<lambda>permission.
     ebind (ibkr_config_from_env env) (\<lambda>ibkr.
     ebind (reconnect_policy_from_env env) (\<lambda>reconnect.
     ebind (risk_limits_from_env env) (\<lambda>risk.
     ebind (parse_float env ''MARKET_DATA_MAX_AGE_SECONDS'' (Flt 0) (Flt 0)) (\<lambda>max_age.
     ebind (parse_float env ''MARKET_DATA_POLL_INTERVAL_SECONDS'' (Flt 1) (rnd_frac 5 100)) (\<lambda>poll.
     ebind (parse_float env ''RECONCILE_INTERVAL_SECONDS'' (Flt 300) (Flt 0)) (\<lambda>reconcile.
     ebind (parse_bool env ''STRATEGY_ENABLED'' True) (\<lambda>strategy_on.
     ebind (parse_int env ''LOG_MAX_BYTES'' (10 * 1024 * 1024) 1024 None) (\<lambda>max_bytes.
     ebind (parse_int env ''LOG_BACKUP_COUNT'' 10 1 None) (\<lambda>backups.
     ebind (parse_int env ''HEALTH_PORT'' 8787 0 (Some 65535)) (\<lambda>port.
     let config =
       \<lparr> app_env = parse_str env ''APP_ENV'' ''production'', cfg_trading_mode = mode,
         cfg_allow_order_transmit = transmit, cfg_live_trading_enabled = live,
         cfg_kill_switch = kill, cfg_sol_futures_permission_ready = permission, cfg_ibkr = ibkr,
         cfg_reconnect = reconnect, default_futures_symbol = symbol,
         default_exchange = py_upper (parse_str env ''DEFAULT_EXCHANGE'' ''CME''),
         default_currency = py_upper (parse_str env ''DEFAULT_CURRENCY'' ''USD''),
         default_contract_month = month, cfg_risk = risk,
         cfg_market_data_max_age_seconds = max_age, market_data_poll_interval_seconds = poll,
         reconcile_interval_seconds = reconcile,
         cfg_strategy_name = py_lower (parse_str env ''STRATEGY_NAME'' ''noop''),
         strategy_enabled = strategy_on,
         database_path = parse_str env ''DATABASE_PATH'' ''/app/data/trading.db'',
         log_dir = parse_str env ''LOG_DIR'' ''/app/logs'', log_level = level, log_format = fmt,
         log_max_bytes = max_bytes, log_backup_count = backups,
         health_host = parse_str env ''HEALTH_HOST'' ''127.0.0.1'', health_port = port,
         git_commit = parse_str env ''GIT_COMMIT'' ''unknown'',
         build_timestamp = parse_str env ''BUILD_TIMESTAMP'' ''unknown'' \<rparr>
     in ebind (validate_config config) (\<lambda>_. Inr config))))))))))))))))))))"

section \<open>What a configuration that was accepted satisfies\<close>

definition risk_limits_ok :: "risk_limits \<Rightarrow> bool" where
  "risk_limits_ok r =
     (0 \<le> max_position_contracts r \<and> 0 \<le> max_order_size r \<and> 0 \<le> max_orders_per_hour r
      \<and> 0 \<le> max_open_orders r
      \<and> dec_finite (max_daily_loss_usd r) \<and> 0 \<le> dval (max_daily_loss_usd r)
      \<and> dec_finite (max_notional_exposure_usd r) \<and> 0 \<le> dval (max_notional_exposure_usd r))"

definition ibkr_config_ok :: "ibkr_config \<Rightarrow> bool" where
  "ibkr_config_ok c =
     (1 \<le> paper_port c \<and> paper_port c \<le> 65535 \<and> 1 \<le> live_port c \<and> live_port c \<le> 65535
      \<and> paper_port c \<noteq> live_port c \<and> 0 \<le> client_id c \<and> 0 \<le> admin_client_id c
      \<and> client_id c \<noteq> admin_client_id c
      \<and> flt_finite (connect_timeout_seconds c) \<and> flt_leq (Flt 1) (connect_timeout_seconds c))"

definition reconnect_policy_ok :: "reconnect_policy \<Rightarrow> bool" where
  "reconnect_policy_ok p =
     (flt_finite (initial_seconds p) \<and> flt_finite (max_seconds p) \<and> flt_finite (multiplier p)
      \<and> flt_leq (initial_seconds p) (max_seconds p) \<and> flt_leq (Flt 1) (multiplier p)
      \<and> 0 \<le> max_attempts p)"

definition contract_month_ok :: "string \<Rightarrow> bool" where
  "contract_month_ok m =
     (py_isdigit m \<and> (length m = 6 \<or> length m = 8)
      \<and> digits_val (take 4 m) \<in> {2000..2100} \<and> digits_val (take 2 (drop 4 m)) \<in> {1..12}
      \<and> (length m = 8 \<longrightarrow> digits_val (drop 6 m) \<in> {1..31}))"

definition config_ok :: "config \<Rightarrow> bool" where
  "config_ok c =
     ((cfg_trading_mode c = Mode_Live \<longleftrightarrow> cfg_live_trading_enabled c)
      \<and> risk_limits_ok (cfg_risk c) \<and> ibkr_config_ok (cfg_ibkr c) \<and> reconnect_policy_ok (cfg_reconnect c)
      \<and> default_futures_symbol c \<in> {''MSL'', ''SOL''}
      \<and> (\<forall>m. default_contract_month c = Some m \<longrightarrow> contract_month_ok m)
      \<and> flt_finite (cfg_market_data_max_age_seconds c) \<and> flt_leq (Flt 0) (cfg_market_data_max_age_seconds c)
      \<and> health_host c \<in> set allowed_bind_addresses \<and> 0 \<le> health_port c \<and> health_port c \<le> 65535)"

lemma validate_contract_month_iff: "validate_contract_month m = Inr u \<longleftrightarrow> contract_month_ok m"
  by (auto simp: validate_contract_month_def contract_month_ok_def Let_def split: if_splits)

lemma validate_config_iff:
  "validate_config c = Inr u \<longleftrightarrow>
     (cfg_trading_mode c = Mode_Live \<longleftrightarrow> cfg_live_trading_enabled c)
     \<and> health_host c \<in> set allowed_bind_addresses"
  by (auto simp: validate_config_def)

lemma risk_limits_from_env_ok: "risk_limits_from_env env = Inr r \<Longrightarrow> risk_limits_ok r"
  by (auto simp: risk_limits_from_env_def risk_limits_ok_def elim!: ebind_InrE
      dest: parse_int_bounds(1) parse_decimal_bounds)

lemma ibkr_config_from_env_ok: "ibkr_config_from_env env = Inr c \<Longrightarrow> ibkr_config_ok c"
  by (auto simp: ibkr_config_from_env_def ibkr_config_ok_def Let_def elim!: ebind_InrE
      dest: parse_int_bounds parse_float_bounds)

lemma rnd_frac_tenth: "flt_finite (rnd_frac 1 10)" "flt_leq (rnd_frac 1 10) (Flt 2)"
    "flt_leq (rnd_frac 1 10) (Flt 300)"
  by code_simp+

lemma reconnect_policy_from_env_ok:
  assumes "reconnect_policy_from_env env = Inr p"
  shows "reconnect_policy_ok p"
proof -
  from assms obtain t where parts:
      "parse_float env ''RECONNECT_INITIAL_SECONDS'' (Flt 2) t = Inr (initial_seconds p)"
      "parse_float env ''RECONNECT_MAX_SECONDS'' (Flt 300) t = Inr (max_seconds p)"
      "parse_float env ''RECONNECT_MULTIPLIER'' (Flt 2) (Flt 1) = Inr (multiplier p)"
      "parse_int env ''RECONNECT_MAX_ATTEMPTS'' 0 0 None = Inr (max_attempts p)"
      and order: "\<not> flt_less (max_seconds p) (initial_seconds p)" and t: "t = rnd_frac 1 10"
    by (auto simp: reconnect_policy_from_env_def elim!: ebind_InrE)
  have "flt_finite (initial_seconds p)" "flt_finite (max_seconds p)"
    using parts(1,2) [THEN parse_float_bounds(1)] rnd_frac_tenth t by auto
  with order have "flt_leq (initial_seconds p) (max_seconds p)"
    by (simp add: flt_not_less_finite)
  with \<open>flt_finite (initial_seconds p)\<close> \<open>flt_finite (max_seconds p)\<close> show ?thesis
    using parse_float_bounds [OF parts(3)] parse_int_bounds(1) [OF parts(4)]
    by (simp add: reconnect_policy_ok_def)
qed

text \<open>Every step of the construction succeeded when the whole did.\<close>

lemma from_env_parts:
  assumes "from_env env = Inr c"
  shows "parse_mode env = Inr (cfg_trading_mode c)"
    and "parse_bool env ''ALLOW_ORDER_TRANSMIT'' False = Inr (cfg_allow_order_transmit c)"
    and "parse_bool env ''LIVE_TRADING_ENABLED'' False = Inr (cfg_live_trading_enabled c)"
    and "parse_bool env ''KILL_SWITCH'' True = Inr (cfg_kill_switch c)"
    and "parse_bool env ''SOL_FUTURES_PERMISSION_READY'' False = Inr (cfg_sol_futures_permission_ready c)"
    and "ibkr_config_from_env env = Inr (cfg_ibkr c)"
    and "reconnect_policy_from_env env = Inr (cfg_reconnect c)"
    and "risk_limits_from_env env = Inr (cfg_risk c)"
    and "parse_float env ''MARKET_DATA_MAX_AGE_SECONDS'' (Flt 0) (Flt 0) = Inr (cfg_market_data_max_age_seconds c)"
    and "parse_int env ''HEALTH_PORT'' 8787 0 (Some 65535) = Inr (health_port c)"
    and "default_futures_symbol c \<in> set supported_futures_symbols"
    and "default_contract_month c = raw env ''DEFAULT_CONTRACT_MONTH''"
    and "\<forall>m. default_contract_month c = Some m \<longrightarrow> validate_contract_month m = Inr ()"
    and "validate_config c = Inr ()"
  using assms by (auto simp: from_env_def Let_def elim!: ebind_InrE split: option.splits)

lemma from_env_ok:
  assumes "from_env env = Inr c"
  shows "config_ok c"
  unfolding config_ok_def
  using from_env_parts [OF assms] parse_float_bounds [OF from_env_parts(9) [OF assms]]
    parse_int_bounds [OF from_env_parts(10) [OF assms]]
  by (simp add: risk_limits_from_env_ok ibkr_config_from_env_ok reconnect_policy_from_env_ok
      validate_contract_month_iff validate_config_iff supported_futures_symbols_def)

lemma raw_Some: "raw env name = Some v \<Longrightarrow> \<exists>t. env name = Some t \<and> v = py_strip t"
  by (auto simp: raw_def Let_def split: option.splits if_splits)

text \<open>The variable is present and its stripped, lowered value is one of the given literals.\<close>

definition set_to :: "env \<Rightarrow> string \<Rightarrow> string list \<Rightarrow> bool" where
  "set_to env name lits = (\<exists>v. env name = Some v \<and> py_lower (py_strip v) \<in> set lits)"

lemma parse_bool_explicit:
  "parse_bool env name d = Inr b \<Longrightarrow> b \<noteq> d \<longrightarrow> set_to env name (if b then true_literals else false_literals)"
  by (auto simp: parse_bool_def set_to_def Let_def dest: raw_Some split: option.splits if_splits)

lemma parse_mode_absent:
  assumes "env ''TRADING_MODE'' = None"
  shows "parse_mode env = Inr Mode_Disabled"
proof -
  have "parse_trading_mode ''disabled'' = Inr Mode_Disabled" by code_simp
  with assms show ?thesis by (simp add: parse_mode_def parse_str_def raw_def)
qed

text \<open>Every failure is a \<^verbatim>\<open>ConfigError\<close>: no parser lets another exception out.\<close>

abbreviation config_failure :: "'a result \<Rightarrow> bool" where
  "config_failure r \<equiv> (\<forall>e. r = Inl e \<longrightarrow> (\<exists>name k. e = ConfigError name k))"

lemma config_failure_bind:
  "config_failure m \<Longrightarrow> (\<And>x. config_failure (f x)) \<Longrightarrow> config_failure (ebind m f)"
  by (auto simp: ebind_eq_Inl)

lemma config_failure_parsers:
  "config_failure (parse_bool env name b)"
  "config_failure (parse_int env name i mn mx)"
  "config_failure (parse_float env name x fmn)"
  "dec_finite dmn \<Longrightarrow> config_failure (parse_decimal env name d dmn)"
  "config_failure (guard_raise bad (ConfigError name k))"
  "config_failure (parse_mode env)"
  "config_failure (validate_contract_month m)"
  "config_failure (validate_config c)"
  "config_failure (Inr y)"
  using parse_fault_names_variable
  by (blast | fastforce simp: parse_mode_def validate_contract_month_def validate_config_def Let_def
      split: sum.splits if_splits)+

lemma config_failure_sections:
  "config_failure (ibkr_config_from_env env)"
  "config_failure (reconnect_policy_from_env env)"
  "config_failure (risk_limits_from_env env)"
  unfolding ibkr_config_from_env_def reconnect_policy_from_env_def risk_limits_from_env_def Let_def
  by (intro config_failure_bind config_failure_parsers; simp)+

lemma from_env_failure: "config_failure (from_env env)"
  unfolding from_env_def Let_def
  by (intro config_failure_bind config_failure_parsers config_failure_sections)
    (auto split: option.splits simp: config_failure_parsers)

section \<open>Backoff\<close>

lemma rnd_not_NaN: "rnd q \<noteq> FNaN"
  by (auto simp: rnd_def rnd_frac_def Let_def split: prod.splits)

lemma delay_within_maximum:
  assumes "reconnect_policy_ok p" and "delay_for_attempt p n = Inr d"
  shows "flt_leq d (max_seconds p)"
proof -
  from assms obtain i m where i: "initial_seconds p = Flt i" and m: "multiplier p = Flt m"
    by (auto simp: reconnect_policy_ok_def elim!: flt_finite.elims(2))
  from assms(2) obtain f where f: "flt_pow (Flt m) (nat (n - 1)) = Inr f"
      and d: "d = flt_min (flt_mul (Flt i) f) (max_seconds p)"
    by (auto simp: delay_for_attempt_def i m ebind_eq_Inr split: if_splits)
  from f obtain q where "f = Flt q"
    using rnd_not_NaN by (cases f) (auto split: pyfloat.splits)
  then have "flt_mul (Flt i) f \<noteq> FNaN" by (simp add: rnd_not_NaN)
  with d assms(1) show ?thesis
    by (simp add: flt_min_leq reconnect_policy_ok_def)
qed

lemma delay_default_doubling:
  assumes "1 \<le> n" and "n \<le> 1024"
  shows "delay_for_attempt default_reconnect_policy n = Inr (flt_min (rnd (2 ^ nat n)) (Flt 300))"
proof -
  let ?k = "nat (n - 1)"
  have k: "?k < 1024" and n: "nat n = Suc ?k" using assms by linarith+
  then have "flt_pow (Flt 2) ?k = Inr (Flt (2 ^ ?k))" by (simp only: flt_pow_two)
  moreover have "flt_mul (Flt 2) (Flt (2 ^ ?k)) = rnd (2 ^ nat n)"
    by (simp only: n flt_mul.simps power_Suc)
  ultimately show ?thesis using assms(1)
    by (simp add: delay_for_attempt_def default_reconnect_policy_def del: flt_pow.simps flt_mul.simps)
qed

lemma rnd_pow2: "k < 1024 \<Longrightarrow> rnd (2 ^ k) = Flt (2 ^ k)" "1024 \<le> k \<Longrightarrow> rnd (2 ^ k) = FInf False"
  using rnd_of_int [of "2 ^ k"] by (simp_all add: rnd_frac_pow2)

lemma delay_default_cases:
  "delay_for_attempt default_reconnect_policy n =
     (if n < 1 then Inl ValueError
      else if n \<le> 8 then Inr (Flt (2 ^ nat n))
      else if n \<le> 1024 then Inr (Flt 300)
      else Inl OverflowError)"
proof -
  consider "n < 1" | "1 \<le> n \<and> n \<le> 8" | "9 \<le> n \<and> n < 1024" | "n = 1024" | "1025 \<le> n" by linarith
  then show ?thesis
  proof cases
    case 1
    then show ?thesis by (simp add: delay_for_attempt_def)
  next
    case 2
    then have "(2::rat) ^ nat n \<le> 2 ^ 8" by (intro power_increasing) auto
    then have "\<not> 300 < (2::rat) ^ nat n" by simp
    moreover have "rnd (2 ^ nat n) = Flt (2 ^ nat n)" using 2 by (intro rnd_pow2) auto
    ultimately show ?thesis using 2 by (simp add: delay_default_doubling flt_min_def)
  next
    case 3
    then have "(2::rat) ^ 9 \<le> 2 ^ nat n" by (intro power_increasing) auto
    then have "300 < (2::rat) ^ nat n" by simp
    moreover have "rnd (2 ^ nat n) = Flt (2 ^ nat n)" using 3 by (intro rnd_pow2) auto
    ultimately show ?thesis using 3 by (simp add: delay_default_doubling flt_min_def)
  next
    case 4
    then have "rnd (2 ^ nat n) = FInf False" by (intro rnd_pow2) simp
    with 4 show ?thesis by (simp add: delay_default_doubling flt_min_def del: power_numeral)
  next
    case 5
    then have "1024 \<le> nat (n - 1)" by linarith
    with 5 show ?thesis
      by (simp add: delay_for_attempt_def default_reconnect_policy_def flt_pow_two del: flt_pow.simps)
  qed
qed

section \<open>Properties\<close>

definition paper_env :: env where
  "paper_env = map_of
     [(''TRADING_MODE'', ''paper''), (''ALLOW_ORDER_TRANSMIT'', '' Yes ''), (''KILL_SWITCH'', ''off''),
      (''SOL_FUTURES_PERMISSION_READY'', ''1''), (''MAX_POSITION_CONTRACTS'', ''2''),
      (''MAX_DAILY_LOSS_USD'', ''250.50''), (''DEFAULT_CONTRACT_MONTH'', ''202609''),
      (''MARKET_DATA_MAX_AGE_SECONDS'', ''5'')]"

lemma paper_env_accepted:
  "\<exists>c. from_env paper_env = Inr c \<and> cfg_trading_mode c = Mode_Paper \<and> cfg_allow_order_transmit c
     \<and> \<not> cfg_kill_switch c"
proof -
  have "(case from_env paper_env of Inl e \<Rightarrow> False
         | Inr c \<Rightarrow> cfg_trading_mode c = Mode_Paper \<and> cfg_allow_order_transmit c \<and> \<not> cfg_kill_switch c)"
    by code_simp
  then show ?thesis by (cases "from_env paper_env") auto
qed



text \<open>
  Every interlock needs an explicit opt-in: transmission, live trading and the instrument
  permission are on only if their variables hold one of the four true literals, the kill switch is
  off only if its variable holds one of the four false literals, and a mode other than disabled
  only if the mode variable is present.
\<close>

theorem from_env_interlocks_explicit:
  assumes "from_env env = Inr c"
  shows "(cfg_allow_order_transmit c \<longrightarrow> set_to env ''ALLOW_ORDER_TRANSMIT'' true_literals)
     \<and> (cfg_live_trading_enabled c \<longrightarrow> set_to env ''LIVE_TRADING_ENABLED'' true_literals)
     \<and> (cfg_sol_futures_permission_ready c \<longrightarrow> set_to env ''SOL_FUTURES_PERMISSION_READY'' true_literals)
     \<and> (\<not> cfg_kill_switch c \<longrightarrow> set_to env ''KILL_SWITCH'' false_literals)
     \<and> (cfg_trading_mode c \<noteq> Mode_Disabled \<longrightarrow> env ''TRADING_MODE'' \<noteq> None)"
proof -
  note parts = from_env_parts [OF assms]
  have "cfg_trading_mode c = Mode_Disabled" if "env ''TRADING_MODE'' = None"
    using parts(1) that by (simp add: parse_mode_absent)
  then show ?thesis
    using parts(2-5) [THEN parse_bool_explicit] by auto
qed

theorem from_env_interlocks_explicit_witness:
  "\<exists>c. from_env paper_env = Inr c \<and> cfg_allow_order_transmit c
     \<and> set_to paper_env ''ALLOW_ORDER_TRANSMIT'' true_literals"
  using paper_env_accepted from_env_interlocks_explicit by blast

text \<open>
  An empty environment is accepted and gives the most restrictive configuration: mode
  disabled, transmission off, kill switch on, every risk limit zero.
\<close>

theorem from_env_empty_is_default: "from_env (\<lambda>name. None) = Inr default_config"
  by code_simp

text \<open>
  Whatever the environment holds, the construction ends in a configuration or in a
  \<^verbatim>\<open>ConfigError\<close> that names the variable at fault; no other exception escapes.
\<close>

theorem from_env_total: "(\<exists>c. from_env env = Inr c) \<or> (\<exists>name fault. from_env env = Inl (ConfigError name fault))"
  using from_env_failure [of env] by (cases "from_env env") auto

text \<open>
  Outside live mode the live port cannot be dialled: the one port an accepted configuration
  exposes is the paper port in paper mode, the live port in live mode (which needs the live flag),
  and none otherwise.
\<close>

theorem ib_port_never_live_outside_live_mode:
  assumes "from_env env = Inr c" and "\<not> cfg_live_trading_enabled c"
  shows "ib_port c \<noteq> Some (live_port (cfg_ibkr c))"
  using from_env_ok [OF assms(1)] assms(2)
  by (auto simp: config_ok_def ibkr_config_ok_def ib_port_def)

theorem ib_port_never_live_outside_live_mode_witness:
  "\<exists>c. from_env paper_env = Inr c \<and> ib_port c \<noteq> Some (live_port (cfg_ibkr c))"
proof -
  obtain c where c: "from_env paper_env = Inr c" "cfg_trading_mode c = Mode_Paper"
    using paper_env_accepted by blast
  then have "\<not> cfg_live_trading_enabled c"
    using from_env_ok [OF c(1)] by (auto simp: config_ok_def)
  with c(1) show ?thesis using ib_port_never_live_outside_live_mode by blast
qed

text \<open>
  The default backoff doubles from two seconds to the 300 second cap and then stays there
  until attempt 1024; from attempt 1025 on the power overflows a float and the call raises
  instead of returning the cap, although the policy is documented to retry indefinitely.
\<close>

theorem default_backoff_schedule:
  "delay_for_attempt default_reconnect_policy n =
     (if n < 1 then Inl ValueError
      else if n \<le> 8 then Inr (Flt (2 ^ nat n))
      else if n \<le> 1024 then Inr (Flt 300)
      else Inl OverflowError)"
  by (rule delay_default_cases)

end
