(* ===== verification/Contracts.thy ===== *)
theory Contracts
  imports PyNum Enums
begin

text \<open>
  \<^verbatim>\<open>app/contracts\<close>: contract requests (\<^verbatim>\<open>ContractSpec\<close>) and broker answers
  (\<^verbatim>\<open>QualifiedContract\<close>) with the checks of their constructors, the static product table, and
  the resolver, whose broker is an argument. A record is built through its \<open>make_\<close> function,
  which is the constructor with its \<^verbatim>\<open>__post_init__\<close>. The opaque \<^verbatim>\<open>raw\<close> dictionary of a
  qualified contract, which nothing but a serialiser reads, is left out.
\<close>

section \<open>Requests\<close>

record contract_spec =
  sp_symbol :: string
  sp_sec_type :: security_type
  sp_exchange :: string
  sp_currency :: string
  sp_last_trade_date_or_contract_month :: "string option"
  sp_trading_class :: "string option"
  sp_local_symbol :: "string option"
  sp_con_id :: "int option"
  sp_multiplier :: "string option"

definition make_spec :: "contract_spec \<Rightarrow> contract_spec result" where
  "make_spec s =
     (if py_strip (sp_symbol s) = [] then Inl ContractError
      else if sp_exchange s = [] then Inl ContractError
      else if sp_currency s = [] then Inl ContractError
      else Inr s)"

definition spec_is_continuous :: "contract_spec \<Rightarrow> bool" where
  "spec_is_continuous s = (sp_sec_type s = Continuous_Future)"

definition is_dated :: "contract_spec \<Rightarrow> bool" where
  "is_dated s =
     (case sp_last_trade_date_or_contract_month s of None \<Rightarrow> False | Some m \<Rightarrow> m \<noteq> [])"

definition require_orderable :: "contract_spec \<Rightarrow> unit result" where
  "require_orderable s =
     (if spec_is_continuous s then Inl ContractError
      else if \<not> is_dated s then Inl ContractError
      else Inr ())"

definition expiry_or :: "string \<Rightarrow> string option \<Rightarrow> string" where
  "expiry_or d m = (case m of None \<Rightarrow> d | Some e \<Rightarrow> if e = [] then d else e)"

definition spec_key :: "contract_spec \<Rightarrow> string" where
  "spec_key s =
     sp_symbol s @ '':'' @ security_type_value (sp_sec_type s) @ '':'' @ sp_exchange s @ '':''
     @ expiry_or ''UNDATED'' (sp_last_trade_date_or_contract_month s)"

section \<open>Answers\<close>

record qualified_contract =
  con_id :: int
  qc_symbol :: string
  qc_local_symbol :: string
  qc_sec_type :: security_type
  qc_exchange :: string
  qc_currency :: string
  expiration :: string
  last_trade_date :: string
  qc_multiplier :: string
  min_tick :: decimal
  qc_trading_class :: string
  primary_exchange :: "string option"
  trading_hours :: "string option"
  liquid_hours :: "string option"
  time_zone_id :: "string option"
  long_name :: "string option"
  qualified_at :: "string option"

definition make_qualified :: "qualified_contract \<Rightarrow> qualified_contract result" where
  "make_qualified c =
     (if con_id c \<le> 0 then Inl ContractError
      else if qc_sec_type c \<noteq> Future then Inl ContractError
      else if expiration c = [] then Inl ContractError
      else ebind (dec_leq (min_tick c) dec_zero)
             (\<lambda>low. if low then Inl ContractError else Inr c))"

definition qualified_is_continuous :: "qualified_contract \<Rightarrow> bool" where
  "qualified_is_continuous c = False"

definition multiplier_decimal :: "qualified_contract \<Rightarrow> decimal result" where
  "multiplier_decimal c =
     (case py_decimal (qc_multiplier c) of None \<Rightarrow> Inl ContractError | Some d \<Rightarrow> Inr d)"

definition notional :: "qualified_contract \<Rightarrow> int \<Rightarrow> decimal \<Rightarrow> decimal result" where
  "notional c quantity price =
     ebind (multiplier_decimal c) (\<lambda>m.
     ebind (dec_mul (dec_abs (dec_of_int quantity)) m) (\<lambda>x. dec_mul x price))"

definition to_spec :: "qualified_contract \<Rightarrow> contract_spec result" where
  "to_spec c = make_spec
     \<lparr> sp_symbol = qc_symbol c, sp_sec_type = qc_sec_type c, sp_exchange = qc_exchange c,
       sp_currency = qc_currency c, sp_last_trade_date_or_contract_month = Some (expiration c),
       sp_trading_class = Some (qc_trading_class c), sp_local_symbol = Some (qc_local_symbol c),
       sp_con_id = Some (con_id c), sp_multiplier = Some (qc_multiplier c) \<rparr>"

definition qualified_key :: "qualified_contract \<Rightarrow> string" where
  "qualified_key c = ''conid:'' @ int_str (con_id c)"

text \<open>The invariant of a built contract: only a dated future with a broker id and a tick.\<close>

definition qualified_ok :: "qualified_contract \<Rightarrow> bool" where
  "qualified_ok c =
     (con_id c > 0 \<and> qc_sec_type c = Future \<and> expiration c \<noteq> []
      \<and> dec_leq (min_tick c) dec_zero = Inr False)"

lemma make_qualified_iff: "make_qualified c = Inr d \<longleftrightarrow> d = c \<and> qualified_ok c"
  by (auto simp: make_qualified_def qualified_ok_def ebind_eq_Inr split: if_splits)

lemma qualified_tick_positive:
  "qualified_ok c \<Longrightarrow> dec_finite (min_tick c) \<Longrightarrow> 0 < dval (min_tick c)"
  by (simp add: qualified_ok_def dec_leq_finite not_le)

lemma qualified_key_inject: "qualified_key c = qualified_key d \<longleftrightarrow> con_id c = con_id d"
  by (simp add: qualified_key_def int_str_inject)

section \<open>Products\<close>

record futures_product =
  fp_symbol :: string
  fp_description :: string
  fp_exchange :: string
  fp_currency :: string
  fp_trading_class :: string
  reference_multiplier :: string
  reference_min_tick :: decimal
  mock_reference_price :: decimal

definition product_spec :: "futures_product \<Rightarrow> string option \<Rightarrow> contract_spec result" where
  "product_spec p month = make_spec
     \<lparr> sp_symbol = fp_symbol p, sp_sec_type = Future, sp_exchange = fp_exchange p,
       sp_currency = fp_currency p, sp_last_trade_date_or_contract_month = month,
       sp_trading_class = Some (fp_trading_class p), sp_local_symbol = None, sp_con_id = None,
       sp_multiplier = None \<rparr>"

definition continuous_spec :: "futures_product \<Rightarrow> contract_spec result" where
  "continuous_spec p = make_spec
     \<lparr> sp_symbol = fp_symbol p, sp_sec_type = Continuous_Future, sp_exchange = fp_exchange p,
       sp_currency = fp_currency p, sp_last_trade_date_or_contract_month = None,
       sp_trading_class = Some (fp_trading_class p), sp_local_symbol = None, sp_con_id = None,
       sp_multiplier = None \<rparr>"

definition micro_solana :: futures_product where
  "micro_solana =
     \<lparr> fp_symbol = ''MSL'', fp_description = ''Micro Solana Futures'', fp_exchange = ''CME'',
       fp_currency = ''USD'', fp_trading_class = ''MSL'', reference_multiplier = ''25'',
       reference_min_tick = Dec 5 (- 2), mock_reference_price = Dec 15000 (- 2) \<rparr>"

definition solana :: futures_product where
  "solana =
     \<lparr> fp_symbol = ''SOL'', fp_description = ''Solana Futures'', fp_exchange = ''CME'',
       fp_currency = ''USD'', fp_trading_class = ''SOL'', reference_multiplier = ''500'',
       reference_min_tick = Dec 5 (- 2), mock_reference_price = Dec 15000 (- 2) \<rparr>"

definition products :: "(string \<times> futures_product) list" where
  "products = [(fp_symbol micro_solana, micro_solana), (fp_symbol solana, solana)]"

definition get_product :: "string \<Rightarrow> futures_product result" where
  "get_product symbol =
     (case map_of products (py_upper (py_strip symbol)) of None \<Rightarrow> Inl KeyError | Some p \<Rightarrow> Inr p)"

lemma product_symbols: "fp_symbol micro_solana = ''MSL''" "fp_symbol solana = ''SOL''"
  by (simp_all add: micro_solana_def solana_def)

lemma get_product_cases:
  "get_product symbol = Inr p \<longleftrightarrow>
     py_upper (py_strip symbol) = fp_symbol p \<and> (p = micro_solana \<or> p = solana)"
  by (auto simp: get_product_def products_def product_symbols split: option.splits if_splits)

text \<open>An instance, for evaluating the properties of the components.\<close>

definition sample_contract :: qualified_contract where
  "sample_contract =
     \<lparr> con_id = 900000001, qc_symbol = ''MSL'', qc_local_symbol = ''MSLU6'', qc_sec_type = Future,
       qc_exchange = ''CME'', qc_currency = ''USD'', expiration = ''20260925'',
       last_trade_date = ''20260925'', qc_multiplier = ''25'', min_tick = Dec 5 (- 2),
       qc_trading_class = ''MSL'', primary_exchange = None, trading_hours = None,
       liquid_hours = None, time_zone_id = None, long_name = None, qualified_at = None \<rparr>"

lemma sample_contract_ok: "qualified_ok sample_contract"
  by code_simp

end
