(* ===== verification/TimeUtils.thy ===== *)
theory TimeUtils
  imports PyNum "HOL-Library.List_Lexorder"
begin

text \<open>
  \<^verbatim>\<open>app/utilities/timeutils.py\<close> and \<^verbatim>\<open>app/utilities/ids.py\<close>.

  A \<^verbatim>\<open>datetime\<close> is naive (a wall-clock reading) or aware. An aware one is determined, for every
  comparison and difference, by its instant, counted in microseconds; its offset only shows in
  printing. Fields that the code validates with \<^verbatim>\<open>ensure_utc\<close> on construction hold the instant.
  The current time and the random identifiers are arguments of the operations that read them.
  The SHA-256 hex digest is an argument \<open>H\<close> of the key derivation.
\<close>

datatype instant = Micros (micros: int)

instantiation instant :: linorder
begin

definition less_eq_instant :: "instant \<Rightarrow> instant \<Rightarrow> bool" where
  "less_eq_instant a b = (micros a \<le> micros b)"

definition less_instant :: "instant \<Rightarrow> instant \<Rightarrow> bool" where
  "less_instant a b = (micros a < micros b)"

instance
  by standard (auto simp: less_eq_instant_def less_instant_def instant.expand)

end

datatype datetime = Naive int | Aware instant

fun ensure_utc :: "datetime \<Rightarrow> instant result" where
  "ensure_utc (Naive t) = Inl ValueError"
| "ensure_utc (Aware t) = Inr t"

text \<open>\<^verbatim>\<open>(now - value).total_seconds()\<close>.\<close>

definition age_seconds :: "instant \<Rightarrow> instant \<Rightarrow> pyfloat" where
  "age_seconds value now = rnd_frac (micros now - micros value) 1000000"

definition hours_ago :: "int \<Rightarrow> instant \<Rightarrow> instant" where
  "hours_ago h now = Micros (micros now - h * 3600000000)"

text \<open>The UTC calendar day that \<^verbatim>\<open>utc_date_string\<close> names, as a day number.\<close>

definition utc_day :: "instant \<Rightarrow> int" where
  "utc_day t = micros t div 86400000000"

lemma age_seconds_now [simp]: "age_seconds t t = Flt 0"
  by (simp add: age_seconds_def)

section \<open>Identifiers\<close>

definition canonical_part :: "string \<times> string \<Rightarrow> string" where
  "canonical_part p = fst p @ ''='' @ snd p"

fun join_bar :: "string list \<Rightarrow> string" where
  "join_bar [] = ''''"
| "join_bar [x] = x"
| "join_bar (x # y # xs) = x @ ''|'' @ join_bar (y # xs)"

definition canonical :: "(string \<times> string) list \<Rightarrow> string" where
  "canonical parts = join_bar (map canonical_part (sort_key fst parts))"

definition idempotency_key :: "(string \<Rightarrow> string) \<Rightarrow> (string \<times> string) list \<Rightarrow> string result" where
  "idempotency_key H parts =
     (if parts = [] then Inl ValueError else Inr (''idem_'' @ take 40 (H (canonical parts))))"

text \<open>A separator that occurs in neither string cuts the concatenation in one way only.\<close>

lemma append_sep_inject:
  assumes "x @ c # u = y @ c # v" and "c \<notin> set x" and "c \<notin> set y"
  shows "x = y \<and> u = v"
  using assms
proof (induction x arbitrary: y)
  case Nil
  then show ?case by (cases y) auto
next
  case (Cons a x)
  then show ?case by (cases y) auto
qed

end
