(* ===== verification/BrokerModels.thy ===== *)
theory BrokerModels
  imports Contracts TimeUtils
begin

text \<open>
  \<^verbatim>\<open>app/broker/models.py\<close> and \<^verbatim>\<open>app/broker/base.py\<close>: the broker-neutral data, the error
  hierarchy, and the interface. The abstract class \<^verbatim>\<open>Broker\<close> is a record of operations over a
  broker state \<open>'b\<close>; every operation that reads the clock takes the time as an argument. What the
  interface promises is the locale \<open>broker_interface\<close>. Descriptive fields nothing reads (host,
  port, raw dictionaries) are left out.
\<close>

section \<open>Errors\<close>

definition is_connection_error :: "exn \<Rightarrow> bool" where
  "is_connection_error e = (e \<in> set [BrokerConnectionError, BrokerTimeoutError])"

definition is_broker_error :: "exn \<Rightarrow> bool" where
  "is_broker_error e =
     (e \<in> set [BrokerError, BrokerConnectionError, BrokerTimeoutError, BrokerPermissionError,
              BrokerContractError, BrokerOrderRejectedError, BrokerUnsupportedOperationError])"

text \<open>\<^verbatim>\<open>retryable\<close> is true on the connection errors only.\<close>

definition retryable :: "exn \<Rightarrow> bool" where
  "retryable e = is_connection_error e"

lemma retryable_is_broker_error: "retryable e \<Longrightarrow> is_broker_error e \<and> e \<noteq> BrokerPermissionError"
  by (auto simp: retryable_def is_connection_error_def is_broker_error_def)

section \<open>Data\<close>

record connection_info =
  ci_connected :: bool
  ci_account_type :: account_type
  ci_account_id :: "string option"
  ci_connection_time :: "instant option"

record account_summary =
  as_account_id :: string
  as_account_type :: account_type
  as_currency :: string
  net_liquidation :: "decimal option"
  available_funds :: "decimal option"
  buying_power :: "decimal option"
  excess_liquidity :: "decimal option"
  maintenance_margin :: "decimal option"
  as_realized_pnl :: "decimal option"
  as_unrealized_pnl :: "decimal option"
  futures_permission :: "bool option"

record broker_position =
  bp_account_id :: string
  bp_con_id :: int
  bp_symbol :: string
  bp_local_symbol :: string
  bp_sec_type :: string
  bp_exchange :: string
  bp_currency :: string
  bp_quantity :: int
  bp_average_cost :: decimal

record order_snapshot =
  os_broker_order_id :: string
  os_account_id :: string
  os_con_id :: int
  os_symbol :: string
  os_side :: order_side
  os_quantity :: int
  os_order_type :: order_type
  os_status :: order_status
  os_filled_quantity :: int
  os_remaining_quantity :: int
  os_limit_price :: "decimal option"
  os_stop_price :: "decimal option"
  os_average_fill_price :: "decimal option"
  os_perm_id :: "string option"
  os_client_id :: "int option"
  os_time_in_force :: time_in_force

record broker_fill =
  bf_execution_id :: string
  bf_broker_order_id :: string
  bf_account_id :: string
  bf_con_id :: int
  bf_symbol :: string
  bf_side :: order_side
  bf_quantity :: int
  bf_price :: decimal
  bf_executed_at :: instant
  bf_commission :: "decimal option"
  bf_commission_currency :: "string option"

record tick =
  tk_contract_key :: string
  tk_received_at :: instant
  tk_source :: string
  tk_bid :: "decimal option"
  tk_ask :: "decimal option"
  tk_last :: "decimal option"
  tk_bid_size :: "int option"
  tk_ask_size :: "int option"
  tk_is_delayed :: bool

text \<open>\<^verbatim>\<open>mid\<close>: the mean of bid and ask when both are known, else the last trade.\<close>

definition mid_price :: "decimal option \<Rightarrow> decimal option \<Rightarrow> decimal option \<Rightarrow> decimal option result" where
  "mid_price bid ask trade =
     (case (bid, ask) of
        (Some b, Some a) \<Rightarrow>
          ebind (dec_add b a) (\<lambda>s. ebind (dec_div s (dec_of_int 2)) (\<lambda>m. Inr (Some m)))
      | _ \<Rightarrow> Inr trade)"

definition tick_mid :: "tick \<Rightarrow> decimal option result" where
  "tick_mid t = mid_price (tk_bid t) (tk_ask t) (tk_last t)"

record order_request =
  rq_internal_order_id :: string
  rq_correlation_id :: string
  rq_contract :: qualified_contract
  rq_side :: order_side
  rq_quantity :: int
  rq_order_type :: order_type
  rq_time_in_force :: time_in_force
  rq_limit_price :: "decimal option"
  rq_stop_price :: "decimal option"
  rq_transmit :: bool

definition make_order_request :: "order_request \<Rightarrow> order_request result" where
  "make_order_request r = (if rq_quantity r \<le> 0 then Inl ValueError else Inr r)"

record place_result =
  pr_accepted :: bool
  pr_broker_order_id :: "string option"
  pr_status :: order_status
  pr_error_code :: "string option"
  pr_error_message :: "string option"

record status_update =
  su_broker_order_id :: string
  su_status :: order_status
  su_ib_status :: string
  su_filled_quantity :: int
  su_remaining_quantity :: int
  su_average_fill_price :: "decimal option"
  su_why_held :: string
  su_received_at :: "string option"

definition su_is_terminal :: "status_update \<Rightarrow> bool" where
  "su_is_terminal u = (su_status u \<in> set [St_Filled, St_Cancelled, St_Rejected])"

definition su_is_working :: "status_update \<Rightarrow> bool" where
  "su_is_working u = (su_status u \<in> set [St_Submitted, St_Acknowledged])"

record permission_probe =
  pp_permitted :: "bool option"
  pp_detail :: string
  pp_initial_margin :: "decimal option"
  pp_maintenance_margin :: "decimal option"
  pp_commission :: "decimal option"
  pp_error_code :: "int option"
  pp_probed_at :: "string option"

lemma su_terminal_working: "\<not> (su_is_terminal u \<and> su_is_working u)"
  by (auto simp: su_is_terminal_def su_is_working_def)

section \<open>The interface\<close>

record 'b broker =
  br_connect :: "instant \<Rightarrow> ('b, connection_info) action"
  br_disconnect :: "('b, unit) action"
  br_is_connected :: "'b \<Rightarrow> bool"
  br_connection_state :: "'b \<Rightarrow> connection_state"
  br_connection_info :: "'b \<Rightarrow> connection_info"
  br_account_summary :: "instant \<Rightarrow> ('b, account_summary) action"
  br_positions :: "('b, broker_position list) action"
  br_open_orders :: "('b, order_snapshot list) action"
  br_fills :: "instant \<Rightarrow> ('b, broker_fill list) action"
  br_contract_details :: "instant \<Rightarrow> contract_spec \<Rightarrow> ('b, qualified_contract list) action"
  br_qualify :: "instant \<Rightarrow> contract_spec \<Rightarrow> ('b, qualified_contract) action"
  br_market_data :: "instant \<Rightarrow> qualified_contract \<Rightarrow> ('b, tick) action"
  br_cancel_market_data :: "qualified_contract \<Rightarrow> ('b, unit) action"
  br_place_order :: "instant \<Rightarrow> order_request \<Rightarrow> ('b, place_result) action"
  br_modify_order :: "order_request \<Rightarrow> string \<Rightarrow> ('b, place_result) action"
  br_cancel_order :: "string \<Rightarrow> ('b, bool) action"
  br_cancel_all_orders :: "('b, int) action"

text \<open>\<^verbatim>\<open>Broker.account_type\<close>.\<close>

definition broker_account_type :: "'b broker \<Rightarrow> 'b \<Rightarrow> account_type" where
  "broker_account_type B b = ci_account_type (br_connection_info B b)"

text \<open>
  The two documented rules of the interface (an account is unknown unless positively established,
  an order without the transmit flag is refused and changes nothing), and three facts its adapters
  share: being connected is the connection state, an order needs a session, and a contract the
  broker qualifies was built by its constructor.
\<close>

locale broker_interface =
  fixes is_connected :: "'b \<Rightarrow> bool"
    and connection_state :: "'b \<Rightarrow> connection_state"
    and account_type :: "'b \<Rightarrow> account_type"
    and place :: "instant \<Rightarrow> order_request \<Rightarrow> ('b, place_result) action"
    and qualify :: "instant \<Rightarrow> contract_spec \<Rightarrow> ('b, qualified_contract) action"
  assumes connected_iff: "is_connected b \<longleftrightarrow> connection_state b = Connected"
    and unknown_unless_connected: "\<not> is_connected b \<Longrightarrow> account_type b = Acct_Unknown"
    and place_refuses_untransmitted:
      "\<not> rq_transmit r \<Longrightarrow> \<exists>e. is_broker_error e \<and> place t r b = (Inl e, b)"
    and place_refuses_disconnected: "\<not> is_connected b \<Longrightarrow> \<exists>e. is_broker_error e \<and> place t r b = (Inl e, b)"
    and qualify_ok: "qualify t s b = (Inr c, b') \<Longrightarrow> qualified_ok c"
begin

text \<open>An order that changed the broker was marked for transmission over a live session.\<close>

lemma place_effect_needs_transmit:
  assumes "place t r b = (res, b')" and "b' \<noteq> b \<or> (\<exists>x. res = Inr x)"
  shows "rq_transmit r" and "is_connected b" and "connection_state b = Connected"
proof -
  show "rq_transmit r"
    using assms place_refuses_untransmitted [of r t b] by fastforce
  show "is_connected b"
    using assms place_refuses_disconnected [of b t r] by fastforce
  then show "connection_state b = Connected" by (simp add: connected_iff)
qed

lemma known_account_is_connected: "account_type b \<noteq> Acct_Unknown \<Longrightarrow> connection_state b = Connected"
  using unknown_unless_connected connected_iff by blast

end

end
