(* ===== verification/Resolver.thy ===== *)
theory Resolver
  imports BrokerModels
begin

text \<open>
  \<^verbatim>\<open>app/contracts/resolver.py\<close>: contract resolution with its cache. The state is the broker's
  together with the cache; the broker's \<^verbatim>\<open>qualify_contract\<close> is an argument.
\<close>

type_synonym contract_cache = "string \<Rightarrow> qualified_contract option"

definition build_spec :: "string \<Rightarrow> string option \<Rightarrow> contract_spec result" where
  "build_spec symbol contract_month =
     (case get_product symbol of Inl _ \<Rightarrow> Inl ContractResolutionError
      | Inr product \<Rightarrow>
          if contract_month = None \<or> contract_month = Some [] then Inl ContractResolutionError
          else ebind (product_spec product contract_month) (\<lambda>spec.
               ebind (require_orderable spec) (\<lambda>_. Inr spec)))"

definition validate_qualified :: "qualified_contract \<Rightarrow> contract_spec \<Rightarrow> unit result" where
  "validate_qualified c spec =
     (let requested = or_else (sp_last_trade_date_or_contract_month spec) []
      in if py_upper (qc_symbol c) \<noteq> py_upper (sp_symbol spec) then Inl ContractResolutionError
         else if qualified_is_continuous c then Inl ContractResolutionError
         else if con_id c \<le> 0 then Inl ContractResolutionError
         else if requested \<noteq> [] \<and> \<not> starts_with (take 6 requested) (expiration c)
         then Inl ContractResolutionError
         else Inr ())"

text \<open>
  The handlers of \<^verbatim>\<open>resolve\<close> turn every broker error and every \<^verbatim>\<open>ContractError\<close> into a
  \<^verbatim>\<open>ContractResolutionError\<close>; anything else passes through.
\<close>

definition resolution_failure :: "exn \<Rightarrow> exn" where
  "resolution_failure e =
     (if e = BrokerPermissionError then ContractResolutionError
      else if e = BrokerContractError \<or> e = ContractError then ContractResolutionError
      else if is_broker_error e then ContractResolutionError
      else e)"

definition resolve ::
  "(contract_spec \<Rightarrow> ('b, qualified_contract) action) \<Rightarrow> string \<Rightarrow> string option
     \<Rightarrow> ('b \<times> contract_cache, qualified_contract) action" where
  "resolve qualify symbol contract_month = (\<lambda>(b, cache).
     (case build_spec symbol contract_month of
        Inl e \<Rightarrow> (Inl e, (b, cache))
      | Inr spec \<Rightarrow>
          (case cache (spec_key spec) of
             Some c \<Rightarrow> (Inr c, (b, cache))
           | None \<Rightarrow>
               (case qualify spec b of
                  (Inl e, b') \<Rightarrow> (Inl (resolution_failure e), (b', cache))
                | (Inr c, b') \<Rightarrow>
                    (case validate_qualified c spec of
                       Inl e \<Rightarrow> (Inl e, (b', cache))
                     | Inr _ \<Rightarrow>
                         (Inr c, (b', cache(spec_key spec \<mapsto> c, qualified_key c \<mapsto> c))))))))"

definition list_candidates ::
  "(contract_spec \<Rightarrow> ('b, qualified_contract list) action) \<Rightarrow> string \<Rightarrow> string option
     \<Rightarrow> ('b, qualified_contract list) action" where
  "list_candidates details symbol contract_month = (\<lambda>b.
     (case get_product symbol of
        Inl _ \<Rightarrow> (Inl ContractResolutionError, b)
      | Inr product \<Rightarrow>
          (case product_spec product contract_month of
             Inl e \<Rightarrow> (Inl e, b)
           | Inr spec \<Rightarrow>
               (case details spec b of
                  (Inl e, b') \<Rightarrow> (Inl (if is_broker_error e then ContractResolutionError else e), b')
                | (Inr cs, b') \<Rightarrow> (Inr cs, b')))))"

section \<open>Requests that can be traded\<close>

definition request_spec :: "futures_product \<Rightarrow> string \<Rightarrow> contract_spec" where
  "request_spec p month =
     \<lparr> sp_symbol = fp_symbol p, sp_sec_type = Future, sp_exchange = fp_exchange p,
       sp_currency = fp_currency p, sp_last_trade_date_or_contract_month = Some month,
       sp_trading_class = Some (fp_trading_class p), sp_local_symbol = None, sp_con_id = None,
       sp_multiplier = None \<rparr>"

lemma product_spec_Some:
  assumes "get_product symbol = Inr p"
  shows "product_spec p (Some m) = Inr (request_spec p m)"
proof -
  from assms have "p = micro_solana \<or> p = solana" by (simp add: get_product_cases)
  moreover have "py_strip ''MSL'' = ''MSL''" "py_strip ''SOL'' = ''SOL''" by code_simp+
  ultimately show ?thesis
    by (auto simp: product_spec_def make_spec_def request_spec_def micro_solana_def solana_def)
qed

lemma build_spec_Inr:
  "build_spec symbol month = Inr spec \<longleftrightarrow>
     (\<exists>p m. get_product symbol = Inr p \<and> month = Some m \<and> m \<noteq> [] \<and> spec = request_spec p m)"
  by (cases month; auto simp: build_spec_def product_spec_Some require_orderable_def
      spec_is_continuous_def is_dated_def request_spec_def split: sum.splits)

text \<open>Two requests that share a cache key are the same request, and no contract key is one.\<close>

lemma spec_key_request:
  "get_product s = Inr p \<Longrightarrow> m \<noteq> [] \<Longrightarrow>
     spec_key (request_spec p m) = fp_symbol p @ '':FUT:CME:'' @ m"
  by (auto simp: get_product_cases spec_key_def request_spec_def expiry_or_def micro_solana_def
      solana_def)

lemma spec_key_inject:
  assumes "get_product s = Inr p" "m \<noteq> []" and "get_product s' = Inr p'" "m' \<noteq> []"
    and "spec_key (request_spec p m) = spec_key (request_spec p' m')"
  shows "p = p' \<and> m = m'"
  using assms by (auto simp: spec_key_request get_product_cases product_symbols)

lemma spec_key_not_qualified_key:
  "get_product s = Inr p \<Longrightarrow> m \<noteq> [] \<Longrightarrow> spec_key (request_spec p m) \<noteq> qualified_key c"
  by (auto simp: spec_key_request qualified_key_def get_product_cases product_symbols)

section \<open>What a resolved contract is\<close>

text \<open>The contract is orderable and answers the request that was made.\<close>

definition answers :: "qualified_contract \<Rightarrow> contract_spec \<Rightarrow> bool" where
  "answers c spec =
     (qualified_ok c \<and> py_upper (qc_symbol c) = py_upper (sp_symbol spec)
      \<and> starts_with (take 6 (or_else (sp_last_trade_date_or_contract_month spec) [])) (expiration c))"

definition cache_ok :: "contract_cache \<Rightarrow> bool" where
  "cache_ok cache =
     (\<forall>symbol month spec c.
        build_spec symbol month = Inr spec \<longrightarrow> cache (spec_key spec) = Some c \<longrightarrow> answers c spec)"

lemma cache_ok_empty [simp]: "cache_ok (\<lambda>k. None)"
  by (simp add: cache_ok_def)

lemma validate_qualified_answers:
  "qualified_ok c \<Longrightarrow> validate_qualified c spec = Inr u \<Longrightarrow> answers c spec"
  by (auto simp: validate_qualified_def answers_def Let_def split: if_splits)

lemma cache_ok_update:
  assumes ok: "cache_ok cache" and spec: "build_spec s m = Inr spec" and c: "answers c spec"
  shows "cache_ok (cache(spec_key spec \<mapsto> c, qualified_key c \<mapsto> c))"
  unfolding cache_ok_def
proof (intro allI impI)
  fix symbol month spec' c'
  assume spec': "build_spec symbol month = Inr spec'"
    and hit: "(cache(spec_key spec \<mapsto> c, qualified_key c \<mapsto> c)) (spec_key spec') = Some c'"
  from spec obtain p m0 where p: "get_product s = Inr p" "m0 \<noteq> []" "spec = request_spec p m0"
    unfolding build_spec_Inr by blast
  from spec' obtain p' m' where p': "get_product symbol = Inr p'" "m' \<noteq> []" "spec' = request_spec p' m'"
    unfolding build_spec_Inr by blast
  have ne: "spec_key spec' \<noteq> qualified_key c"
    unfolding p'(3) by (rule spec_key_not_qualified_key [OF p'(1,2)])
  show "answers c' spec'"
  proof (cases "spec_key spec' = spec_key spec")
    case True
    then have "spec' = spec" using spec_key_inject [OF p'(1,2) p(1,2)] p(3) p'(3) by simp
    with True hit ne c show ?thesis by simp
  next
    case False
    with hit ne have "cache (spec_key spec') = Some c'" by simp
    with ok spec' show ?thesis unfolding cache_ok_def by blast
  qed
qed

text \<open>
  For any broker whose answers were built by the contract constructor, whatever contract it
  answers with: a resolution that succeeds gives a contract that answers the request, and keeps the
  cache sound for the following ones.
\<close>

lemma resolve_sound:
  assumes qualify: "\<And>s b c b'. qualify s b = (Inr c, b') \<Longrightarrow> qualified_ok c"
    and ok: "cache_ok cache"
    and run: "resolve qualify symbol month (b, cache) = (r, (b', cache'))"
  shows "cache_ok cache' \<and>
    (\<forall>c. r = Inr c \<longrightarrow> (\<exists>spec. build_spec symbol month = Inr spec \<and> answers c spec))"
proof (cases "build_spec symbol month")
  case (Inl e)
  with run ok show ?thesis by (auto simp: resolve_def)
next
  case (Inr spec)
  show ?thesis
  proof (cases "cache (spec_key spec)")
    case (Some c)
    moreover from Some Inr ok have "answers c spec" by (auto simp: cache_ok_def)
    ultimately show ?thesis using run ok Inr by (auto simp: resolve_def)
  next
    case None
    obtain q b1 where q: "qualify spec b = (q, b1)" by fastforce
    show ?thesis
    proof (cases q)
      case (Inl e)
      with run ok Inr None q show ?thesis by (auto simp: resolve_def)
    next
      case (Inr c)
      with q qualify have c: "qualified_ok c" by blast
      show ?thesis
      proof (cases "validate_qualified c spec")
        case (Inl e)
        with run ok \<open>build_spec symbol month = Inr spec\<close> None q \<open>q = Inr c\<close> show ?thesis
          by (auto simp: resolve_def)
      next
        case (Inr u)
        with c have "answers c spec" by (rule validate_qualified_answers)
        with ok \<open>build_spec symbol month = Inr spec\<close>
        have "cache_ok (cache(spec_key spec \<mapsto> c, qualified_key c \<mapsto> c))" by (rule cache_ok_update)
        with run \<open>answers c spec\<close> Inr \<open>build_spec symbol month = Inr spec\<close> None q \<open>q = Inr c\<close>
        show ?thesis by (auto simp: resolve_def)
      qed
    qed
  qed
qed

section \<open>Properties\<close>

text \<open>
  Whatever the broker answers, a resolution that succeeds (freshly or from the cache) yields an
  orderable contract for the requested symbol whose expiration starts with the requested month, and
  keeps every cached answer of that kind; a broker answer for another symbol or month is never
  returned nor cached.
\<close>

theorem resolve_answers_request:
  assumes "\<And>s b c b'. qualify s b = (Inr c, b') \<Longrightarrow> qualified_ok c"
    and "cache_ok cache"
    and "resolve qualify symbol month (b, cache) = (r, (b', cache'))"
  shows "cache_ok cache' \<and>
    (\<forall>c. r = Inr c \<longrightarrow> (\<exists>spec. build_spec symbol month = Inr spec \<and> answers c spec))"
  using assms by (rule resolve_sound)

theorem resolve_answers_request_witness:
  "\<exists>spec. build_spec ''msl'' (Some ''202609'') = Inr spec \<and> answers sample_contract spec"
proof -
  let ?q = "\<lambda>s (b::nat). (Inr sample_contract :: qualified_contract result, Suc b)"
  have "fst (resolve ?q ''msl'' (Some ''202609'') (0, \<lambda>k. None)) = Inr sample_contract"
    by code_simp
  then obtain b' cache' where
    run: "resolve ?q ''msl'' (Some ''202609'') (0, \<lambda>k. None) = (Inr sample_contract, (b', cache'))"
    by (metis prod.collapse)
  show ?thesis
    using resolve_answers_request [OF _ cache_ok_empty run] by (simp add: sample_contract_ok)
qed

end
