(* ===== verification/Gate.thy ===== *)
theory Gate
  imports Config
begin

text \<open>
  \<^verbatim>\<open>app/safety/gate.py\<close>: the transmit gate. The reasons are the constructors of
  \<open>gate_reason\<close>, their stable strings \<open>gate_reason_value\<close>; every \<^verbatim>\<open>_check_\<close> method is a
  function to the reasons it appends.
\<close>

datatype gate_reason =
    Kill_Switch | Transmit_Not_Allowed | Mode_Is_Disabled | Live_Not_Enabled
  | Account_Type_Unknown | Mismatch_Expected_Live | Mismatch_Expected_Paper
  | Mismatch_Expected_Simulated | App_Not_Ready | Broker_Not_Connected
  | Contract_Not_Qualified | Contract_Is_Continuous | Account_Unavailable
  | Positions_Not_Reconciled | Orders_Not_Reconciled
  | Market_Data_Unavailable | Market_Data_Stale | Market_Data_In_Future
  | Market_Data_Age_Not_Configured | Market_Data_Delayed
  | Permission_Config_Not_Ready | Permission_Broker_Not_Ready | Strategy_Disabled
  | Risk_Not_Approved

fun gate_reason_value :: "gate_reason \<Rightarrow> string" where
  "gate_reason_value Kill_Switch = ''KILL_SWITCH_ENGAGED''"
| "gate_reason_value Transmit_Not_Allowed = ''ORDER_TRANSMIT_NOT_ALLOWED''"
| "gate_reason_value Mode_Is_Disabled = ''TRADING_MODE_DISABLED''"
| "gate_reason_value Live_Not_Enabled = ''LIVE_TRADING_NOT_ENABLED''"
| "gate_reason_value Account_Type_Unknown = ''BROKER_ACCOUNT_TYPE_UNKNOWN''"
| "gate_reason_value Mismatch_Expected_Live = ''ACCOUNT_TYPE_MISMATCH_EXPECTED_LIVE''"
| "gate_reason_value Mismatch_Expected_Paper = ''ACCOUNT_TYPE_MISMATCH_EXPECTED_PAPER''"
| "gate_reason_value Mismatch_Expected_Simulated = ''ACCOUNT_TYPE_MISMATCH_EXPECTED_SIMULATED''"
| "gate_reason_value App_Not_Ready = ''APPLICATION_NOT_READY''"
| "gate_reason_value Broker_Not_Connected = ''BROKER_NOT_CONNECTED''"
| "gate_reason_value Contract_Not_Qualified = ''CONTRACT_NOT_QUALIFIED''"
| "gate_reason_value Contract_Is_Continuous = ''CONTRACT_IS_CONTINUOUS_FUTURE''"
| "gate_reason_value Account_Unavailable = ''ACCOUNT_DATA_UNAVAILABLE''"
| "gate_reason_value Positions_Not_Reconciled = ''POSITIONS_NOT_RECONCILED''"
| "gate_reason_value Orders_Not_Reconciled = ''OPEN_ORDERS_NOT_RECONCILED''"
| "gate_reason_value Market_Data_Unavailable = ''MARKET_DATA_UNAVAILABLE''"
| "gate_reason_value Market_Data_Stale = ''MARKET_DATA_STALE''"
| "gate_reason_value Market_Data_In_Future = ''MARKET_DATA_TIMESTAMP_IN_FUTURE''"
| "gate_reason_value Market_Data_Age_Not_Configured = ''MARKET_DATA_MAX_AGE_NOT_CONFIGURED''"
| "gate_reason_value Market_Data_Delayed = ''MARKET_DATA_IS_DELAYED''"
| "gate_reason_value Permission_Config_Not_Ready = ''SOL_FUTURES_PERMISSION_NOT_CONFIGURED_READY''"
| "gate_reason_value Permission_Broker_Not_Ready = ''TRADING_PERMISSION_UNAVAILABLE_AT_BROKER''"
| "gate_reason_value Strategy_Disabled = ''STRATEGY_DISABLED''"
| "gate_reason_value Risk_Not_Approved = ''RISK_CHECKS_NOT_PASSED''"

record gate_context =
  gx_app_state :: application_state
  gx_connection_state :: connection_state
  gx_broker_account_type :: account_type
  gx_contract_qualified :: bool
  gx_contract_is_continuous :: bool
  gx_account_available :: bool
  gx_positions_reconciled :: bool
  gx_open_orders_reconciled :: bool
  gx_market_data_age_seconds :: "pyfloat option"
  gx_market_data_is_delayed :: bool
  gx_broker_permission_ready :: bool
  gx_strategy_enabled :: bool
  gx_risk_approved :: bool

definition default_gate_context :: gate_context where
  "default_gate_context =
     \<lparr> gx_app_state = App_Starting, gx_connection_state = Disconnected,
       gx_broker_account_type = Acct_Unknown, gx_contract_qualified = False,
       gx_contract_is_continuous = True, gx_account_available = False,
       gx_positions_reconciled = False, gx_open_orders_reconciled = False,
       gx_market_data_age_seconds = None, gx_market_data_is_delayed = True,
       gx_broker_permission_ready = False, gx_strategy_enabled = False, gx_risk_approved = False \<rparr>"

record gate_decision =
  gd_allowed :: bool
  gd_reasons :: "gate_reason list"

definition gate_reason_text :: "gate_decision \<Rightarrow> string" where
  "gate_reason_text d =
     (if gd_reasons d \<noteq> [] then gate_reason_value (hd (gd_reasons d))
      else if gd_allowed d then ''ALL_INTERLOCKS_PASSED'' else ''REJECTED'')"

definition expected_account_type :: "trading_mode \<Rightarrow> account_type option" where
  "expected_account_type mode =
     (if mode = Mode_Mock then Some Acct_Simulated
      else if mode = Mode_Paper then Some Acct_Paper
      else if mode = Mode_Live then Some Acct_Live
      else None)"

text \<open>The dictionary of mismatch reasons; the unknown type is not a key and never looked up.\<close>

fun mismatch_reason :: "account_type \<Rightarrow> gate_reason" where
  "mismatch_reason Acct_Live = Mismatch_Expected_Live"
| "mismatch_reason Acct_Paper = Mismatch_Expected_Paper"
| "mismatch_reason Acct_Simulated = Mismatch_Expected_Simulated"
| "mismatch_reason Acct_Unknown = Account_Type_Unknown"

section \<open>The interlocks\<close>

definition check_master_switches :: "config \<Rightarrow> gate_reason list" where
  "check_master_switches c =
     reason_if (cfg_kill_switch c) Kill_Switch
     @ reason_if (\<not> cfg_allow_order_transmit c) Transmit_Not_Allowed"

definition check_mode :: "config \<Rightarrow> gate_reason list" where
  "check_mode c =
     (if cfg_trading_mode c = Mode_Disabled then [Mode_Is_Disabled]
      else if cfg_trading_mode c = Mode_Live \<and> \<not> cfg_live_trading_enabled c then [Live_Not_Enabled]
      else [])"

definition check_account_identity :: "config \<Rightarrow> gate_context \<Rightarrow> gate_reason list" where
  "check_account_identity c x =
     (let observed = gx_broker_account_type x
      in if observed = Acct_Unknown then [Account_Type_Unknown]
         else (case expected_account_type (cfg_trading_mode c) of
                 None \<Rightarrow> []
               | Some expected \<Rightarrow> if observed \<noteq> expected then [mismatch_reason expected] else []))"

definition check_application_readiness :: "gate_context \<Rightarrow> gate_reason list" where
  "check_application_readiness x =
     reason_if (gx_app_state x \<noteq> App_Ready) App_Not_Ready
     @ reason_if (gx_connection_state x \<noteq> Connected) Broker_Not_Connected
     @ reason_if (\<not> gx_account_available x) Account_Unavailable"

definition check_contract :: "gate_context \<Rightarrow> gate_reason list" where
  "check_contract x =
     reason_if (\<not> gx_contract_qualified x) Contract_Not_Qualified
     @ reason_if (gx_contract_is_continuous x) Contract_Is_Continuous"

definition check_reconciliation :: "gate_context \<Rightarrow> gate_reason list" where
  "check_reconciliation x =
     reason_if (\<not> gx_positions_reconciled x) Positions_Not_Reconciled
     @ reason_if (\<not> gx_open_orders_reconciled x) Orders_Not_Reconciled"

definition check_market_data :: "config \<Rightarrow> gate_context \<Rightarrow> gate_reason list" where
  "check_market_data c x =
     (let max_age = cfg_market_data_max_age_seconds c
      in reason_if (flt_leq max_age (Flt 0)) Market_Data_Age_Not_Configured
         @ reason_if (gx_market_data_is_delayed x) Market_Data_Delayed
         @ (case gx_market_data_age_seconds x of
              None \<Rightarrow> [Market_Data_Unavailable]
            | Some age \<Rightarrow>
                if flt_less age (Flt 0) then [Market_Data_In_Future]
                else if flt_less (Flt 0) max_age \<and> flt_less max_age age then [Market_Data_Stale]
                else []))"

definition check_permissions :: "config \<Rightarrow> gate_context \<Rightarrow> gate_reason list" where
  "check_permissions c x =
     reason_if (uses_ibkr c \<and> \<not> cfg_sol_futures_permission_ready c) Permission_Config_Not_Ready
     @ reason_if (\<not> gx_broker_permission_ready x) Permission_Broker_Not_Ready"

definition check_strategy_and_risk :: "config \<Rightarrow> gate_context \<Rightarrow> gate_reason list" where
  "check_strategy_and_risk c x =
     reason_if (\<not> (strategy_enabled c \<and> gx_strategy_enabled x)) Strategy_Disabled
     @ reason_if (\<not> gx_risk_approved x) Risk_Not_Approved"

definition gate_evaluate :: "config \<Rightarrow> gate_context \<Rightarrow> gate_decision" where
  "gate_evaluate c x =
     (let reasons =
        check_master_switches c @ check_mode c @ check_account_identity c x
        @ check_application_readiness x @ check_contract x @ check_reconciliation x
        @ check_market_data c x @ check_permissions c x @ check_strategy_and_risk c x
      in \<lparr> gd_allowed = (reasons = []), gd_reasons = reasons \<rparr>)"

text \<open>
  \<^verbatim>\<open>all_reasons\<close> lists the reason constants sorted by their Python names.
\<close>

definition all_reasons :: "string list" where
  "all_reasons = map gate_reason_value
     [Mismatch_Expected_Live, Mismatch_Expected_Paper, Mismatch_Expected_Simulated,
      Account_Type_Unknown, Account_Unavailable, App_Not_Ready, Broker_Not_Connected,
      Contract_Is_Continuous, Contract_Not_Qualified, Kill_Switch, Live_Not_Enabled,
      Market_Data_Age_Not_Configured, Market_Data_Delayed, Market_Data_Stale,
      Market_Data_In_Future, Market_Data_Unavailable, Mode_Is_Disabled, Orders_Not_Reconciled,
      Permission_Broker_Not_Ready, Permission_Config_Not_Ready, Positions_Not_Reconciled,
      Risk_Not_Approved, Strategy_Disabled, Transmit_Not_Allowed]"

lemma all_reasons_complete: "gate_reason_value r \<in> set all_reasons"
  by (cases r) (simp_all add: all_reasons_def)

lemma all_reasons_distinct: "distinct all_reasons"
  by code_simp

section \<open>When each interlock fails\<close>

text \<open>The specification of the gate: one condition for every reason, independent of the others.\<close>

fun gate_fails :: "gate_reason \<Rightarrow> config \<times> gate_context \<Rightarrow> bool" where
  "gate_fails Kill_Switch (c, x) = cfg_kill_switch c"
| "gate_fails Transmit_Not_Allowed (c, x) = (\<not> cfg_allow_order_transmit c)"
| "gate_fails Mode_Is_Disabled (c, x) = (cfg_trading_mode c = Mode_Disabled)"
| "gate_fails Live_Not_Enabled (c, x) =
     (cfg_trading_mode c = Mode_Live \<and> \<not> cfg_live_trading_enabled c)"
| "gate_fails Account_Type_Unknown (c, x) = (gx_broker_account_type x = Acct_Unknown)"
| "gate_fails Mismatch_Expected_Live (c, x) =
     (cfg_trading_mode c = Mode_Live \<and> gx_broker_account_type x \<in> {Acct_Paper, Acct_Simulated})"
| "gate_fails Mismatch_Expected_Paper (c, x) =
     (cfg_trading_mode c = Mode_Paper \<and> gx_broker_account_type x \<in> {Acct_Live, Acct_Simulated})"
| "gate_fails Mismatch_Expected_Simulated (c, x) =
     (cfg_trading_mode c = Mode_Mock \<and> gx_broker_account_type x \<in> {Acct_Live, Acct_Paper})"
| "gate_fails App_Not_Ready (c, x) = (gx_app_state x \<noteq> App_Ready)"
| "gate_fails Broker_Not_Connected (c, x) = (gx_connection_state x \<noteq> Connected)"
| "gate_fails Contract_Not_Qualified (c, x) = (\<not> gx_contract_qualified x)"
| "gate_fails Contract_Is_Continuous (c, x) = gx_contract_is_continuous x"
| "gate_fails Account_Unavailable (c, x) = (\<not> gx_account_available x)"
| "gate_fails Positions_Not_Reconciled (c, x) = (\<not> gx_positions_reconciled x)"
| "gate_fails Orders_Not_Reconciled (c, x) = (\<not> gx_open_orders_reconciled x)"
| "gate_fails Market_Data_Unavailable (c, x) = (gx_market_data_age_seconds x = None)"
| "gate_fails Market_Data_In_Future (c, x) =
     (case gx_market_data_age_seconds x of None \<Rightarrow> False | Some age \<Rightarrow> flt_less age (Flt 0))"
| "gate_fails Market_Data_Stale (c, x) =
     (case gx_market_data_age_seconds x of None \<Rightarrow> False
      | Some age \<Rightarrow> \<not> flt_less age (Flt 0) \<and> flt_less (Flt 0) (cfg_market_data_max_age_seconds c)
                   \<and> flt_less (cfg_market_data_max_age_seconds c) age)"
| "gate_fails Market_Data_Age_Not_Configured (c, x) = flt_leq (cfg_market_data_max_age_seconds c) (Flt 0)"
| "gate_fails Market_Data_Delayed (c, x) = gx_market_data_is_delayed x"
| "gate_fails Permission_Config_Not_Ready (c, x) = (uses_ibkr c \<and> \<not> cfg_sol_futures_permission_ready c)"
| "gate_fails Permission_Broker_Not_Ready (c, x) = (\<not> gx_broker_permission_ready x)"
| "gate_fails Strategy_Disabled (c, x) = (\<not> (strategy_enabled c \<and> gx_strategy_enabled x))"
| "gate_fails Risk_Not_Approved (c, x) = (\<not> gx_risk_approved x)"

definition gate_reasons_of :: "config \<times> gate_context \<Rightarrow> gate_reason list" where
  "gate_reasons_of cx = gd_reasons (gate_evaluate (fst cx) (snd cx))"

definition gate_allows :: "config \<times> gate_context \<Rightarrow> bool" where
  "gate_allows cx = gd_allowed (gate_evaluate (fst cx) (snd cx))"

lemmas gate_checks = check_master_switches_def check_mode_def check_account_identity_def
  check_application_readiness_def check_contract_def check_reconciliation_def
  check_market_data_def check_permissions_def check_strategy_and_risk_def

lemma check_account_identity_set:
  "r \<in> set (check_account_identity c x) \<longleftrightarrow>
     r \<in> {Account_Type_Unknown, Mismatch_Expected_Live, Mismatch_Expected_Paper, Mismatch_Expected_Simulated}
     \<and> gate_fails r (c, x)"
  by (cases "gx_broker_account_type x"; cases "cfg_trading_mode c")
    (auto simp: check_account_identity_def expected_account_type_def)

lemma check_market_data_set:
  "r \<in> set (check_market_data c x) \<longleftrightarrow>
     r \<in> {Market_Data_Unavailable, Market_Data_Stale, Market_Data_In_Future,
           Market_Data_Age_Not_Configured, Market_Data_Delayed}
     \<and> gate_fails r (c, x)"
  by (cases "gx_market_data_age_seconds x") (auto simp: check_market_data_def Let_def)

lemma check_simple_sets:
  "r \<in> set (check_master_switches c) \<longleftrightarrow>
     r \<in> {Kill_Switch, Transmit_Not_Allowed} \<and> gate_fails r (c, x)"
  "r \<in> set (check_mode c) \<longleftrightarrow> r \<in> {Mode_Is_Disabled, Live_Not_Enabled} \<and> gate_fails r (c, x)"
  "r \<in> set (check_application_readiness x) \<longleftrightarrow>
     r \<in> {App_Not_Ready, Broker_Not_Connected, Account_Unavailable} \<and> gate_fails r (c, x)"
  "r \<in> set (check_contract x) \<longleftrightarrow>
     r \<in> {Contract_Not_Qualified, Contract_Is_Continuous} \<and> gate_fails r (c, x)"
  "r \<in> set (check_reconciliation x) \<longleftrightarrow>
     r \<in> {Positions_Not_Reconciled, Orders_Not_Reconciled} \<and> gate_fails r (c, x)"
  "r \<in> set (check_permissions c x) \<longleftrightarrow>
     r \<in> {Permission_Config_Not_Ready, Permission_Broker_Not_Ready} \<and> gate_fails r (c, x)"
  "r \<in> set (check_strategy_and_risk c x) \<longleftrightarrow>
     r \<in> {Strategy_Disabled, Risk_Not_Approved} \<and> gate_fails r (c, x)"
  by (auto simp: gate_checks)

lemma gate_reasons_covered:
  "r \<in> {Kill_Switch, Transmit_Not_Allowed} \<union> {Mode_Is_Disabled, Live_Not_Enabled}
     \<union> {Account_Type_Unknown, Mismatch_Expected_Live, Mismatch_Expected_Paper, Mismatch_Expected_Simulated}
     \<union> {App_Not_Ready, Broker_Not_Connected, Account_Unavailable}
     \<union> {Contract_Not_Qualified, Contract_Is_Continuous}
     \<union> {Positions_Not_Reconciled, Orders_Not_Reconciled}
     \<union> {Market_Data_Unavailable, Market_Data_Stale, Market_Data_In_Future,
        Market_Data_Age_Not_Configured, Market_Data_Delayed}
     \<union> {Permission_Config_Not_Ready, Permission_Broker_Not_Ready}
     \<union> {Strategy_Disabled, Risk_Not_Approved}"
  by (cases r) simp_all

lemma gate_reasons_iff: "r \<in> set (gd_reasons (gate_evaluate c x)) \<longleftrightarrow> gate_fails r (c, x)"
  unfolding gate_evaluate_def Let_def gate_decision.simps set_append Un_iff
    check_account_identity_set check_market_data_set
    check_simple_sets(1,2) [where x = x] check_simple_sets(3-5) [where c = c] check_simple_sets(6,7)
  using gate_reasons_covered [of r] unfolding Un_iff by argo

interpretation gate: approver gate_allows gate_reasons_of gate_fails
proof
  fix cx :: "config \<times> gate_context" and r :: gate_reason
  show "gate_allows cx \<longleftrightarrow> gate_reasons_of cx = []"
    by (simp add: gate_allows_def gate_reasons_of_def gate_evaluate_def Let_def)
  show "r \<in> set (gate_reasons_of cx) \<longleftrightarrow> gate_fails r cx"
    using gate_reasons_iff [of r "fst cx" "snd cx"] by (simp add: gate_reasons_of_def)
qed

text \<open>The condition under which the gate lets an order through, written out.\<close>

definition fresh_enough :: "config \<Rightarrow> pyfloat option \<Rightarrow> bool" where
  "fresh_enough c age =
     (case age of None \<Rightarrow> False
      | Some a \<Rightarrow> \<not> flt_less a (Flt 0) \<and> \<not> flt_less (cfg_market_data_max_age_seconds c) a)"

lemma flt_leq_zero_cases: "flt_finite m \<Longrightarrow> \<not> flt_leq m (Flt 0) \<longleftrightarrow> flt_less (Flt 0) m"
  by (cases m) auto

lemma gate_allowed_exact:
  assumes "flt_finite (cfg_market_data_max_age_seconds c)"
  shows "gd_allowed (gate_evaluate c x) \<longleftrightarrow>
     \<not> cfg_kill_switch c \<and> cfg_allow_order_transmit c
     \<and> expected_account_type (cfg_trading_mode c) = Some (gx_broker_account_type x)
     \<and> (cfg_trading_mode c = Mode_Live \<longrightarrow> cfg_live_trading_enabled c)
     \<and> gx_app_state x = App_Ready \<and> gx_connection_state x = Connected \<and> gx_account_available x
     \<and> gx_contract_qualified x \<and> \<not> gx_contract_is_continuous x
     \<and> gx_positions_reconciled x \<and> gx_open_orders_reconciled x
     \<and> flt_less (Flt 0) (cfg_market_data_max_age_seconds c) \<and> \<not> gx_market_data_is_delayed x
     \<and> fresh_enough c (gx_market_data_age_seconds x)
     \<and> (uses_ibkr c \<longrightarrow> cfg_sol_futures_permission_ready c) \<and> gx_broker_permission_ready x
     \<and> strategy_enabled c \<and> gx_strategy_enabled x \<and> gx_risk_approved x"
    (is "?allowed \<longleftrightarrow> ?all")
proof -
  have account: "check_mode c = [] \<and> check_account_identity c x = [] \<longleftrightarrow>
      expected_account_type (cfg_trading_mode c) = Some (gx_broker_account_type x)
      \<and> (cfg_trading_mode c = Mode_Live \<longrightarrow> cfg_live_trading_enabled c)"
    by (cases "cfg_trading_mode c")
      (auto simp: check_mode_def check_account_identity_def expected_account_type_def Let_def)
  have market: "check_market_data c x = [] \<longleftrightarrow>
      flt_less (Flt 0) (cfg_market_data_max_age_seconds c) \<and> \<not> gx_market_data_is_delayed x
      \<and> fresh_enough c (gx_market_data_age_seconds x)"
    using flt_leq_zero_cases [OF assms]
    by (auto simp: check_market_data_def fresh_enough_def Let_def split: option.splits)
  have "?allowed \<longleftrightarrow> check_master_switches c = [] \<and> (check_mode c = [] \<and> check_account_identity c x = [])
      \<and> check_application_readiness x = [] \<and> check_contract x = [] \<and> check_reconciliation x = []
      \<and> check_market_data c x = [] \<and> check_permissions c x = [] \<and> check_strategy_and_risk c x = []"
    by (simp add: gate_evaluate_def Let_def)
  then show ?thesis
    unfolding account market
    by (simp add: check_master_switches_def check_application_readiness_def check_contract_def
        check_reconciliation_def check_permissions_def check_strategy_and_risk_def)
qed

text \<open>The consequences the other components use.\<close>

lemma gate_allowed_connected:
  "gd_allowed (gate_evaluate c x) \<Longrightarrow>
     gx_connection_state x = Connected \<and> gx_app_state x = App_Ready
     \<and> \<not> cfg_kill_switch c \<and> cfg_allow_order_transmit c"
  using gate.failing_refuses [of Broker_Not_Connected "(c, x)"] gate.failing_refuses [of App_Not_Ready "(c, x)"]
    gate.failing_refuses [of Kill_Switch "(c, x)"] gate.failing_refuses [of Transmit_Not_Allowed "(c, x)"]
  by (auto simp: gate_allows_def)

section \<open>Properties\<close>

definition armed_config :: config where
  "armed_config = default_config
     \<lparr> cfg_trading_mode := Mode_Paper, cfg_allow_order_transmit := True, cfg_kill_switch := False,
       cfg_sol_futures_permission_ready := True, cfg_market_data_max_age_seconds := Flt 5 \<rparr>"

definition ready_context :: gate_context where
  "ready_context =
     \<lparr> gx_app_state = App_Ready, gx_connection_state = Connected,
       gx_broker_account_type = Acct_Paper, gx_contract_qualified = True,
       gx_contract_is_continuous = False, gx_account_available = True,
       gx_positions_reconciled = True, gx_open_orders_reconciled = True,
       gx_market_data_age_seconds = Some (Flt 1), gx_market_data_is_delayed = False,
       gx_broker_permission_ready = True, gx_strategy_enabled = True, gx_risk_approved = True \<rparr>"

text \<open>
  C30: The gate allows an order exactly when every interlock holds: kill switch off, transmission
  allowed, the observed account is the one the mode may trade (and live mode has its flag), the
  application is ready over a live session with account data, the contract is qualified and not
  continuous, positions and orders are reconciled, the quote is real-time and within a configured
  positive age, permission is declared (for IBKR) and reported, the strategy is enabled on both
  sides and risk approved.
\<close>

theorem gate_allows_iff_every_interlock:
  assumes "flt_finite (cfg_market_data_max_age_seconds c)"
  shows "gd_allowed (gate_evaluate c x) \<longleftrightarrow>
     \<not> cfg_kill_switch c \<and> cfg_allow_order_transmit c
     \<and> expected_account_type (cfg_trading_mode c) = Some (gx_broker_account_type x)
     \<and> (cfg_trading_mode c = Mode_Live \<longrightarrow> cfg_live_trading_enabled c)
     \<and> gx_app_state x = App_Ready \<and> gx_connection_state x = Connected \<and> gx_account_available x
     \<and> gx_contract_qualified x \<and> \<not> gx_contract_is_continuous x
     \<and> gx_positions_reconciled x \<and> gx_open_orders_reconciled x
     \<and> flt_less (Flt 0) (cfg_market_data_max_age_seconds c) \<and> \<not> gx_market_data_is_delayed x
     \<and> fresh_enough c (gx_market_data_age_seconds x)
     \<and> (uses_ibkr c \<longrightarrow> cfg_sol_futures_permission_ready c) \<and> gx_broker_permission_ready x
     \<and> strategy_enabled c \<and> gx_strategy_enabled x \<and> gx_risk_approved x"
  using assms by (rule gate_allowed_exact)

theorem gate_allows_iff_every_interlock_witness:
  "gd_allowed (gate_evaluate armed_config ready_context)"
proof -
  have "flt_finite (cfg_market_data_max_age_seconds armed_config)" by (simp add: armed_config_def)
  from gate_allows_iff_every_interlock [OF this, of ready_context] show ?thesis
    by (simp add: armed_config_def ready_context_def default_config_def uses_ibkr_def
        uses_ibkr_mode_def expected_account_type_def fresh_enough_def)
qed

text \<open>
  Every refusal is complete and honest: a reason is listed exactly when its own condition
  fails, whatever the other conditions are, and the order is allowed exactly when none is listed.
\<close>

theorem gate_reasons_complete:
  "(r \<in> set (gd_reasons (gate_evaluate c x)) \<longleftrightarrow> gate_fails r (c, x))
   \<and> (gd_allowed (gate_evaluate c x) \<longleftrightarrow> (\<forall>q. \<not> gate_fails q (c, x)))"
  using gate_reasons_iff gate.approves_iff_none_fails [of "(c, x)"] by (simp add: gate_allows_def)

text \<open>
  A context left at its defaults is refused under every configuration, and the default
  configuration refuses every context: forgetting to fill in a field never permits.
\<close>

theorem gate_defaults_refuse:
  "\<not> gd_allowed (gate_evaluate c default_gate_context)
   \<and> {App_Not_Ready, Broker_Not_Connected, Account_Type_Unknown, Account_Unavailable,
       Contract_Not_Qualified, Contract_Is_Continuous, Positions_Not_Reconciled,
       Orders_Not_Reconciled, Market_Data_Unavailable, Market_Data_Delayed,
       Permission_Broker_Not_Ready, Strategy_Disabled, Risk_Not_Approved}
     \<subseteq> set (gd_reasons (gate_evaluate c default_gate_context))
   \<and> \<not> gd_allowed (gate_evaluate default_config x)"
proof (intro conjI)
  show "\<not> gd_allowed (gate_evaluate c default_gate_context)"
    using gate.failing_refuses [of App_Not_Ready "(c, default_gate_context)"]
    by (simp add: gate_allows_def default_gate_context_def)
  show "\<not> gd_allowed (gate_evaluate default_config x)"
    using gate.failing_refuses [of Kill_Switch "(default_config, x)"]
    by (simp add: gate_allows_def default_config_def)
qed (auto simp: gate_reasons_iff default_gate_context_def)

end
