(* ===== verification/KillSwitch.thy ===== *)
theory KillSwitch
  imports Prelude
begin

text \<open>
  \<^verbatim>\<open>app/safety/killswitch.py\<close>: the configured switch joined with the durable latch. The store
  is an argument, as in the code: no store at all, or its two operations. The protocol
  \<^verbatim>\<open>StateStore\<close> is the locale \<open>state_store\<close>; the state repository interprets it.
\<close>

definition kill_switch_state_key :: string where
  "kill_switch_state_key = ''kill_switch_latched''"

definition kill_switch_reason_key :: string where
  "kill_switch_reason_key = ''kill_switch_reason''"

definition kill_switch_engaged_at_key :: string where
  "kill_switch_engaged_at_key = ''kill_switch_engaged_at''"

type_synonym 's get_op = "string \<Rightarrow> ('s, string option) action"
type_synonym 's set_op = "string \<Rightarrow> string \<Rightarrow> ('s, unit) action"

definition ks_latched :: "'s get_op option \<Rightarrow> ('s, bool) action" where
  "ks_latched store =
     (case store of None \<Rightarrow> sreturn False
      | Some get_state \<Rightarrow> sbind (get_state kill_switch_state_key) (\<lambda>v. sreturn (v = Some ''true'')))"

definition ks_engaged :: "bool \<Rightarrow> 's get_op option \<Rightarrow> ('s, bool) action" where
  "ks_engaged config_engaged store =
     (if config_engaged then sreturn True
      else (\<lambda>s. case ks_latched store s of (Inl e, s') \<Rightarrow> (Inr True, s') | (Inr b, s') \<Rightarrow> (Inr b, s')))"

definition ks_engage :: "'s set_op option \<Rightarrow> string \<Rightarrow> string \<Rightarrow> ('s, unit) action" where
  "ks_engage store reason engaged_at =
     (case store of None \<Rightarrow> sraise RuntimeError
      | Some set_state \<Rightarrow>
          sbind (set_state kill_switch_state_key ''true'') (\<lambda>_.
          sbind (set_state kill_switch_reason_key reason) (\<lambda>_.
          set_state kill_switch_engaged_at_key engaged_at)))"

record ks_description =
  kd_engaged :: bool
  kd_config_engaged :: bool
  kd_latched :: bool
  kd_reason :: "string option"
  kd_engaged_at :: "string option"

text \<open>
  \<^verbatim>\<open>describe\<close>: the reads may fail one by one; a failed latch read shows as latched.
\<close>

definition ks_detail :: "'s get_op option \<Rightarrow> 's \<Rightarrow> (string option \<times> string option) \<times> 's" where
  "ks_detail store s =
     (case store of None \<Rightarrow> ((None, None), s)
      | Some get_state \<Rightarrow>
          (case get_state kill_switch_reason_key s of
             (Inl e, s1) \<Rightarrow> ((Some ''state_store_unreadable'', None), s1)
           | (Inr reason, s1) \<Rightarrow>
               (case get_state kill_switch_engaged_at_key s1 of
                  (Inl e, s2) \<Rightarrow> ((Some ''state_store_unreadable'', None), s2)
                | (Inr at_time, s2) \<Rightarrow> ((reason, at_time), s2))))"

definition ks_describe :: "bool \<Rightarrow> 's get_op option \<Rightarrow> ('s, ks_description) action" where
  "ks_describe config_engaged store = (\<lambda>s.
     let (latched, s1) = (case ks_latched store s of (Inl e, t) \<Rightarrow> (True, t) | (Inr b, t) \<Rightarrow> (b, t));
         ((reason, at_time), s2) = ks_detail store s1
     in sbind (ks_engaged config_engaged store) (\<lambda>e. sreturn
          \<lparr> kd_engaged = e, kd_config_engaged = config_engaged, kd_latched = latched,
            kd_reason = reason, kd_engaged_at = at_time \<rparr>) s2)"

section \<open>The store it relies on\<close>

text \<open>
  \<open>view\<close> is the content of the store. A read returns the content and leaves it alone, a
  write that returns has stored its value, and a write that raises has stored nothing.
\<close>

locale state_store =
  fixes get_state :: "'s get_op" and set_state :: "'s set_op" and view :: "'s \<Rightarrow> string \<Rightarrow> string option"
  assumes get_value: "get_state k s = (Inr v, s') \<Longrightarrow> v = view s k"
    and get_frame: "get_state k s = (r, s') \<Longrightarrow> view s' = view s"
    and set_value: "set_state k w s = (Inr u, s') \<Longrightarrow> view s' = (view s)(k := Some w)"
    and set_frame: "set_state k w s = (Inl e, s') \<Longrightarrow> view s' = view s"
begin

definition latch_set :: "'s \<Rightarrow> bool" where
  "latch_set s = (view s kill_switch_state_key = Some ''true'')"

lemma engaged_returns: "\<exists>b s'. ks_engaged c (Some get_state) s = (Inr b, s')"
  by (auto simp: ks_engaged_def split: prod.splits sum.splits)

lemma latched_value: "ks_latched (Some get_state) s = (Inr b, s') \<Longrightarrow> b = latch_set s"
  by (auto simp: ks_latched_def latch_set_def elim!: sbind_InrE dest: get_value)

text \<open>Reported as not engaged only if both sources were read and neither was engaged.\<close>

lemma not_engaged_means:
  "ks_engaged c (Some get_state) s = (Inr False, s') \<Longrightarrow> \<not> c \<and> \<not> latch_set s"
  by (auto simp: ks_engaged_def dest: latched_value split: if_splits prod.splits sum.splits)

lemma engaged_frame: "ks_engaged c (Some get_state) s = (r, s') \<Longrightarrow> view s' = view s"
  by (auto simp: ks_engaged_def ks_latched_def sbind_def dest: get_frame
      split: if_splits prod.splits sum.splits)

lemma set_keeps_latch:
  assumes "set_state k v s = (r, s')" and "latch_set s"
    and "k \<noteq> kill_switch_state_key \<or> v = ''true''"
  shows "latch_set s'"
  using assms set_value [of k v s] set_frame [of k v s] by (cases r) (auto simp: latch_set_def)

lemma other_keys: "kill_switch_reason_key \<noteq> kill_switch_state_key"
    "kill_switch_engaged_at_key \<noteq> kill_switch_state_key"
  by (simp_all add: kill_switch_reason_key_def kill_switch_state_key_def kill_switch_engaged_at_key_def)

lemma engage_keeps_latch:
  assumes "ks_engage (Some set_state) reason at_time s = (r, s')" and "latch_set s"
  shows "latch_set s'"
proof -
  obtain r1 s1 where 1: "set_state kill_switch_state_key ''true'' s = (r1, s1)" by fastforce
  then have l1: "latch_set s1" using assms(2) by (rule set_keeps_latch) simp
  obtain r2 s2 where 2: "set_state kill_switch_reason_key reason s1 = (r2, s2)" by fastforce
  then have l2: "latch_set s2" using l1 by (rule set_keeps_latch) (simp add: other_keys)
  obtain r3 s3 where 3: "set_state kill_switch_engaged_at_key at_time s2 = (r3, s3)" by fastforce
  then have l3: "latch_set s3" using l2 by (rule set_keeps_latch) (simp add: other_keys)
  from assms(1) l1 l2 l3 1 2 3 show ?thesis
    by (auto simp: ks_engage_def sbind_def split: sum.splits)
qed

text \<open>
  The latch is the first thing engaging writes: it is set after every return, and after every
  exception but one of that first write.
\<close>

lemma engage_latches:
  assumes "ks_engage (Some set_state) reason at_time s = (Inr u, s')"
  shows "latch_set s'"
proof -
  from assms obtain u1 s1 u2 s2 where
      1: "set_state kill_switch_state_key ''true'' s = (Inr u1, s1)"
      and 2: "set_state kill_switch_reason_key reason s1 = (Inr u2, s2)"
      and 3: "set_state kill_switch_engaged_at_key at_time s2 = (Inr u, s')"
    by (auto simp: ks_engage_def elim!: sbind_InrE)
  from 1 have "latch_set s1" by (auto simp: latch_set_def dest: set_value)
  with 2 have "latch_set s2"
    by (rule set_keeps_latch) (simp add: other_keys)
  with 3 show ?thesis
    by (rule set_keeps_latch) (simp add: other_keys)
qed

lemma engage_then_engaged:
  assumes "ks_engage (Some set_state) reason at_time s = (Inr u, s')"
  shows "fst (ks_engaged c (Some get_state) s') = Inr True"
  using engage_latches [OF assms] engaged_returns [of c s'] not_engaged_means [of c s']
  by (metis (full_types) fst_conv)

end

lemma engage_needs_store: "ks_engage None reason at_time s = (Inl RuntimeError, s)"
  by (simp add: ks_engage_def)

end
