(* ===== verification/Posture.thy ===== *)
theory Posture
  imports Gate
begin

text \<open>
  \<^verbatim>\<open>app/safety/posture.py\<close>: the deployment posture check. The explanatory text of a check is
  left out. A limit is compared with zero through its decimal rendering, which reads back as the
  limit itself.
\<close>

datatype limit_value = Lim_Int int | Lim_Dec decimal

definition as_dict :: "risk_limits \<Rightarrow> (string \<times> limit_value) list" where
  "as_dict r =
     [(''MAX_POSITION_CONTRACTS'', Lim_Int (max_position_contracts r)),
      (''MAX_ORDER_SIZE'', Lim_Int (max_order_size r)),
      (''MAX_DAILY_LOSS_USD'', Lim_Dec (max_daily_loss_usd r)),
      (''MAX_ORDERS_PER_HOUR'', Lim_Int (max_orders_per_hour r)),
      (''MAX_OPEN_ORDERS'', Lim_Int (max_open_orders r)),
      (''MAX_NOTIONAL_EXPOSURE_USD'', Lim_Dec (max_notional_exposure_usd r))]"

fun is_zero :: "limit_value option \<Rightarrow> bool" where
  "is_zero None = False"
| "is_zero (Some (Lim_Int i)) = dec_eq (dec_of_int i) dec_zero"
| "is_zero (Some (Lim_Dec d)) = dec_eq d dec_zero"

record posture_check =
  pc_name :: string
  pc_ok :: bool

definition approved_zero_limits :: "string list" where
  "approved_zero_limits =
     [''MAX_POSITION_CONTRACTS'', ''MAX_ORDER_SIZE'', ''MAX_DAILY_LOSS_USD'',
      ''MAX_ORDERS_PER_HOUR'', ''MAX_OPEN_ORDERS'', ''MAX_NOTIONAL_EXPOSURE_USD'']"

definition interlock_checks :: "config \<Rightarrow> bool \<Rightarrow> posture_check list" where
  "interlock_checks c kill_switch_engaged =
     [\<lparr> pc_name = ''TRADING_MODE'', pc_ok = (cfg_trading_mode c = Mode_Mock) \<rparr>,
      \<lparr> pc_name = ''ALLOW_ORDER_TRANSMIT'', pc_ok = (cfg_allow_order_transmit c = False) \<rparr>,
      \<lparr> pc_name = ''LIVE_TRADING_ENABLED'', pc_ok = (cfg_live_trading_enabled c = False) \<rparr>,
      \<lparr> pc_name = ''KILL_SWITCH'', pc_ok = (kill_switch_engaged = True) \<rparr>,
      \<lparr> pc_name = ''SOL_FUTURES_PERMISSION_READY'',
        pc_ok = (cfg_sol_futures_permission_ready c = False) \<rparr>]"

definition approved_interlocks :: "string list" where
  "approved_interlocks =
     [''TRADING_MODE'', ''ALLOW_ORDER_TRANSMIT'', ''LIVE_TRADING_ENABLED'', ''KILL_SWITCH'',
      ''SOL_FUTURES_PERMISSION_READY'']"

definition expected_check_names :: "string list" where
  "expected_check_names = approved_interlocks @ approved_zero_limits @ [''CAN_TRANSMIT_LIVE_ORDERS'']"

definition can_transmit_live :: "config \<Rightarrow> bool \<Rightarrow> bool" where
  "can_transmit_live c kill_switch_engaged =
     (cfg_trading_mode c = Mode_Live \<and> cfg_live_trading_enabled c \<and> cfg_allow_order_transmit c
      \<and> \<not> kill_switch_engaged)"

definition evaluate_posture :: "config \<Rightarrow> bool \<Rightarrow> posture_check list" where
  "evaluate_posture c kill_switch_engaged =
     interlock_checks c kill_switch_engaged
     @ map (\<lambda>name. \<lparr> pc_name = name, pc_ok = is_zero (map_of (as_dict (cfg_risk c)) name) \<rparr>)
         approved_zero_limits
     @ [\<lparr> pc_name = ''CAN_TRANSMIT_LIVE_ORDERS'', pc_ok = (\<not> can_transmit_live c kill_switch_engaged) \<rparr>]"

definition posture_is_approved :: "posture_check list \<Rightarrow> bool" where
  "posture_is_approved checks =
     (set (map pc_name checks) = set expected_check_names \<and> list_all pc_ok checks)"

definition failing_checks :: "posture_check list \<Rightarrow> posture_check list" where
  "failing_checks checks = filter (\<lambda>k. \<not> pc_ok k) checks"

lemma posture_names: "map pc_name (evaluate_posture c k) = expected_check_names"
  by (simp add: evaluate_posture_def interlock_checks_def expected_check_names_def
      approved_interlocks_def comp_def)

lemma posture_approved_failing:
  "posture_is_approved (evaluate_posture c k) \<longleftrightarrow> failing_checks (evaluate_posture c k) = []"
  by (simp add: posture_is_approved_def posture_names failing_checks_def filter_empty_conv list_all_iff
      flip: set_map)

interpretation posture: approver
  "\<lambda>ck. posture_is_approved (evaluate_posture (fst ck) (snd ck))"
  "\<lambda>ck. failing_checks (evaluate_posture (fst ck) (snd ck))"
  "\<lambda>k ck. k \<in> set (evaluate_posture (fst ck) (snd ck)) \<and> \<not> pc_ok k"
  by unfold_locales (auto simp: posture_approved_failing failing_checks_def)

lemma posture_approved_exact:
  "posture_is_approved (evaluate_posture c k) \<longleftrightarrow>
     cfg_trading_mode c = Mode_Mock \<and> \<not> cfg_allow_order_transmit c \<and> \<not> cfg_live_trading_enabled c
     \<and> k \<and> \<not> cfg_sol_futures_permission_ready c
     \<and> max_position_contracts (cfg_risk c) = 0 \<and> max_order_size (cfg_risk c) = 0
     \<and> dec_eq (max_daily_loss_usd (cfg_risk c)) dec_zero \<and> max_orders_per_hour (cfg_risk c) = 0
     \<and> max_open_orders (cfg_risk c) = 0 \<and> dec_eq (max_notional_exposure_usd (cfg_risk c)) dec_zero"
  unfolding posture_approved_failing
  by (simp add: failing_checks_def evaluate_posture_def interlock_checks_def approved_zero_limits_def
      as_dict_def can_transmit_live_def dec_of_int_def aligned_def)

text \<open>
  The posture check approves exactly the approved deployment (mock mode, transmission and
  live flag off, effective kill switch on, permission undeclared, all six limits zero), and a
  deployment it approves cannot transmit: the gate refuses every context under it.
\<close>

theorem posture_approves_exactly_the_safe_deployment:
  "(posture_is_approved (evaluate_posture c k) \<longleftrightarrow>
     cfg_trading_mode c = Mode_Mock \<and> \<not> cfg_allow_order_transmit c \<and> \<not> cfg_live_trading_enabled c
     \<and> k \<and> \<not> cfg_sol_futures_permission_ready c
     \<and> max_position_contracts (cfg_risk c) = 0 \<and> max_order_size (cfg_risk c) = 0
     \<and> dec_eq (max_daily_loss_usd (cfg_risk c)) dec_zero \<and> max_orders_per_hour (cfg_risk c) = 0
     \<and> max_open_orders (cfg_risk c) = 0 \<and> dec_eq (max_notional_exposure_usd (cfg_risk c)) dec_zero)
   \<and> \<not> (posture_is_approved (evaluate_posture c k) \<and> gd_allowed (gate_evaluate c x))"
  using gate_allowed_connected [of c x] by (auto simp: posture_approved_exact)

text \<open>
  The verdict fails closed on what it is given: an empty list, a list lacking any expected
  check, one with an unknown check, or one with a failing check is never approved.
\<close>

theorem posture_rejects_incomplete:
  "\<not> posture_is_approved []
   \<and> (posture_is_approved checks \<longrightarrow>
        (\<forall>name \<in> set expected_check_names. \<exists>k \<in> set checks. pc_name k = name \<and> pc_ok k)
        \<and> (\<forall>k \<in> set checks. pc_name k \<in> set expected_check_names \<and> pc_ok k))"
proof (intro conjI impI)
  show "\<not> posture_is_approved []"
    by (simp add: posture_is_approved_def expected_check_names_def)
next
  assume ok: "posture_is_approved checks"
  then have names: "pc_name ` set checks = set expected_check_names" and all: "\<forall>k \<in> set checks. pc_ok k"
    by (simp_all add: posture_is_approved_def list_all_iff)
  show "\<forall>name \<in> set expected_check_names. \<exists>k \<in> set checks. pc_name k = name \<and> pc_ok k"
  proof
    fix name assume "name \<in> set expected_check_names"
    with names obtain k where "k \<in> set checks" "name = pc_name k" by (metis imageE)
    with all show "\<exists>k \<in> set checks. pc_name k = name \<and> pc_ok k" by blast
  qed
  show "\<forall>k \<in> set checks. pc_name k \<in> set expected_check_names \<and> pc_ok k"
    using names all by blast
qed

theorem posture_rejects_incomplete_witness:
  "\<exists>k \<in> set (evaluate_posture (default_config \<lparr> cfg_trading_mode := Mode_Mock \<rparr>) True).
     pc_name k = ''KILL_SWITCH'' \<and> pc_ok k"
proof -
  have "posture_is_approved (evaluate_posture (default_config \<lparr> cfg_trading_mode := Mode_Mock \<rparr>) True)"
    by code_simp
  moreover have "''KILL_SWITCH'' \<in> set expected_check_names" by code_simp
  ultimately show ?thesis using posture_rejects_incomplete by blast
qed

end
