(* ===== verification/Signals.thy ===== *)
theory Signals
  imports Config TimeUtils
begin

text \<open>
  \<^verbatim>\<open>app/signals\<close>: trade intents with the checks of their constructor, the idempotency key of
  the order an intent asks for, and the signal validator with its set of seen intent ids. The
  opaque metadata dictionary of an intent is left out. The clock is an argument.
\<close>

section \<open>Intents\<close>

record intent =
  in_strategy_name :: string
  in_symbol :: string
  in_direction :: direction
  requested_position :: int
  in_created_at :: instant
  intent_id :: string
  in_correlation_id :: "string option"
  confidence :: "pyfloat option"
  in_contract_key :: "string option"

definition check_direction_consistency :: "direction \<Rightarrow> int \<Rightarrow> unit result" where
  "check_direction_consistency d target =
     (if d = Long \<and> target \<le> 0 then Inl SignalError
      else if d = Short \<and> target \<ge> 0 then Inl SignalError
      else if d = Flat \<and> target \<noteq> 0 then Inl SignalError
      else Inr ())"

definition confidence_out_of_range :: "pyfloat option \<Rightarrow> bool" where
  "confidence_out_of_range x =
     (case x of None \<Rightarrow> False | Some f \<Rightarrow> \<not> (flt_leq (Flt 0) f \<and> flt_leq f (Flt 1)))"

text \<open>
  The constructor. The creation time is the one argument that is validated into another type, so it
  is passed beside the record, whose own time field it replaces.
\<close>

definition make_intent :: "intent \<Rightarrow> datetime \<Rightarrow> intent result" where
  "make_intent i created_at =
     ebind (guard_raise (py_strip (in_strategy_name i) = []) SignalError) (\<lambda>_.
     ebind (guard_raise (py_strip (in_symbol i) = []) SignalError) (\<lambda>_.
     ebind (ensure_utc created_at) (\<lambda>t.
     ebind (guard_raise (confidence_out_of_range (confidence i)) SignalError) (\<lambda>_.
     ebind (check_direction_consistency (in_direction i) (requested_position i)) (\<lambda>_.
       Inr (i \<lparr> in_created_at := t \<rparr>))))))"

definition requires_order_from :: "intent \<Rightarrow> int \<Rightarrow> bool" where
  "requires_order_from i current_position = (requested_position i \<noteq> current_position)"

definition intent_parts :: "intent \<Rightarrow> int \<Rightarrow> (string \<times> string) list" where
  "intent_parts i con_id =
     [(''intent_id'', intent_id i), (''strategy'', in_strategy_name i), (''con_id'', int_str con_id),
      (''target'', int_str (requested_position i))]"

definition intent_idempotency_key :: "(string \<Rightarrow> string) \<Rightarrow> intent \<Rightarrow> int \<Rightarrow> string result" where
  "intent_idempotency_key H i con_id = idempotency_key H (intent_parts i con_id)"

text \<open>What the constructor guarantees.\<close>

fun direction_agrees :: "direction \<Rightarrow> int \<Rightarrow> bool" where
  "direction_agrees Long target = (target > 0)"
| "direction_agrees Short target = (target < 0)"
| "direction_agrees Flat target = (target = 0)"

definition intent_ok :: "intent \<Rightarrow> bool" where
  "intent_ok i =
     (py_strip (in_strategy_name i) \<noteq> [] \<and> py_strip (in_symbol i) \<noteq> []
      \<and> \<not> confidence_out_of_range (confidence i)
      \<and> direction_agrees (in_direction i) (requested_position i))"

lemma check_direction_iff: "check_direction_consistency d t = Inr u \<longleftrightarrow> direction_agrees d t"
  by (cases d) (auto simp: check_direction_consistency_def not_le)

lemma make_intent_Inr:
  "make_intent i created_at = Inr j \<longleftrightarrow>
     (\<exists>t. created_at = Aware t \<and> j = i \<lparr> in_created_at := t \<rparr> \<and> intent_ok i)"
  by (cases created_at)
    (auto simp: make_intent_def intent_ok_def ebind_eq_Inr check_direction_iff)

lemma make_intent_ok: "make_intent i created_at = Inr j \<Longrightarrow> intent_ok j"
  by (auto simp: make_intent_Inr intent_ok_def)

section \<open>The key of an intent\<close>

lemma canonical_intent:
  "canonical (intent_parts i c) =
     ''con_id='' @ int_str c @ ''|intent_id='' @ intent_id i @ ''|strategy='' @ in_strategy_name i
     @ ''|target='' @ int_str (requested_position i)"
proof -
  have "sort_key fst (intent_parts i c) =
      [(''con_id'', int_str c), (''intent_id'', intent_id i), (''strategy'', in_strategy_name i),
       (''target'', int_str (requested_position i))]"
    by (simp add: intent_parts_def less_list_code less_eq_list_code)
  then show ?thesis by (simp add: canonical_def canonical_part_def)
qed

lemma int_str_no_bar: "CHR ''|'' \<notin> set (int_str i)"
proof -
  have "\<not> is_digit (CHR ''|'')" by code_simp
  then have "CHR ''|'' \<notin> set (nat_digits n)" if "0 \<le> n" for n
    using nat_digits_all_digits [OF that] by (auto simp: list_all_iff)
  then show ?thesis by (simp add: int_str_def)
qed

lemma append_last_sep:
  assumes "x @ c # u = y @ c # v" and "c \<notin> set u" and "c \<notin> set v"
  shows "x = y \<and> u = v"
proof -
  from assms(1) have "rev u @ c # rev x = rev v @ c # rev y"
    by (metis append.assoc append_Cons append_Nil rev.simps(2) rev_append rev_rev_ident)
  then show ?thesis using append_sep_inject [of "rev u" c "rev x" "rev v" "rev y"] assms by simp
qed

lemma canonical_intent_inject:
  assumes "CHR ''|'' \<notin> set (intent_id i)" and "CHR ''|'' \<notin> set (intent_id j)"
  shows "canonical (intent_parts i c) = canonical (intent_parts j d) \<longleftrightarrow>
     c = d \<and> intent_id i = intent_id j \<and> in_strategy_name i = in_strategy_name j
     \<and> requested_position i = requested_position j"
proof
  let ?bar = "CHR ''|''"
  assume "canonical (intent_parts i c) = canonical (intent_parts j d)"
  then have "int_str c @ ?bar # (''intent_id='' @ intent_id i @ ''|strategy='' @ in_strategy_name i
        @ ''|target='' @ int_str (requested_position i))
      = int_str d @ ?bar # (''intent_id='' @ intent_id j @ ''|strategy='' @ in_strategy_name j
        @ ''|target='' @ int_str (requested_position j))"
    by (simp add: canonical_intent)
  from append_sep_inject [OF this int_str_no_bar int_str_no_bar]
  have con: "int_str c = int_str d"
      and "''intent_id='' @ intent_id i @ ''|strategy='' @ in_strategy_name i
        @ ''|target='' @ int_str (requested_position i)
      = ''intent_id='' @ intent_id j @ ''|strategy='' @ in_strategy_name j
        @ ''|target='' @ int_str (requested_position j)"
    by blast+
  then have rest: "intent_id i @ ?bar # (''strategy='' @ in_strategy_name i
        @ ''|target='' @ int_str (requested_position i))
      = intent_id j @ ?bar # (''strategy='' @ in_strategy_name j
        @ ''|target='' @ int_str (requested_position j))"
    by simp
  have ids: "intent_id i = intent_id j"
      and "''strategy='' @ in_strategy_name i @ ''|target='' @ int_str (requested_position i)
        = ''strategy='' @ in_strategy_name j @ ''|target='' @ int_str (requested_position j)"
    using append_sep_inject [OF rest assms] by blast+
  then have rest': "in_strategy_name i @ ''|target='' @ int_str (requested_position i)
        = in_strategy_name j @ ''|target='' @ int_str (requested_position j)"
    by (simp only: same_append_eq)
  have bar: "?bar \<notin> set (''target='' @ int_str k)" for k using int_str_no_bar [of k] by simp
  from rest' have "in_strategy_name i @ ?bar # (''target='' @ int_str (requested_position i))
      = in_strategy_name j @ ?bar # (''target='' @ int_str (requested_position j))" by simp
  from append_last_sep [OF this bar bar]
  have "in_strategy_name i = in_strategy_name j"
      and "''target='' @ int_str (requested_position i) = ''target='' @ int_str (requested_position j)"
    by blast+
  with con ids show "c = d \<and> intent_id i = intent_id j \<and> in_strategy_name i = in_strategy_name j
      \<and> requested_position i = requested_position j"
    by (simp add: int_str_inject)
qed (simp add: canonical_intent)

section \<open>The validator\<close>

datatype signal_reason =
    Unknown_Symbol | Symbol_Mismatch | Duplicate_Signal | Signal_Stale | Signal_In_Future
  | Strategy_Mismatch | Position_Unreasonable

fun signal_reason_value :: "signal_reason \<Rightarrow> string" where
  "signal_reason_value Unknown_Symbol = ''SIGNAL_SYMBOL_NOT_SUPPORTED''"
| "signal_reason_value Symbol_Mismatch = ''SIGNAL_SYMBOL_NOT_CONFIGURED_INSTRUMENT''"
| "signal_reason_value Duplicate_Signal = ''DUPLICATE_SIGNAL''"
| "signal_reason_value Signal_Stale = ''SIGNAL_TIMESTAMP_STALE''"
| "signal_reason_value Signal_In_Future = ''SIGNAL_TIMESTAMP_IN_FUTURE''"
| "signal_reason_value Strategy_Mismatch = ''SIGNAL_FROM_UNKNOWN_STRATEGY''"
| "signal_reason_value Position_Unreasonable = ''SIGNAL_REQUESTED_POSITION_UNREASONABLE''"

definition default_max_signal_age_seconds :: pyfloat where
  "default_max_signal_age_seconds = Flt 60"

definition absolute_position_sanity_limit :: int where
  "absolute_position_sanity_limit = 10000"

record validator =
  configured_symbol :: string
  known_strategies :: "string list"
  max_signal_age_seconds :: pyfloat
  seen_intent_ids :: "string list"

definition make_validator :: "string \<Rightarrow> string list \<Rightarrow> pyfloat \<Rightarrow> validator" where
  "make_validator symbol strategies max_age =
     \<lparr> configured_symbol = py_upper symbol, known_strategies = map py_lower strategies,
       max_signal_age_seconds = max_age, seen_intent_ids = [] \<rparr>"

definition seed_seen :: "string list \<Rightarrow> validator \<Rightarrow> validator" where
  "seed_seen ids v = v \<lparr> seen_intent_ids := List.union ids (seen_intent_ids v) \<rparr>"

record validation =
  va_accepted :: bool
  va_reasons :: "signal_reason list"

definition validation_reason :: "validation \<Rightarrow> string" where
  "validation_reason r =
     (if va_reasons r \<noteq> [] then signal_reason_value (hd (va_reasons r))
      else if va_accepted r then ''ACCEPTED'' else ''REJECTED'')"

definition validation_reasons :: "validator \<Rightarrow> instant \<Rightarrow> intent \<Rightarrow> signal_reason list" where
  "validation_reasons v now i =
     (let symbol = py_upper (in_symbol i); age = age_seconds (in_created_at i) now
      in (if symbol \<notin> set supported_futures_symbols then [Unknown_Symbol]
          else if symbol \<noteq> configured_symbol v then [Symbol_Mismatch] else [])
         @ reason_if (py_lower (in_strategy_name i) \<notin> set (known_strategies v)) Strategy_Mismatch
         @ (if flt_less age (Flt 0) then [Signal_In_Future]
            else if flt_less (max_signal_age_seconds v) age then [Signal_Stale] else [])
         @ reason_if (\<bar>requested_position i\<bar> > absolute_position_sanity_limit) Position_Unreasonable
         @ reason_if (intent_id i \<in> set (seen_intent_ids v)) Duplicate_Signal)"

definition validate_intent :: "instant \<Rightarrow> intent \<Rightarrow> validator \<Rightarrow> validation \<times> validator" where
  "validate_intent now i v =
     (let reasons = validation_reasons v now i; accepted = (reasons = [])
      in (\<lparr> va_accepted = accepted, va_reasons = reasons \<rparr>,
          if accepted then v \<lparr> seen_intent_ids := List.insert (intent_id i) (seen_intent_ids v) \<rparr> else v))"

text \<open>The condition of every reason.\<close>

fun signal_fails :: "signal_reason \<Rightarrow> validator \<times> instant \<times> intent \<Rightarrow> bool" where
  "signal_fails Unknown_Symbol (v, now, i) = (py_upper (in_symbol i) \<notin> set supported_futures_symbols)"
| "signal_fails Symbol_Mismatch (v, now, i) =
     (py_upper (in_symbol i) \<in> set supported_futures_symbols
      \<and> py_upper (in_symbol i) \<noteq> configured_symbol v)"
| "signal_fails Strategy_Mismatch (v, now, i) =
     (py_lower (in_strategy_name i) \<notin> set (known_strategies v))"
| "signal_fails Signal_In_Future (v, now, i) = flt_less (age_seconds (in_created_at i) now) (Flt 0)"
| "signal_fails Signal_Stale (v, now, i) =
     (\<not> flt_less (age_seconds (in_created_at i) now) (Flt 0)
      \<and> flt_less (max_signal_age_seconds v) (age_seconds (in_created_at i) now))"
| "signal_fails Position_Unreasonable (v, now, i) = (\<bar>requested_position i\<bar> > absolute_position_sanity_limit)"
| "signal_fails Duplicate_Signal (v, now, i) = (intent_id i \<in> set (seen_intent_ids v))"

lemma validation_reasons_iff: "r \<in> set (validation_reasons v now i) \<longleftrightarrow> signal_fails r (v, now, i)"
  by (cases r) (auto simp: validation_reasons_def Let_def)

definition signal_accepted :: "validator \<times> instant \<times> intent \<Rightarrow> bool" where
  "signal_accepted = (\<lambda>(v, now, i). va_accepted (fst (validate_intent now i v)))"

interpretation validator: approver signal_accepted "\<lambda>(v, now, i). validation_reasons v now i" signal_fails
  by unfold_locales (auto simp: signal_accepted_def validate_intent_def Let_def validation_reasons_iff)

text \<open>A sequence of validations, with the ids accepted on the way.\<close>

fun validate_all :: "(instant \<times> intent) list \<Rightarrow> validator \<Rightarrow> string list \<times> validator" where
  "validate_all [] v = ([], v)"
| "validate_all ((now, i) # rest) v =
     (let (r, v1) = validate_intent now i v; (ids, v2) = validate_all rest v1
      in (if va_accepted r then intent_id i # ids else ids, v2))"

lemma validate_intent_seen:
  "set (seen_intent_ids (snd (validate_intent now i v))) =
     (if va_accepted (fst (validate_intent now i v)) then insert (intent_id i) (set (seen_intent_ids v))
      else set (seen_intent_ids v))"
  by (simp add: validate_intent_def Let_def)

lemma validate_intent_fresh:
  "va_accepted (fst (validate_intent now i v)) \<Longrightarrow> intent_id i \<notin> set (seen_intent_ids v)"
  using validator.failing_refuses [of Duplicate_Signal "(v, now, i)"] by (auto simp: signal_accepted_def)

lemma validate_all_once:
  "validate_all xs v = (ids, v') \<Longrightarrow>
     distinct ids \<and> set ids \<inter> set (seen_intent_ids v) = {}
     \<and> set (seen_intent_ids v') = set ids \<union> set (seen_intent_ids v)"
proof (induction xs arbitrary: v ids)
  case Nil
  then show ?case by simp
next
  case (Cons x xs)
  obtain now i where x: "x = (now, i)" by fastforce
  obtain r v1 where r: "validate_intent now i v = (r, v1)" by fastforce
  obtain ids' where rest: "validate_all xs v1 = (ids', v')"
    and ids: "ids = (if va_accepted r then intent_id i # ids' else ids')"
    using Cons.prems x r by (auto split: prod.splits)
  from Cons.IH [OF rest] show ?case
    using ids validate_intent_seen [of now i v] validate_intent_fresh [of now i v] r
    by (cases "va_accepted r") auto
qed

section \<open>Properties\<close>

definition sample_intent :: intent where
  "sample_intent =
     \<lparr> in_strategy_name = ''noop'', in_symbol = ''MSL'', in_direction = Flat, requested_position = 0,
       in_created_at = Micros 0, intent_id = ''int_0001'', in_correlation_id = None,
       confidence = Some (Flt 1), in_contract_key = None \<rparr>"

text \<open>
  An intent that the constructor accepts has a named strategy and symbol, a confidence within
  [0, 1], a UTC creation time, and a target whose sign agrees with its direction; and every such
  intent is accepted, so no well-formed target (flat included) is inexpressible.
\<close>

theorem intent_constructor_exact:
  "make_intent i created_at = Inr j \<longleftrightarrow>
     (\<exists>t. created_at = Aware t \<and> j = i \<lparr> in_created_at := t \<rparr>)
     \<and> py_strip (in_strategy_name i) \<noteq> [] \<and> py_strip (in_symbol i) \<noteq> []
     \<and> \<not> confidence_out_of_range (confidence i)
     \<and> direction_agrees (in_direction i) (requested_position i)"
  by (auto simp: make_intent_Inr intent_ok_def)

text \<open>
  The idempotency key identifies the order an intent asks for: for intents whose id contains no
  separator and a digest that does not collide on the two inputs, two keys are equal exactly when
  intent id, strategy, contract and target all agree, whatever the creation times, correlation ids,
  confidences or symbols are.
\<close>

theorem idempotency_key_identifies_order:
  assumes "CHR ''|'' \<notin> set (intent_id i)" and "CHR ''|'' \<notin> set (intent_id j)"
    and "take 40 (H (canonical (intent_parts i c))) = take 40 (H (canonical (intent_parts j d))) \<Longrightarrow>
           canonical (intent_parts i c) = canonical (intent_parts j d)"
  shows "intent_idempotency_key H i c = intent_idempotency_key H j d \<longleftrightarrow>
     c = d \<and> intent_id i = intent_id j \<and> in_strategy_name i = in_strategy_name j
     \<and> requested_position i = requested_position j"
  using canonical_intent_inject [OF assms(1,2), of c d] assms(3)
  by (auto simp: intent_idempotency_key_def idempotency_key_def intent_parts_def)

theorem idempotency_key_identifies_order_witness:
  "intent_idempotency_key (\<lambda>s. s) sample_intent 7 =
     intent_idempotency_key (\<lambda>s. s) (sample_intent \<lparr> in_created_at := Micros 5, confidence := None \<rparr>) 7
   \<and> intent_idempotency_key (\<lambda>s. s) sample_intent 7 \<noteq>
     intent_idempotency_key (\<lambda>s. s) (sample_intent \<lparr> intent_id := ''int_0002'' \<rparr>) 7"
proof -
  let ?a = "sample_intent \<lparr> in_created_at := Micros 5, confidence := None \<rparr>"
  let ?b = "sample_intent \<lparr> intent_id := ''int_0002'' \<rparr>"
  have "canonical (intent_parts sample_intent 7) = canonical (intent_parts ?a 7)"
    by (simp add: canonical_intent)
  then have "intent_idempotency_key (\<lambda>s. s) sample_intent 7 = intent_idempotency_key (\<lambda>s. s) ?a 7"
    using idempotency_key_identifies_order [of sample_intent ?a "\<lambda>s. s" 7 7]
    by (simp add: sample_intent_def)
  moreover have "take 40 (canonical (intent_parts sample_intent 7)) \<noteq> take 40 (canonical (intent_parts ?b 7))"
    by code_simp
  then have "intent_idempotency_key (\<lambda>s. s) sample_intent 7 \<noteq> intent_idempotency_key (\<lambda>s. s) ?b 7"
    using idempotency_key_identifies_order [of sample_intent ?b "\<lambda>s. s" 7 7]
    by (simp add: sample_intent_def)
  ultimately show ?thesis by blast
qed

text \<open>
  The validator accepts an intent exactly when its symbol is supported and the configured one,
  its strategy is known, its age lies between zero and the limit, its target is within the sanity
  limit and its id was not seen before. The direction plays no part, so closing is expressible.
\<close>

theorem validator_accepts_iff:
  "va_accepted (fst (validate_intent now i v)) \<longleftrightarrow>
     py_upper (in_symbol i) \<in> set supported_futures_symbols
     \<and> py_upper (in_symbol i) = configured_symbol v
     \<and> py_lower (in_strategy_name i) \<in> set (known_strategies v)
     \<and> \<not> flt_less (age_seconds (in_created_at i) now) (Flt 0)
     \<and> \<not> flt_less (max_signal_age_seconds v) (age_seconds (in_created_at i) now)
     \<and> \<bar>requested_position i\<bar> \<le> absolute_position_sanity_limit
     \<and> intent_id i \<notin> set (seen_intent_ids v)"
  by (auto simp: validate_intent_def validation_reasons_def Let_def)

text \<open>
  Over any sequence of validations no intent id is accepted twice, none that was seeded as seen
  is accepted at all, and exactly the accepted ids join the seen set.
\<close>

theorem validator_accepts_each_id_once:
  assumes "validate_all xs v = (ids, v')"
  shows "distinct ids \<and> set ids \<inter> set (seen_intent_ids v) = {}
     \<and> set (seen_intent_ids v') = set ids \<union> set (seen_intent_ids v)"
  using assms by (rule validate_all_once)

theorem validator_accepts_each_id_once_witness:
  "fst (validate_all [(Micros 0, sample_intent), (Micros 1, sample_intent)]
          (make_validator ''MSL'' [''noop''] default_max_signal_age_seconds)) = [''int_0001'']
   \<and> set (seen_intent_ids (snd (validate_all [(Micros 0, sample_intent), (Micros 1, sample_intent)]
          (make_validator ''MSL'' [''noop''] default_max_signal_age_seconds)))) = {''int_0001''}"
proof -
  let ?v = "make_validator ''MSL'' [''noop''] default_max_signal_age_seconds"
  let ?xs = "[(Micros 0, sample_intent), (Micros 1, sample_intent)]"
  have ids: "fst (validate_all ?xs ?v) = [''int_0001'']" by code_simp
  obtain v' where run: "validate_all ?xs ?v = ([''int_0001''], v')" using ids by (metis prod.collapse)
  show ?thesis
    using validator_accepts_each_id_once [OF run] ids run by (simp add: make_validator_def)
qed

end
