(* ===== verification/Risk.thy ===== *)
theory Risk
  imports Gate Contracts Signals
begin

text \<open>
  \<^verbatim>\<open>app/risk\<close>: the numeric limit checks (\<^verbatim>\<open>limits.py\<close>) and the risk manager
  (\<^verbatim>\<open>manager.py\<close>). A check returns the reason it found, nothing, or the exception of a decimal
  comparison or of the contract's multiplier. The decision's detail dictionary, which is only
  logged and stored, is left out.
\<close>

datatype risk_reason =
    Order_Size_Not_Configured | Order_Size_Exceeded
  | Position_Not_Configured | Position_Exceeded
  | Daily_Loss_Not_Configured | Daily_Loss_Exceeded
  | Orders_Per_Hour_Not_Configured | Orders_Per_Hour_Exceeded
  | Open_Orders_Not_Configured | Open_Orders_Exceeded
  | Notional_Not_Configured | Notional_Exceeded | Notional_Unpriceable
  | Risk_Kill_Switch | Risk_Mode_Disabled | Risk_Transmit_Not_Allowed | Risk_Broker_Disconnected
  | Risk_App_Not_Ready | Risk_Account_Unavailable | Risk_Account_Type_Unknown
  | Risk_Account_Type_Mismatch | Risk_Positions_Not_Reconciled | Risk_Orders_Not_Reconciled
  | Risk_Contract_Not_Qualified | Risk_Contract_Continuous
  | Risk_Market_Data_Missing | Risk_Market_Data_Stale | Risk_Market_Data_Age_Not_Configured
  | Risk_Market_Data_Future | Risk_Permission_Not_Ready | Risk_Broker_Permission_Unknown
  | Risk_Strategy_Disabled | Risk_Duplicate_Order | Risk_Quantity_Invalid

primrec risk_reason_value :: "risk_reason \<Rightarrow> string" where
  "risk_reason_value Order_Size_Not_Configured = ''MAX_ORDER_SIZE_NOT_CONFIGURED''"
| "risk_reason_value Order_Size_Exceeded = ''MAX_ORDER_SIZE_EXCEEDED''"
| "risk_reason_value Position_Not_Configured = ''MAX_POSITION_CONTRACTS_NOT_CONFIGURED''"
| "risk_reason_value Position_Exceeded = ''MAX_POSITION_CONTRACTS_EXCEEDED''"
| "risk_reason_value Daily_Loss_Not_Configured = ''MAX_DAILY_LOSS_USD_NOT_CONFIGURED''"
| "risk_reason_value Daily_Loss_Exceeded = ''MAX_DAILY_LOSS_USD_EXCEEDED''"
| "risk_reason_value Orders_Per_Hour_Not_Configured = ''MAX_ORDERS_PER_HOUR_NOT_CONFIGURED''"
| "risk_reason_value Orders_Per_Hour_Exceeded = ''MAX_ORDERS_PER_HOUR_EXCEEDED''"
| "risk_reason_value Open_Orders_Not_Configured = ''MAX_OPEN_ORDERS_NOT_CONFIGURED''"
| "risk_reason_value Open_Orders_Exceeded = ''MAX_OPEN_ORDERS_EXCEEDED''"
| "risk_reason_value Notional_Not_Configured = ''MAX_NOTIONAL_EXPOSURE_USD_NOT_CONFIGURED''"
| "risk_reason_value Notional_Exceeded = ''MAX_NOTIONAL_EXPOSURE_USD_EXCEEDED''"
| "risk_reason_value Notional_Unpriceable = ''NOTIONAL_EXPOSURE_NOT_COMPUTABLE''"
| "risk_reason_value Risk_Kill_Switch = ''KILL_SWITCH_ENGAGED''"
| "risk_reason_value Risk_Mode_Disabled = ''TRADING_MODE_DISABLED''"
| "risk_reason_value Risk_Transmit_Not_Allowed = ''ORDER_TRANSMIT_NOT_ALLOWED''"
| "risk_reason_value Risk_Broker_Disconnected = ''BROKER_NOT_CONNECTED''"
| "risk_reason_value Risk_App_Not_Ready = ''APPLICATION_NOT_READY''"
| "risk_reason_value Risk_Account_Unavailable = ''ACCOUNT_DATA_UNAVAILABLE''"
| "risk_reason_value Risk_Account_Type_Unknown = ''BROKER_ACCOUNT_TYPE_UNKNOWN''"
| "risk_reason_value Risk_Account_Type_Mismatch = ''TRADING_MODE_ACCOUNT_TYPE_MISMATCH''"
| "risk_reason_value Risk_Positions_Not_Reconciled = ''POSITIONS_NOT_RECONCILED''"
| "risk_reason_value Risk_Orders_Not_Reconciled = ''OPEN_ORDERS_NOT_RECONCILED''"
| "risk_reason_value Risk_Contract_Not_Qualified = ''CONTRACT_NOT_QUALIFIED''"
| "risk_reason_value Risk_Contract_Continuous = ''CONTRACT_IS_CONTINUOUS_FUTURE''"
| "risk_reason_value Risk_Market_Data_Missing = ''MARKET_DATA_UNAVAILABLE''"
| "risk_reason_value Risk_Market_Data_Stale = ''MARKET_DATA_STALE''"
| "risk_reason_value Risk_Market_Data_Age_Not_Configured = ''MARKET_DATA_MAX_AGE_NOT_CONFIGURED''"
| "risk_reason_value Risk_Market_Data_Future = ''MARKET_DATA_TIMESTAMP_IN_FUTURE''"
| "risk_reason_value Risk_Permission_Not_Ready = ''SOL_FUTURES_PERMISSION_NOT_READY''"
| "risk_reason_value Risk_Broker_Permission_Unknown = ''TRADING_PERMISSION_UNAVAILABLE_AT_BROKER''"
| "risk_reason_value Risk_Strategy_Disabled = ''STRATEGY_DISABLED''"
| "risk_reason_value Risk_Duplicate_Order = ''DUPLICATE_ORDER_FOR_SIGNAL''"
| "risk_reason_value Risk_Quantity_Invalid = ''ORDER_QUANTITY_INVALID''"

section \<open>Numeric limits\<close>

type_synonym check_result = "risk_reason option result"

definition check_order_size :: "risk_limits \<Rightarrow> int \<Rightarrow> check_result" where
  "check_order_size l quantity =
     (if max_order_size l \<le> 0 then Inr (Some Order_Size_Not_Configured)
      else if \<bar>quantity\<bar> > max_order_size l then Inr (Some Order_Size_Exceeded)
      else Inr None)"

definition check_position_size :: "risk_limits \<Rightarrow> int \<Rightarrow> check_result" where
  "check_position_size l projected =
     (if max_position_contracts l \<le> 0 then Inr (Some Position_Not_Configured)
      else if \<bar>projected\<bar> > max_position_contracts l then Inr (Some Position_Exceeded)
      else Inr None)"

definition check_daily_loss :: "risk_limits \<Rightarrow> decimal \<Rightarrow> check_result" where
  "check_daily_loss l daily_pnl =
     ebind (dec_leq (max_daily_loss_usd l) dec_zero) (\<lambda>unset.
       if unset then Inr (Some Daily_Loss_Not_Configured)
       else ebind (dec_leq daily_pnl (dec_neg (max_daily_loss_usd l))) (\<lambda>breached.
         Inr (if breached then Some Daily_Loss_Exceeded else None)))"

definition check_orders_per_hour :: "risk_limits \<Rightarrow> int \<Rightarrow> check_result" where
  "check_orders_per_hour l orders_last_hour =
     (if max_orders_per_hour l \<le> 0 then Inr (Some Orders_Per_Hour_Not_Configured)
      else if orders_last_hour \<ge> max_orders_per_hour l then Inr (Some Orders_Per_Hour_Exceeded)
      else Inr None)"

definition check_open_orders :: "risk_limits \<Rightarrow> int \<Rightarrow> check_result" where
  "check_open_orders l open_orders =
     (if max_open_orders l \<le> 0 then Inr (Some Open_Orders_Not_Configured)
      else if open_orders \<ge> max_open_orders l then Inr (Some Open_Orders_Exceeded)
      else Inr None)"

definition check_notional_exposure ::
  "risk_limits \<Rightarrow> qualified_contract option \<Rightarrow> int \<Rightarrow> decimal option \<Rightarrow> check_result" where
  "check_notional_exposure l contract projected reference_price =
     ebind (dec_leq (max_notional_exposure_usd l) dec_zero) (\<lambda>unset.
       if unset then Inr (Some Notional_Not_Configured)
       else (case (contract, reference_price) of
               (Some c, Some price) \<Rightarrow>
                 ebind (dec_leq price dec_zero) (\<lambda>low.
                   if low then Inr (Some Notional_Unpriceable)
                   else ebind (notional c projected price) (\<lambda>exposure.
                        ebind (dec_less (max_notional_exposure_usd l) exposure) (\<lambda>over.
                          Inr (if over then Some Notional_Exceeded else None))))
             | _ \<Rightarrow> Inr (Some Notional_Unpriceable)))"

definition unconfigured_limits :: "risk_limits \<Rightarrow> risk_reason list result" where
  "unconfigured_limits l =
     ebind (dec_leq (max_daily_loss_usd l) dec_zero) (\<lambda>loss.
     ebind (dec_leq (max_notional_exposure_usd l) dec_zero) (\<lambda>notional.
       Inr (reason_if (max_order_size l \<le> 0) Order_Size_Not_Configured
            @ reason_if (max_position_contracts l \<le> 0) Position_Not_Configured
            @ reason_if loss Daily_Loss_Not_Configured
            @ reason_if (max_orders_per_hour l \<le> 0) Orders_Per_Hour_Not_Configured
            @ reason_if (max_open_orders l \<le> 0) Open_Orders_Not_Configured
            @ reason_if notional Notional_Not_Configured)))"

section \<open>The risk manager\<close>

record risk_context =
  rx_intent :: intent
  rx_order_side :: order_side
  rx_order_quantity :: int
  rx_current_position :: int
  rx_contract :: "qualified_contract option"
  rx_reference_price :: "decimal option"
  rx_market_data_age_seconds :: "pyfloat option"
  rx_daily_pnl :: decimal
  rx_open_orders_count :: int
  rx_orders_last_hour :: int
  rx_app_state :: application_state
  rx_connection_state :: connection_state
  rx_account_type :: account_type
  rx_account_available :: bool
  rx_positions_reconciled :: bool
  rx_open_orders_reconciled :: bool
  rx_broker_permission_ready :: bool
  rx_strategy_enabled :: bool
  rx_kill_switch_engaged :: bool
  rx_duplicate_order_exists :: bool

text \<open>The defaults of every field but the three required ones.\<close>

definition default_risk_context :: "intent \<Rightarrow> order_side \<Rightarrow> int \<Rightarrow> risk_context" where
  "default_risk_context i side quantity =
     \<lparr> rx_intent = i, rx_order_side = side, rx_order_quantity = quantity, rx_current_position = 0,
       rx_contract = None, rx_reference_price = None, rx_market_data_age_seconds = None,
       rx_daily_pnl = dec_zero, rx_open_orders_count = 0, rx_orders_last_hour = 0,
       rx_app_state = App_Starting, rx_connection_state = Disconnected,
       rx_account_type = Acct_Unknown, rx_account_available = False,
       rx_positions_reconciled = False, rx_open_orders_reconciled = False,
       rx_broker_permission_ready = False, rx_strategy_enabled = False,
       rx_kill_switch_engaged = True, rx_duplicate_order_exists = False \<rparr>"

definition projected_position :: "risk_context \<Rightarrow> int" where
  "projected_position x = rx_current_position x + rx_order_quantity x * side_sign (rx_order_side x)"

record risk_decision =
  rd_approved :: bool
  rd_reasons :: "risk_reason list"

definition risk_reason_text :: "risk_decision \<Rightarrow> string" where
  "risk_reason_text d =
     (if rd_reasons d \<noteq> [] then risk_reason_value (hd (rd_reasons d))
      else if rd_approved d then ''APPROVED'' else ''REJECTED'')"

definition risk_master_controls :: "config \<Rightarrow> risk_context \<Rightarrow> risk_reason list" where
  "risk_master_controls c x =
     reason_if (rx_kill_switch_engaged x \<or> cfg_kill_switch c) Risk_Kill_Switch
     @ reason_if (\<not> cfg_allow_order_transmit c) Risk_Transmit_Not_Allowed
     @ reason_if (cfg_trading_mode c = Mode_Disabled) Risk_Mode_Disabled
     @ reason_if (\<not> (strategy_enabled c \<and> rx_strategy_enabled x)) Risk_Strategy_Disabled"

definition risk_system_state :: "risk_context \<Rightarrow> risk_reason list" where
  "risk_system_state x =
     reason_if (rx_app_state x \<noteq> App_Ready) Risk_App_Not_Ready
     @ reason_if (rx_connection_state x \<noteq> Connected) Risk_Broker_Disconnected
     @ reason_if (\<not> rx_positions_reconciled x) Risk_Positions_Not_Reconciled
     @ reason_if (\<not> rx_open_orders_reconciled x) Risk_Orders_Not_Reconciled"

definition risk_account :: "config \<Rightarrow> risk_context \<Rightarrow> risk_reason list" where
  "risk_account c x =
     reason_if (\<not> rx_account_available x) Risk_Account_Unavailable
     @ (if rx_account_type x = Acct_Unknown then [Risk_Account_Type_Unknown]
        else (case expected_account_type (cfg_trading_mode c) of None \<Rightarrow> []
              | Some expected \<Rightarrow> reason_if (rx_account_type x \<noteq> expected) Risk_Account_Type_Mismatch))"

definition risk_contract :: "risk_context \<Rightarrow> risk_reason list" where
  "risk_contract x =
     (case rx_contract x of None \<Rightarrow> [Risk_Contract_Not_Qualified]
      | Some k \<Rightarrow>
          reason_if (qualified_is_continuous k) Risk_Contract_Continuous
          @ reason_if (con_id k \<le> 0) Risk_Contract_Not_Qualified)"

definition risk_market_data :: "config \<Rightarrow> risk_context \<Rightarrow> risk_reason list" where
  "risk_market_data c x =
     (let max_age = cfg_market_data_max_age_seconds c
      in reason_if (flt_leq max_age (Flt 0)) Risk_Market_Data_Age_Not_Configured
         @ (case rx_market_data_age_seconds x of
              None \<Rightarrow> [Risk_Market_Data_Missing]
            | Some age \<Rightarrow>
                if flt_less age (Flt 0) then [Risk_Market_Data_Future]
                else reason_if (flt_less (Flt 0) max_age \<and> flt_less max_age age) Risk_Market_Data_Stale))"

definition risk_permissions :: "config \<Rightarrow> risk_context \<Rightarrow> risk_reason list" where
  "risk_permissions c x =
     reason_if (uses_ibkr c \<and> \<not> cfg_sol_futures_permission_ready c) Risk_Permission_Not_Ready
     @ reason_if (\<not> rx_broker_permission_ready x) Risk_Broker_Permission_Unknown"

definition risk_duplicates :: "risk_context \<Rightarrow> risk_reason list" where
  "risk_duplicates x = reason_if (rx_duplicate_order_exists x) Risk_Duplicate_Order"

definition opt_reason :: "risk_reason option \<Rightarrow> risk_reason list" where
  "opt_reason r = (case r of None \<Rightarrow> [] | Some q \<Rightarrow> [q])"

definition risk_numeric_limits :: "config \<Rightarrow> risk_context \<Rightarrow> risk_reason list result" where
  "risk_numeric_limits c x =
     (let l = cfg_risk c in
      ebind (check_order_size l (rx_order_quantity x)) (\<lambda>size.
      ebind (check_position_size l (projected_position x)) (\<lambda>pos.
      ebind (check_daily_loss l (rx_daily_pnl x)) (\<lambda>loss.
      ebind (check_orders_per_hour l (rx_orders_last_hour x)) (\<lambda>per_hour.
      ebind (check_open_orders l (rx_open_orders_count x)) (\<lambda>open_orders.
      ebind (check_notional_exposure l (rx_contract x) (projected_position x) (rx_reference_price x)) (\<lambda>exposure.
        Inr (reason_if (rx_order_quantity x \<le> 0) Risk_Quantity_Invalid
             @ concat (map opt_reason [size, pos, loss, per_hour, open_orders, exposure])))))))))"

definition risk_evaluate :: "config \<Rightarrow> risk_context \<Rightarrow> risk_decision result" where
  "risk_evaluate c x =
     ebind (risk_numeric_limits c x) (\<lambda>numeric.
       let reasons =
         risk_master_controls c x @ risk_system_state x @ risk_account c x @ risk_contract x
         @ risk_market_data c x @ risk_permissions c x @ risk_duplicates x @ numeric
       in Inr \<lparr> rd_approved = (reasons = []), rd_reasons = reasons \<rparr>)"

section \<open>When each check passes\<close>

lemma int_checks_pass:
  "check_order_size l q = Inr None \<longleftrightarrow> 0 < max_order_size l \<and> \<bar>q\<bar> \<le> max_order_size l"
  "check_position_size l p = Inr None \<longleftrightarrow>
     0 < max_position_contracts l \<and> \<bar>p\<bar> \<le> max_position_contracts l"
  "check_orders_per_hour l n = Inr None \<longleftrightarrow> 0 < max_orders_per_hour l \<and> n < max_orders_per_hour l"
  "check_open_orders l n = Inr None \<longleftrightarrow> 0 < max_open_orders l \<and> n < max_open_orders l"
  by (auto simp: check_order_size_def check_position_size_def check_orders_per_hour_def
      check_open_orders_def)

definition loss_within :: "risk_limits \<Rightarrow> decimal \<Rightarrow> bool" where
  "loss_within l pnl =
     (dec_leq (max_daily_loss_usd l) dec_zero = Inr False
      \<and> dec_leq pnl (dec_neg (max_daily_loss_usd l)) = Inr False)"

definition notional_within ::
  "risk_limits \<Rightarrow> qualified_contract option \<Rightarrow> int \<Rightarrow> decimal option \<Rightarrow> bool" where
  "notional_within l contract projected price =
     (dec_leq (max_notional_exposure_usd l) dec_zero = Inr False
      \<and> (case (contract, price) of
           (Some k, Some p) \<Rightarrow>
             dec_leq p dec_zero = Inr False
             \<and> (case notional k projected p of Inl e \<Rightarrow> False
                | Inr exposure \<Rightarrow> dec_less (max_notional_exposure_usd l) exposure = Inr False)
         | _ \<Rightarrow> False))"

lemma check_daily_loss_pass: "check_daily_loss l pnl = Inr None \<longleftrightarrow> loss_within l pnl"
  by (auto simp: check_daily_loss_def loss_within_def ebind_eq_Inr split: if_splits)

lemma check_notional_pass:
  "check_notional_exposure l k projected price = Inr None \<longleftrightarrow> notional_within l k projected price"
  by (cases k; cases price)
    (auto simp: check_notional_exposure_def notional_within_def ebind_eq_Inr split: if_splits sum.splits)

definition within_limits :: "risk_limits \<Rightarrow> risk_context \<Rightarrow> bool" where
  "within_limits l x =
     (0 < rx_order_quantity x \<and> rx_order_quantity x \<le> max_order_size l
      \<and> 0 < max_position_contracts l \<and> \<bar>projected_position x\<bar> \<le> max_position_contracts l
      \<and> loss_within l (rx_daily_pnl x)
      \<and> 0 < max_orders_per_hour l \<and> rx_orders_last_hour x < max_orders_per_hour l
      \<and> 0 < max_open_orders l \<and> rx_open_orders_count x < max_open_orders l
      \<and> notional_within l (rx_contract x) (projected_position x) (rx_reference_price x))"

lemma opt_reason_Nil [simp]: "opt_reason r = [] \<longleftrightarrow> r = None"
  by (simp add: opt_reason_def split: option.splits)

lemma risk_numeric_limits_pass: "risk_numeric_limits c x = Inr [] \<longleftrightarrow> within_limits (cfg_risk c) x"
proof -
  have "risk_numeric_limits c x = Inr [] \<longleftrightarrow>
      0 < rx_order_quantity x
      \<and> check_order_size (cfg_risk c) (rx_order_quantity x) = Inr None
      \<and> check_position_size (cfg_risk c) (projected_position x) = Inr None
      \<and> check_daily_loss (cfg_risk c) (rx_daily_pnl x) = Inr None
      \<and> check_orders_per_hour (cfg_risk c) (rx_orders_last_hour x) = Inr None
      \<and> check_open_orders (cfg_risk c) (rx_open_orders_count x) = Inr None
      \<and> check_notional_exposure (cfg_risk c) (rx_contract x) (projected_position x) (rx_reference_price x) = Inr None"
    by (auto simp: risk_numeric_limits_def Let_def ebind_eq_Inr)
  then show ?thesis
    by (auto simp: int_checks_pass check_daily_loss_pass check_notional_pass within_limits_def)
qed

text \<open>The controls other than the numeric limits, written out.\<close>

definition risk_controls_hold :: "config \<Rightarrow> risk_context \<Rightarrow> bool" where
  "risk_controls_hold c x =
     (\<not> rx_kill_switch_engaged x \<and> \<not> cfg_kill_switch c \<and> cfg_allow_order_transmit c
      \<and> expected_account_type (cfg_trading_mode c) = Some (rx_account_type x)
      \<and> strategy_enabled c \<and> rx_strategy_enabled x
      \<and> rx_app_state x = App_Ready \<and> rx_connection_state x = Connected
      \<and> rx_positions_reconciled x \<and> rx_open_orders_reconciled x \<and> rx_account_available x
      \<and> (case rx_contract x of None \<Rightarrow> False | Some k \<Rightarrow> 0 < con_id k)
      \<and> \<not> flt_leq (cfg_market_data_max_age_seconds c) (Flt 0)
      \<and> (case rx_market_data_age_seconds x of None \<Rightarrow> False
         | Some age \<Rightarrow> \<not> flt_less age (Flt 0)
             \<and> \<not> (flt_less (Flt 0) (cfg_market_data_max_age_seconds c)
                  \<and> flt_less (cfg_market_data_max_age_seconds c) age))
      \<and> (uses_ibkr c \<longrightarrow> cfg_sol_futures_permission_ready c) \<and> rx_broker_permission_ready x
      \<and> \<not> rx_duplicate_order_exists x)"

lemma risk_account_pass:
  "cfg_trading_mode c \<noteq> Mode_Disabled \<and> risk_account c x = [] \<longleftrightarrow>
     rx_account_available x \<and> expected_account_type (cfg_trading_mode c) = Some (rx_account_type x)"
  by (cases "cfg_trading_mode c") (auto simp: risk_account_def expected_account_type_def)

lemma risk_controls_pass:
  "risk_master_controls c x @ risk_system_state x @ risk_account c x @ risk_contract x
     @ risk_market_data c x @ risk_permissions c x @ risk_duplicates x = [] \<longleftrightarrow> risk_controls_hold c x"
proof -
  have contract: "risk_contract x = [] \<longleftrightarrow> (case rx_contract x of None \<Rightarrow> False | Some k \<Rightarrow> 0 < con_id k)"
    by (auto simp: risk_contract_def qualified_is_continuous_def split: option.splits)
  have market: "risk_market_data c x = [] \<longleftrightarrow>
      \<not> flt_leq (cfg_market_data_max_age_seconds c) (Flt 0)
      \<and> (case rx_market_data_age_seconds x of None \<Rightarrow> False
         | Some age \<Rightarrow> \<not> flt_less age (Flt 0)
             \<and> \<not> (flt_less (Flt 0) (cfg_market_data_max_age_seconds c)
                  \<and> flt_less (cfg_market_data_max_age_seconds c) age))"
    by (auto simp: risk_market_data_def Let_def split: option.splits)
  show ?thesis
    unfolding append_is_Nil_conv contract market risk_controls_hold_def
    using risk_account_pass [of c x]
    by (auto simp: risk_master_controls_def risk_system_state_def risk_permissions_def risk_duplicates_def)
qed

definition risk_approves :: "config \<Rightarrow> risk_context \<Rightarrow> bool" where
  "risk_approves c x = (case risk_evaluate c x of Inl e \<Rightarrow> False | Inr d \<Rightarrow> rd_approved d)"

lemma risk_approves_exact: "risk_approves c x \<longleftrightarrow> risk_controls_hold c x \<and> within_limits (cfg_risk c) x"
proof (cases "risk_numeric_limits c x")
  case (Inl e)
  then show ?thesis using risk_numeric_limits_pass [of c x] by (simp add: risk_approves_def risk_evaluate_def)
next
  case (Inr numeric)
  have "risk_approves c x \<longleftrightarrow>
      (risk_master_controls c x @ risk_system_state x @ risk_account c x @ risk_contract x
       @ risk_market_data c x @ risk_permissions c x @ risk_duplicates x = []) \<and> numeric = []"
    by (auto simp: risk_approves_def risk_evaluate_def Let_def Inr)
  then show ?thesis
    using risk_numeric_limits_pass [of c x] Inr unfolding risk_controls_pass by auto
qed

text \<open>
  As an approver, an exception counts as a reason: a raised evaluation is a refusal.
\<close>

definition risk_outcome_reasons :: "config \<times> risk_context \<Rightarrow> (exn + risk_reason) list" where
  "risk_outcome_reasons cx =
     (case risk_evaluate (fst cx) (snd cx) of Inl e \<Rightarrow> [Inl e] | Inr d \<Rightarrow> map Inr (rd_reasons d))"

interpretation risk: approver "\<lambda>cx. risk_approves (fst cx) (snd cx)" risk_outcome_reasons
  "\<lambda>r cx. r \<in> set (risk_outcome_reasons cx)"
proof
  fix cx :: "config \<times> risk_context"
  show "risk_approves (fst cx) (snd cx) \<longleftrightarrow> risk_outcome_reasons cx = []"
    by (auto simp: risk_approves_def risk_outcome_reasons_def risk_evaluate_def Let_def ebind_eq_Inr
        split: sum.splits)
qed simp

section \<open>Exposure and exceptions\<close>

lemma dec_mul_finite:
  "dec_finite a \<Longrightarrow> dec_finite b \<Longrightarrow> \<exists>d. dec_mul a b = Inr d \<and> dec_finite d"
  by (cases a; cases b) auto

lemma dec_abs_of_int_finite: "dec_finite (dec_abs (dec_of_int i))"
  by (simp add: dec_of_int_def)

text \<open>The exposure is the exact product when no intermediate result exceeds 28 digits.\<close>

lemma notional_exact:
  assumes "py_decimal (qc_multiplier k) = Some (Dec m e)" and "price = Dec p f"
    and "\<bar>q\<bar> < 10 ^ prec" and "\<bar>q * m\<bar> < 10 ^ prec" and "\<bar>q * m * p\<bar> < 10 ^ prec"
  shows "\<exists>x. notional k q price = Inr x \<and> dec_finite x
     \<and> dval x = of_int \<bar>q\<bar> * dval (Dec m e) * dval price"
proof -
  have "dec_abs (dec_of_int q) = Dec \<bar>q\<bar> 0"
    using assms(3) by (simp add: dec_of_int_def dec_fix_exact)
  moreover have "dec_mul (Dec \<bar>q\<bar> 0) (Dec m e) = Inr (Dec (\<bar>q\<bar> * m) (0 + e))"
    using assms(4) by (intro dec_mul_exact) (simp add: abs_mult)
  moreover have "dec_mul (Dec (\<bar>q\<bar> * m) (0 + e)) price = Inr (Dec (\<bar>q\<bar> * m * p) (0 + e + f))"
    unfolding assms(2) using assms(5) by (intro dec_mul_exact) (simp add: abs_mult)
  ultimately have n: "notional k q price = Inr (Dec (\<bar>q\<bar> * m * p) (0 + e + f))"
    by (simp add: notional_def multiplier_decimal_def assms(1) del: dec_mul.simps)
  have "dval (Dec (\<bar>q\<bar> * m * p) (0 + e + f)) = dval (Dec (\<bar>q\<bar> * m) (0 + e)) * dval price"
    unfolding assms(2) by (rule dval_mul)
  also have "dval (Dec (\<bar>q\<bar> * m) (0 + e)) = of_int \<bar>q\<bar> * dval (Dec m e)"
    by simp
  finally show ?thesis using n by auto
qed

lemma notional_raises:
  assumes "\<And>m. py_decimal (qc_multiplier k) = Some m \<Longrightarrow> dec_finite m" and "dec_finite price"
  shows "notional k q price = Inl e \<longleftrightarrow> e = ContractError \<and> py_decimal (qc_multiplier k) = None"
    and "notional k q price = Inr x \<Longrightarrow> dec_finite x"
proof -
  show "notional k q price = Inl e \<longleftrightarrow> e = ContractError \<and> py_decimal (qc_multiplier k) = None"
  proof (cases "py_decimal (qc_multiplier k)")
    case None
    then show ?thesis by (auto simp: notional_def multiplier_decimal_def)
  next
    case (Some m)
    with assms(1) obtain y where "dec_mul (dec_abs (dec_of_int q)) m = Inr y" "dec_finite y"
      using dec_mul_finite [OF dec_abs_of_int_finite] by blast
    moreover from this obtain z where "dec_mul y price = Inr z"
      using dec_mul_finite [OF _ assms(2)] by blast
    ultimately show ?thesis using Some by (simp add: notional_def multiplier_decimal_def)
  qed
  show "notional k q price = Inr x \<Longrightarrow> dec_finite x"
    using assms dec_mul_finite [OF dec_abs_of_int_finite, of _ q] dec_mul_finite [OF _ assms(2)]
    by (fastforce simp: notional_def multiplier_decimal_def ebind_eq_Inr split: option.splits)
qed

lemma dec_neg_finite: "dec_finite d \<Longrightarrow> dec_finite (dec_neg d)"
  by (cases d) auto

lemma risk_evaluate_raises:
  assumes limits: "risk_limits_ok (cfg_risk c)" and pnl: "dec_finite (rx_daily_pnl x)"
    and price: "\<And>p. rx_reference_price x = Some p \<Longrightarrow> dec_finite p"
    and mult: "\<And>k m. rx_contract x = Some k \<Longrightarrow> py_decimal (qc_multiplier k) = Some m \<Longrightarrow> dec_finite m"
  shows "risk_evaluate c x = Inl e \<longleftrightarrow>
     e = ContractError \<and> 0 < dval (max_notional_exposure_usd (cfg_risk c))
     \<and> (\<exists>k p. rx_contract x = Some k \<and> rx_reference_price x = Some p \<and> 0 < dval p
          \<and> py_decimal (qc_multiplier k) = None)"
proof -
  let ?l = "cfg_risk c"
  from limits have fin: "dec_finite (max_daily_loss_usd ?l)" "dec_finite (max_notional_exposure_usd ?l)"
    by (simp_all add: risk_limits_ok_def)
  have returns: "\<exists>r. check_order_size ?l q = Inr r" "\<exists>r. check_position_size ?l q = Inr r"
      "\<exists>r. check_orders_per_hour ?l q = Inr r" "\<exists>r. check_open_orders ?l q = Inr r"
      "\<exists>r. check_daily_loss ?l (rx_daily_pnl x) = Inr r" for q
    using fin pnl dec_neg_finite [OF fin(1)]
    by (auto simp: check_order_size_def check_position_size_def check_orders_per_hour_def
        check_open_orders_def check_daily_loss_def dec_leq_finite)
  have notional: "check_notional_exposure ?l (rx_contract x) q (rx_reference_price x) = Inl e \<longleftrightarrow>
      e = ContractError \<and> 0 < dval (max_notional_exposure_usd ?l)
      \<and> (\<exists>k p. rx_contract x = Some k \<and> rx_reference_price x = Some p \<and> 0 < dval p
           \<and> py_decimal (qc_multiplier k) = None)" for q
  proof (cases "rx_contract x"; cases "rx_reference_price x")
    fix k p
    assume k: "rx_contract x = Some k" and p: "rx_reference_price x = Some p"
    have fp: "dec_finite p" using price [OF p] .
    have less: "\<exists>b. dec_less (max_notional_exposure_usd ?l) y = Inr b" if "notional k q p = Inr y" for y
      using notional_raises(2) [OF _ fp that] mult [OF k] fin(2) by (simp add: dec_less_finite)
    show ?thesis
      using fin(2) fp k p less notional_raises(1) [of k p q e] mult [OF k]
      by (cases "notional k q p") (auto simp: check_notional_exposure_def dec_leq_finite not_le)
  qed (use fin(2) in \<open>auto simp: check_notional_exposure_def dec_leq_finite\<close>)
  have "risk_evaluate c x = Inl e \<longleftrightarrow> risk_numeric_limits c x = Inl e"
    by (auto simp: risk_evaluate_def Let_def ebind_eq_Inl)
  also have "\<dots> \<longleftrightarrow>
      check_notional_exposure ?l (rx_contract x) (projected_position x) (rx_reference_price x) = Inl e"
  proof -
    obtain a b d f g where "check_order_size ?l (rx_order_quantity x) = Inr a"
        "check_position_size ?l (projected_position x) = Inr b" "check_daily_loss ?l (rx_daily_pnl x) = Inr d"
        "check_orders_per_hour ?l (rx_orders_last_hour x) = Inr f"
        "check_open_orders ?l (rx_open_orders_count x) = Inr g"
      using returns by meson
    then show ?thesis by (auto simp: risk_numeric_limits_def Let_def ebind_eq_Inl)
  qed
  finally show ?thesis by (simp only: notional)
qed

section \<open>Properties\<close>

definition limits_config :: config where
  "limits_config = armed_config
     \<lparr> cfg_risk := \<lparr> max_position_contracts = 2, max_order_size = 2, max_daily_loss_usd = Dec 500 0,
         max_orders_per_hour = 4, max_open_orders = 3, max_notional_exposure_usd = Dec 20000 0 \<rparr> \<rparr>"

definition approved_context :: risk_context where
  "approved_context = (default_risk_context sample_intent Buy 2)
     \<lparr> rx_contract := Some sample_contract, rx_reference_price := Some (Dec 15025 (- 2)),
       rx_market_data_age_seconds := Some (Flt 1), rx_app_state := App_Ready,
       rx_connection_state := Connected, rx_account_type := Acct_Paper,
       rx_account_available := True, rx_positions_reconciled := True,
       rx_open_orders_reconciled := True, rx_broker_permission_ready := True,
       rx_strategy_enabled := True, rx_kill_switch_engaged := False \<rparr>"

text \<open>
  C31: The risk manager approves exactly when every control holds and every limit does: an order of
  positive quantity within the order limit whose projected position, today's loss, orders of the
  last hour, open orders and projected notional stay within limits that are all configured.
\<close>

theorem risk_approves_iff:
  "risk_approves c x \<longleftrightarrow> risk_controls_hold c x \<and> within_limits (cfg_risk c) x"
  by (rule risk_approves_exact)

text \<open>
  A limit of zero never permits: with any one of the six limits unset, every order is refused.
\<close>

theorem unset_limit_refuses_every_order:
  assumes "max_order_size (cfg_risk c) = 0 \<or> max_position_contracts (cfg_risk c) = 0
     \<or> max_orders_per_hour (cfg_risk c) = 0 \<or> max_open_orders (cfg_risk c) = 0
     \<or> max_daily_loss_usd (cfg_risk c) = dec_zero \<or> max_notional_exposure_usd (cfg_risk c) = dec_zero"
  shows "\<not> risk_approves c x"
  using assms by (auto simp: risk_approves_exact within_limits_def loss_within_def notional_within_def)

theorem unset_limit_refuses_every_order_witness: "\<not> risk_approves default_config approved_context"
  by (rule unset_limit_refuses_every_order) (simp add: default_config_def default_risk_limits_def)

text \<open>
  C32: What an approval guarantees about money: with a numeric multiplier and a price whose product
  with the projected position fits the 28 digits of the decimal context, an approved order leaves
  |projected position| * multiplier * price within the notional limit.
\<close>

theorem approved_exposure_bounded:
  assumes "risk_approves c x" and "risk_limits_ok (cfg_risk c)"
    and "rx_contract x = Some k" and "py_decimal (qc_multiplier k) = Some (Dec m e)"
    and "rx_reference_price x = Some (Dec p f)"
    and "\<bar>projected_position x\<bar> < 10 ^ prec" and "\<bar>projected_position x * m\<bar> < 10 ^ prec"
    and "\<bar>projected_position x * m * p\<bar> < 10 ^ prec"
  shows "of_int \<bar>projected_position x\<bar> * dval (Dec m e) * dval (Dec p f)
     \<le> dval (max_notional_exposure_usd (cfg_risk c))"
proof -
  from assms(4-) obtain y where y: "notional k (projected_position x) (Dec p f) = Inr y"
      and fin: "dec_finite y"
      and val: "dval y = of_int \<bar>projected_position x\<bar> * dval (Dec m e) * dval (Dec p f)"
    using notional_exact [OF assms(4) refl] by blast
  have "notional_within (cfg_risk c) (rx_contract x) (projected_position x) (rx_reference_price x)"
    using assms(1) by (simp add: risk_approves_exact within_limits_def)
  then have "dec_less (max_notional_exposure_usd (cfg_risk c)) y = Inr False"
    using assms(3,5) y by (simp add: notional_within_def)
  moreover have "dec_finite (max_notional_exposure_usd (cfg_risk c))"
    using assms(2) by (simp add: risk_limits_ok_def)
  ultimately show ?thesis using fin val by (simp add: dec_less_finite not_less)
qed

lemma approved_context_approved: "risk_approves limits_config approved_context"
  by code_simp

theorem approved_exposure_bounded_witness:
  "of_int 2 * dval (Dec 25 0) * dval (Dec 15025 (- 2)) \<le> dval (Dec 20000 0)"
proof -
  have "py_decimal (qc_multiplier sample_contract) = Some (Dec 25 0)" by code_simp
  from approved_exposure_bounded [OF approved_context_approved _ _ this, of 15025 "- 2"] show ?thesis
    by (simp add: limits_config_def risk_limits_ok_def approved_context_def default_risk_context_def
        projected_position_def prec_def)
qed

text \<open>
  With finite limits, profit and price, the evaluation raises in one case only: the notional
  limit is set, the order can be priced, and the broker's multiplier text is not a number. Then
  the \<^verbatim>\<open>ContractError\<close> escapes instead of a rejection with the reason that the exposure is not
  computable.
\<close>

theorem risk_evaluation_raises_iff:
  assumes "risk_limits_ok (cfg_risk c)" and "dec_finite (rx_daily_pnl x)"
    and "\<And>p. rx_reference_price x = Some p \<Longrightarrow> dec_finite p"
    and "\<And>k m. rx_contract x = Some k \<Longrightarrow> py_decimal (qc_multiplier k) = Some m \<Longrightarrow> dec_finite m"
  shows "risk_evaluate c x = Inl e \<longleftrightarrow>
     e = ContractError \<and> 0 < dval (max_notional_exposure_usd (cfg_risk c))
     \<and> (\<exists>k p. rx_contract x = Some k \<and> rx_reference_price x = Some p \<and> 0 < dval p
          \<and> py_decimal (qc_multiplier k) = None)"
  using assms by (rule risk_evaluate_raises)

theorem risk_evaluation_raises_iff_witness:
  "risk_evaluate limits_config
     (approved_context \<lparr> rx_contract := Some (sample_contract \<lparr> qc_multiplier := ''n/a'' \<rparr>) \<rparr>)
   = Inl ContractError"
proof -
  let ?x = "approved_context \<lparr> rx_contract := Some (sample_contract \<lparr> qc_multiplier := ''n/a'' \<rparr>) \<rparr>"
  have none: "py_decimal ''n/a'' = None" by code_simp
  have limits: "risk_limits_ok (cfg_risk limits_config)"
    and max: "0 < dval (max_notional_exposure_usd (cfg_risk limits_config))"
    by (simp_all add: limits_config_def risk_limits_ok_def)
  have x: "rx_contract ?x = Some (sample_contract \<lparr> qc_multiplier := ''n/a'' \<rparr>)"
      "rx_reference_price ?x = Some (Dec 15025 (- 2))" "rx_daily_pnl ?x = dec_zero"
    by (simp_all add: approved_context_def default_risk_context_def)
  have "risk_evaluate limits_config ?x = Inl ContractError \<longleftrightarrow>
      ContractError = ContractError \<and> 0 < dval (max_notional_exposure_usd (cfg_risk limits_config))
      \<and> (\<exists>k p. rx_contract ?x = Some k \<and> rx_reference_price ?x = Some p \<and> 0 < dval p
           \<and> py_decimal (qc_multiplier k) = None)"
    by (rule risk_evaluation_raises_iff) (auto simp: x none limits)
  then show ?thesis using max by (simp add: x none)
qed

end
