(* ===== verification/Orders.thy ===== *)
theory Orders
  imports Contracts TimeUtils
begin

text \<open>
  \<^verbatim>\<open>app/execution/order_models.py\<close>: the order with its structural validation, its state
  transitions and fill accounting, the bracket, the recorded fill, and \<^verbatim>\<open>build_order\<close>. The
  times the code reads from the clock are arguments; order ids are arguments too.
\<close>

record order =
  o_idempotency_key :: string
  o_correlation_id :: string
  o_strategy_id :: string
  o_run_id :: string
  internal_order_id :: string
  o_intent_id :: "string option"
  o_symbol :: string
  o_con_id :: int
  o_local_symbol :: string
  o_exchange :: string
  o_currency :: string
  o_side :: order_side
  o_quantity :: int
  o_type :: order_type
  o_time_in_force :: time_in_force
  o_limit_price :: "decimal option"
  o_stop_price :: "decimal option"
  o_status :: order_status
  broker_order_id :: "string option"
  filled_quantity :: int
  average_fill_price :: "decimal option"
  o_commission :: "decimal option"
  o_commission_currency :: "string option"
  o_error_code :: "string option"
  o_error_message :: "string option"
  block_reasons :: "string list"
  o_trading_mode :: trading_mode
  o_account_type :: account_type
  o_created_at :: instant
  o_updated_at :: instant
  transmitted_at :: "instant option"

definition transmittable_order_types :: "order_type list" where
  "transmittable_order_types = [Market, Limit]"

section \<open>Validation\<close>

definition require_positive :: "decimal option \<Rightarrow> string \<Rightarrow> unit result" where
  "require_positive v msg =
     (case v of None \<Rightarrow> Inl (OrderValidationError msg)
      | Some d \<Rightarrow> ebind (dec_leq d dec_zero) (\<lambda>low. guard_raise low (OrderValidationError msg)))"

definition validate_prices :: "order_type \<Rightarrow> decimal option \<Rightarrow> decimal option \<Rightarrow> unit result" where
  "validate_prices t limit_price stop_price =
     (case t of
        Market \<Rightarrow>
          guard_raise (limit_price \<noteq> None \<or> stop_price \<noteq> None)
            (OrderValidationError ''a market order must not carry a limit or stop price'')
      | Limit \<Rightarrow>
          ebind (require_positive limit_price ''limit order requires a positive limit price'') (\<lambda>_.
            guard_raise (stop_price \<noteq> None)
              (OrderValidationError ''a limit order must not carry a stop price''))
      | Stop \<Rightarrow>
          ebind (require_positive stop_price ''stop order requires a positive stop price'') (\<lambda>_.
            guard_raise (limit_price \<noteq> None)
              (OrderValidationError ''a stop order must not carry a limit price''))
      | Stop_Limit \<Rightarrow>
          ebind (require_positive stop_price ''stop-limit order requires a positive stop price'') (\<lambda>_.
            require_positive limit_price ''stop-limit order requires a positive limit price'')
      | Bracket \<Rightarrow>
          Inl (OrderValidationError ''a bracket is submitted as a BracketOrder, not as a single order''))"

definition validate_order :: "order \<Rightarrow> unit result" where
  "validate_order o' =
     (if o_quantity o' \<le> 0
      then Inl (OrderValidationError (''quantity must be positive, got '' @ int_str (o_quantity o')))
      else if o_con_id o' \<le> 0
      then Inl (OrderValidationError ''order requires a qualified contract (positive conId)'')
      else if o_symbol o' = [] then Inl (OrderValidationError ''order requires a symbol'')
      else validate_prices (o_type o') (o_limit_price o') (o_stop_price o'))"

definition require_transmittable_type :: "order \<Rightarrow> unit result" where
  "require_transmittable_type o' =
     guard_raise (o_type o' \<notin> set transmittable_order_types)
       (OrderValidationError
          (order_type_value (o_type o') @ '' orders are modelled but not transmitted in this phase''))"

section \<open>State transitions\<close>

definition is_open :: "order \<Rightarrow> bool" where
  "is_open o' = is_open_status (o_status o')"

definition was_transmitted :: "order \<Rightarrow> bool" where
  "was_transmitted o' = (reached_broker (o_status o') \<or> broker_order_id o' \<noteq> None)"

definition mark_blocked :: "string list \<Rightarrow> instant \<Rightarrow> order \<Rightarrow> order" where
  "mark_blocked reasons ts o' =
     o' \<lparr> o_status := St_Blocked, block_reasons := reasons, o_updated_at := ts \<rparr>"

definition mark_pending_submit :: "instant \<Rightarrow> order \<Rightarrow> order" where
  "mark_pending_submit ts o' =
     o' \<lparr> o_status := St_Pending_Submit, transmitted_at := Some ts, o_updated_at := ts \<rparr>"

definition mark_submitted :: "string \<Rightarrow> instant \<Rightarrow> order \<Rightarrow> order" where
  "mark_submitted bid ts o' =
     o' \<lparr> broker_order_id := Some bid, o_status := St_Submitted, o_updated_at := ts \<rparr>"

definition mark_status :: "order_status \<Rightarrow> instant \<Rightarrow> order \<Rightarrow> order" where
  "mark_status st ts o' = o' \<lparr> o_status := st, o_updated_at := ts \<rparr>"

definition mark_rejected :: "string option \<Rightarrow> string \<Rightarrow> instant \<Rightarrow> order \<Rightarrow> order" where
  "mark_rejected code msg ts o' =
     o' \<lparr> o_status := St_Rejected, o_error_code := code, o_error_message := Some msg, o_updated_at := ts \<rparr>"

definition mark_error :: "string option \<Rightarrow> string \<Rightarrow> instant \<Rightarrow> order \<Rightarrow> order" where
  "mark_error code msg ts o' =
     o' \<lparr> o_status := St_Error, o_error_code := code, o_error_message := Some msg, o_updated_at := ts \<rparr>"

lemmas mark_defs = mark_blocked_def mark_pending_submit_def mark_submitted_def mark_status_def
  mark_rejected_def mark_error_def

text \<open>The average price after a fill, in the order the code computes it.\<close>

definition average_price :: "decimal option \<Rightarrow> int \<Rightarrow> int \<Rightarrow> decimal \<Rightarrow> decimal result" where
  "average_price average previous quantity price =
     (case average of None \<Rightarrow> Inr price
      | Some avg \<Rightarrow>
          if previous = 0 then Inr price
          else ebind (dec_mul avg (dec_of_int previous)) (\<lambda>a.
               ebind (dec_mul price (dec_of_int quantity)) (\<lambda>b.
               ebind (dec_add a b) (\<lambda>s. dec_div s (dec_of_int (previous + quantity))))))"

definition add_commission :: "decimal option \<Rightarrow> decimal \<Rightarrow> decimal result" where
  "add_commission so_far c =
     dec_add (case so_far of None \<Rightarrow> dec_zero | Some t \<Rightarrow> if dec_truthy t then t else dec_zero) c"

definition over_fill_message :: "int \<Rightarrow> order \<Rightarrow> string" where
  "over_fill_message quantity o' =
     ''fill of '' @ int_str quantity @ '' would over-fill order '' @ internal_order_id o' @ '' (''
     @ int_str (filled_quantity o') @ ''/'' @ int_str (o_quantity o') @ '' already filled)''"

text \<open>
  The order is changed field by field, so an exception of the commission addition leaves the price
  and the filled quantity already updated.
\<close>

definition apply_fill ::
  "int \<Rightarrow> decimal \<Rightarrow> decimal option \<Rightarrow> string option \<Rightarrow> instant \<Rightarrow> (order, unit) action" where
  "apply_fill quantity price commission currency ts = (\<lambda>o'.
     let new_filled = filled_quantity o' + quantity in
     if new_filled > o_quantity o' then (Inl (OrderValidationError (over_fill_message quantity o')), o')
     else
       (case average_price (average_fill_price o') (filled_quantity o') quantity price of
          Inl e \<Rightarrow> (Inl e, o')
        | Inr avg \<Rightarrow>
            let o1 = o' \<lparr> average_fill_price := Some avg, filled_quantity := new_filled \<rparr>;
                final = (\<lambda>o2. o2 \<lparr> o_status := (if new_filled = o_quantity o' then St_Filled else St_Partially_Filled),
                                  o_updated_at := ts \<rparr>)
            in (case commission of
                  None \<Rightarrow> (Inr (), final o1)
                | Some c \<Rightarrow>
                    (case add_commission (o_commission o1) c of
                       Inl e \<Rightarrow> (Inl e, o1)
                     | Inr new_total \<Rightarrow>
                         (Inr (), final (o1 \<lparr> o_commission := Some new_total, o_commission_currency := currency \<rparr>))))))"

section \<open>Brackets, fills, construction\<close>

record bracket_order =
  bk_parent :: order
  bk_take_profit :: "order option"
  bk_stop_loss :: "order option"

definition validate_child :: "order \<Rightarrow> order option \<Rightarrow> unit result" where
  "validate_child parent child =
     (case child of None \<Rightarrow> Inr ()
      | Some k \<Rightarrow>
          ebind (validate_order k) (\<lambda>_.
          ebind (guard_raise (o_side k = o_side parent)
            (OrderValidationError ''bracket child orders must be on the opposite side of the parent'')) (\<lambda>_.
          guard_raise (o_quantity k \<noteq> o_quantity parent)
            (OrderValidationError ''bracket child quantity must match the parent quantity''))))"

definition validate_bracket :: "bracket_order \<Rightarrow> unit result" where
  "validate_bracket b =
     ebind (validate_order (bk_parent b)) (\<lambda>_.
     ebind (guard_raise (bk_take_profit b = None \<and> bk_stop_loss b = None)
       (OrderValidationError ''a bracket requires at least one protective child order'')) (\<lambda>_.
     ebind (validate_child (bk_parent b) (bk_take_profit b)) (\<lambda>_.
     validate_child (bk_parent b) (bk_stop_loss b))))"

definition all_orders :: "bracket_order \<Rightarrow> order list" where
  "all_orders b =
     bk_parent b # (case bk_take_profit b of None \<Rightarrow> [] | Some k \<Rightarrow> [k])
     @ (case bk_stop_loss b of None \<Rightarrow> [] | Some k \<Rightarrow> [k])"

record fill =
  execution_id :: string
  fl_internal_order_id :: string
  fl_correlation_id :: string
  fl_run_id :: string
  fl_con_id :: int
  fl_symbol :: string
  fl_side :: order_side
  fl_quantity :: int
  fl_price :: decimal
  executed_at :: instant
  fl_commission :: "decimal option"
  fl_commission_currency :: "string option"
  fl_broker_order_id :: "string option"

definition build_order ::
  "string \<Rightarrow> qualified_contract \<Rightarrow> order_side \<Rightarrow> int \<Rightarrow> order_type \<Rightarrow> string \<Rightarrow> string \<Rightarrow> string
   \<Rightarrow> string \<Rightarrow> trading_mode \<Rightarrow> account_type \<Rightarrow> string option \<Rightarrow> decimal option \<Rightarrow> decimal option
   \<Rightarrow> time_in_force \<Rightarrow> instant \<Rightarrow> order result" where
  "build_order new_id contract side quantity type key correlation_id strategy_id run_id mode account
     intent_id limit_price stop_price tif timestamp =
     (let o' =
       \<lparr> o_idempotency_key = key, o_correlation_id = correlation_id, o_strategy_id = strategy_id,
         o_run_id = run_id, internal_order_id = new_id, o_intent_id = intent_id,
         o_symbol = qc_symbol contract, o_con_id = con_id contract,
         o_local_symbol = qc_local_symbol contract, o_exchange = qc_exchange contract,
         o_currency = qc_currency contract, o_side = side, o_quantity = quantity, o_type = type,
         o_time_in_force = tif, o_limit_price = limit_price, o_stop_price = stop_price,
         o_status = St_New, broker_order_id = None, filled_quantity = 0, average_fill_price = None,
         o_commission = None, o_commission_currency = None, o_error_code = None,
         o_error_message = None, block_reasons = [], o_trading_mode = mode,
         o_account_type = account, o_created_at = timestamp, o_updated_at = timestamp,
         transmitted_at = None \<rparr>
      in ebind (validate_order o') (\<lambda>_. Inr o'))"

section \<open>What the operations guarantee\<close>

fun prices_ok :: "order_type \<Rightarrow> decimal option \<Rightarrow> decimal option \<Rightarrow> bool" where
  "prices_ok Market l s = (l = None \<and> s = None)"
| "prices_ok Limit l s = ((case l of None \<Rightarrow> False | Some p \<Rightarrow> dec_leq p dec_zero = Inr False) \<and> s = None)"
| "prices_ok Stop l s = ((case s of None \<Rightarrow> False | Some p \<Rightarrow> dec_leq p dec_zero = Inr False) \<and> l = None)"
| "prices_ok Stop_Limit l s =
     ((case s of None \<Rightarrow> False | Some p \<Rightarrow> dec_leq p dec_zero = Inr False)
      \<and> (case l of None \<Rightarrow> False | Some p \<Rightarrow> dec_leq p dec_zero = Inr False))"
| "prices_ok Bracket l s = False"

lemma require_positive_iff:
  "require_positive v m = Inr u \<longleftrightarrow> (case v of None \<Rightarrow> False | Some p \<Rightarrow> dec_leq p dec_zero = Inr False)"
  by (auto simp: require_positive_def ebind_eq_Inr split: option.splits)

lemma validate_prices_iff: "validate_prices t l s = Inr u \<longleftrightarrow> prices_ok t l s"
  by (cases t) (auto simp: validate_prices_def ebind_eq_Inr require_positive_iff)

lemma validate_order_iff:
  "validate_order o' = Inr u \<longleftrightarrow>
     0 < o_quantity o' \<and> 0 < o_con_id o' \<and> o_symbol o' \<noteq> []
     \<and> prices_ok (o_type o') (o_limit_price o') (o_stop_price o')"
  by (auto simp: validate_order_def validate_prices_iff)

lemma build_order_Inr:
  assumes "build_order new_id k side q t key cor strat run mode acct iid lp sp tif now = Inr o'"
  shows "o_idempotency_key o' = key" "internal_order_id o' = new_id" "o_status o' = St_New"
    "broker_order_id o' = None" "filled_quantity o' = 0" "o_side o' = side" "o_quantity o' = q"
    "o_type o' = t" "o_con_id o' = con_id k" "0 < q" "transmitted_at o' = None"
    "prices_ok t lp sp" "o_limit_price o' = lp" "o_stop_price o' = sp" "o_intent_id o' = iid"
    "o_time_in_force o' = tif"
  using assms by (auto simp: build_order_def Let_def ebind_eq_Inr validate_order_iff)

lemma validate_bracket_iff:
  "validate_bracket b = Inr u \<longleftrightarrow>
     validate_order (bk_parent b) = Inr () \<and> (bk_take_profit b \<noteq> None \<or> bk_stop_loss b \<noteq> None)
     \<and> (\<forall>k \<in> set (tl (all_orders b)). validate_order k = Inr ()
          \<and> o_side k \<noteq> o_side (bk_parent b) \<and> o_quantity k = o_quantity (bk_parent b))"
  by (cases "bk_take_profit b"; cases "bk_stop_loss b")
    (auto simp: validate_bracket_def validate_child_def all_orders_def ebind_eq_Inr)

lemma apply_fill_step:
  assumes "apply_fill q p c cur now o' = (r, o2)"
  shows "o_quantity o2 = o_quantity o'"
    and "filled_quantity o' + q > o_quantity o' \<Longrightarrow> r = Inl (OrderValidationError (over_fill_message q o')) \<and> o2 = o'"
    and "filled_quantity o' \<le> o_quantity o' \<Longrightarrow> filled_quantity o2 \<le> o_quantity o2"
    and "r = Inr () \<Longrightarrow> filled_quantity o2 = filled_quantity o' + q \<and> filled_quantity o2 \<le> o_quantity o2
          \<and> o_status o2 = (if filled_quantity o2 = o_quantity o2 then St_Filled else St_Partially_Filled)"
  using assms by (auto simp: apply_fill_def Let_def split: if_splits sum.splits option.splits)

text \<open>A sequence of fills, stopping at the first exception.\<close>

type_synonym fill_args = "int \<times> decimal \<times> decimal option \<times> string option \<times> instant"

fun apply_fills :: "fill_args list \<Rightarrow> (order, unit) action" where
  "apply_fills [] = sreturn ()"
| "apply_fills ((q, p, c, cur, now) # fs) = sbind (apply_fill q p c cur now) (\<lambda>_. apply_fills fs)"

lemma apply_fills_total:
  "apply_fills fs o' = (Inr u, o2) \<Longrightarrow>
     o_quantity o2 = o_quantity o' \<and> filled_quantity o2 = filled_quantity o' + sum_list (map fst fs)
     \<and> (fs \<noteq> [] \<longrightarrow> filled_quantity o2 \<le> o_quantity o'
          \<and> o_status o2 = (if filled_quantity o2 = o_quantity o' then St_Filled else St_Partially_Filled))"
proof (induction fs arbitrary: o' u)
  case Nil
  then show ?case by simp
next
  case (Cons f fs)
  obtain q p c cur now where f: "f = (q, p, c, cur, now)" by (metis prod_cases5)
  from Cons.prems obtain o1 where 1: "apply_fill q p c cur now o' = (Inr (), o1)"
    and 2: "apply_fills fs o1 = (Inr u, o2)"
    by (auto simp: f elim: sbind_InrE)
  from apply_fill_step(1,4) [OF 1] Cons.IH [OF 2] 2 show ?case
    by (cases fs) (auto simp: f)
qed

section \<open>Properties\<close>

definition sample_order :: "int \<Rightarrow> order_type \<Rightarrow> order" where
  "sample_order q t =
     (case build_order ''ord_1'' sample_contract Buy q t ''idem_1'' ''cor_1'' ''noop'' ''run_1'' Mode_Paper
             Acct_Paper None (if t = Limit then Some (Dec 15000 (- 2)) else None) None Day (Micros 0) of
        Inr o' \<Rightarrow> o')"

text \<open>
  An order passes structural validation exactly when its quantity and contract id are positive,
  it names a symbol, and it carries the prices its type needs, all positive, and no other; a
  bracket is never a single order.
\<close>

theorem order_validation_exact:
  "validate_order o' = Inr () \<longleftrightarrow>
     0 < o_quantity o' \<and> 0 < o_con_id o' \<and> o_symbol o' \<noteq> []
     \<and> prices_ok (o_type o') (o_limit_price o') (o_stop_price o')"
  by (rule validate_order_iff)

text \<open>
  Fill accounting: after any sequence of fills that are all accepted, the filled quantity is the
  initial one plus the fills, never above the order's quantity, and the order is filled exactly when
  the two are equal, else partially filled.
\<close>

theorem fills_account_for_quantity:
  assumes "apply_fills fs o' = (Inr (), o2)" and "fs \<noteq> []"
  shows "filled_quantity o2 = filled_quantity o' + sum_list (map fst fs)
     \<and> filled_quantity o2 \<le> o_quantity o'
     \<and> (o_status o2 = St_Filled \<longleftrightarrow> filled_quantity o2 = o_quantity o')
     \<and> (o_status o2 = St_Partially_Filled \<longleftrightarrow> filled_quantity o2 < o_quantity o')"
  using apply_fills_total [OF assms(1)] assms(2) by auto

theorem fills_account_for_quantity_witness:
  "o_status (snd (apply_fills [(1, Dec 100 0, None, None, Micros 1), (2, Dec 103 0, None, None, Micros 2)]
      (sample_order 3 Market))) = St_Filled"
proof -
  let ?fs = "[(1, Dec 100 0, None, None, Micros 1), (2, Dec 103 0, None, None, Micros 2)] :: fill_args list"
  let ?o = "sample_order 3 Market"
  have q: "o_quantity ?o = 3" and f: "filled_quantity ?o = 0" by code_simp+
  have "fst (apply_fills ?fs ?o) = Inr ()" by code_simp
  then have "apply_fills ?fs ?o = (Inr (), snd (apply_fills ?fs ?o))" by (metis prod.collapse)
  from fills_account_for_quantity [OF this] show ?thesis by (simp add: q f)
qed

text \<open>
  A fill that would exceed the order's quantity is refused with a validation error and leaves
  the order exactly as it was.
\<close>

theorem over_fill_refused:
  assumes "filled_quantity o' + q > o_quantity o'"
  shows "apply_fill q p c cur now o' = (Inl (OrderValidationError (over_fill_message q o')), o')"
  using assms by (simp add: apply_fill_def)

theorem over_fill_refused_witness:
  "apply_fill 4 (Dec 100 0) None None (Micros 1) (sample_order 3 Market) =
     (Inl (OrderValidationError (over_fill_message 4 (sample_order 3 Market))), sample_order 3 Market)"
proof -
  have "filled_quantity (sample_order 3 Market) + 4 > o_quantity (sample_order 3 Market)" by code_simp
  then show ?thesis by (rule over_fill_refused)
qed

end
