(* ===== verification/Positions.thy ===== *)
theory Positions
  imports BrokerModels "HOL-Library.AList"
begin

text \<open>
  \<^verbatim>\<open>app/portfolio/positions.py\<close>: positions and the position book. The dictionary of the book is an
  association list in insertion order, which \<open>AList.update\<close> maintains as a Python dictionary does.
  What a book is for is its signed quantity per contract: the interface \<open>ledger\<close> states how a fill
  moves it, and the book implements it.
\<close>

section \<open>Ledgers\<close>

text \<open>
  A ledger posts entries that may raise; an entry that does not raise moves the quantity of its
  contract by its delta and no other, one that raises moves nothing.
\<close>

locale ledger =
  fixes qty :: "'s \<Rightarrow> int \<Rightarrow> int"
    and post :: "'f \<Rightarrow> ('s, 'a) action"
    and key :: "'f \<Rightarrow> int"
    and delta :: "'f \<Rightarrow> int"
    and ok :: "'s \<Rightarrow> bool"
  assumes post_qty: "ok s \<Longrightarrow> post f s = (Inr x, s') \<Longrightarrow> qty s' = (qty s)(key f := qty s (key f) + delta f)"
    and post_raise: "ok s \<Longrightarrow> post f s = (Inl e, s') \<Longrightarrow> qty s' = qty s"
    and post_ok: "ok s \<Longrightarrow> post f s = (r, s') \<Longrightarrow> ok s'"
begin

fun post_all :: "'f list \<Rightarrow> ('s, unit) action" where
  "post_all [] = sreturn ()"
| "post_all (f # fs) = sbind (post f) (\<lambda>_. post_all fs)"

definition net :: "'f list \<Rightarrow> int \<Rightarrow> int" where
  "net fs k = (\<Sum>f\<leftarrow>fs. if key f = k then delta f else 0)"

lemma post_all_qty:
  "ok s \<Longrightarrow> post_all fs s = (Inr u, s') \<Longrightarrow> ok s' \<and> qty s' k = qty s k + net fs k"
proof (induction fs arbitrary: s)
  case Nil
  then show ?case by (simp add: net_def)
next
  case (Cons f fs)
  from Cons.prems(2) obtain x s1 where 1: "post f s = (Inr x, s1)" and 2: "post_all fs s1 = (Inr u, s')"
    by (auto elim: sbind_InrE)
  from Cons.IH [OF post_ok [OF Cons.prems(1) 1] 2] post_qty [OF Cons.prems(1) 1]
  show ?case by (simp add: net_def)
qed

end

section \<open>Positions\<close>

record position =
  po_con_id :: int
  po_symbol :: string
  po_local_symbol :: string
  po_quantity :: int
  average_cost :: decimal
  po_updated_at :: instant
  po_account_id :: string
  po_source :: string

definition is_flat :: "position \<Rightarrow> bool" where
  "is_flat p = (po_quantity p = 0)"

definition is_long :: "position \<Rightarrow> bool" where
  "is_long p = (po_quantity p > 0)"

definition from_broker :: "broker_position \<Rightarrow> instant \<Rightarrow> position" where
  "from_broker p now =
     \<lparr> po_con_id = bp_con_id p, po_symbol = bp_symbol p, po_local_symbol = bp_local_symbol p,
       po_quantity = bp_quantity p, average_cost = bp_average_cost p, po_updated_at = now,
       po_account_id = bp_account_id p, po_source = ''broker'' \<rparr>"

section \<open>The book\<close>

type_synonym book = "(int \<times> position) list"

definition book_of :: "position list \<Rightarrow> book" where
  "book_of ps = fold (\<lambda>p b. if is_flat p then b else AList.update (po_con_id p) p b) ps []"

definition book_all :: "book \<Rightarrow> position list" where
  "book_all b = map snd b"

definition book_get :: "book \<Rightarrow> int \<Rightarrow> position option" where
  "book_get b c = map_of b c"

definition book_quantity :: "book \<Rightarrow> int \<Rightarrow> int" where
  "book_quantity b c = (case map_of b c of None \<Rightarrow> 0 | Some p \<Rightarrow> po_quantity p)"

definition book_upsert :: "position \<Rightarrow> book \<Rightarrow> book" where
  "book_upsert p b =
     (if is_flat p then AList.delete (po_con_id p) b else AList.update (po_con_id p) p b)"

definition book_replace_all :: "position list \<Rightarrow> book \<Rightarrow> book" where
  "book_replace_all ps b = book_of ps"

definition book_touch :: "int \<Rightarrow> instant \<Rightarrow> book \<Rightarrow> book" where
  "book_touch c now b =
     (case map_of b c of None \<Rightarrow> b | Some p \<Rightarrow> AList.update c (p \<lparr> po_updated_at := now \<rparr>) b)"

text \<open>The cost basis after a fill, on the three branches of the code.\<close>

definition new_average_cost :: "position option \<Rightarrow> int \<Rightarrow> decimal \<Rightarrow> decimal result" where
  "new_average_cost existing d price =
     (case existing of None \<Rightarrow> Inr price
      | Some p \<Rightarrow>
          let previous = po_quantity p in
          if previous = 0 then Inr price
          else if (previous > 0) = (d > 0)
          then ebind (dec_mul (average_cost p) (dec_of_int \<bar>previous\<bar>)) (\<lambda>a.
               ebind (dec_mul price (dec_of_int \<bar>d\<bar>)) (\<lambda>b.
               ebind (dec_add a b) (\<lambda>s. dec_div s (dec_of_int (\<bar>previous\<bar> + \<bar>d\<bar>)))))
          else Inr (average_cost p))"

record book_fill =
  kf_con_id :: int
  kf_symbol :: string
  kf_local_symbol :: string
  kf_side :: order_side
  kf_quantity :: int
  kf_price :: decimal
  kf_at :: instant

definition kf_delta :: "book_fill \<Rightarrow> int" where
  "kf_delta f = kf_quantity f * side_sign (kf_side f)"

definition book_apply_fill :: "book_fill \<Rightarrow> (book, position option) action" where
  "book_apply_fill f = (\<lambda>b.
     let c = kf_con_id f;
         existing = map_of b c;
         previous = (case existing of None \<Rightarrow> 0 | Some p \<Rightarrow> po_quantity p);
         quantity = previous + kf_delta f
     in if quantity = 0 then (Inr None, AList.delete c b)
        else (case new_average_cost existing (kf_delta f) (kf_price f) of
                Inl e \<Rightarrow> (Inl e, b)
              | Inr cost \<Rightarrow>
                  let updated =
                    \<lparr> po_con_id = c, po_symbol = kf_symbol f, po_local_symbol = kf_local_symbol f,
                      po_quantity = quantity, average_cost = cost, po_updated_at = kf_at f,
                      po_account_id = (case existing of None \<Rightarrow> '''' | Some p \<Rightarrow> po_account_id p),
                      po_source = ''local'' \<rparr>
                  in (Inr (Some updated), AList.update c updated b)))"

section \<open>The invariant and the contract\<close>

definition book_ok :: "book \<Rightarrow> bool" where
  "book_ok b =
     (distinct (map fst b) \<and> (\<forall>(c, p) \<in> set b. po_con_id p = c \<and> po_quantity p \<noteq> 0))"

lemma book_ok_empty [simp]: "book_ok []"
  by (simp add: book_ok_def)

lemma book_ok_lookup: "book_ok b \<Longrightarrow> map_of b c = Some p \<Longrightarrow> po_con_id p = c \<and> po_quantity p \<noteq> 0"
  by (auto simp: book_ok_def dest!: map_of_SomeD)

lemma set_update_subset: "set (AList.update k v al) \<subseteq> insert (k, v) (set al)"
  by (induction al) auto

lemma book_ok_update:
  "book_ok b \<Longrightarrow> po_con_id p = c \<Longrightarrow> po_quantity p \<noteq> 0 \<Longrightarrow> book_ok (AList.update c p b)"
  using set_update_subset [of c p b] by (fastforce simp: book_ok_def distinct_update)

lemma book_ok_delete: "book_ok b \<Longrightarrow> book_ok (AList.delete c b)"
  by (auto simp: book_ok_def AList.delete_eq distinct_map_filter)

lemma book_ok_of: "book_ok (book_of ps)"
proof -
  have "book_ok (fold (\<lambda>p b. if is_flat p then b else AList.update (po_con_id p) p b) ps b)"
    if "book_ok b" for b
    using that by (induction ps arbitrary: b) (auto simp: is_flat_def book_ok_update)
  then show ?thesis by (simp add: book_of_def)
qed

lemma book_quantity_update:
  "book_quantity (AList.update c p b) = (book_quantity b)(c := po_quantity p)"
  by (auto simp: book_quantity_def update_conv')

lemma book_quantity_delete: "book_quantity (AList.delete c b) = (book_quantity b)(c := 0)"
  by (auto simp: book_quantity_def delete_conv')

lemma book_apply_fill_quantity:
  "book_apply_fill f b = (Inr r, b') \<Longrightarrow>
     book_quantity b' = (book_quantity b)(kf_con_id f := book_quantity b (kf_con_id f) + kf_delta f)"
  by (auto simp: book_apply_fill_def Let_def book_quantity_update book_quantity_delete
      split: if_splits sum.splits) (simp_all add: book_quantity_def)

lemma book_apply_fill_raise: "book_apply_fill f b = (Inl e, b') \<Longrightarrow> b' = b"
  by (auto simp: book_apply_fill_def Let_def split: if_splits sum.splits)

lemma book_apply_fill_ok: "book_ok b \<Longrightarrow> book_apply_fill f b = (r, b') \<Longrightarrow> book_ok b'"
  by (auto simp: book_apply_fill_def Let_def intro!: book_ok_update book_ok_delete
      split: if_splits sum.splits)

lemma book_ok_operations:
  "book_ok b \<Longrightarrow> book_ok (book_upsert p b)"
  "book_ok (book_replace_all ps b)"
  "book_ok b \<Longrightarrow> book_ok (book_touch c now b)"
  by (auto simp: book_upsert_def book_replace_all_def book_touch_def is_flat_def book_ok_of
      intro!: book_ok_update book_ok_delete dest: book_ok_lookup split: option.splits)

interpretation book: ledger book_quantity book_apply_fill kf_con_id kf_delta book_ok
  by unfold_locales
    (auto dest: book_apply_fill_quantity book_apply_fill_raise book_apply_fill_ok)

section \<open>Properties\<close>

fun book_apply_fills :: "book_fill list \<Rightarrow> (book, unit) action" where
  "book_apply_fills [] = sreturn ()"
| "book_apply_fills (f # fs) = sbind (book_apply_fill f) (\<lambda>_. book_apply_fills fs)"

definition net_delta :: "book_fill list \<Rightarrow> int \<Rightarrow> int" where
  "net_delta fs c = (\<Sum>f\<leftarrow>fs. if kf_con_id f = c then kf_delta f else 0)"

lemma book_apply_fills_ledger: "book_apply_fills fs = book.post_all fs" "net_delta fs = book.net fs"
proof -
  show "book_apply_fills fs = book.post_all fs"
    by (induction fs) (simp_all add: book.post_all.simps)
  show "net_delta fs = book.net fs"
    by (rule ext) (simp add: net_delta_def book.net_def)
qed

text \<open>
  The position book refines signed quantities per contract: after any sequence of fills that
  raise no exception, the quantity of every contract is its initial quantity plus the net signed
  fills for that contract, and the book still has one entry per contract and no flat entry.
\<close>

theorem book_tracks_net_fills:
  assumes "book_ok b" and "book_apply_fills fs b = (Inr (), b')"
  shows "book_quantity b' c = book_quantity b c + net_delta fs c \<and> book_ok b'
     \<and> (c \<in> fst ` set b' \<longleftrightarrow> book_quantity b' c \<noteq> 0)"
proof -
  have "book_ok b' \<and> book_quantity b' c = book_quantity b c + net_delta fs c"
    using book.post_all_qty [OF assms(1)] assms(2) by (simp add: book_apply_fills_ledger)
  moreover have "c \<in> fst ` set b' \<longleftrightarrow> book_quantity b' c \<noteq> 0" if "book_ok b'"
  proof (cases "map_of b' c")
    case None
    then have "c \<notin> fst ` set b'" by (simp add: map_of_eq_None_iff)
    with None show ?thesis by (simp add: book_quantity_def)
  next
    case (Some p)
    with book_ok_lookup [OF that Some] show ?thesis
      by (force simp: book_quantity_def dest: map_of_SomeD)
  qed
  ultimately show ?thesis by blast
qed

definition sample_fill :: "order_side \<Rightarrow> int \<Rightarrow> decimal \<Rightarrow> book_fill" where
  "sample_fill side q price =
     \<lparr> kf_con_id = 7, kf_symbol = ''MSL'', kf_local_symbol = ''MSLU6'', kf_side = side,
       kf_quantity = q, kf_price = price, kf_at = Micros 0 \<rparr>"

theorem book_tracks_net_fills_witness:
  "book_quantity (snd (book_apply_fills
      [sample_fill Buy 2 (Dec 150 0), sample_fill Buy 1 (Dec 153 0), sample_fill Sell 5 (Dec 140 0)] [])) 7 = - 2"
proof -
  let ?fs = "[sample_fill Buy 2 (Dec 150 0), sample_fill Buy 1 (Dec 153 0), sample_fill Sell 5 (Dec 140 0)]"
  have "fst (book_apply_fills ?fs []) = Inr ()" by code_simp
  then have "book_apply_fills ?fs [] = (Inr (), snd (book_apply_fills ?fs []))" by (metis prod.collapse)
  moreover have "net_delta ?fs 7 = - 2" by code_simp
  ultimately show ?thesis
    using book_tracks_net_fills [OF book_ok_empty, of ?fs _ 7] by (simp add: book_quantity_def)
qed

text \<open>
  A fill that turns a position to the other side leaves the contracts of the new side at the
  cost basis of the closed ones, not at the price they were opened at: the average cost of the
  reversed position is the old one, whatever the price of the fill.
\<close>

theorem reversal_keeps_old_cost:
  assumes "map_of b (kf_con_id f) = Some p"
    and "po_quantity p > 0 \<and> po_quantity p + kf_delta f < 0 \<or> po_quantity p < 0 \<and> po_quantity p + kf_delta f > 0"
  shows "\<exists>p'. fst (book_apply_fill f b) = Inr (Some p')
     \<and> po_quantity p' = po_quantity p + kf_delta f \<and> average_cost p' = average_cost p"
  using assms by (auto simp: book_apply_fill_def new_average_cost_def Let_def)

theorem reversal_keeps_old_cost_witness:
  "\<exists>p'. fst (book_apply_fill (sample_fill Sell 5 (Dec 140 0)) (snd (book_apply_fill (sample_fill Buy 2 (Dec 150 0)) [])))
      = Inr (Some p') \<and> po_quantity p' = - 3 \<and> average_cost p' = Dec 150 0"
proof -
  let ?b = "snd (book_apply_fill (sample_fill Buy 2 (Dec 150 0)) [])"
  let ?p = "\<lparr> po_con_id = 7, po_symbol = ''MSL'', po_local_symbol = ''MSLU6'', po_quantity = 2,
      average_cost = Dec 150 0, po_updated_at = Micros 0, po_account_id = [], po_source = ''local'' \<rparr>"
  have "map_of ?b (kf_con_id (sample_fill Sell 5 (Dec 140 0))) = Some ?p" by code_simp
  from reversal_keeps_old_cost [OF this] show ?thesis by (simp add: sample_fill_def kf_delta_def)
qed

end
