(* ===== verification/Reconciliation.thy ===== *)
theory Reconciliation
  imports Positions
begin

text \<open>
  \<^verbatim>\<open>app/portfolio/reconciliation.py\<close>: the comparison of the local book and open orders with the
  broker's. The explanatory text of an order discrepancy is left out. The \<^verbatim>\<open>kind\<close> string is a
  datatype.
\<close>

record position_discrepancy =
  pd_con_id :: int
  pd_symbol :: string
  local_quantity :: int
  broker_quantity :: int

definition pd_delta :: "position_discrepancy \<Rightarrow> int" where
  "pd_delta d = broker_quantity d - local_quantity d"

datatype discrepancy_kind = Unknown_At_Broker | Unknown_Locally

record order_discrepancy =
  od_broker_order_id :: string
  od_symbol :: string
  od_kind :: discrepancy_kind

record reconciliation_result =
  rr_positions_reconciled :: bool
  rr_orders_reconciled :: bool
  rr_account_available :: bool
  position_discrepancies :: "position_discrepancy list"
  order_discrepancies :: "order_discrepancy list"
  fills_seen :: int
  rr_errors :: "string list"
  rr_broker_positions :: "position list"

definition empty_reconciliation :: reconciliation_result where
  "empty_reconciliation =
     \<lparr> rr_positions_reconciled = False, rr_orders_reconciled = False, rr_account_available = False,
       position_discrepancies = [], order_discrepancies = [], fills_seen = 0, rr_errors = [],
       rr_broker_positions = [] \<rparr>"

definition rec_succeeded :: "reconciliation_result \<Rightarrow> bool" where
  "rec_succeeded r =
     (rr_positions_reconciled r \<and> rr_orders_reconciled r \<and> rr_account_available r \<and> rr_errors r = [])"

definition by_con_id :: "position list \<Rightarrow> (int \<times> position) list" where
  "by_con_id ps = fold (\<lambda>p al. AList.update (po_con_id p) p al) ps []"

definition quantity_in :: "(int \<times> position) list \<Rightarrow> int \<Rightarrow> int" where
  "quantity_in al c = (case map_of al c of None \<Rightarrow> 0 | Some p \<Rightarrow> po_quantity p)"

definition discrepancy_at ::
  "(int \<times> position) list \<Rightarrow> (int \<times> position) list \<Rightarrow> int \<Rightarrow> position_discrepancy list" where
  "discrepancy_at broker_by_id local_by_id c =
     (let bq = quantity_in broker_by_id c; lq = quantity_in local_by_id c
      in if bq \<noteq> lq then
           [\<lparr> pd_con_id = c,
              pd_symbol = (case map_of broker_by_id c of Some p \<Rightarrow> po_symbol p
                           | None \<Rightarrow> (case map_of local_by_id c of Some p \<Rightarrow> po_symbol p | None \<Rightarrow> ''?'')),
              local_quantity = lq, broker_quantity = bq \<rparr>]
         else [])"

definition compare_positions :: "book \<Rightarrow> position list \<Rightarrow> position_discrepancy list" where
  "compare_positions b broker_positions =
     (let broker_by_id = by_con_id broker_positions;
          local_by_id = by_con_id (book_all b);
          ids = sort (remdups (map fst broker_by_id @ map fst local_by_id))
      in concat (map (discrepancy_at broker_by_id local_by_id) ids))"

type_synonym open_order_tuple = "string \<times> string option \<times> string"

definition local_broker_ids :: "open_order_tuple list \<Rightarrow> string list" where
  "local_broker_ids ts = concat (map (\<lambda>(_, b, _). case b of None \<Rightarrow> [] | Some x \<Rightarrow> [x]) ts)"

definition compare_orders :: "order_snapshot list \<Rightarrow> open_order_tuple list \<Rightarrow> order_discrepancy list" where
  "compare_orders broker_open local_open =
     (let broker_ids = map os_broker_order_id broker_open;
          local_ids = local_broker_ids local_open
      in concat (map (\<lambda>s. if os_broker_order_id s \<notin> set local_ids
                           then [\<lparr> od_broker_order_id = os_broker_order_id s, od_symbol = os_symbol s,
                                   od_kind = Unknown_Locally \<rparr>] else []) broker_open)
         @ concat (map (\<lambda>(internal_id, b, symbol).
              case b of
                None \<Rightarrow> [\<lparr> od_broker_order_id = internal_id, od_symbol = symbol, od_kind = Unknown_At_Broker \<rparr>]
              | Some x \<Rightarrow> if x \<notin> set broker_ids
                           then [\<lparr> od_broker_order_id = x, od_symbol = symbol, od_kind = Unknown_At_Broker \<rparr>]
                           else []) local_open))"

definition reconcile ::
  "instant \<Rightarrow> book \<Rightarrow> broker_position list \<Rightarrow> order_snapshot list \<Rightarrow> open_order_tuple list
   \<Rightarrow> broker_fill list \<Rightarrow> bool \<Rightarrow> reconciliation_result" where
  "reconcile now b broker_positions broker_open local_open broker_fills account =
     (let broker_book = map (\<lambda>p. from_broker p now) broker_positions;
          pds = compare_positions b broker_book;
          ods = compare_orders broker_open local_open
      in \<lparr> rr_positions_reconciled = (pds = []), rr_orders_reconciled = (ods = []),
           rr_account_available = account, position_discrepancies = pds, order_discrepancies = ods,
           fills_seen = int (length broker_fills), rr_errors = [],
           rr_broker_positions = broker_book \<rparr>)"

definition fills_to_position_deltas :: "broker_fill list \<Rightarrow> (int \<times> int) list" where
  "fills_to_position_deltas fills =
     fold (\<lambda>f al. AList.update (bf_con_id f)
             ((case map_of al (bf_con_id f) of None \<Rightarrow> 0 | Some q \<Rightarrow> q) + bf_quantity f * side_sign (bf_side f)) al)
       fills []"

definition realized_commission :: "broker_fill list \<Rightarrow> decimal result" where
  "realized_commission fills =
     fold (\<lambda>f total. ebind total (\<lambda>t. dec_add t
             (case bf_commission f of None \<Rightarrow> dec_zero | Some c \<Rightarrow> if dec_truthy c then c else dec_zero)))
       fills (Inr dec_zero)"

section \<open>What a successful comparison means\<close>

lemma discrepancy_at_Nil: "discrepancy_at x y c = [] \<longleftrightarrow> quantity_in x c = quantity_in y c"
  by (simp add: discrepancy_at_def Let_def)

lemma quantity_in_absent: "c \<notin> fst ` set al \<Longrightarrow> quantity_in al c = 0"
  by (auto simp: quantity_in_def dest: map_of_SomeD split: option.splits) (force dest: map_of_SomeD)

lemma compare_positions_Nil:
  "compare_positions b ps = [] \<longleftrightarrow> (\<forall>c. quantity_in (by_con_id ps) c = quantity_in (by_con_id (book_all b)) c)"
proof -
  have "compare_positions b ps = [] \<longleftrightarrow>
      (\<forall>c \<in> fst ` set (by_con_id ps) \<union> fst ` set (by_con_id (book_all b)).
         quantity_in (by_con_id ps) c = quantity_in (by_con_id (book_all b)) c)"
    by (simp add: compare_positions_def Let_def discrepancy_at_Nil)
  then show ?thesis by (metis UnCI quantity_in_absent)
qed

text \<open>The dictionary of a book's own positions looks up what the book does.\<close>

lemma find_append:
  "List.find P (xs @ ys) = (case List.find P xs of None \<Rightarrow> List.find P ys | Some x \<Rightarrow> Some x)"
  by (induction xs) auto

lemma fold_update_lookup:
  "map_of (fold (\<lambda>p al. AList.update (po_con_id p) p al) ps al) c =
     (case List.find (\<lambda>p. po_con_id p = c) (rev ps) of Some p \<Rightarrow> Some p | None \<Rightarrow> map_of al c)"
  by (induction ps arbitrary: al) (auto simp: find_append update_conv' split: option.splits)

lemma find_book:
  assumes "book_ok b"
  shows "List.find (\<lambda>p. po_con_id p = c) (rev (book_all b)) = map_of b c"
proof (cases "List.find (\<lambda>p. po_con_id p = c) (rev (book_all b))")
  case None
  then have "po_con_id p \<noteq> c" if "(k, p) \<in> set b" for k p
    using that by (force simp: find_None_iff book_all_def)
  with assms have "c \<notin> fst ` set b" by (force simp: book_ok_def)
  then have "map_of b c = None" by (simp add: map_of_eq_None_iff)
  with None show ?thesis by simp
next
  case (Some q)
  then have "q \<in> snd ` set b" "po_con_id q = c"
    using find_Some_mem [OF Some] by (auto simp: book_all_def)
  then have "(c, q) \<in> set b" using assms by (auto simp: book_ok_def)
  with assms have "map_of b c = Some q" by (simp add: book_ok_def)
  with Some show ?thesis by simp
qed

lemma quantity_in_book: "book_ok b \<Longrightarrow> quantity_in (by_con_id (book_all b)) c = book_quantity b c"
  by (simp add: quantity_in_def by_con_id_def fold_update_lookup find_book book_quantity_def
      split: option.splits)

text \<open>What the broker reports for a contract: its last entry for it.\<close>

definition reported_quantity :: "broker_position list \<Rightarrow> int \<Rightarrow> int" where
  "reported_quantity ps c =
     (case List.find (\<lambda>p. bp_con_id p = c) (rev ps) of None \<Rightarrow> 0 | Some p \<Rightarrow> bp_quantity p)"

lemma find_map: "List.find P (map f xs) = map_option f (List.find (P \<circ> f) xs)"
  by (induction xs) auto

lemma quantity_in_broker:
  "quantity_in (by_con_id (map (\<lambda>p. from_broker p now) ps)) c = reported_quantity ps c"
  by (simp add: quantity_in_def by_con_id_def fold_update_lookup find_map reported_quantity_def
      rev_map comp_def from_broker_def split: option.splits)

lemma local_broker_ids_set: "x \<in> set (local_broker_ids ts) \<longleftrightarrow> (\<exists>i s. (i, Some x, s) \<in> set ts)"
  by (force simp: local_broker_ids_def split: option.splits)

definition order_known :: "string list \<Rightarrow> open_order_tuple \<Rightarrow> bool" where
  "order_known broker_ids t = (case fst (snd t) of None \<Rightarrow> False | Some x \<Rightarrow> x \<in> set broker_ids)"

lemma compare_orders_Nil:
  "compare_orders broker_open local_open = [] \<longleftrightarrow>
     (\<forall>t \<in> set local_open. order_known (map os_broker_order_id broker_open) t)
     \<and> (\<forall>s \<in> set broker_open. os_broker_order_id s \<in> set (local_broker_ids local_open))"
  by (auto simp: compare_orders_def order_known_def Let_def split: option.splits if_splits)

lemma orders_known_iff:
  "(\<forall>t \<in> set local_open. order_known ids t) \<and> (\<forall>x \<in> set ids. x \<in> set (local_broker_ids local_open)) \<longleftrightarrow>
     (\<forall>t \<in> set local_open. fst (snd t) \<noteq> None) \<and> set (local_broker_ids local_open) = set ids"
  (is "?l \<longleftrightarrow> ?r")
proof
  assume l: ?l
  have "x \<in> set ids" if "x \<in> set (local_broker_ids local_open)" for x
    using that l by (auto simp: local_broker_ids_set order_known_def)
  with l show ?r by (auto simp: order_known_def split: option.splits)
next
  assume r: ?r
  have "order_known ids t" if t: "t \<in> set local_open" for t
  proof -
    obtain i b s where tt: "t = (i, b, s)" by (metis prod_cases3)
    with t r obtain x where "b = Some x" by auto
    with t tt have "x \<in> set (local_broker_ids local_open)" by (auto simp: local_broker_ids_set)
    with r tt \<open>b = Some x\<close> show ?thesis by (simp add: order_known_def)
  qed
  with r show ?l by simp
qed

lemma reconcile_succeeded_exact:
  assumes "book_ok b"
  shows "rec_succeeded (reconcile now b ps broker_open local_open fills account) \<longleftrightarrow>
     account \<and> (\<forall>c. book_quantity b c = reported_quantity ps c)
     \<and> (\<forall>t \<in> set local_open. fst (snd t) \<noteq> None)
     \<and> set (local_broker_ids local_open) = set (map os_broker_order_id broker_open)"
proof -
  have "compare_positions b (map (\<lambda>p. from_broker p now) ps) = [] \<longleftrightarrow>
      (\<forall>c. book_quantity b c = reported_quantity ps c)"
    by (auto simp: compare_positions_Nil quantity_in_broker quantity_in_book [OF assms])
  moreover have "compare_orders broker_open local_open = [] \<longleftrightarrow>
      (\<forall>t \<in> set local_open. fst (snd t) \<noteq> None)
      \<and> set (local_broker_ids local_open) = set (map os_broker_order_id broker_open)"
    using orders_known_iff [of local_open "map os_broker_order_id broker_open"]
    by (simp add: compare_orders_Nil)
  ultimately show ?thesis by (simp add: rec_succeeded_def reconcile_def Let_def) blast
qed

lemma deltas_lookup:
  "(case map_of (fold (\<lambda>f al. AList.update (bf_con_id f)
             ((case map_of al (bf_con_id f) of None \<Rightarrow> 0 | Some q \<Rightarrow> q) + bf_quantity f * side_sign (bf_side f)) al)
       fills al) c of None \<Rightarrow> 0 | Some q \<Rightarrow> q) =
   (case map_of al c of None \<Rightarrow> 0 | Some q \<Rightarrow> q)
     + (\<Sum>f\<leftarrow>fills. if bf_con_id f = c then bf_quantity f * side_sign (bf_side f) else 0)"
  by (induction fills arbitrary: al) (auto simp: update_conv')

lemma fills_to_position_deltas_net:
  "(case map_of (fills_to_position_deltas fills) c of None \<Rightarrow> 0 | Some q \<Rightarrow> q) =
     (\<Sum>f\<leftarrow>fills. if bf_con_id f = c then bf_quantity f * side_sign (bf_side f) else 0)"
  using deltas_lookup [where al = "[]" and fills = fills and c = c] by (simp add: fills_to_position_deltas_def)

section \<open>Properties\<close>

text \<open>
  C40: A reconciliation succeeds exactly when account data is available, the book and the broker
  agree on the quantity of every contract (a contract absent on one side counting as zero), every
  local working order carries a broker id, and the two sides have the same set of working order
  ids. There is no tolerance.
\<close>

theorem reconcile_succeeds_iff_agreement:
  assumes "book_ok b"
  shows "rec_succeeded (reconcile now b ps broker_open local_open fills account) \<longleftrightarrow>
     account \<and> (\<forall>c. book_quantity b c = reported_quantity ps c)
     \<and> (\<forall>t \<in> set local_open. fst (snd t) \<noteq> None)
     \<and> set (local_broker_ids local_open) = set (map os_broker_order_id broker_open)"
  using assms by (rule reconcile_succeeded_exact)

theorem reconcile_succeeds_iff_agreement_witness:
  "\<not> rec_succeeded (reconcile (Micros 0) [] [] [] [(''ord_1'', None, ''MSL'')] [] True)
   \<and> rec_succeeded (reconcile (Micros 0) [] [] [] [] [] True)"
  using reconcile_succeeds_iff_agreement [OF book_ok_empty, of "Micros 0" "[]" "[]" "[(''ord_1'', None, ''MSL'')]" "[]" True]
    reconcile_succeeds_iff_agreement [OF book_ok_empty, of "Micros 0" "[]" "[]" "[]" "[]" True]
  by (simp add: book_quantity_def reported_quantity_def local_broker_ids_def)

text \<open>
  A position change that fills explain is not a discrepancy: if the broker's quantities are the
  book's plus the net of the fills, then after the fills are applied the positions reconcile.
\<close>

theorem explained_fills_reconcile:
  assumes "book_ok b" and "book_apply_fills fs b = (Inr (), b')"
    and "\<And>c. reported_quantity ps c = book_quantity b c + net_delta fs c"
  shows "rr_positions_reconciled (reconcile now b' ps broker_open local_open fills account)"
proof -
  have "book_ok b' \<and> book_quantity b' c = reported_quantity ps c" for c
    using book.post_all_qty [OF assms(1)] assms(2,3) by (simp add: book_apply_fills_ledger)
  then show ?thesis
    by (simp add: reconcile_def Let_def compare_positions_Nil quantity_in_broker quantity_in_book)
qed

theorem explained_fills_reconcile_witness:
  "rr_positions_reconciled (reconcile (Micros 0) (snd (book_apply_fills [sample_fill Buy 2 (Dec 150 0)] []))
     [\<lparr> bp_account_id = ''DU1'', bp_con_id = 7, bp_symbol = ''MSL'', bp_local_symbol = ''MSLU6'',
        bp_sec_type = ''FUT'', bp_exchange = ''CME'', bp_currency = ''USD'', bp_quantity = 2,
        bp_average_cost = Dec 150 0 \<rparr>] [] [] [] True)"
proof -
  have "fst (book_apply_fills [sample_fill Buy 2 (Dec 150 0)] []) = Inr ()" by code_simp
  then have "book_apply_fills [sample_fill Buy 2 (Dec 150 0)] [] =
      (Inr (), snd (book_apply_fills [sample_fill Buy 2 (Dec 150 0)] []))" by (metis prod.collapse)
  from explained_fills_reconcile [OF book_ok_empty this] show ?thesis
    by (simp add: reported_quantity_def book_quantity_def net_delta_def sample_fill_def kf_delta_def)
qed

end
