(* ===== verification/Store.thy ===== *)
theory Store
  imports Orders Positions KillSwitch Signals
begin

text \<open>
  \<^verbatim>\<open>app/state\<close>: the SQLite database and its repositories. A table is the list of its rows in
  insertion order, a row the record the repository reads back; decimal texts and ISO timestamps
  read back as they were written, and ISO texts in UTC sort as the instants do. What the operations
  rely on is modelled: primary keys and UNIQUE columns, conflict clauses, one transaction around a
  group of statements, and the columns an \<^verbatim>\<open>UPDATE\<close> lists.

  Every statement may fail. \<open>db_faults\<close> says for the coming statements whether they raise; the
  statements after its end succeed. As the state is returned beside an exception, a property that
  holds for every list of faults holds wherever the process stops. A statement on a closed database
  raises. \<open>DatabaseError\<close> stands for the errors of the engine, \<open>IntegrityError\<close> for
  those that name a UNIQUE constraint.

  Left out: the columns nothing reads back (recorded-at times, JSON detail), the schema's DDL, and
  the historical bars of the backtester.
\<close>

record signal_record =
  sr_intent_id :: string
  sr_correlation_id :: string
  sr_run_id :: string
  sr_strategy_name :: string
  sr_symbol :: string
  sr_direction :: direction
  sr_requested_position :: int
  sr_created_at :: instant
  sr_accepted :: bool
  sr_confidence :: "pyfloat option"
  sr_contract_key :: "string option"
  sr_rejection_reasons :: "string list"

record risk_row =
  rk_correlation_id :: string
  rk_intent_id :: "string option"
  rk_run_id :: string
  rk_approved :: bool
  rk_reasons :: "string list"
  rk_decided_at :: instant

record event_row =
  ev_run_id :: string
  ev_event :: string
  ev_level :: string
  ev_occurred_at :: instant

record daily_performance =
  trade_date :: int
  realized_pnl :: decimal
  unrealized_pnl :: decimal
  dp_commission :: decimal
  order_count :: int
  fill_count :: int

definition total_pnl :: "daily_performance \<Rightarrow> decimal result" where
  "total_pnl p =
     ebind (dec_add (realized_pnl p) (unrealized_pnl p)) (\<lambda>s. dec_sub s (dp_commission p))"

record db =
  db_open :: bool
  db_faults :: "bool list"
  schema_versions :: "int list"
  t_orders :: "order list"
  t_fills :: "fill list"
  t_positions :: "position list"
  t_signals :: "signal_record list"
  t_risk_decisions :: "risk_row list"
  t_bot_events :: "event_row list"
  t_broker_events :: "event_row list"
  t_contracts :: "qualified_contract list"
  t_performance :: "daily_performance list"
  t_state :: "(string \<times> string) list"

definition empty_db :: db where
  "empty_db =
     \<lparr> db_open = False, db_faults = [], schema_versions = [], t_orders = [], t_fills = [],
       t_positions = [], t_signals = [], t_risk_decisions = [], t_bot_events = [],
       t_broker_events = [], t_contracts = [], t_performance = [], t_state = [] \<rparr>"

section \<open>Statements and transactions\<close>

definition statement :: "(db, 'a) action \<Rightarrow> (db, 'a) action" where
  "statement f = (\<lambda>s.
     if \<not> db_open s then (Inl DatabaseError, s)
     else (case db_faults s of
             [] \<Rightarrow> f s
           | failing # rest \<Rightarrow>
               (let s' = s \<lparr> db_faults := rest \<rparr> in if failing then (Inl DatabaseError, s') else f s')))"

definition query :: "(db \<Rightarrow> 'a) \<Rightarrow> (db, 'a) action" where
  "query g = statement (\<lambda>s. (Inr (g s), s))"

text \<open>
  A transaction that raises restores the tables; the connection and the pending faults are not part
  of them. Opening and committing it are not among the statements that may fail.
\<close>

definition transaction :: "(db, 'a) action \<Rightarrow> (db, 'a) action" where
  "transaction body = (\<lambda>s.
     (case body s of
        (Inr x, t) \<Rightarrow> (Inr x, t)
      | (Inl e, t) \<Rightarrow> (Inl e, s \<lparr> db_open := db_open t, db_faults := db_faults t \<rparr>)))"

section \<open>Connection and migrations\<close>

text \<open>
  Opening an open database does nothing. Otherwise it may fail (the directory, the file, a pragma), in
  which case the connection is not kept.
\<close>

definition db_connect :: "(db, unit) action" where
  "db_connect = (\<lambda>s.
     if db_open s then (Inr (), s)
     else (case db_faults s of
             [] \<Rightarrow> (Inr (), s \<lparr> db_open := True \<rparr>)
           | failing # rest \<Rightarrow>
               if failing then (Inl DatabaseError, s \<lparr> db_faults := rest \<rparr>)
               else (Inr (), s \<lparr> db_faults := rest, db_open := True \<rparr>)))"

definition db_close :: "db \<Rightarrow> db" where
  "db_close s = s \<lparr> db_open := False \<rparr>"

definition migration_versions :: "int list" where
  "migration_versions = [1, 2]"

text \<open>One migration is one transaction, here one statement.\<close>

fun apply_migrations :: "int list \<Rightarrow> int list \<Rightarrow> (db, unit) action" where
  "apply_migrations applied [] = sreturn ()"
| "apply_migrations applied (v # vs) =
     (if v \<in> set applied then apply_migrations applied vs
      else sbind (statement (\<lambda>s. (Inr (), s \<lparr> schema_versions := schema_versions s @ [v] \<rparr>)))
             (\<lambda>_. apply_migrations applied vs))"

definition schema_version :: "(db, int) action" where
  "schema_version = (\<lambda>s.
     (case query (\<lambda>s. foldr max (schema_versions s) 0) s of
        (Inl e, t) \<Rightarrow> (Inr 0, t)
      | (Inr v, t) \<Rightarrow> (Inr v, t)))"

definition migrate :: "(db, int) action" where
  "migrate =
     sbind db_connect (\<lambda>_.
     sbind (statement (\<lambda>s. (Inr (), s))) (\<lambda>_.
     sbind (query schema_versions) (\<lambda>applied.
     sbind (apply_migrations applied migration_versions) (\<lambda>_. schema_version))))"

definition db_healthy :: "db \<Rightarrow> bool \<times> db" where
  "db_healthy s = (case query (\<lambda>_. True) s of (Inl e, t) \<Rightarrow> (False, t) | (Inr b, t) \<Rightarrow> (b, t))"

section \<open>Orders\<close>

definition order_insert :: "order \<Rightarrow> (db, unit) action" where
  "order_insert o' = statement (\<lambda>s.
     if \<exists>r \<in> set (t_orders s). internal_order_id r = internal_order_id o'
                             \<or> o_idempotency_key r = o_idempotency_key o'
     then (Inl IntegrityError, s)
     else (Inr (), s \<lparr> t_orders := t_orders s @ [o'] \<rparr>))"

text \<open>The columns that \<^verbatim>\<open>UPDATE orders\<close> writes.\<close>

definition persist_over :: "order \<Rightarrow> order \<Rightarrow> order" where
  "persist_over o' r = r
     \<lparr> o_updated_at := o_updated_at o', transmitted_at := transmitted_at o', o_status := o_status o',
       broker_order_id := broker_order_id o', filled_quantity := filled_quantity o',
       average_fill_price := average_fill_price o', o_commission := o_commission o',
       o_commission_currency := o_commission_currency o', o_error_code := o_error_code o',
       o_error_message := o_error_message o', block_reasons := block_reasons o',
       o_account_type := o_account_type o' \<rparr>"

definition order_update :: "order \<Rightarrow> (db, unit) action" where
  "order_update o' = statement (\<lambda>s.
     (Inr (), s \<lparr> t_orders :=
        map (\<lambda>r. if internal_order_id r = internal_order_id o' then persist_over o' r else r) (t_orders s) \<rparr>))"

definition order_get :: "string \<Rightarrow> (db, order option) action" where
  "order_get i = query (\<lambda>s. List.find (\<lambda>r. internal_order_id r = i) (t_orders s))"

definition order_by_key :: "string \<Rightarrow> (db, order option) action" where
  "order_by_key k = query (\<lambda>s. List.find (\<lambda>r. o_idempotency_key r = k) (t_orders s))"

definition order_by_broker_id :: "string \<Rightarrow> (db, order option) action" where
  "order_by_broker_id b = query (\<lambda>s. List.find (\<lambda>r. broker_order_id r = Some b) (t_orders s))"

text \<open>
  \<^verbatim>\<open>insert_if_absent\<close>: the insertion with its handler, then the method. \<open>other\<close> is
  what another connection commits between the look-up and the insertion.
\<close>

definition insert_or_winner :: "order \<Rightarrow> (db, order \<times> bool) action" where
  "insert_or_winner o' = (\<lambda>s.
     (case order_insert o' s of
        (Inr _, s1) \<Rightarrow> (Inr (o', True), s1)
      | (Inl e, s1) \<Rightarrow>
          if e \<noteq> IntegrityError then (Inl e, s1)
          else (case order_by_key (o_idempotency_key o') s1 of
                  (Inl e', s2) \<Rightarrow> (Inl e', s2)
                | (Inr None, s2) \<Rightarrow> (Inl e, s2)
                | (Inr (Some r), s2) \<Rightarrow> (Inr (r, False), s2))))"

definition insert_if_absent :: "(db \<Rightarrow> db) \<Rightarrow> order \<Rightarrow> (db, order \<times> bool) action" where
  "insert_if_absent other o' =
     sbind (order_by_key (o_idempotency_key o')) (\<lambda>existing.
       case existing of
         Some r \<Rightarrow> sreturn (r, False)
       | None \<Rightarrow> (\<lambda>s. insert_or_winner o' (other s)))"

definition open_orders :: "(db, order list) action" where
  "open_orders =
     query (\<lambda>s. sort_key o_created_at (filter (\<lambda>r. o_status r \<in> set open_statuses) (t_orders s)))"

definition orders_recent :: "nat \<Rightarrow> (db, order list) action" where
  "orders_recent limit = query (\<lambda>s. take limit (rev (sort_key o_created_at (t_orders s))))"

definition count_since :: "instant \<Rightarrow> (db, int) action" where
  "count_since since =
     query (\<lambda>s. int (length (filter (\<lambda>r. case transmitted_at r of None \<Rightarrow> False | Some t \<Rightarrow> since \<le> t)
                                (t_orders s))))"

definition count_transmitted_last_hour :: "instant \<Rightarrow> (db, int) action" where
  "count_transmitted_last_hour now = count_since (hours_ago 1 now)"

definition open_order_tuples :: "(db, (string \<times> string option \<times> string) list) action" where
  "open_order_tuples =
     sbind open_orders (\<lambda>os. sreturn (map (\<lambda>r. (internal_order_id r, broker_order_id r, o_symbol r)) os))"

section \<open>The other tables\<close>

definition fill_record :: "fill \<Rightarrow> (db, bool) action" where
  "fill_record f =
     sbind (query (\<lambda>s. \<exists>r \<in> set (t_fills s). execution_id r = execution_id f)) (\<lambda>known.
       if known then sreturn False
       else statement (\<lambda>s.
         if \<exists>r \<in> set (t_fills s). execution_id r = execution_id f then (Inl IntegrityError, s)
         else (Inr True, s \<lparr> t_fills := t_fills s @ [f] \<rparr>)))"

definition fills_count :: "(db, int) action" where
  "fills_count = query (\<lambda>s. int (length (t_fills s)))"

definition position_upsert :: "position \<Rightarrow> (db, unit) action" where
  "position_upsert p = statement (\<lambda>s.
     (Inr (), s \<lparr> t_positions :=
        (if \<exists>r \<in> set (t_positions s). po_con_id r = po_con_id p
         then map (\<lambda>r. if po_con_id r = po_con_id p then p else r) (t_positions s)
         else t_positions s @ [p]) \<rparr>))"

definition position_delete :: "int \<Rightarrow> (db, unit) action" where
  "position_delete c = statement (\<lambda>s.
     (Inr (), s \<lparr> t_positions := filter (\<lambda>r. po_con_id r \<noteq> c) (t_positions s) \<rparr>))"

definition position_insert :: "position \<Rightarrow> (db, unit) action" where
  "position_insert p = statement (\<lambda>s.
     if \<exists>r \<in> set (t_positions s). po_con_id r = po_con_id p then (Inl IntegrityError, s)
     else (Inr (), s \<lparr> t_positions := t_positions s @ [p] \<rparr>))"

fun position_insert_all :: "position list \<Rightarrow> (db, unit) action" where
  "position_insert_all [] = sreturn ()"
| "position_insert_all (p # ps) = sbind (position_insert p) (\<lambda>_. position_insert_all ps)"

definition positions_replace_all :: "position list \<Rightarrow> (db, unit) action" where
  "positions_replace_all ps =
     transaction (sbind (statement (\<lambda>s. (Inr (), s \<lparr> t_positions := [] \<rparr>))) (\<lambda>_. position_insert_all ps))"

definition positions_all :: "(db, position list) action" where
  "positions_all = query (\<lambda>s. sort_key po_symbol (t_positions s))"

definition signal_record_op :: "signal_record \<Rightarrow> (db, unit) action" where
  "signal_record_op r = statement (\<lambda>s.
     (Inr (), if \<exists>q \<in> set (t_signals s). sr_intent_id q = sr_intent_id r then s
              else s \<lparr> t_signals := t_signals s @ [r] \<rparr>))"

definition known_intent_ids :: "nat \<Rightarrow> (db, string list) action" where
  "known_intent_ids limit =
     query (\<lambda>s. map sr_intent_id (take limit (rev (sort_key sr_created_at (t_signals s)))))"

definition risk_decision_record :: "risk_row \<Rightarrow> (db, unit) action" where
  "risk_decision_record r =
     statement (\<lambda>s. (Inr (), s \<lparr> t_risk_decisions := t_risk_decisions s @ [r] \<rparr>))"

definition record_bot_event :: "event_row \<Rightarrow> (db, unit) action" where
  "record_bot_event e = statement (\<lambda>s. (Inr (), s \<lparr> t_bot_events := t_bot_events s @ [e] \<rparr>))"

definition record_broker_event :: "event_row \<Rightarrow> (db, unit) action" where
  "record_broker_event e = statement (\<lambda>s. (Inr (), s \<lparr> t_broker_events := t_broker_events s @ [e] \<rparr>))"

text \<open>On conflict the columns that identify the instrument keep their first value.\<close>

definition contract_over :: "qualified_contract \<Rightarrow> qualified_contract \<Rightarrow> qualified_contract" where
  "contract_over k r = r
     \<lparr> qc_local_symbol := qc_local_symbol k, expiration := expiration k,
       last_trade_date := last_trade_date k, qc_multiplier := qc_multiplier k,
       min_tick := min_tick k, qc_trading_class := qc_trading_class k,
       trading_hours := trading_hours k, liquid_hours := liquid_hours k,
       time_zone_id := time_zone_id k, long_name := long_name k, qualified_at := qualified_at k \<rparr>"

definition contract_row :: "string \<Rightarrow> qualified_contract \<Rightarrow> qualified_contract" where
  "contract_row now_iso k = k
     \<lparr> qualified_at := Some (case qualified_at k of None \<Rightarrow> now_iso | Some t \<Rightarrow> if t = [] then now_iso else t) \<rparr>"

definition contract_upsert :: "string \<Rightarrow> qualified_contract \<Rightarrow> (db, unit) action" where
  "contract_upsert now_iso k' = (let k = contract_row now_iso k' in statement (\<lambda>s.
     (Inr (), s \<lparr> t_contracts :=
        (if \<exists>r \<in> set (t_contracts s). con_id r = con_id k
         then map (\<lambda>r. if con_id r = con_id k then contract_over k r else r) (t_contracts s)
         else t_contracts s @ [k]) \<rparr>)))"

definition contract_get :: "int \<Rightarrow> (db, qualified_contract option) action" where
  "contract_get c =
     sbind (query (\<lambda>s. List.find (\<lambda>r. con_id r = c) (t_contracts s))) (\<lambda>row.
       case row of None \<Rightarrow> sreturn None
       | Some k \<Rightarrow> sbind (slift (make_qualified k)) (\<lambda>q. sreturn (Some q)))"

definition performance_get :: "int \<Rightarrow> (db, daily_performance) action" where
  "performance_get day = query (\<lambda>s.
     (case List.find (\<lambda>r. trade_date r = day) (t_performance s) of
        Some r \<Rightarrow> r
      | None \<Rightarrow> \<lparr> trade_date = day, realized_pnl = dec_zero, unrealized_pnl = dec_zero,
                  dp_commission = dec_zero, order_count = 0, fill_count = 0 \<rparr>))"

definition performance_upsert :: "daily_performance \<Rightarrow> (db, unit) action" where
  "performance_upsert p = statement (\<lambda>s.
     (Inr (), s \<lparr> t_performance :=
        (if \<exists>r \<in> set (t_performance s). trade_date r = trade_date p
         then map (\<lambda>r. if trade_date r = trade_date p then p else r) (t_performance s)
         else t_performance s @ [p]) \<rparr>))"

definition get_state :: "string \<Rightarrow> (db, string option) action" where
  "get_state k = query (\<lambda>s. map_of (t_state s) k)"

definition set_state :: "string \<Rightarrow> string \<Rightarrow> (db, unit) action" where
  "set_state k v = statement (\<lambda>s. (Inr (), s \<lparr> t_state := AList.update k v (t_state s) \<rparr>))"

section \<open>Frames\<close>

lemma statement_cases:
  assumes "statement f s = (r, t)"
  obtains (failed) fs where "r = Inl DatabaseError" and "t = s \<lparr> db_faults := fs \<rparr>"
    | (ran) fs where "db_open s" and "f (s \<lparr> db_faults := fs \<rparr>) = (r, t)"
proof (cases "db_open s")
  case False
  with assms have "r = Inl DatabaseError" "t = s \<lparr> db_faults := db_faults s \<rparr>"
    by (simp_all add: statement_def)
  then show thesis by (rule failed)
next
  case True
  show thesis
  proof (cases "db_faults s")
    case Nil
    then have same: "s \<lparr> db_faults := [] \<rparr> = s" by (cases s) simp
    have "f (s \<lparr> db_faults := [] \<rparr>) = (r, t)"
      unfolding same using assms True Nil by (simp add: statement_def)
    then show thesis by (rule ran [OF True])
  next
    case (Cons b rest)
    with assms True show thesis
      by (cases b) (auto simp: statement_def Let_def intro: failed ran)
  qed
qed

text \<open>
  An observation that ignores the pending faults is unchanged by a statement whose body leaves it
  alone, and by every query.
\<close>

definition observes :: "(db \<Rightarrow> 'v) \<Rightarrow> bool" where
  "observes g = (\<forall>s fs b. g (s \<lparr> db_faults := fs \<rparr>) = g s \<and> g (s \<lparr> db_open := b \<rparr>) = g s)"

lemma observes_tables [simp]:
  "observes t_orders" "observes t_fills" "observes t_positions" "observes t_signals"
  "observes t_risk_decisions" "observes t_contracts" "observes t_performance" "observes t_state"
  "observes t_bot_events" "observes t_broker_events" "observes schema_versions"
  by (simp_all add: observes_def)

lemma keeps_statement [intro]:
  assumes "observes g" and "\<And>s. g (snd (f s)) = g s"
  shows "keeps g (statement f)"
  unfolding keeps_def
proof (intro allI impI)
  fix s r t assume "statement f s = (r, t)"
  then show "g t = g s"
  proof (cases rule: statement_cases)
    case (failed fs)
    with assms(1) show ?thesis by (simp add: observes_def)
  next
    case (ran fs)
    then show ?thesis using assms(2) [of "s \<lparr> db_faults := fs \<rparr>"] assms(1) by (simp add: observes_def)
  qed
qed

lemma keeps_query [simp, intro]: "observes g \<Longrightarrow> keeps g (query q)"
  unfolding query_def by (rule keeps_statement) auto

lemma query_value: "query q s = (Inr v, t) \<Longrightarrow> observes q \<Longrightarrow> v = q s"
  unfolding query_def by (erule statement_cases) (auto simp: observes_def)

text \<open>The reads leave every table alone.\<close>

lemma keeps_reads [frame_simps]:
  assumes "observes g"
  shows "keeps g (order_get i)" "keeps g (order_by_key k)" "keeps g (order_by_broker_id b)"
    "keeps g open_orders" "keeps g (orders_recent n)" "keeps g (count_since t)"
    "keeps g (count_transmitted_last_hour t)" "keeps g open_order_tuples" "keeps g fills_count"
    "keeps g positions_all" "keeps g (known_intent_ids n)" "keeps g (performance_get d)"
    "keeps g (get_state k)" "keeps g (contract_get c)"
  using assms unfolding order_get_def order_by_key_def order_by_broker_id_def open_orders_def
    orders_recent_def count_since_def count_transmitted_last_hour_def open_order_tuples_def
    fills_count_def positions_all_def known_intent_ids_def performance_get_def get_state_def
    contract_get_def
  by (auto intro!: keeps_query keeps_sbind split: option.splits)

text \<open>Opening and migrating leave every table alone but the one of the versions.\<close>

lemma keeps_connect [frame_simps]: "observes g \<Longrightarrow> keeps g db_connect"
  unfolding keeps_def
proof (intro allI impI)
  fix s t :: db and r assume g: "observes g" and run: "db_connect s = (r, t)"
  from g have fs: "g (s \<lparr> db_faults := fs \<rparr>) = g s" and op: "g (s \<lparr> db_open := b \<rparr>) = g s" for s fs b
    by (simp_all add: observes_def)
  from run show "g t = g s"
    by (auto simp: db_connect_def fs op split: if_splits list.splits)
qed

lemma keeps_apply_migrations:
  "observes g \<Longrightarrow> (\<And>s vs. g (s \<lparr> schema_versions := vs \<rparr>) = g s) \<Longrightarrow> keeps g (apply_migrations applied vs)"
  by (induction vs) (auto intro!: keeps_sbind keeps_statement)

lemma keeps_migrate [frame_simps]:
  assumes "observes g" and "\<And>s vs. g (s \<lparr> schema_versions := vs \<rparr>) = g s"
  shows "keeps g migrate"
proof -
  have "keeps g schema_version"
    using keeps_query [OF assms(1)] unfolding keeps_def schema_version_def
    by (fastforce split: prod.splits sum.splits)
  then show ?thesis
    unfolding migrate_def using assms
    by (auto intro!: keeps_sbind keeps_connect keeps_statement keeps_apply_migrations)
qed

text \<open>The writes leave the other tables alone; what the order pipeline needs of them.\<close>

lemma keeps_orders [frame_simps]:
  "keeps t_orders (risk_decision_record rr)" "keeps t_orders (signal_record_op sr)"
  "keeps t_orders (fill_record f)" "keeps t_orders (set_state k v)" "keeps t_orders (record_bot_event e)"
  "keeps t_orders (record_broker_event e)" "keeps t_orders (contract_upsert n q)"
  "keeps t_orders (performance_upsert p)"
  unfolding risk_decision_record_def signal_record_op_def fill_record_def set_state_def
    record_bot_event_def record_broker_event_def contract_upsert_def performance_upsert_def Let_def
  by (auto intro!: keeps_statement keeps_sbind)

lemma keeps_state [frame_simps]:
  "keeps t_state (risk_decision_record rr)" "keeps t_state (signal_record_op sr)"
  "keeps t_state (fill_record f)" "keeps t_state (order_insert o')" "keeps t_state (order_update o')"
  "keeps t_state (record_bot_event e)" "keeps t_state (record_broker_event e)"
  "keeps t_state (contract_upsert n q)" "keeps t_state (performance_upsert p)"
  unfolding risk_decision_record_def signal_record_op_def fill_record_def order_insert_def order_update_def
    record_bot_event_def record_broker_event_def contract_upsert_def performance_upsert_def Let_def
  by (auto intro!: keeps_statement keeps_sbind)

section \<open>The order store\<close>

text \<open>
  What the order pipeline relies on: an insertion creates the row or returns the row that holds the
  key, an update writes the persisted columns of the row with its id, and an exception has changed
  no row.
\<close>

definition unique_orders :: "order list \<Rightarrow> bool" where
  "unique_orders rs = (distinct (map o_idempotency_key rs) \<and> distinct (map internal_order_id rs))"

definition write_row :: "order \<Rightarrow> order list \<Rightarrow> order list" where
  "write_row o' rs =
     map (\<lambda>r. if internal_order_id r = internal_order_id o' then persist_over o' r else r) rs"

lemma persist_over_fields [simp]:
  "o_idempotency_key (persist_over o' r) = o_idempotency_key r"
  "internal_order_id (persist_over o' r) = internal_order_id r"
  "o_status (persist_over o' r) = o_status o'"
  "broker_order_id (persist_over o' r) = broker_order_id o'"
  "transmitted_at (persist_over o' r) = transmitted_at o'"
  "o_side (persist_over o' r) = o_side r" "o_quantity (persist_over o' r) = o_quantity r"
  "o_type (persist_over o' r) = o_type r" "o_intent_id (persist_over o' r) = o_intent_id r"
  by (simp_all add: persist_over_def)

lemma write_row_keys [simp]:
  "map o_idempotency_key (write_row o' rs) = map o_idempotency_key rs"
  "map internal_order_id (write_row o' rs) = map internal_order_id rs"
  by (simp_all add: write_row_def comp_def if_distrib cong: if_cong)

lemma unique_write_row [simp]: "unique_orders (write_row o' rs) = unique_orders rs"
  by (simp add: unique_orders_def)

lemma unique_row: "unique_orders rs \<Longrightarrow> r \<in> set rs \<Longrightarrow> r' \<in> set rs \<Longrightarrow>
    o_idempotency_key r = o_idempotency_key r' \<or> internal_order_id r = internal_order_id r' \<Longrightarrow> r = r'"
  by (auto simp: unique_orders_def distinct_map inj_on_def)

lemma write_row_mem: "r \<in> set rs \<Longrightarrow> internal_order_id r = internal_order_id o' \<Longrightarrow>
    persist_over o' r \<in> set (write_row o' rs)"
  by (force simp: write_row_def)

lemma write_row_other: "r \<in> set rs \<Longrightarrow> internal_order_id r \<noteq> internal_order_id o' \<Longrightarrow>
    r \<in> set (write_row o' rs)"
  by (force simp: write_row_def)

locale order_store =
  fixes insert_order :: "order \<Rightarrow> ('s, order \<times> bool) action"
    and update_order :: "order \<Rightarrow> ('s, unit) action"
    and rows :: "'s \<Rightarrow> order list"
  assumes insert_created: "insert_order o' s = (Inr (r, True), s') \<Longrightarrow>
        r = o' \<and> rows s' = rows s @ [o'] \<and> (\<forall>q \<in> set (rows s).
          o_idempotency_key q \<noteq> o_idempotency_key o' \<and> internal_order_id q \<noteq> internal_order_id o')"
    and insert_existing: "insert_order o' s = (Inr (r, False), s') \<Longrightarrow>
        rows s' = rows s \<and> r \<in> set (rows s) \<and> o_idempotency_key r = o_idempotency_key o'"
    and insert_raise: "insert_order o' s = (Inl e, s') \<Longrightarrow> rows s' = rows s"
    and update_done: "update_order o' s = (Inr u, s') \<Longrightarrow> rows s' = write_row o' (rows s)"
    and update_raise: "update_order o' s = (Inl e, s') \<Longrightarrow> rows s' = rows s"
begin

lemma insert_unique: "insert_order o' s = (r, s') \<Longrightarrow> unique_orders (rows s) \<Longrightarrow> unique_orders (rows s')"
proof (cases r)
  case (Inl e)
  then show "insert_order o' s = (r, s') \<Longrightarrow> unique_orders (rows s) \<Longrightarrow> unique_orders (rows s')"
    using insert_raise by auto
next
  case (Inr x)
  then show "insert_order o' s = (r, s') \<Longrightarrow> unique_orders (rows s) \<Longrightarrow> unique_orders (rows s')"
    using insert_created [of o' s "fst x" s'] insert_existing [of o' s "fst x" s']
    by (cases x; cases "snd x") (auto simp: unique_orders_def)
qed

lemma update_unique: "update_order o' s = (r, s') \<Longrightarrow> unique_orders (rows s) \<Longrightarrow> unique_orders (rows s')"
  by (cases r) (auto dest: update_done update_raise)

lemma insert_returns_row:
  "insert_order o' s = (Inr (r, c), s') \<Longrightarrow> r \<in> set (rows s') \<and> o_idempotency_key r = o_idempotency_key o'"
  by (cases c) (auto dest: insert_created insert_existing)

text \<open>A key that is in the store is never created again: the stored row comes back.\<close>

lemma insert_known_key:
  assumes "insert_order o' s = (Inr (r, c), s')" and "unique_orders (rows s)"
    and "q \<in> set (rows s)" and "o_idempotency_key q = o_idempotency_key o'"
  shows "\<not> c \<and> r = q \<and> rows s' = rows s"
proof (cases c)
  case True
  with assms(1,3,4) insert_created show ?thesis by fastforce
next
  case False
  with assms insert_existing [of o' s r s'] unique_row [of "rows s" r q] show ?thesis by auto
qed

end

lemma order_by_key_result:
  assumes "order_by_key k s = (r, t)"
  shows "t_orders t = t_orders s"
    and "r = Inr (Some o') \<Longrightarrow> o' \<in> set (t_orders s) \<and> o_idempotency_key o' = k"
proof -
  show "t_orders t = t_orders s"
    using keepsD [OF keeps_reads(2) [OF observes_tables(1)] assms] .
  show "o' \<in> set (t_orders s) \<and> o_idempotency_key o' = k" if "r = Inr (Some o')"
  proof -
    have "query (\<lambda>s. List.find (\<lambda>r. o_idempotency_key r = k) (t_orders s)) s = (Inr (Some o'), t)"
      using assms that by (simp add: order_by_key_def)
    from query_value [OF this] have "List.find (\<lambda>r. o_idempotency_key r = k) (t_orders s) = Some o'"
      by (simp add: observes_def)
    then show ?thesis by (rule find_Some_mem)
  qed
qed

lemma order_insert_result:
  assumes "order_insert o' s = (r, t)"
  shows "case r of
      Inr _ \<Rightarrow> t_orders t = t_orders s @ [o'] \<and> (\<forall>q \<in> set (t_orders s).
          o_idempotency_key q \<noteq> o_idempotency_key o' \<and> internal_order_id q \<noteq> internal_order_id o')
    | Inl e \<Rightarrow> t_orders t = t_orders s"
  using assms unfolding order_insert_def
  by (rule statement_cases) (auto split: if_splits)

lemma order_update_result:
  assumes "order_update o' s = (r, t)"
  shows "case r of Inr _ \<Rightarrow> t_orders t = write_row o' (t_orders s) | Inl e \<Rightarrow> t_orders t = t_orders s"
  using assms unfolding order_update_def
  by (rule statement_cases) (auto simp: write_row_def)

text \<open>
  Whatever another connection commits between the look-up and the insertion, what comes back is a
  row that holds the key, and it was created only if no row did.
\<close>

lemma insert_or_winner_result:
  assumes "insert_or_winner o' s = (res, s')"
  shows "case res of
      Inl e \<Rightarrow> t_orders s' = t_orders s
    | Inr (r, c) \<Rightarrow> o_idempotency_key r = o_idempotency_key o'
        \<and> (if c then r = o' \<and> t_orders s' = t_orders s @ [o']
              \<and> (\<forall>q \<in> set (t_orders s). o_idempotency_key q \<noteq> o_idempotency_key o'
                   \<and> internal_order_id q \<noteq> internal_order_id o')
           else t_orders s' = t_orders s \<and> r \<in> set (t_orders s))"
proof -
  obtain y s1 where ins: "order_insert o' s = (y, s1)" by fastforce
  note result = order_insert_result [OF ins]
  show ?thesis
  proof (cases "y = Inl IntegrityError")
    case False
    with result assms ins show ?thesis by (cases y) (auto simp: insert_or_winner_def)
  next
    case True
    obtain z s2 where again: "order_by_key (o_idempotency_key o') s1 = (z, s2)" by fastforce
    from result True order_by_key_result(1) [OF again] have same: "t_orders s1 = t_orders s" "t_orders s2 = t_orders s"
      by simp_all
    show ?thesis
    proof (cases "\<exists>r. z = Inr (Some r)")
      case True
      then obtain r where z: "z = Inr (Some r)" by blast
      from assms ins again \<open>y = Inl IntegrityError\<close> z have "res = Inr (r, False)" "s' = s2"
        by (simp_all add: insert_or_winner_def)
      with order_by_key_result(2) [OF again z] same show ?thesis by simp
    next
      case False
      with assms ins again \<open>y = Inl IntegrityError\<close> have "(\<exists>e. res = Inl e) \<and> s' = s2"
        by (auto simp: insert_or_winner_def split: sum.splits option.splits)
      with same show ?thesis by auto
    qed
  qed
qed

lemma insert_if_absent_result:
  assumes "insert_if_absent other o' s = (res, s')"
  obtains (found) r where "res = Inr (r, False)" and "t_orders s' = t_orders s"
      and "r \<in> set (t_orders s)" and "o_idempotency_key r = o_idempotency_key o'"
    | (unread) e where "res = Inl e" and "t_orders s' = t_orders s"
    | (absent) u where "t_orders u = t_orders s" and "insert_or_winner o' (other u) = (res, s')"
proof -
  obtain x u where look: "order_by_key (o_idempotency_key o') s = (x, u)" by fastforce
  note key = order_by_key_result [OF look]
  show thesis
  proof (cases x)
    case (Inl e)
    with assms look key(1) show thesis by (intro unread [of e]) (simp_all add: insert_if_absent_def sbind_def)
  next
    case (Inr ex)
    show thesis
    proof (cases ex)
      case None
      with Inr assms look key(1) show thesis by (intro absent) (simp_all add: insert_if_absent_def sbind_def)
    next
      case (Some r)
      with Inr assms look key(1) key(2) [of r] show thesis
        by (intro found [of r]) (simp_all add: insert_if_absent_def sbind_def)
    qed
  qed
qed

interpretation orders: order_store "insert_if_absent (\<lambda>s. s)" order_update t_orders
proof
  fix o' r :: order and s s' :: db and e :: exn and u :: unit
  show "insert_if_absent (\<lambda>s. s) o' s = (Inr (r, True), s') \<Longrightarrow>
      r = o' \<and> t_orders s' = t_orders s @ [o'] \<and> (\<forall>q \<in> set (t_orders s).
        o_idempotency_key q \<noteq> o_idempotency_key o' \<and> internal_order_id q \<noteq> internal_order_id o')"
    by (erule insert_if_absent_result) (auto dest!: insert_or_winner_result)
  show "insert_if_absent (\<lambda>s. s) o' s = (Inr (r, False), s') \<Longrightarrow>
      t_orders s' = t_orders s \<and> r \<in> set (t_orders s) \<and> o_idempotency_key r = o_idempotency_key o'"
    by (erule insert_if_absent_result) (auto dest!: insert_or_winner_result)
  show "insert_if_absent (\<lambda>s. s) o' s = (Inl e, s') \<Longrightarrow> t_orders s' = t_orders s"
    by (erule insert_if_absent_result) (auto dest!: insert_or_winner_result)
  show "order_update o' s = (Inr u, s') \<Longrightarrow> t_orders s' = write_row o' (t_orders s)"
    and "order_update o' s = (Inl e, s') \<Longrightarrow> t_orders s' = t_orders s"
    by (auto dest: order_update_result)
qed

section \<open>Fills, positions, state\<close>

lemma query_result:
  assumes "query g s = (r, t)" and "observes g"
  shows "r = Inl DatabaseError \<or> r = Inr (g s)"
  using assms unfolding query_def by (elim statement_cases) (auto simp: observes_def)

lemma fill_record_result:
  assumes "fill_record f s = (r, t)"
  shows "case r of
      Inl e \<Rightarrow> t_fills t = t_fills s
    | Inr fresh \<Rightarrow>
        (fresh \<longleftrightarrow> execution_id f \<notin> execution_id ` set (t_fills s))
        \<and> t_fills t = (if fresh then t_fills s @ [f] else t_fills s)"
proof -
  let ?known = "\<lambda>s. \<exists>r \<in> set (t_fills s). execution_id r = execution_id f"
  obtain k u where look: "query ?known s = (k, u)" by fastforce
  have obs: "observes ?known" by (simp add: observes_def)
  have same: "t_fills u = t_fills s" using keepsD [OF keeps_query [OF observes_tables(2)] look] .
  show ?thesis
  proof (cases k)
    case (Inl e)
    with assms look have "r = Inl e" "t = u" by (simp_all add: fill_record_def sbind_def)
    with same show ?thesis by simp
  next
    case (Inr b)
    with look have "query ?known s = (Inr b, u)" by simp
    from query_value [OF this obs] have b: "b \<longleftrightarrow> execution_id f \<in> execution_id ` set (t_fills s)"
      unfolding image_iff by metis
    show ?thesis
    proof (cases b)
      case True
      with assms look Inr have "r = Inr False" "t = u" by (simp_all add: fill_record_def sbind_def)
      with same b True show ?thesis by simp
    next
      case False
      from assms look Inr False have run:
        "statement (\<lambda>s. if ?known s then (Inl IntegrityError, s)
            else (Inr True, s \<lparr> t_fills := t_fills s @ [f] \<rparr>)) u = (r, t)"
        by (simp add: fill_record_def sbind_def)
      show ?thesis
        by (rule statement_cases [OF run]) (use same False b in \<open>auto split: if_splits\<close>)
    qed
  qed
qed

lemma position_insert_all_result:
  "position_insert_all ps s = (Inr u, t) \<Longrightarrow> distinct (map po_con_id (t_positions s)) \<Longrightarrow>
     t_positions t = t_positions s @ ps \<and> distinct (map po_con_id (t_positions s @ ps))"
proof (induction ps arbitrary: s u)
  case Nil
  then show ?case by simp
next
  case (Cons p ps)
  from Cons.prems(1) obtain v s1 where 1: "position_insert p s = (Inr v, s1)"
    and 2: "position_insert_all ps s1 = (Inr u, t)"
    by (auto elim: sbind_InrE)
  from 1 have "t_positions s1 = t_positions s @ [p] \<and> po_con_id p \<notin> po_con_id ` set (t_positions s)"
    unfolding position_insert_def by (rule statement_cases) (auto split: if_splits)
  with Cons.IH [OF 2] Cons.prems(2) show ?case by auto
qed

lemma transaction_raise: "transaction body s = (Inl e, t) \<Longrightarrow> observes g \<Longrightarrow> g t = g s"
  by (auto simp: transaction_def observes_def split: prod.splits sum.splits)

lemma positions_replace_all_result:
  assumes "positions_replace_all ps s = (r, t)"
  shows "case r of
      Inl e \<Rightarrow> t_positions t = t_positions s
    | Inr _ \<Rightarrow> t_positions t = ps \<and> distinct (map po_con_id ps)"
proof (cases r)
  case (Inl e)
  with assms have "t_positions t = t_positions s"
    unfolding positions_replace_all_def by (intro transaction_raise) simp_all
  with Inl show ?thesis by simp
next
  case (Inr u)
  with assms have "sbind (statement (\<lambda>s. (Inr (), s \<lparr> t_positions := [] \<rparr>))) (\<lambda>_. position_insert_all ps) s
      = (Inr u, t)"
    by (auto simp: positions_replace_all_def transaction_def split: prod.splits sum.splits)
  then obtain v s1 where 1: "statement (\<lambda>s. (Inr (), s \<lparr> t_positions := [] \<rparr>)) s = (Inr v, s1)"
    and 2: "position_insert_all ps s1 = (Inr u, t)"
    by (auto elim: sbind_InrE)
  from 1 have "t_positions s1 = []" by (rule statement_cases) auto
  with position_insert_all_result [OF 2] Inr show ?thesis by simp
qed

interpretation state: state_store get_state set_state "\<lambda>s. map_of (t_state s)"
proof
  fix k w :: string and s s' :: db and v :: "string option" and u :: unit and e :: exn
    and r :: "string option result"
  show "get_state k s = (Inr v, s') \<Longrightarrow> v = map_of (t_state s) k"
    unfolding get_state_def by (drule query_value) (auto simp: observes_def)
  show "map_of (t_state s') = map_of (t_state s)" if "get_state k s = (r, s')"
    using keepsD [OF keeps_reads(13) [OF observes_tables(8)] that] by simp
  show "map_of (t_state s') = (map_of (t_state s))(k := Some w)" if "set_state k w s = (Inr u, s')"
    using that unfolding set_state_def by (rule statement_cases) (auto simp: update_conv')
  show "map_of (t_state s') = map_of (t_state s)" if "set_state k w s = (Inl e, s')"
    using that unfolding set_state_def by (rule statement_cases) auto
qed

section \<open>Properties\<close>

text \<open>
  C36: The idempotency guard of the order table holds under concurrency: whatever another connection
  commits between the look-up and the insertion, keys stay unique, and a call that returns hands
  back the one row that holds the key; it reports a creation only for the order it was given.
\<close>

theorem insert_if_absent_one_row_per_key:
  assumes "unique_orders (t_orders s)"
    and "\<And>u. unique_orders (t_orders u) \<Longrightarrow> unique_orders (t_orders (other u))"
    and "insert_if_absent other o' s = (Inr (r, created), s')"
  shows "unique_orders (t_orders s')
     \<and> filter (\<lambda>q. o_idempotency_key q = o_idempotency_key o') (t_orders s') = [r]
     \<and> (created \<longrightarrow> r = o')"
proof -
  have "unique_orders (t_orders s') \<and> r \<in> set (t_orders s') \<and> o_idempotency_key r = o_idempotency_key o'
      \<and> (created \<longrightarrow> r = o')"
    using assms(3)
  proof (cases rule: insert_if_absent_result)
    case (found q)
    with assms(1) show ?thesis by simp
  next
    case (unread e)
    then show ?thesis by simp
  next
    case (absent u)
    with assms(1,2) have "unique_orders (t_orders (other u))" by simp
    with insert_or_winner_result [OF absent(2)] show ?thesis
      by (cases created) (auto simp: unique_orders_def)
  qed
  then show ?thesis
    using filter_unique [of o_idempotency_key "t_orders s'" r] by (auto simp: unique_orders_def)
qed

theorem insert_if_absent_one_row_per_key_witness:
  "filter (\<lambda>q. o_idempotency_key q = ''idem_1'')
     (t_orders (snd (insert_if_absent (\<lambda>u. u) (sample_order 3 Market) (empty_db \<lparr> db_open := True \<rparr>))))
   = [sample_order 3 Market]"
proof -
  let ?s = "empty_db \<lparr> db_open := True \<rparr>"
  have "fst (insert_if_absent (\<lambda>u. u) (sample_order 3 Market) ?s) = Inr (sample_order 3 Market, True)"
    by code_simp
  then have run: "insert_if_absent (\<lambda>u. u) (sample_order 3 Market) ?s =
      (Inr (sample_order 3 Market, True), snd (insert_if_absent (\<lambda>u. u) (sample_order 3 Market) ?s))"
    by (metis prod.collapse)
  have "o_idempotency_key (sample_order 3 Market) = ''idem_1''" by code_simp
  then show ?thesis
    using insert_if_absent_one_row_per_key [OF _ _ run] by (simp add: empty_db_def unique_orders_def)
qed

text \<open>
  Fill ingestion is idempotent by execution id: recording reports a fill as new exactly when its
  execution id was not stored, stores it in that case only, and an exception stores nothing.
\<close>

theorem fill_recorded_once:
  assumes "fill_record f s = (r, t)"
  shows "case r of
      Inl e \<Rightarrow> t_fills t = t_fills s
    | Inr fresh \<Rightarrow>
        (fresh \<longleftrightarrow> execution_id f \<notin> execution_id ` set (t_fills s))
        \<and> t_fills t = (if fresh then t_fills s @ [f] else t_fills s)"
  using assms by (rule fill_record_result)

definition sample_fill_row :: "string \<Rightarrow> fill" where
  "sample_fill_row eid =
     \<lparr> execution_id = eid, fl_internal_order_id = ''ord_1'', fl_correlation_id = ''cor_1'',
       fl_run_id = ''run_1'', fl_con_id = 7, fl_symbol = ''MSL'', fl_side = Buy, fl_quantity = 2,
       fl_price = Dec 150 0, executed_at = Micros 0, fl_commission = None,
       fl_commission_currency = None, fl_broker_order_id = None \<rparr>"

theorem fill_recorded_once_witness:
  "fst (fill_record (sample_fill_row ''e1'') (empty_db \<lparr> db_open := True, t_fills := [sample_fill_row ''e1''] \<rparr>))
     = Inr False"
proof -
  let ?s = "empty_db \<lparr> db_open := True, t_fills := [sample_fill_row ''e1''] \<rparr>"
  obtain r t where run: "fill_record (sample_fill_row ''e1'') ?s = (r, t)" by fastforce
  have "r \<noteq> Inl e" for e using run by (auto simp: fill_record_def query_def statement_def sbind_def empty_db_def)
  then show ?thesis using fill_recorded_once [OF run] run by (cases r) auto
qed

text \<open>
  Adopting a set of positions is atomic: whichever statement fails, the table holds either
  exactly the new positions or exactly the old ones; and a set with two entries for one contract is
  never stored.
\<close>

theorem positions_replaced_atomically:
  assumes "positions_replace_all ps s = (r, t)"
  shows "case r of
      Inl e \<Rightarrow> t_positions t = t_positions s
    | Inr _ \<Rightarrow> t_positions t = ps \<and> distinct (map po_con_id ps)"
  using assms by (rule positions_replace_all_result)

definition sample_position :: "int \<Rightarrow> position" where
  "sample_position c =
     \<lparr> po_con_id = c, po_symbol = ''MSL'', po_local_symbol = ''MSLU6'', po_quantity = 2,
       average_cost = Dec 150 0, po_updated_at = Micros 0, po_account_id = ''DU1'', po_source = ''broker'' \<rparr>"

theorem positions_replaced_atomically_witness:
  "t_positions (snd (positions_replace_all [sample_position 8, sample_position 9]
      (empty_db \<lparr> db_open := True, db_faults := [False, False, True], t_positions := [sample_position 7] \<rparr>)))
   = [sample_position 7]"
proof -
  let ?s = "empty_db \<lparr> db_open := True, db_faults := [False, False, True], t_positions := [sample_position 7] \<rparr>"
  obtain r t where run: "positions_replace_all [sample_position 8, sample_position 9] ?s = (r, t)" by fastforce
  have "r = Inl DatabaseError"
    using run by (simp add: positions_replace_all_def transaction_def sbind_def statement_def
        position_insert_def empty_db_def sample_position_def)
  then show ?thesis using positions_replaced_atomically [OF run] run by simp
qed

text \<open>
  What the program does to the state table while it runs and restarts: anything that leaves the
  table alone, writes to other keys, engaging the switch, and reads of it; each may be cut short by
  a fault.
\<close>

inductive state_step :: "db \<Rightarrow> db \<Rightarrow> bool" where
  elsewhere: "t_state t = t_state s \<Longrightarrow> state_step s t"
| other_key: "k \<noteq> kill_switch_state_key \<Longrightarrow> set_state k v s = (r, t) \<Longrightarrow> state_step s t"
| engage: "ks_engage (Some set_state) reason now s = (r, t) \<Longrightarrow> state_step s t"

lemma state_step_keeps_latch:
  "state_step s t \<Longrightarrow> state.latch_set s \<Longrightarrow> state.latch_set t"
proof (induction rule: state_step.induct)
  case (elsewhere t s)
  then show ?case by (simp add: state.latch_set_def)
next
  case (other_key k v s r t)
  then show ?case using state.set_keeps_latch by blast
next
  case (engage reason now s r t)
  then show ?case using state.engage_keeps_latch by blast
qed

lemma latch_survives: "state_step\<^sup>*\<^sup>* s t \<Longrightarrow> state.latch_set s \<Longrightarrow> state.latch_set t"
  by (induction rule: rtranclp_induct) (auto dest: state_step_keeps_latch)

text \<open>
  The kill-switch latch is one-way: once engaging it has returned, it reads as engaged after any
  further steps of the program, restarts and failures included, whatever the configuration.
\<close>

theorem kill_switch_latch_is_permanent:
  assumes "ks_engage (Some set_state) reason now s = (Inr (), s1)" and "state_step\<^sup>*\<^sup>* s1 t"
  shows "fst (ks_engaged configured (Some get_state) t) = Inr True"
proof -
  have "state.latch_set t" using latch_survives [OF assms(2)] state.engage_latches [OF assms(1)] by blast
  then show ?thesis
    using state.engaged_returns [of configured t] state.not_engaged_means [of configured t]
    by (metis (full_types) fst_conv)
qed

theorem kill_switch_latch_is_permanent_witness:
  "fst (ks_engaged False (Some get_state)
      (db_close (snd (ks_engage (Some set_state) ''test'' ''now'' (empty_db \<lparr> db_open := True \<rparr>))))) = Inr True"
proof -
  let ?s = "empty_db \<lparr> db_open := True \<rparr>"
  have "fst (ks_engage (Some set_state) ''test'' ''now'' ?s) = Inr ()" by code_simp
  then have run: "ks_engage (Some set_state) ''test'' ''now'' ?s =
      (Inr (), snd (ks_engage (Some set_state) ''test'' ''now'' ?s))" by (metis prod.collapse)
  have "state_step\<^sup>*\<^sup>* (snd (ks_engage (Some set_state) ''test'' ''now'' ?s))
      (db_close (snd (ks_engage (Some set_state) ''test'' ''now'' ?s)))"
    by (intro r_into_rtranclp elsewhere) (simp add: db_close_def)
  then show ?thesis by (rule kill_switch_latch_is_permanent [OF run])
qed

text \<open>
  C37: The kill switch fails closed: its check always returns, and returns "not engaged" only when
  the configured switch is off and the latch was read from the store and is not set.
\<close>

theorem kill_switch_fails_closed:
  "\<exists>engaged t. ks_engaged configured (Some get_state) s = (Inr engaged, t)
     \<and> (\<not> engaged \<longrightarrow> \<not> configured \<and> db_open s \<and> map_of (t_state s) kill_switch_state_key \<noteq> Some ''true'')"
proof -
  obtain b t where run: "ks_engaged configured (Some get_state) s = (Inr b, t)"
    using state.engaged_returns by blast
  have "db_open s" if "\<not> b"
    using run that by (cases "db_open s")
      (auto simp: ks_engaged_def ks_latched_def sbind_def get_state_def query_def statement_def split: if_splits)
  then show ?thesis
    using run state.not_engaged_means [of configured s t] by (cases b) (auto simp: state.latch_set_def)
qed

theorem kill_switch_fails_closed_witness:
  "\<exists>engaged t. ks_engaged False (Some get_state) empty_db = (Inr engaged, t) \<and> engaged"
  using kill_switch_fails_closed [of False empty_db] by (auto simp: empty_db_def)

end
