(* ===== verification/OrderManager.thy ===== *)
theory OrderManager
  imports Store Risk BrokerModels
begin

text \<open>
  \<^verbatim>\<open>app/execution/order_manager.py\<close>: the single path from an intent to a broker order. The
  state is the database and the broker's state; the broker's \<^verbatim>\<open>place_order\<close> is an argument.
  \<open>submit_intent\<close> is split at the comments of the method: build and persist, duplicate check,
  risk, gate, order type, transmit, record the answer. Every statement on the database may raise
  (\<open>Store\<close>), and the state is returned with the exception, so what holds of every result
  holds wherever a submission stops.

  What the code reads elsewhere is passed in: the new order id, the times, the digest \<open>H\<close> of
  the idempotency key, and the text \<^verbatim>\<open>str(exc)\<close> of a broker exception.
\<close>

datatype outcome =
  No_Change | Duplicate | Risk_Rejected | Gate_Rejected | Broker_Failure | Transmitted | Invalid

fun outcome_value :: "outcome \<Rightarrow> string" where
  "outcome_value No_Change = ''NO_POSITION_CHANGE_REQUIRED''"
| "outcome_value Duplicate = ''DUPLICATE_SUPPRESSED_BY_IDEMPOTENCY_KEY''"
| "outcome_value Risk_Rejected = ''RISK_REJECTED''"
| "outcome_value Gate_Rejected = ''TRANSMIT_GATE_REJECTED''"
| "outcome_value Broker_Failure = ''BROKER_ERROR''"
| "outcome_value Transmitted = ''TRANSMITTED''"
| "outcome_value Invalid = ''ORDER_INVALID''"

record submission =
  sb_outcome :: outcome
  sb_order :: "order option"
  sb_risk :: "risk_decision option"
  sb_gate :: "gate_decision option"
  sb_place :: "place_result option"
  sb_error :: "string option"

definition submission_of :: "outcome \<Rightarrow> submission" where
  "submission_of oc =
     \<lparr> sb_outcome = oc, sb_order = None, sb_risk = None, sb_gate = None, sb_place = None, sb_error = None \<rparr>"

definition sb_transmitted :: "submission \<Rightarrow> bool" where
  "sb_transmitted s = (sb_outcome s = Transmitted)"

definition sb_reasons :: "submission \<Rightarrow> string list" where
  "sb_reasons s =
     (case sb_risk s of
        Some d \<Rightarrow>
          if \<not> rd_approved d then map risk_reason_value (rd_reasons d)
          else (case sb_gate s of
                  Some g \<Rightarrow> if \<not> gd_allowed g then map gate_reason_value (gd_reasons g) else []
                | None \<Rightarrow> [])
      | None \<Rightarrow> (case sb_gate s of
                  Some g \<Rightarrow> if \<not> gd_allowed g then map gate_reason_value (gd_reasons g) else []
                | None \<Rightarrow> []))"

text \<open>\<^verbatim>\<open>type(exc).__name__\<close> of a broker error.\<close>

fun broker_error_name :: "exn \<Rightarrow> string" where
  "broker_error_name BrokerError = ''BrokerError''"
| "broker_error_name BrokerConnectionError = ''BrokerConnectionError''"
| "broker_error_name BrokerTimeoutError = ''BrokerTimeoutError''"
| "broker_error_name BrokerPermissionError = ''BrokerPermissionError''"
| "broker_error_name BrokerContractError = ''BrokerContractError''"
| "broker_error_name BrokerOrderRejectedError = ''BrokerOrderRejectedError''"
| "broker_error_name BrokerUnsupportedOperationError = ''BrokerUnsupportedOperationError''"
| "broker_error_name _ = ''''"

section \<open>The submission\<close>

text \<open>The constants of a manager and the arguments of one submission.\<close>

record 'b manager =
  mg_config :: config
  mg_run_id :: string
  mg_place :: "instant \<Rightarrow> order_request \<Rightarrow> ('b, place_result) action"
  mg_digest :: "string \<Rightarrow> string"
  mg_text :: "exn \<Rightarrow> string"

record request =
  sq_intent :: intent
  sq_contract :: qualified_contract
  sq_risk_context :: risk_context
  sq_gate_context :: gate_context
  sq_order_type :: order_type
  sq_limit_price :: "decimal option"
  sq_time_in_force :: time_in_force
  sq_new_id :: string
  sq_now :: instant
  sq_placed_at :: instant
  sq_replied_at :: instant
  sq_status_at :: instant

definition on_db :: "(db, 'a) action \<Rightarrow> (db \<times> 'b, 'a) action" where
  "on_db m = (\<lambda>(d, b). case m d of (r, d') \<Rightarrow> (r, (d', b)))"

definition sq_correlation_id :: "request \<Rightarrow> string" where
  "sq_correlation_id q =
     (case in_correlation_id (sq_intent q) of
        Some c \<Rightarrow> if c = [] then intent_id (sq_intent q) else c
      | None \<Rightarrow> intent_id (sq_intent q))"

definition build_for :: "'b manager \<Rightarrow> request \<Rightarrow> order result" where
  "build_for m q =
     ebind (intent_idempotency_key (mg_digest m) (sq_intent q) (con_id (sq_contract q))) (\<lambda>key.
       build_order (sq_new_id q) (sq_contract q) (rx_order_side (sq_risk_context q))
         (rx_order_quantity (sq_risk_context q)) (sq_order_type q) key (sq_correlation_id q)
         (in_strategy_name (sq_intent q)) (mg_run_id m) (cfg_trading_mode (mg_config m))
         (gx_broker_account_type (sq_gate_context q)) (Some (intent_id (sq_intent q)))
         (sq_limit_price q) None (sq_time_in_force q) (sq_now q))"

text \<open>The message of an \<^verbatim>\<open>OrderValidationError\<close>, the one exception two handlers catch.\<close>

definition order_error_text :: "exn \<Rightarrow> string option" where
  "order_error_text e = (case e of OrderValidationError msg \<Rightarrow> Some msg | _ \<Rightarrow> None)"

text \<open>What the broker answered is recorded on the order.\<close>

definition record_failure ::
  "order \<Rightarrow> risk_decision \<Rightarrow> gate_decision \<Rightarrow> place_result option \<Rightarrow> string option
     \<Rightarrow> (db \<times> 'b, submission) action" where
  "record_failure o' rd gd res err =
     sbind (on_db (order_update o')) (\<lambda>_. sreturn
       \<lparr> sb_outcome = Broker_Failure, sb_order = Some o', sb_risk = Some rd, sb_gate = Some gd,
         sb_place = res, sb_error = err \<rparr>)"

definition record_answer ::
  "'b manager \<Rightarrow> request \<Rightarrow> order \<Rightarrow> risk_decision \<Rightarrow> gate_decision \<Rightarrow> place_result result
     \<Rightarrow> (db \<times> 'b, submission) action" where
  "record_answer m q o' rd gd answer =
     (case answer of
        Inl e \<Rightarrow>
          if e = BrokerPermissionError
          then record_failure (mark_rejected (Some ''PERMISSION_DENIED'') (mg_text m e) (sq_replied_at q) o')
                 rd gd None (Some (mg_text m e))
          else if is_broker_error e
          then record_failure (mark_error (Some (broker_error_name e)) (mg_text m e) (sq_replied_at q) o')
                 rd gd None (Some (mg_text m e))
          else sraise e
      | Inr res \<Rightarrow>
          (case (pr_accepted res, pr_broker_order_id res) of
             (True, Some bid) \<Rightarrow>
               (let o1 = mark_submitted bid (sq_replied_at q) o';
                    o2 = (if pr_status res \<noteq> St_Submitted then mark_status (pr_status res) (sq_status_at q) o1 else o1)
                in sbind (on_db (order_update o2)) (\<lambda>_. sreturn
                     \<lparr> sb_outcome = Transmitted, sb_order = Some o2, sb_risk = Some rd,
                       sb_gate = Some gd, sb_place = Some res, sb_error = None \<rparr>))
           | _ \<Rightarrow>
               record_failure
                 (mark_rejected (pr_error_code res)
                    (case pr_error_message res of None \<Rightarrow> ''rejected by broker''
                     | Some t \<Rightarrow> if t = [] then ''rejected by broker'' else t) (sq_replied_at q) o')
                 rd gd (Some res) (pr_error_message res)))"

definition transmit ::
  "'b manager \<Rightarrow> request \<Rightarrow> order \<Rightarrow> risk_decision \<Rightarrow> gate_decision \<Rightarrow> (db \<times> 'b, submission) action" where
  "transmit m q o0 rd gd =
     (let o' = mark_pending_submit (sq_now q) o0 in
      sbind (on_db (order_update o')) (\<lambda>_.
      sbind (slift (make_order_request
        \<lparr> rq_internal_order_id = internal_order_id o', rq_correlation_id = sq_correlation_id q,
          rq_contract = sq_contract q, rq_side = o_side o', rq_quantity = o_quantity o',
          rq_order_type = o_type o', rq_time_in_force = o_time_in_force o',
          rq_limit_price = o_limit_price o', rq_stop_price = o_stop_price o', rq_transmit = True \<rparr>)) (\<lambda>req.
      (\<lambda>(d, b). case mg_place m (sq_placed_at q) req b of
                  (answer, b') \<Rightarrow> record_answer m q o' rd gd answer (d, b')))))"

definition block :: "request \<Rightarrow> string list \<Rightarrow> order \<Rightarrow> (order \<Rightarrow> submission) \<Rightarrow> (db \<times> 'b, submission) action" where
  "block q reasons o' report =
     (let blocked = mark_blocked reasons (sq_now q) o'
      in sbind (on_db (order_update blocked)) (\<lambda>_. sreturn (report blocked)))"

definition gate_and_transmit ::
  "'b manager \<Rightarrow> request \<Rightarrow> order \<Rightarrow> risk_decision \<Rightarrow> (db \<times> 'b, submission) action" where
  "gate_and_transmit m q o' rd =
     (if \<not> rd_approved rd then
        block q (map risk_reason_value (rd_reasons rd)) o'
          (\<lambda>x. submission_of Risk_Rejected \<lparr> sb_order := Some x, sb_risk := Some rd \<rparr>)
      else
        (let gd = gate_evaluate (mg_config m) (sq_gate_context q) in
         if \<not> gd_allowed gd then
           block q (map gate_reason_value (gd_reasons gd)) o'
             (\<lambda>x. submission_of Gate_Rejected \<lparr> sb_order := Some x, sb_risk := Some rd, sb_gate := Some gd \<rparr>)
         else
           (case require_transmittable_type o' of
              Inl e \<Rightarrow>
                (case order_error_text e of
                   Some msg \<Rightarrow>
                     block q [msg] o' (\<lambda>x. submission_of Invalid \<lparr> sb_order := Some x, sb_error := Some msg \<rparr>)
                 | None \<Rightarrow> sraise e)
            | Inr _ \<Rightarrow> transmit m q o' rd gd)))"

definition risk_row_for :: "'b manager \<Rightarrow> request \<Rightarrow> risk_decision \<Rightarrow> risk_row" where
  "risk_row_for m q rd =
     \<lparr> rk_correlation_id = sq_correlation_id q, rk_intent_id = Some (intent_id (sq_intent q)),
       rk_run_id = mg_run_id m, rk_approved = rd_approved rd,
       rk_reasons = map risk_reason_value (rd_reasons rd), rk_decided_at = sq_now q \<rparr>"

definition check_and_transmit :: "'b manager \<Rightarrow> request \<Rightarrow> order \<Rightarrow> (db \<times> 'b, submission) action" where
  "check_and_transmit m q o' =
     sbind (slift (risk_evaluate (mg_config m) (sq_risk_context q))) (\<lambda>rd.
     sbind (on_db (risk_decision_record (risk_row_for m q rd))) (\<lambda>_. gate_and_transmit m q o' rd))"

definition submit_intent :: "'b manager \<Rightarrow> request \<Rightarrow> (db \<times> 'b, submission) action" where
  "submit_intent m q =
     (if rx_order_quantity (sq_risk_context q) \<le> 0 then sreturn (submission_of No_Change)
      else (case build_for m q of
              Inl e \<Rightarrow>
                (case order_error_text e of
                   Some msg \<Rightarrow> sreturn (submission_of Invalid \<lparr> sb_error := Some msg \<rparr>)
                 | None \<Rightarrow> sraise e)
            | Inr o' \<Rightarrow>
                sbind (on_db (insert_if_absent (\<lambda>d. d) o')) (\<lambda>(stored, created).
                  if \<not> created \<and> was_transmitted stored
                  then sreturn (submission_of Duplicate \<lparr> sb_order := Some stored \<rparr>)
                  else check_and_transmit m q stored)))"

section \<open>Helpers of the manager\<close>

definition delta_to_side_and_quantity :: "int \<Rightarrow> int \<Rightarrow> order_side \<times> int" where
  "delta_to_side_and_quantity current requested =
     (let d = requested - current
      in if d = 0 then (Buy, 0) else (if d > 0 then Buy else Sell, \<bar>d\<bar>))"

fun mark_all_cancel_pending :: "instant \<Rightarrow> order list \<Rightarrow> (db, unit) action" where
  "mark_all_cancel_pending now [] = sreturn ()"
| "mark_all_cancel_pending now (o' # os) =
     sbind (order_update (mark_status St_Cancel_Pending now o')) (\<lambda>_. mark_all_cancel_pending now os)"

definition cancel_all_orders :: "('b, int) action \<Rightarrow> instant \<Rightarrow> (db \<times> 'b, int) action" where
  "cancel_all_orders cancel now = (\<lambda>(d, b).
     (case cancel b of
        (Inl e, b') \<Rightarrow> (Inl e, (d, b'))
      | (Inr n, b') \<Rightarrow>
          sbind (on_db (sbind open_orders (mark_all_cancel_pending now))) (\<lambda>_. sreturn n) (d, b')))"

definition open_order_count :: "(db, int) action" where
  "open_order_count = sbind open_orders (\<lambda>os. sreturn (int (length os)))"

definition orders_last_hour :: "instant \<Rightarrow> (db, int) action" where
  "orders_last_hour now = count_transmitted_last_hour now"

section \<open>At most one placement per order\<close>

text \<open>
  The same manager over a broker that also keeps the internal ids of the orders it was asked to
  place, answered or not.
\<close>

definition logging :: "'b manager \<Rightarrow> ('b \<times> string list) manager" where
  "logging m =
     \<lparr> mg_config = mg_config m, mg_run_id = mg_run_id m,
       mg_place = (\<lambda>t r (b, lg). case mg_place m t r b of
                     (x, b') \<Rightarrow> (x, (b', lg @ [rq_internal_order_id r]))),
       mg_digest = mg_digest m, mg_text = mg_text m \<rparr>"

definition log_ok :: "order list \<Rightarrow> string list \<Rightarrow> bool" where
  "log_ok rs lg =
     (unique_orders rs \<and> distinct lg
      \<and> (\<forall>i \<in> set lg. \<exists>r \<in> set rs. internal_order_id r = i \<and> was_transmitted r))"

definition state_ok :: "db \<times> 'b \<times> string list \<Rightarrow> bool" where
  "state_ok = (\<lambda>(d, b, lg). log_ok (t_orders d) lg)"

lemma state_ok_simp [simp]: "state_ok (d, b, lg) \<longleftrightarrow> log_ok (t_orders d) lg"
  by (simp add: state_ok_def)

lemma was_transmitted_persist [simp]: "was_transmitted (persist_over o' r) = was_transmitted o'"
  by (simp add: was_transmitted_def)

lemma mark_ids [simp]:
  "internal_order_id (mark_blocked rs t o') = internal_order_id o'"
  "internal_order_id (mark_pending_submit t o') = internal_order_id o'"
  "internal_order_id (mark_submitted b t o') = internal_order_id o'"
  "internal_order_id (mark_status st t o') = internal_order_id o'"
  "internal_order_id (mark_rejected c msg t o') = internal_order_id o'"
  "internal_order_id (mark_error c msg t o') = internal_order_id o'"
  by (simp_all add: mark_defs)

lemma mark_transmitted [simp]:
  "was_transmitted (mark_pending_submit t o')"
  "was_transmitted (mark_submitted b t o')"
  "was_transmitted (mark_status st t (mark_submitted b u o'))"
  "was_transmitted (mark_rejected c msg t o')"
  "was_transmitted (mark_error c msg t o')"
  "was_transmitted (mark_status St_Cancel_Pending t o')"
  by (simp_all add: was_transmitted_def mark_defs reached_broker_def)

lemma log_ok_write:
  assumes "log_ok rs lg" and "internal_order_id o' \<in> set lg \<longrightarrow> was_transmitted o'"
  shows "log_ok (write_row o' rs) lg"
  unfolding log_ok_def
proof (intro conjI ballI)
  show "unique_orders (write_row o' rs)" "distinct lg" using assms(1) by (simp_all add: log_ok_def)
  fix i assume i: "i \<in> set lg"
  with assms(1) obtain r where r: "r \<in> set rs" "internal_order_id r = i" "was_transmitted r"
    by (auto simp: log_ok_def)
  show "\<exists>r \<in> set (write_row o' rs). internal_order_id r = i \<and> was_transmitted r"
  proof (cases "internal_order_id o' = i")
    case True
    with r i assms(2) write_row_mem [of r rs o'] show ?thesis by (intro bexI [of _ "persist_over o' r"]) auto
  next
    case False
    with r write_row_other [of r rs o'] show ?thesis by auto
  qed
qed

lemma log_ok_insert:
  assumes "log_ok rs lg" and "\<forall>q \<in> set rs. o_idempotency_key q \<noteq> o_idempotency_key o' \<and> internal_order_id q \<noteq> internal_order_id o'"
  shows "log_ok (rs @ [o']) lg" and "internal_order_id o' \<notin> set lg"
  using assms by (fastforce simp: log_ok_def unique_orders_def)+

lemma log_ok_extend:
  assumes "log_ok rs lg" and "i \<notin> set lg" and "r \<in> set rs" "internal_order_id r = i" "was_transmitted r"
  shows "log_ok rs (lg @ [i])"
  using assms by (auto simp: log_ok_def)

lemma update_preserves:
  assumes "on_db (order_update o') (d, x) = (r, t)" and "log_ok (t_orders d) (snd x)"
    and "internal_order_id o' \<in> set (snd x) \<longrightarrow> was_transmitted o'"
  shows "snd t = x \<and> log_ok (t_orders (fst t)) (snd x)
     \<and> (t_orders (fst t) = t_orders d \<or> t_orders (fst t) = write_row o' (t_orders d))
     \<and> ((\<exists>u. r = Inr u) \<longrightarrow> t_orders (fst t) = write_row o' (t_orders d))"
proof -
  obtain d' where u: "order_update o' d = (r, d')" and t: "t = (d', x)"
    using assms(1) by (auto simp: on_db_def split: prod.splits)
  then show ?thesis
    using order_update_result [OF u] assms(2) log_ok_write [OF assms(2,3)] by (auto split: sum.splits)
qed

lemma record_failure_preserves:
  assumes "record_failure o' rd gd res err s = (r, t)" and "state_ok s" and "was_transmitted o'"
  shows "state_ok t"
proof -
  obtain d b lg where s: "s = (d, b, lg)" by (metis prod_cases3)
  obtain r1 t1 where u: "on_db (order_update o') (d, (b, lg)) = (r1, t1)" by (metis surj_pair)
  from update_preserves [OF u] assms(2,3) s have "state_ok t1" by (cases t1) (auto simp: state_ok_def)
  with assms(1) u s show ?thesis by (auto simp: record_failure_def sbind_def split: sum.splits)
qed

lemma record_answer_preserves:
  assumes "record_answer m q o' rd gd answer s = (r, t)" and "state_ok s"
  shows "state_ok t"
proof (cases "\<exists>res bid. answer = Inr res \<and> pr_accepted res \<and> pr_broker_order_id res = Some bid")
  case False
  with assms show ?thesis
    by (auto simp: record_answer_def split: sum.splits if_splits bool.splits option.splits
        intro: record_failure_preserves)
next
  case True
  then obtain res bid where res: "answer = Inr res" "pr_accepted res" "pr_broker_order_id res = Some bid"
    by blast
  obtain d b lg where s: "s = (d, b, lg)" by (metis prod_cases3)
  define o2 where "o2 = (if pr_status res \<noteq> St_Submitted
      then mark_status (pr_status res) (sq_status_at q) (mark_submitted bid (sq_replied_at q) o')
      else mark_submitted bid (sq_replied_at q) o')"
  obtain r1 t1 where u: "on_db (order_update o2) (d, (b, lg)) = (r1, t1)" by (metis surj_pair)
  have "was_transmitted o2" by (simp add: o2_def)
  with update_preserves [OF u] assms(2) s have "state_ok t1" by (cases t1) (auto simp: state_ok_def)
  with assms(1) u s res show ?thesis
    by (auto simp: record_answer_def sbind_def Let_def o2_def [symmetric] split: sum.splits)
qed

lemma logging_simps [simp]:
  "mg_config (logging m) = mg_config m" "mg_run_id (logging m) = mg_run_id m"
  "mg_digest (logging m) = mg_digest m" "mg_text (logging m) = mg_text m"
  "mg_place (logging m) t r (b, lg) =
     (fst (mg_place m t r b), (snd (mg_place m t r b), lg @ [rq_internal_order_id r]))"
  by (simp_all add: logging_def split: prod.splits)

lemma transmit_preserves:
  assumes run: "transmit (logging m) q o0 rd gd (d, b, lg) = (r, t)" and ok: "log_ok (t_orders d) lg"
    and row: "o0 \<in> set (t_orders d)" and fresh: "internal_order_id o0 \<notin> set lg"
  shows "state_ok t"
proof -
  let ?o = "mark_pending_submit (sq_now q) o0"
  obtain r1 d1 x1 where u: "on_db (order_update ?o) (d, (b, lg)) = (r1, (d1, x1))" by (metis surj_pair)
  have p: "x1 = (b, lg)" "log_ok (t_orders d1) lg"
      "r1 = Inr () \<Longrightarrow> t_orders d1 = write_row ?o (t_orders d)"
    using update_preserves [OF u] ok fresh by auto
  show ?thesis
  proof (cases r1)
    case (Inl e)
    with run u p show ?thesis by (auto simp: transmit_def Let_def sbind_def)
  next
    case (Inr x)
    with p(3) write_row_mem [OF row, of ?o] have "persist_over ?o o0 \<in> set (t_orders d1)" by simp
    then have called: "log_ok (t_orders d1) (lg @ [internal_order_id o0])"
      using log_ok_extend [OF p(2) fresh] by simp
    from run u p Inr called show ?thesis
      by (auto simp: transmit_def Let_def sbind_def make_order_request_def split: if_splits
          intro: record_answer_preserves)
  qed
qed

lemma block_preserves:
  assumes "block q reasons o0 report (d, b, lg) = (r, t)" and "log_ok (t_orders d) lg"
    and "internal_order_id o0 \<notin> set lg"
  shows "state_ok t"
proof -
  obtain r1 d1 x1 where u: "on_db (order_update (mark_blocked reasons (sq_now q) o0)) (d, (b, lg)) = (r1, (d1, x1))"
    by (metis surj_pair)
  from update_preserves [OF u] assms(2,3) have "state_ok (d1, x1)" by auto
  with assms(1) u show ?thesis by (auto simp: block_def Let_def sbind_def split: sum.splits)
qed

lemma on_db_keeps:
  assumes "on_db m (d, x) = (r, t)" and "keeps t_orders m"
  shows "snd t = x \<and> t_orders (fst t) = t_orders d"
  using assms by (auto simp: on_db_def keeps_def split: prod.splits)

lemma check_cases:
  assumes "check_and_transmit m q o0 (d, b) = (r, t)"
  obtains (raised) e d1 where "r = Inl e" and "t = (d1, b)" and "t_orders d1 = t_orders d"
    | (decided) rd d1 where "risk_evaluate (mg_config m) (sq_risk_context q) = Inr rd"
      and "t_orders d1 = t_orders d" and "gate_and_transmit m q o0 rd (d1, b) = (r, t)"
proof (cases "risk_evaluate (mg_config m) (sq_risk_context q)")
  case (Inl e)
  with assms show thesis by (intro raised [of e d]) (auto simp: check_and_transmit_def sbind_def)
next
  case (Inr rd)
  obtain x d1 where rec: "risk_decision_record (risk_row_for m q rd) d = (x, d1)" by (metis surj_pair)
  have same: "t_orders d1 = t_orders d" using keepsD [OF keeps_orders(1) rec] .
  show thesis
  proof (cases x)
    case (Inl e)
    with assms Inr rec same show thesis
      by (intro raised [of e d1]) (auto simp: check_and_transmit_def sbind_def on_db_def)
  next
    case x: (Inr u)
    with assms Inr rec same show thesis
      by (intro decided [of rd d1]) (auto simp: check_and_transmit_def sbind_def on_db_def)
  qed
qed

text \<open>The branches after the decision: a block for one of three reasons, or the transmission.\<close>

lemma gate_cases:
  assumes "gate_and_transmit m q o0 rd s = (r, t)"
  obtains (risk) "\<not> rd_approved rd"
      and "block q (map risk_reason_value (rd_reasons rd)) o0
          (\<lambda>x. submission_of Risk_Rejected \<lparr> sb_order := Some x, sb_risk := Some rd \<rparr>) s = (r, t)"
    | (gate) gd where "rd_approved rd" and "gd = gate_evaluate (mg_config m) (sq_gate_context q)"
      and "\<not> gd_allowed gd"
      and "block q (map gate_reason_value (gd_reasons gd)) o0
          (\<lambda>x. submission_of Gate_Rejected \<lparr> sb_order := Some x, sb_risk := Some rd, sb_gate := Some gd \<rparr>) s
          = (r, t)"
    | (type) msg where "o_type o0 \<notin> {Market, Limit}"
      and "block q [msg] o0 (\<lambda>x. submission_of Invalid \<lparr> sb_order := Some x, sb_error := Some msg \<rparr>) s = (r, t)"
    | (send) gd where "rd_approved rd" and "gd = gate_evaluate (mg_config m) (sq_gate_context q)"
      and "gd_allowed gd" and "o_type o0 \<in> {Market, Limit}" and "transmit m q o0 rd gd s = (r, t)"
proof (cases "rd_approved rd \<and> gd_allowed (gate_evaluate (mg_config m) (sq_gate_context q))")
  case True
  with assms show thesis
    by (auto simp: gate_and_transmit_def Let_def require_transmittable_type_def guard_raise_def
        order_error_text_def transmittable_order_types_def intro: type send split: if_splits)
next
  case False
  with assms show thesis
    by (cases "rd_approved rd") (auto simp: gate_and_transmit_def Let_def intro: risk gate)
qed

lemma check_and_transmit_preserves:
  assumes run: "check_and_transmit (logging m) q o0 (d, b, lg) = (r, t)" and ok: "log_ok (t_orders d) lg"
    and row: "o0 \<in> set (t_orders d)" and fresh: "internal_order_id o0 \<notin> set lg"
  shows "state_ok t"
  using run
proof (cases rule: check_cases)
  case (raised e d1)
  with ok show ?thesis by simp
next
  case (decided rd d1)
  then have ok1: "log_ok (t_orders d1) lg" and row1: "o0 \<in> set (t_orders d1)" using ok row by simp_all
  from decided(3) show ?thesis
    by (cases rule: gate_cases)
      (auto intro: block_preserves [OF _ ok1 fresh] transmit_preserves [OF _ ok1 row1 fresh])
qed

lemma submit_preserves:
  assumes run: "submit_intent (logging m) q (d, b, lg) = (r, t)" and ok: "log_ok (t_orders d) lg"
  shows "state_ok t"
proof (cases "\<exists>o'. 0 < rx_order_quantity (sq_risk_context q) \<and> build_for m q = Inr o'")
  case False
  have "build_for (logging m) q = build_for m q" by (simp add: build_for_def)
  with False run ok show ?thesis
    by (auto simp: submit_intent_def split: if_splits sum.splits option.splits)
next
  case True
  then obtain o' where o': "0 < rx_order_quantity (sq_risk_context q)" "build_for (logging m) q = Inr o'"
    by (auto simp: build_for_def)
  obtain x d1 where ins: "insert_if_absent (\<lambda>d. d) o' d = (x, d1)" by fastforce
  show ?thesis
  proof (cases x)
    case (Inl e)
    with run ins o' ok orders.insert_raise show ?thesis
      by (auto simp: submit_intent_def sbind_def on_db_def)
  next
    case (Inr y)
    obtain stored created where y: "y = (stored, created)" by fastforce
    have ins': "insert_if_absent (\<lambda>d. d) o' d = (Inr (stored, created), d1)" using ins Inr y by simp
    have ok1: "log_ok (t_orders d1) lg \<and> (created \<longrightarrow> internal_order_id stored \<notin> set lg)"
    proof (cases created)
      case True
      with ins' orders.insert_created [of o' d stored d1] log_ok_insert [OF ok, of o'] show ?thesis by auto
    next
      case False
      with ins' orders.insert_existing [of o' d stored d1] ok show ?thesis by auto
    qed
    have row: "stored \<in> set (t_orders d1)" using orders.insert_returns_row [OF ins'] by simp
    show ?thesis
    proof (cases "\<not> created \<and> was_transmitted stored")
      case True
      with run ins' o' ok1 show ?thesis by (auto simp: submit_intent_def sbind_def on_db_def)
    next
      case False
      have "internal_order_id stored \<notin> set lg"
      proof
        assume "internal_order_id stored \<in> set lg"
        with ok1 obtain q' where "q' \<in> set (t_orders d1)" "internal_order_id q' = internal_order_id stored"
            "was_transmitted q'"
          by (auto simp: log_ok_def)
        moreover from this row ok1 have "q' = stored" using unique_row by (auto simp: log_ok_def)
        ultimately show False using False ok1 \<open>internal_order_id stored \<in> set lg\<close> by auto
      qed
      with run ins' o' False ok1 row check_and_transmit_preserves [of m q stored d1 b lg r t] show ?thesis
        by (auto simp: submit_intent_def sbind_def on_db_def)
    qed
  qed
qed

text \<open>Everything else that may happen to the state between submissions.\<close>

lemma mark_all_preserves:
  "on_db (mark_all_cancel_pending now os) (d, b, lg) = (r, t) \<Longrightarrow> log_ok (t_orders d) lg \<Longrightarrow> state_ok t"
proof (induction os arbitrary: d)
  case Nil
  then show ?case by (auto simp: on_db_def)
next
  case (Cons o' os)
  obtain r1 d1 x1 where u: "on_db (order_update (mark_status St_Cancel_Pending now o')) (d, (b, lg)) = (r1, (d1, x1))"
    by (metis surj_pair)
  from update_preserves [OF u] Cons.prems(2) have p: "x1 = (b, lg)" "log_ok (t_orders d1) lg" by auto
  with Cons.prems(1) Cons.IH [of d1] u show ?case
    by (cases r1) (auto simp: on_db_def sbind_def split: prod.splits sum.splits)
qed

lemma cancel_all_preserves:
  assumes run: "cancel_all_orders cancel now (d, b, lg) = (r, t)" and ok: "log_ok (t_orders d) lg"
    and quiet: "\<And>x b' lg'. cancel (b, lg) = (x, (b', lg')) \<Longrightarrow> lg' = lg"
  shows "state_ok t"
proof -
  obtain x b' lg' where c: "cancel (b, lg) = (x, (b', lg'))" by (metis surj_pair)
  with quiet have lg: "lg' = lg" by blast
  obtain os d1 where q: "open_orders d = (os, d1)" by fastforce
  have same: "t_orders d1 = t_orders d" using keepsD [OF keeps_reads(4) [OF observes_tables(1)] q] .
  show ?thesis
  proof (cases "\<exists>n ol. x = Inr n \<and> os = Inr ol")
    case False
    with run c lg q same ok show ?thesis
      by (auto simp: cancel_all_orders_def on_db_def sbind_def split: sum.splits)
  next
    case True
    then obtain n ol where x: "x = Inr n" "os = Inr ol" by blast
    obtain r2 t2 where m: "on_db (mark_all_cancel_pending now ol) (d1, b', lg) = (r2, t2)" by (metis surj_pair)
    with mark_all_preserves ok same have "state_ok t2" by metis
    with run c lg q x m show ?thesis
      by (auto simp: cancel_all_orders_def on_db_def sbind_def split: sum.splits prod.splits)
  qed
qed

inductive pipeline_step :: "'b manager \<Rightarrow> db \<times> 'b \<times> string list \<Rightarrow> db \<times> 'b \<times> string list \<Rightarrow> bool"
  for m :: "'b manager" where
  submit: "submit_intent (logging m) q s = (r, t) \<Longrightarrow> pipeline_step m s t"
| cancel_all: "cancel_all_orders cancel now s = (r, t) \<Longrightarrow>
    (\<And>b lg x b' lg'. cancel (b, lg) = (x, (b', lg')) \<Longrightarrow> lg' = lg) \<Longrightarrow> pipeline_step m s t"
| broker_moves: "pipeline_step m (d, b, lg) (d, b', lg)"
| other_tables: "t_orders d' = t_orders d \<Longrightarrow> pipeline_step m (d, b, lg) (d', b, lg)"

lemma pipeline_step_preserves: "pipeline_step m s t \<Longrightarrow> state_ok s \<Longrightarrow> state_ok t"
proof (induction rule: pipeline_step.induct)
  case (submit q s r t)
  obtain d b lg where "s = (d, b, lg)" by (metis prod_cases3)
  with submit submit_preserves [of m q d b lg r t] show ?case by simp
next
  case (cancel_all cancel now s r t)
  obtain d b lg where "s = (d, b, lg)" by (metis prod_cases3)
  with cancel_all cancel_all_preserves [of cancel now d b lg r t] show ?case by simp
qed (auto simp: state_ok_def)

lemma pipeline_preserves: "(pipeline_step m)\<^sup>*\<^sup>* s t \<Longrightarrow> state_ok s \<Longrightarrow> state_ok t"
  by (induction rule: rtranclp_induct) (auto intro: pipeline_step_preserves)

section \<open>What a placement needs\<close>

lemma record_answer_log:
  "record_answer m q o' rd gd answer (d, b, lg) = (r, (d', b', lg')) \<Longrightarrow> lg' = lg"
  by (auto simp: record_answer_def record_failure_def on_db_def sbind_def Let_def
      split: sum.splits if_splits bool.splits option.splits prod.splits)

lemma transmit_log:
  assumes "transmit (logging m) q o0 rd gd (d, b, lg) = (r, (d', b', lg'))"
  shows "lg' = lg \<or> lg' = lg @ [internal_order_id o0]"
  using assms
  by (auto simp: transmit_def on_db_def sbind_def Let_def make_order_request_def
      dest: record_answer_log split: if_splits prod.splits sum.splits)

lemma block_log: "block q reasons o0 report (d, x) = (r, (d', x')) \<Longrightarrow> x' = x"
  by (auto simp: block_def on_db_def sbind_def Let_def split: prod.splits sum.splits)

lemma check_and_transmit_log:
  assumes run: "check_and_transmit (logging m) q o0 (d, b, lg) = (r, (d', b', lg'))" and moved: "lg' \<noteq> lg"
  shows "lg' = lg @ [internal_order_id o0] \<and> risk_approves (mg_config m) (sq_risk_context q)
    \<and> gd_allowed (gate_evaluate (mg_config m) (sq_gate_context q)) \<and> o_type o0 \<in> {Market, Limit}"
  using run
proof (cases rule: check_cases)
  case (raised e d1)
  with moved show ?thesis by simp
next
  case (decided rd d1)
  from decided(3) show ?thesis
  proof (cases rule: gate_cases)
    case (send gd)
    with transmit_log [OF send(5)] moved decided(1) show ?thesis by (simp add: risk_approves_def)
  qed (use moved in \<open>auto dest: block_log\<close>)
qed

lemma build_for_fields:
  assumes "build_for m q = Inr o'"
  shows "intent_idempotency_key (mg_digest m) (sq_intent q) (con_id (sq_contract q)) = Inr (o_idempotency_key o')"
    and "o_type o' = sq_order_type q" and "o_status o' = St_New" and "broker_order_id o' = None"
  using assms by (auto simp: build_for_def ebind_eq_Inr dest: build_order_Inr)

lemma submit_log:
  assumes run: "submit_intent (logging m) q (d, b, lg) = (r, (d', b', lg'))" and "lg' \<noteq> lg"
    and ok: "log_ok (t_orders d) lg"
  shows "risk_approves (mg_config m) (sq_risk_context q)
    \<and> gd_allowed (gate_evaluate (mg_config m) (sq_gate_context q))
    \<and> (\<exists>row \<in> set (t_orders d'). lg' = lg @ [internal_order_id row] \<and> was_transmitted row)"
proof -
  obtain o' x d1 stored created where o': "build_for m q = Inr o'"
    and ins: "insert_if_absent (\<lambda>d. d) o' d = (Inr (stored, created), d1)"
    and chk: "check_and_transmit (logging m) q stored (d1, b, lg) = (r, (d', b', lg'))"
    using assms(1,2)
    by (auto simp: submit_intent_def sbind_def on_db_def build_for_def order_error_text_def
        split: if_splits sum.splits prod.splits exn.splits option.splits)
  note placed = check_and_transmit_log [OF chk assms(2)]
  have "log_ok (t_orders d') lg'" using submit_preserves [OF run ok] by simp
  moreover have "internal_order_id stored \<in> set lg'" using placed by simp
  ultimately obtain row where "row \<in> set (t_orders d')" "internal_order_id row = internal_order_id stored"
      "was_transmitted row"
    by (auto simp: log_ok_def)
  with placed show ?thesis by (auto intro!: bexI [of _ row])
qed

section \<open>Duplicates and refusals\<close>

lemma submit_known_transmitted:
  assumes run: "submit_intent m q (d, b) = (r, (d', b'))" and uniq: "unique_orders (t_orders d)"
    and row: "row \<in> set (t_orders d)" "was_transmitted row"
    and key: "intent_idempotency_key (mg_digest m) (sq_intent q) (con_id (sq_contract q)) = Inr (o_idempotency_key row)"
  shows "b' = b \<and> t_orders d' = t_orders d
    \<and> (\<forall>s. r = Inr s \<longrightarrow> sb_outcome s \<in> {No_Change, Invalid, Duplicate})"
proof (cases "\<exists>o'. 0 < rx_order_quantity (sq_risk_context q) \<and> build_for m q = Inr o'")
  case False
  with run show ?thesis
    by (auto simp: submit_intent_def submission_of_def split: if_splits sum.splits option.splits)
next
  case True
  then obtain o' where o': "0 < rx_order_quantity (sq_risk_context q)" "build_for m q = Inr o'" by blast
  then have same_key: "o_idempotency_key row = o_idempotency_key o'"
    using build_for_fields(1) key by fastforce
  obtain x d1 where ins: "insert_if_absent (\<lambda>d. d) o' d = (x, d1)" by fastforce
  show ?thesis
  proof (cases x)
    case (Inl e)
    with run ins o' orders.insert_raise [of o' d e d1] show ?thesis
      by (auto simp: submit_intent_def sbind_def on_db_def)
  next
    case (Inr y)
    obtain stored created where y: "y = (stored, created)" by fastforce
    with ins Inr have ins': "insert_if_absent (\<lambda>d. d) o' d = (Inr (stored, created), d1)" by simp
    from orders.insert_known_key [OF ins' uniq row(1) same_key]
    have "\<not> created" "stored = row" "t_orders d1 = t_orders d" by auto
    with run ins' o' row(2) show ?thesis
      by (auto simp: submit_intent_def sbind_def on_db_def submission_of_def)
  qed
qed

lemma block_result:
  assumes "block q reasons o0 report (d, x) = (Inr s, (d', x'))"
  shows "t_orders d' = write_row (mark_blocked reasons (sq_now q) o0) (t_orders d)
    \<and> s = report (mark_blocked reasons (sq_now q) o0)"
  using assms order_update_result [of "mark_blocked reasons (sq_now q) o0" d]
  by (auto simp: block_def on_db_def sbind_def Let_def split: prod.splits sum.splits)

lemma transmit_outcome:
  "transmit m q o0 rd gd (d, b) = (Inr s, t) \<Longrightarrow> sb_outcome s \<in> {Transmitted, Broker_Failure}"
  by (auto simp: transmit_def record_answer_def record_failure_def on_db_def sbind_def Let_def
      split: sum.splits if_splits bool.splits option.splits prod.splits)

lemma check_refused:
  assumes run: "check_and_transmit m q o0 (d, b) = (Inr s, (d', b'))" and row: "o0 \<in> set (t_orders d)"
    and refused: "sb_outcome s = Risk_Rejected \<or> sb_outcome s = Gate_Rejected"
  shows "\<exists>r \<in> set (t_orders d'). o_idempotency_key r = o_idempotency_key o0 \<and> o_status r = St_Blocked
    \<and> block_reasons r = sb_reasons s \<and> sb_reasons s \<noteq> []"
proof -
  have blocked: "\<exists>r \<in> set (t_orders d'). o_idempotency_key r = o_idempotency_key o0 \<and> o_status r = St_Blocked
      \<and> block_reasons r = reasons"
    if "t_orders d' = write_row (mark_blocked reasons (sq_now q) o0) (t_orders d1)" "t_orders d1 = t_orders d"
    for reasons d1
    using write_row_mem [of o0 "t_orders d1" "mark_blocked reasons (sq_now q) o0"] row that
    by (intro bexI [of _ "persist_over (mark_blocked reasons (sq_now q) o0) o0"])
      (simp_all add: mark_blocked_def persist_over_def)
  from run show ?thesis
  proof (cases rule: check_cases)
    case (raised e d1)
    then show ?thesis by simp
  next
    case (decided rd d1)
    have approved: "rd_approved rd \<longleftrightarrow> rd_reasons rd = []"
      using decided(1) by (auto simp: risk_evaluate_def Let_def ebind_eq_Inr)
    from decided(3) show ?thesis
    proof (cases rule: gate_cases)
      case risk
      from block_result [OF risk(2)] blocked [OF _ decided(2)] risk(1) approved show ?thesis
        by (simp add: sb_reasons_def submission_of_def)
    next
      case (gate gd)
      then have "gd_reasons gd \<noteq> []" by (simp add: gate_evaluate_def Let_def)
      with block_result [OF gate(4)] blocked [OF _ decided(2)] gate(1,3) show ?thesis
        by (simp add: sb_reasons_def submission_of_def)
    next
      case (type msg)
      from block_result [OF type(2)] refused show ?thesis by (simp add: submission_of_def)
    next
      case (send gd)
      from transmit_outcome [OF send(5)] refused show ?thesis by auto
    qed
  qed
qed

lemma submit_refused:
  assumes run: "submit_intent m q (d, b) = (Inr s, (d', b'))"
    and refused: "sb_outcome s = Risk_Rejected \<or> sb_outcome s = Gate_Rejected"
  shows "\<exists>r \<in> set (t_orders d').
      intent_idempotency_key (mg_digest m) (sq_intent q) (con_id (sq_contract q)) = Inr (o_idempotency_key r)
      \<and> o_status r = St_Blocked \<and> block_reasons r = sb_reasons s \<and> sb_reasons s \<noteq> []"
proof -
  obtain o' d1 stored created where o': "build_for m q = Inr o'"
    and ins: "insert_if_absent (\<lambda>d. d) o' d = (Inr (stored, created), d1)"
    and chk: "check_and_transmit m q stored (d1, b) = (Inr s, (d', b'))"
    using run refused
    by (auto simp: submit_intent_def sbind_def on_db_def submission_of_def
        split: if_splits sum.splits prod.splits option.splits)
  have "stored \<in> set (t_orders d1)" "o_idempotency_key stored = o_idempotency_key o'"
    using orders.insert_returns_row [OF ins] by auto
  with check_refused [OF chk _ refused] build_for_fields(1) [OF o'] show ?thesis by metis
qed

section \<open>Terms of a replayed order\<close>

text \<open>
  An order that was stored but never reached the broker is placed with the side and the quantity it
  was stored with, whatever the risk context of the new submission says.
\<close>

definition request_for :: "request \<Rightarrow> order \<Rightarrow> order_request" where
  "request_for q o' =
     \<lparr> rq_internal_order_id = internal_order_id o', rq_correlation_id = sq_correlation_id q,
       rq_contract = sq_contract q, rq_side = o_side o', rq_quantity = o_quantity o',
       rq_order_type = o_type o', rq_time_in_force = o_time_in_force o',
       rq_limit_price = o_limit_price o', rq_stop_price = o_stop_price o', rq_transmit = True \<rparr>"

lemma transmit_sends:
  assumes "transmit m q o0 rd gd (d, b) = (r, (d', b'))" and "b' \<noteq> b"
  shows "\<exists>answer. mg_place m (sq_placed_at q) (request_for q (mark_pending_submit (sq_now q) o0)) b = (answer, b')"
  using assms
  by (auto simp: transmit_def request_for_def record_answer_def record_failure_def on_db_def sbind_def
      Let_def make_order_request_def split: if_splits prod.splits sum.splits bool.splits option.splits)

lemma check_sends:
  assumes "check_and_transmit m q o0 (d, b) = (r, (d', b'))" and "b' \<noteq> b"
  shows "\<exists>answer. mg_place m (sq_placed_at q) (request_for q (mark_pending_submit (sq_now q) o0)) b = (answer, b')"
  using assms(1)
proof (cases rule: check_cases)
  case (raised e d1)
  with assms(2) show ?thesis by simp
next
  case (decided rd d1)
  from decided(3) show ?thesis
    by (cases rule: gate_cases) (use assms(2) in \<open>auto dest: block_log intro: transmit_sends\<close>)
qed

lemma submit_sends_stored_terms:
  assumes run: "submit_intent m q (d, b) = (r, (d', b'))" and moved: "b' \<noteq> b"
    and uniq: "unique_orders (t_orders d)" and row: "row \<in> set (t_orders d)"
    and key: "intent_idempotency_key (mg_digest m) (sq_intent q) (con_id (sq_contract q)) = Inr (o_idempotency_key row)"
  shows "\<exists>req answer. mg_place m (sq_placed_at q) req b = (answer, b')
     \<and> rq_internal_order_id req = internal_order_id row \<and> rq_side req = o_side row
     \<and> rq_quantity req = o_quantity row \<and> rq_transmit req"
proof -
  obtain o' d1 stored created where o': "build_for m q = Inr o'"
    and ins: "insert_if_absent (\<lambda>d. d) o' d = (Inr (stored, created), d1)"
    and chk: "check_and_transmit m q stored (d1, b) = (r, (d', b'))"
    using run moved
    by (auto simp: submit_intent_def sbind_def on_db_def
        split: if_splits sum.splits prod.splits option.splits)
  have "o_idempotency_key row = o_idempotency_key o'" using build_for_fields(1) [OF o'] key by simp
  with orders.insert_known_key [OF ins uniq row] have "stored = row" by simp
  with check_sends [OF chk moved] show ?thesis
    by (intro exI [of _ "request_for q (mark_pending_submit (sq_now q) row)"])
      (simp add: request_for_def mark_pending_submit_def)
qed

section \<open>Properties\<close>

text \<open>An instance: a broker that counts placements and accepts every order.\<close>

definition sample_manager :: "nat manager" where
  "sample_manager =
     \<lparr> mg_config = limits_config, mg_run_id = ''run_1'',
       mg_place = (\<lambda>t r n. (Inr \<lparr> pr_accepted = True, pr_broker_order_id = Some ''b1'',
          pr_status = St_Submitted, pr_error_code = None, pr_error_message = None \<rparr>, Suc n)),
       mg_digest = (\<lambda>s. s), mg_text = (\<lambda>e. ''error'') \<rparr>"

definition sample_request :: "string \<Rightarrow> request" where
  "sample_request new_id =
     \<lparr> sq_intent = sample_intent, sq_contract = sample_contract, sq_risk_context = approved_context,
       sq_gate_context = ready_context, sq_order_type = Market, sq_limit_price = None,
       sq_time_in_force = Day, sq_new_id = new_id, sq_now = Micros 0, sq_placed_at = Micros 1,
       sq_replied_at = Micros 2, sq_status_at = Micros 3 \<rparr>"

abbreviation open_db :: db where
  "open_db \<equiv> empty_db \<lparr> db_open := True \<rparr>"

text \<open>
  C1: Placement at most once: along any sequence of submissions, emergency cancels, broker activity,
  other writes and restarts, with database statements failing at any point, the broker is asked to
  place each internal order at most once, and every order it was asked to place is on disk in a
  state that marks it as sent. As a key has one row, no intent is placed twice.
\<close>

theorem each_order_placed_at_most_once:
  assumes "(pipeline_step m)\<^sup>*\<^sup>* (d, b, []) (d', b', placed)" and "unique_orders (t_orders d)"
  shows "distinct placed \<and> unique_orders (t_orders d')
     \<and> (\<forall>i \<in> set placed. \<exists>row \<in> set (t_orders d'). internal_order_id row = i \<and> was_transmitted row)"
proof -
  have "log_ok (t_orders d) []" using assms(2) by (simp add: log_ok_def)
  with pipeline_preserves [OF assms(1)] show ?thesis by (simp add: log_ok_def)
qed

lemma sample_run:
  "\<exists>d'. (pipeline_step sample_manager)\<^sup>*\<^sup>* (open_db, 0, []) (d', 1, [''ord_1''])"
proof -
  let ?f = "submit_intent (logging sample_manager)"
  have "snd (snd (?f (sample_request ''ord_2'') (snd (?f (sample_request ''ord_1'') (open_db, 0, []))))) = (1, [''ord_1''])"
    by code_simp
  then obtain r t r2 d2 where "?f (sample_request ''ord_1'') (open_db, 0, []) = (r, t)"
    and "?f (sample_request ''ord_2'') t = (r2, (d2, (1, [''ord_1''])))"
    by (metis prod.collapse)
  then show ?thesis
    by (meson pipeline_step.submit r_into_rtranclp rtranclp.rtrancl_into_rtrancl)
qed

theorem each_order_placed_at_most_once_witness:
  "\<exists>d'. (pipeline_step sample_manager)\<^sup>*\<^sup>* (open_db, 0, []) (d', 1, [''ord_1''])
     \<and> (\<exists>row \<in> set (t_orders d'). internal_order_id row = ''ord_1'' \<and> was_transmitted row)"
proof -
  obtain d' where run: "(pipeline_step sample_manager)\<^sup>*\<^sup>* (open_db, 0, []) (d', 1, [''ord_1''])"
    using sample_run by blast
  have "unique_orders (t_orders open_db)" by (simp add: empty_db_def unique_orders_def)
  with each_order_placed_at_most_once [OF run]
  have "\<exists>row \<in> set (t_orders d'). internal_order_id row = ''ord_1'' \<and> was_transmitted row" by simp
  with run show ?thesis by blast
qed

text \<open>
  C16: The broker is asked to place an order only when the risk manager approves and the gate allows
  the contexts of the submission, and by the time the submission ends, however it ends, the order is
  on disk as sent.
\<close>

theorem placement_needs_both_approvals:
  assumes "submit_intent (logging m) q (d, b, placed) = (r, (d', b', placed'))" and "placed' \<noteq> placed"
    and "log_ok (t_orders d) placed"
  shows "risk_approves (mg_config m) (sq_risk_context q)
    \<and> gd_allowed (gate_evaluate (mg_config m) (sq_gate_context q))
    \<and> (\<exists>row \<in> set (t_orders d'). placed' = placed @ [internal_order_id row] \<and> was_transmitted row)"
  using assms by (rule submit_log)

theorem placement_needs_both_approvals_witness:
  "risk_approves limits_config approved_context \<and> gd_allowed (gate_evaluate limits_config ready_context)"
proof -
  have "snd (snd (snd (submit_intent (logging sample_manager) (sample_request ''ord_1'') (open_db, 0, [])))) = [''ord_1'']"
    by code_simp
  then obtain r d' b' where
    run: "submit_intent (logging sample_manager) (sample_request ''ord_1'') (open_db, 0, []) = (r, (d', b', [''ord_1'']))"
    by (metis prod.collapse)
  show ?thesis
    using placement_needs_both_approvals [OF run]
    by (simp add: log_ok_def unique_orders_def empty_db_def sample_manager_def sample_request_def)
qed

text \<open>
  C17: A replayed intent is suppressed: when a stored order of the same idempotency key may have
  reached the broker, a submission changes neither the broker nor any order row, and reports a
  duplicate (or that the request was empty or invalid).
\<close>

theorem replay_is_suppressed:
  assumes "submit_intent m q (d, b) = (r, (d', b'))" and "unique_orders (t_orders d)"
    and "row \<in> set (t_orders d)" and "was_transmitted row"
    and "intent_idempotency_key (mg_digest m) (sq_intent q) (con_id (sq_contract q)) = Inr (o_idempotency_key row)"
  shows "b' = b \<and> t_orders d' = t_orders d
    \<and> (\<forall>s. r = Inr s \<longrightarrow> sb_outcome s \<in> {No_Change, Invalid, Duplicate})"
  using assms by (rule submit_known_transmitted)

definition stored_row :: "order_status \<Rightarrow> order_side \<Rightarrow> order" where
  "stored_row st side = (sample_order 1 Market)
     \<lparr> o_idempotency_key := ''idem_'' @ take 40 (canonical (intent_parts sample_intent (con_id sample_contract))),
       o_status := st, o_side := side \<rparr>"

lemma stored_row_key:
  "intent_idempotency_key (mg_digest sample_manager) (sq_intent (sample_request i))
     (con_id (sq_contract (sample_request i))) = Inr (o_idempotency_key (stored_row st side))"
  by (simp add: intent_idempotency_key_def idempotency_key_def sample_manager_def sample_request_def
      stored_row_def intent_parts_def)

theorem replay_is_suppressed_witness:
  "snd (snd (submit_intent sample_manager (sample_request ''ord_2'')
      (open_db \<lparr> t_orders := [stored_row St_Pending_Submit Buy] \<rparr>, 0))) = 0"
proof -
  obtain r d' b' where run: "submit_intent sample_manager (sample_request ''ord_2'')
      (open_db \<lparr> t_orders := [stored_row St_Pending_Submit Buy] \<rparr>, 0) = (r, (d', b'))"
    by (metis surj_pair)
  have "was_transmitted (stored_row St_Pending_Submit Buy)"
    by (simp add: stored_row_def was_transmitted_def reached_broker_def)
  from replay_is_suppressed [OF run _ _ this stored_row_key] run show ?thesis
    by (simp add: unique_orders_def)
qed

text \<open>
  Every refusal is on record: a submission that returns a risk or gate rejection leaves a row
  with the intent's key in state BLOCKED whose reasons are exactly the ones returned, at least one.
\<close>

theorem refusal_is_recorded:
  assumes "submit_intent m q (d, b) = (Inr s, (d', b'))"
    and "sb_outcome s = Risk_Rejected \<or> sb_outcome s = Gate_Rejected"
  shows "\<exists>row \<in> set (t_orders d').
      intent_idempotency_key (mg_digest m) (sq_intent q) (con_id (sq_contract q)) = Inr (o_idempotency_key row)
      \<and> o_status row = St_Blocked \<and> block_reasons row = sb_reasons s \<and> sb_reasons s \<noteq> []"
  using assms by (rule submit_refused)

theorem refusal_is_recorded_witness:
  "\<exists>s d' b'. submit_intent sample_manager
       (sample_request ''ord_1'' \<lparr> sq_gate_context := default_gate_context \<rparr>) (open_db, 0) = (Inr s, (d', b'))
     \<and> (\<exists>row \<in> set (t_orders d'). o_status row = St_Blocked \<and> block_reasons row = sb_reasons s)"
proof -
  let ?run = "submit_intent sample_manager
       (sample_request ''ord_1'' \<lparr> sq_gate_context := default_gate_context \<rparr>) (open_db, 0)"
  have refused: "(case fst ?run of Inl e \<Rightarrow> False | Inr s \<Rightarrow> sb_outcome s = Gate_Rejected)" by code_simp
  obtain x d' b' where eq: "?run = (x, (d', b'))" by (metis surj_pair)
  show ?thesis
  proof (cases x)
    case (Inl e)
    with refused eq show ?thesis by simp
  next
    case (Inr s)
    with eq have run: "?run = (Inr s, (d', b'))" by simp
    moreover from refused eq Inr have "sb_outcome s = Gate_Rejected" by simp
    ultimately show ?thesis using refusal_is_recorded [OF run] by blast
  qed
qed

text \<open>
  An order that was stored but not sent (blocked, or new after a crash) is, when its intent is
  submitted again and approved, placed with the stored side and quantity, although risk and gate
  judged the side and quantity of the new context.
\<close>

theorem replay_places_stored_terms:
  assumes "submit_intent m q (d, b) = (r, (d', b'))" and "b' \<noteq> b" and "unique_orders (t_orders d)"
    and "row \<in> set (t_orders d)"
    and "intent_idempotency_key (mg_digest m) (sq_intent q) (con_id (sq_contract q)) = Inr (o_idempotency_key row)"
  shows "\<exists>req answer. mg_place m (sq_placed_at q) req b = (answer, b')
     \<and> rq_internal_order_id req = internal_order_id row \<and> rq_side req = o_side row
     \<and> rq_quantity req = o_quantity row \<and> rq_transmit req"
  using assms by (rule submit_sends_stored_terms)

theorem replay_places_stored_terms_witness:
  "rx_order_side (sq_risk_context (sample_request ''ord_2'')) = Buy
   \<and> rx_order_quantity (sq_risk_context (sample_request ''ord_2'')) = 2
   \<and> (\<exists>req answer b'. mg_place sample_manager (Micros 1) req 0 = (answer, b')
        \<and> rq_side req = Sell \<and> rq_quantity req = 1 \<and> rq_transmit req)"
proof -
  let ?d = "open_db \<lparr> t_orders := [stored_row St_Blocked Sell] \<rparr>"
  let ?run = "submit_intent sample_manager (sample_request ''ord_2'') (?d, 0)"
  have "snd (snd ?run) = 1" by code_simp
  then obtain r d' where run: "?run = (r, (d', 1))" by (metis prod.collapse)
  have row: "o_side (stored_row St_Blocked Sell) = Sell" "o_quantity (stored_row St_Blocked Sell) = 1"
    by code_simp+
  from replay_places_stored_terms [OF run _ _ _ stored_row_key, of St_Blocked Sell] row show ?thesis
    by (auto simp: unique_orders_def sample_request_def approved_context_def default_risk_context_def)
qed

text \<open>
  The side and size computed for a target reach it exactly: the current position plus the signed
  quantity is the requested position, the quantity is never negative, and it is zero exactly when
  the target is already held.
\<close>

theorem delta_reaches_target:
  "current + snd (delta_to_side_and_quantity current requested)
       * side_sign (fst (delta_to_side_and_quantity current requested)) = requested
   \<and> 0 \<le> snd (delta_to_side_and_quantity current requested)
   \<and> (snd (delta_to_side_and_quantity current requested) = 0 \<longleftrightarrow> current = requested)"
  by (auto simp: delta_to_side_and_quantity_def Let_def)

end
