(* ===== verification/MarketData.thy ===== *)
theory MarketData
  imports BrokerModels Gate "HOL-Library.AList"
begin

text \<open>
  \<^verbatim>\<open>app/market_data/models.py\<close> and \<^verbatim>\<open>app/market_data/manager.py\<close>: quotes, and the manager that keeps
  the newest quote of each subscribed contract. Its dictionaries are association lists in insertion
  order. An operation acts on the manager and on the state \<open>'b\<close> of the broker it polls and of the
  listeners it notifies; every reading of the clock is an argument. The message stored with a
  refused entitlement is left out, the set of refused keys is kept.
\<close>

section \<open>Quotes\<close>

record quote =
  q_contract_key :: string
  q_symbol :: string
  q_received_at :: instant
  q_source :: string
  q_bid :: "decimal option"
  q_ask :: "decimal option"
  q_last :: "decimal option"
  q_bid_size :: "int option"
  q_ask_size :: "int option"
  q_is_delayed :: bool

definition quote_mid :: "quote \<Rightarrow> decimal option result" where
  "quote_mid q = mid_price (q_bid q) (q_ask q) (q_last q)"

definition spread :: "quote \<Rightarrow> decimal option result" where
  "spread q =
     (case (q_bid q, q_ask q) of
        (Some b, Some a) \<Rightarrow> ebind (dec_sub a b) (\<lambda>d. Inr (Some d))
      | _ \<Rightarrow> Inr None)"

definition quote_age :: "quote \<Rightarrow> instant \<Rightarrow> pyfloat" where
  "quote_age q now = age_seconds (q_received_at q) now"

definition quote_is_fresh :: "quote \<Rightarrow> pyfloat \<Rightarrow> instant \<Rightarrow> bool" where
  "quote_is_fresh q max_age now =
     (if flt_leq max_age (Flt 0) then False
      else flt_leq (Flt 0) (quote_age q now) \<and> flt_leq (quote_age q now) max_age)"

definition has_prices :: "quote \<Rightarrow> bool result" where
  "has_prices q = ebind (quote_mid q) (\<lambda>m. Inr (m \<noteq> None))"

record market_data_status =
  ms_contract_key :: "string option"
  ms_last_update_at :: "instant option"
  ms_age_seconds :: "pyfloat option"
  ms_max_age_seconds :: pyfloat
  ms_fresh :: bool
  ms_source :: "string option"
  ms_subscribed :: bool

section \<open>The manager\<close>

record 'b market_data =
  md_max_age_seconds :: pyfloat
  md_quotes :: "(string \<times> quote) list"
  md_subscribed :: "(string \<times> qualified_contract) list"
  md_listeners :: "(quote \<Rightarrow> ('b, unit) action) list"
  md_denied :: "string list"

definition make_market_data :: "pyfloat \<Rightarrow> 'b market_data" where
  "make_market_data max_age =
     \<lparr> md_max_age_seconds = max_age, md_quotes = [], md_subscribed = [], md_listeners = [], md_denied = [] \<rparr>"

definition add_listener :: "(quote \<Rightarrow> ('b, unit) action) \<Rightarrow> 'b market_data \<Rightarrow> 'b market_data" where
  "add_listener l m = m \<lparr> md_listeners := md_listeners m @ [l] \<rparr>"

definition subscribed_contracts :: "'b market_data \<Rightarrow> qualified_contract list" where
  "subscribed_contracts m = map snd (md_subscribed m)"

definition quote_of :: "qualified_contract \<Rightarrow> tick \<Rightarrow> quote" where
  "quote_of c t =
     \<lparr> q_contract_key = qualified_key c, q_symbol = qc_symbol c, q_received_at = tk_received_at t,
       q_source = tk_source t, q_bid = tk_bid t, q_ask = tk_ask t, q_last = tk_last t,
       q_bid_size = tk_bid_size t, q_ask_size = tk_ask_size t, q_is_delayed = tk_is_delayed t \<rparr>"

fun notify :: "quote \<Rightarrow> (quote \<Rightarrow> ('b, unit) action) list \<Rightarrow> ('b, unit) action" where
  "notify q [] = sreturn ()"
| "notify q (l # ls) = sbind (l q) (\<lambda>_. notify q ls)"

definition record_tick :: "qualified_contract \<Rightarrow> tick \<Rightarrow> ('b market_data \<times> 'b, quote option) action" where
  "record_tick c t = (\<lambda>(m, b).
     (let q = quote_of c t in
      case has_prices q of
        Inl e \<Rightarrow> (Inl e, (m, b))
      | Inr False \<Rightarrow> (Inr None, (m, b))
      | Inr True \<Rightarrow>
          (let m' = m \<lparr> md_quotes := AList.update (q_contract_key q) q (md_quotes m) \<rparr> in
           case notify q (md_listeners m') b of
             (Inl e, b') \<Rightarrow> (Inl e, (m', b'))
           | (Inr _, b') \<Rightarrow> (Inr (Some q), (m', b')))))"

definition poll :: "'b broker \<Rightarrow> instant \<Rightarrow> qualified_contract \<Rightarrow> ('b market_data \<times> 'b, quote option) action" where
  "poll B now c = (\<lambda>(m, b).
     (case br_market_data B now c b of
        (Inl e, b') \<Rightarrow>
          if e = BrokerPermissionError then
            (Inr None,
             (if qualified_key c \<in> set (md_denied m) then m
              else m \<lparr> md_denied := md_denied m @ [qualified_key c] \<rparr>, b'))
          else if is_broker_error e then (Inr None, (m, b'))
          else (Inl e, (m, b'))
      | (Inr t, b') \<Rightarrow> record_tick c t (m, b')))"

definition subscribe :: "'b broker \<Rightarrow> instant \<Rightarrow> qualified_contract \<Rightarrow> ('b market_data \<times> 'b, unit) action" where
  "subscribe B now c = (\<lambda>(m, b).
     if map_of (md_subscribed m) (qualified_key c) \<noteq> None then (Inr (), (m, b))
     else sbind (poll B now c) (\<lambda>_. sreturn ())
            (m \<lparr> md_subscribed := AList.update (qualified_key c) c (md_subscribed m) \<rparr>, b))"

definition unsubscribe :: "'b broker \<Rightarrow> qualified_contract \<Rightarrow> ('b market_data \<times> 'b, unit) action" where
  "unsubscribe B c = (\<lambda>(m, b).
     (let m' = m \<lparr> md_subscribed := AList.delete (qualified_key c) (md_subscribed m) \<rparr> in
      case br_cancel_market_data B c b of
        (Inl e, b') \<Rightarrow> (if is_broker_error e then Inr () else Inl e, (m', b'))
      | (Inr _, b') \<Rightarrow> (Inr (), (m', b'))))"

definition md_clear :: "'b market_data \<Rightarrow> 'b market_data" where
  "md_clear m = m \<lparr> md_quotes := [], md_subscribed := [] \<rparr>"

text \<open>
  \<^verbatim>\<open>poll_all\<close> walks a copy of the subscriptions; \<open>clock n\<close> is the reading of the \<open>n\<close>-th request.
\<close>

fun poll_each :: "'b broker \<Rightarrow> (nat \<Rightarrow> instant) \<Rightarrow> nat \<Rightarrow> qualified_contract list
    \<Rightarrow> ('b market_data \<times> 'b, quote list) action" where
  "poll_each B clock n [] = sreturn []"
| "poll_each B clock n (c # cs) =
     sbind (poll B (clock n) c) (\<lambda>q. sbind (poll_each B clock (Suc n) cs) (\<lambda>qs.
       sreturn (case q of None \<Rightarrow> qs | Some x \<Rightarrow> x # qs)))"

definition poll_all :: "'b broker \<Rightarrow> (nat \<Rightarrow> instant) \<Rightarrow> ('b market_data \<times> 'b, quote list) action" where
  "poll_all B clock = (\<lambda>(m, b). poll_each B clock 0 (subscribed_contracts m) (m, b))"

definition latest :: "'b market_data \<Rightarrow> string \<Rightarrow> quote option" where
  "latest m key = map_of (md_quotes m) key"

definition md_age_seconds :: "'b market_data \<Rightarrow> string \<Rightarrow> instant \<Rightarrow> pyfloat option" where
  "md_age_seconds m key now = map_option (\<lambda>q. quote_age q now) (latest m key)"

definition md_is_fresh :: "'b market_data \<Rightarrow> string \<Rightarrow> instant \<Rightarrow> bool" where
  "md_is_fresh m key now =
     (case latest m key of None \<Rightarrow> False | Some q \<Rightarrow> quote_is_fresh q (md_max_age_seconds m) now)"

definition md_status :: "'b market_data \<Rightarrow> string option \<Rightarrow> instant \<Rightarrow> instant \<Rightarrow> market_data_status" where
  "md_status m key now now' =
     (let known = (case key of None \<Rightarrow> None | Some k \<Rightarrow> if k = [] then None else Some k);
          q = Option.bind known (latest m)
      in \<lparr> ms_contract_key = key, ms_last_update_at = map_option q_received_at q,
           ms_age_seconds = map_option (\<lambda>x. quote_age x now) q,
           ms_max_age_seconds = md_max_age_seconds m,
           ms_fresh = (case known of None \<Rightarrow> False | Some k \<Rightarrow> md_is_fresh m k now'),
           ms_source = map_option q_source q,
           ms_subscribed = (case known of None \<Rightarrow> False | Some k \<Rightarrow> map_of (md_subscribed m) k \<noteq> None) \<rparr>)"

definition permission_denials :: "'b market_data \<Rightarrow> string list" where
  "permission_denials m = md_denied m"

section \<open>What the cache holds\<close>

text \<open>
  Every cached quote stands under its contract's key and has a price; every subscription stands
  under its contract's key.
\<close>

definition quotes_ok :: "(string \<times> quote) list \<Rightarrow> bool" where
  "quotes_ok qs = (distinct (map fst qs) \<and> (\<forall>(k, q) \<in> set qs. q_contract_key q = k \<and> has_prices q = Inr True))"

definition market_ok :: "'b market_data \<Rightarrow> bool" where
  "market_ok m = (quotes_ok (md_quotes m) \<and> distinct (map fst (md_subscribed m))
     \<and> (\<forall>(k, c) \<in> set (md_subscribed m). qualified_key c = k))"

lemma update_all:
  assumes "\<forall>(k, v) \<in> set al. P k v" and "P k v"
  shows "\<forall>(k', v') \<in> set (AList.update k v al). P k' v'"
  using assms by (induction al) auto

lemma quotes_ok_update:
  "quotes_ok qs \<Longrightarrow> has_prices q = Inr True \<Longrightarrow> quotes_ok (AList.update (q_contract_key q) q qs)"
  using update_all [of qs "\<lambda>k q. q_contract_key q = k \<and> has_prices q = Inr True" "q_contract_key q" q]
  by (simp add: quotes_ok_def distinct_update)

lemma market_ok_fresh: "market_ok (make_market_data a)"
  by (simp add: market_ok_def make_market_data_def quotes_ok_def)

lemma market_ok_add_listener: "market_ok m \<Longrightarrow> market_ok (add_listener l m)"
  by (simp add: market_ok_def add_listener_def)

lemma market_ok_clear: "market_ok (md_clear m)"
  by (simp add: market_ok_def md_clear_def quotes_ok_def)

text \<open>The two ways recording a tick ends: nothing cached, or exactly this quote cached.\<close>

lemma record_tick_cases:
  assumes "record_tick c t (m, b) = (r, (m', b'))"
  obtains (priceless) "m' = m" "b' = b" "r = Inr None" "has_prices (quote_of c t) = Inr False"
  | (failed) e where "m' = m" "b' = b" "r = Inl e" "has_prices (quote_of c t) = Inl e"
  | (cached) "m' = m \<lparr> md_quotes := AList.update (qualified_key c) (quote_of c t) (md_quotes m) \<rparr>"
      "has_prices (quote_of c t) = Inr True" "r = Inr (Some (quote_of c t)) \<or> (\<exists>e. r = Inl e)"
proof -
  have key: "q_contract_key (quote_of c t) = qualified_key c" by (simp add: quote_of_def)
  show thesis
  proof (cases "has_prices (quote_of c t)")
    case (Inl e)
    with assms show ?thesis by (intro failed [of e]) (simp_all add: record_tick_def)
  next
    case (Inr p)
    show ?thesis
    proof (cases p)
      case False
      with assms Inr show ?thesis by (intro priceless) (simp_all add: record_tick_def)
    next
      case True
      with assms Inr key show ?thesis
        by (intro cached) (auto simp: record_tick_def Let_def split: prod.splits sum.splits)
    qed
  qed
qed

lemma record_tick_ok:
  assumes "record_tick c t (m, b) = (r, (m', b'))" and "market_ok m"
  shows "market_ok m'"
  using assms(1)
proof (cases rule: record_tick_cases)
  case cached
  have "q_contract_key (quote_of c t) = qualified_key c" by (simp add: quote_of_def)
  with quotes_ok_update [OF _ cached(2), of "md_quotes m"] assms(2) cached(1)
  show ?thesis by (simp add: market_ok_def)
qed (use assms(2) in simp_all)

lemma poll_cases:
  assumes "poll B now c (m, b) = (r, (m', b'))"
  obtains (refused) e where "br_market_data B now c b = (Inl e, b')" "md_quotes m' = md_quotes m"
      "md_subscribed m' = md_subscribed m" "md_listeners m' = md_listeners m"
      "md_max_age_seconds m' = md_max_age_seconds m" "r = Inr None \<or> r = Inl e"
  | (ticked) t b1 where "br_market_data B now c b = (Inr t, b1)" "record_tick c t (m, b1) = (r, (m', b'))"
proof (cases "br_market_data B now c b")
  case (Pair x b1)
  show thesis
  proof (cases x)
    case (Inl e)
    with Pair assms show ?thesis
      by (intro refused [of e]) (auto simp: poll_def split: if_splits)
  next
    case (Inr t)
    with Pair assms show ?thesis by (intro ticked) (simp_all add: poll_def)
  qed
qed

lemma poll_ok:
  assumes "poll B now c (m, b) = (r, (m', b'))" and "market_ok m"
  shows "market_ok m'"
  using assms(1)
proof (cases rule: poll_cases)
  case (refused e)
  with assms(2) show ?thesis by (simp add: market_ok_def)
qed (use assms(2) in \<open>auto intro: record_tick_ok\<close>)

lemma subscribe_ok:
  assumes "subscribe B now c (m, b) = (r, (m', b'))" and "market_ok m"
  shows "market_ok m'"
proof (cases "map_of (md_subscribed m) (qualified_key c)")
  case (Some x)
  with assms show ?thesis by (simp add: subscribe_def)
next
  case None
  let ?m = "m \<lparr> md_subscribed := AList.update (qualified_key c) c (md_subscribed m) \<rparr>"
  have "market_ok ?m"
    using assms(2) update_all [of "md_subscribed m" "\<lambda>k c. qualified_key c = k" "qualified_key c" c]
    by (simp add: market_ok_def distinct_update)
  moreover obtain r1 where "poll B now c (?m, b) = (r1, (m', b'))"
    using assms(1) None by (auto simp: subscribe_def sbind_def split: prod.splits sum.splits)
  ultimately show ?thesis by (auto intro: poll_ok)
qed

lemma unsubscribe_ok:
  assumes "unsubscribe B c (m, b) = (r, (m', b'))" and "market_ok m"
  shows "market_ok m'"
proof -
  have "m' = m \<lparr> md_subscribed := AList.delete (qualified_key c) (md_subscribed m) \<rparr>"
    using assms(1) by (auto simp: unsubscribe_def Let_def split: prod.splits sum.splits)
  with assms(2) show ?thesis
    by (auto simp: market_ok_def AList.delete_eq distinct_map_filter)
qed

lemma poll_each_ok:
  "poll_each B clock n cs (m, b) = (r, (m', b')) \<Longrightarrow> market_ok m \<Longrightarrow> market_ok m'"
proof (induction cs arbitrary: n m b r m' b')
  case Nil
  then show ?case by simp
next
  case (Cons c cs)
  obtain r1 m1 b1 where 1: "poll B (clock n) c (m, b) = (r1, (m1, b1))" by (metis surj_pair)
  have ok: "market_ok m1" by (rule poll_ok [OF 1 Cons.prems(2)])
  obtain r2 m2 b2 where 2: "poll_each B clock (Suc n) cs (m1, b1) = (r2, (m2, b2))" by (metis surj_pair)
  have "market_ok m2" by (rule Cons.IH [OF 2 ok])
  with Cons.prems(1) 1 2 ok show ?case by (auto simp: sbind_def split: sum.splits)
qed

lemma poll_all_ok: "poll_all B clock (m, b) = (r, (m', b')) \<Longrightarrow> market_ok m \<Longrightarrow> market_ok m'"
  by (auto simp: poll_all_def intro: poll_each_ok)

text \<open>Any sequence of operations of the manager, with the broker moving by itself in between.\<close>

inductive market_step :: "'b broker \<Rightarrow> 'b market_data \<times> 'b \<Rightarrow> 'b market_data \<times> 'b \<Rightarrow> bool" for B where
  polled: "poll B now c s = (r, t) \<Longrightarrow> market_step B s t"
| polled_all: "poll_all B clock s = (r, t) \<Longrightarrow> market_step B s t"
| subscribed: "subscribe B now c s = (r, t) \<Longrightarrow> market_step B s t"
| unsubscribed: "unsubscribe B c s = (r, t) \<Longrightarrow> market_step B s t"
| cleared: "market_step B (m, b) (md_clear m, b)"
| listening: "market_step B (m, b) (add_listener l m, b)"
| elsewhere: "market_step B (m, b) (m, b')"

lemma market_step_ok: "market_step B s t \<Longrightarrow> market_ok (fst s) \<Longrightarrow> market_ok (fst t)"
proof (induction rule: market_step.induct)
  case (polled now c s r t)
  then show ?case using poll_ok [of B now c "fst s" "snd s" r "fst t" "snd t"] by simp
next
  case (polled_all clock s r t)
  then show ?case using poll_all_ok [of B clock "fst s" "snd s" r "fst t" "snd t"] by simp
next
  case (subscribed now c s r t)
  then show ?case using subscribe_ok [of B now c "fst s" "snd s" r "fst t" "snd t"] by simp
next
  case (unsubscribed c s r t)
  then show ?case using unsubscribe_ok [of B c "fst s" "snd s" r "fst t" "snd t"] by simp
qed (auto simp: market_ok_clear market_ok_add_listener)

lemma market_run_ok: "(market_step B)\<^sup>*\<^sup>* s t \<Longrightarrow> market_ok (fst s) \<Longrightarrow> market_ok (fst t)"
  by (induction rule: rtranclp_induct) (auto intro: market_step_ok)

lemma latest_ok:
  assumes "market_ok m" and "latest m key = Some q"
  shows "q_contract_key q = key" and "has_prices q = Inr True"
  using assms by (auto simp: market_ok_def quotes_ok_def latest_def dest: map_of_SomeD)

text \<open>A quote in the cache was priced, so its middle price is known.\<close>

lemma latest_mid: "market_ok m \<Longrightarrow> latest m key = Some q \<Longrightarrow> \<exists>p. quote_mid q = Inr (Some p)"
  using latest_ok(2) [of m key q] by (auto simp: has_prices_def ebind_eq_Inr)

section \<open>Freshness\<close>

lemma quote_is_fresh_not_stale:
  assumes "flt_finite m" and "flt_finite a"
  shows "flt_leq (Flt 0) a \<and> flt_leq a m \<longleftrightarrow> \<not> flt_less a (Flt 0) \<and> \<not> flt_less m a"
  using assms by (cases a; cases m) auto

lemma cleared_nothing_fresh:
  "latest (md_clear m) key = None" "\<not> md_is_fresh (md_clear m) key now" "md_age_seconds (md_clear m) key now = None"
  by (simp_all add: latest_def md_clear_def md_is_fresh_def md_age_seconds_def)

text \<open>An age is never NaN, so "not stale and not in the future" is "fresh".\<close>

lemma age_seconds_not_nan: "age_seconds t now \<noteq> FNaN"
  by (simp add: age_seconds_def rnd_frac_def Let_def)

lemma fresh_iff_in_window:
  assumes "flt_finite m" and "a \<noteq> FNaN"
  shows "flt_leq (Flt 0) a \<and> flt_leq a m \<longleftrightarrow> \<not> flt_less a (Flt 0) \<and> \<not> flt_less m a"
  using assms by (cases a; cases m) (auto simp: not_less)

lemma md_is_fresh_eq_fresh_enough:
  assumes "flt_finite (md_max_age_seconds m)" and "cfg_market_data_max_age_seconds c = md_max_age_seconds m"
  shows "md_is_fresh m key now \<longleftrightarrow>
     flt_less (Flt 0) (md_max_age_seconds m) \<and> fresh_enough c (md_age_seconds m key now)"
proof (cases "latest m key")
  case None
  then show ?thesis by (simp add: md_is_fresh_def fresh_enough_def md_age_seconds_def)
next
  case (Some q)
  have "quote_age q now \<noteq> FNaN" by (simp add: quote_age_def age_seconds_not_nan)
  from fresh_iff_in_window [OF assms(1) this] flt_leq_zero_cases [OF assms(1)] assms(2) Some
  show ?thesis by (auto simp: md_is_fresh_def fresh_enough_def md_age_seconds_def quote_is_fresh_def)
qed

section \<open>Properties\<close>

text \<open>
  The cache never lies about what it holds: along any sequence of polls, subscriptions,
  cancellations, clears, new listeners and broker activity, every quote the manager returns for a
  key is a quote of that contract with a known middle price.
\<close>

theorem cached_quotes_are_priced:
  assumes "(market_step B)\<^sup>*\<^sup>* (make_market_data a, b) (m, b')" and "latest m key = Some q"
  shows "q_contract_key q = key \<and> (\<exists>p. quote_mid q = Inr (Some p))"
proof -
  have "market_ok m" using market_run_ok [OF assms(1)] market_ok_fresh [of a] by simp
  with assms(2) latest_ok(1) latest_mid show ?thesis by blast
qed

definition sample_tick :: "instant \<Rightarrow> decimal option \<Rightarrow> tick" where
  "sample_tick now price =
     \<lparr> tk_contract_key = qualified_key sample_contract, tk_received_at = now, tk_source = ''sample'',
       tk_bid = price, tk_ask = price, tk_last = None, tk_bid_size = None, tk_ask_size = None,
       tk_is_delayed = False \<rparr>"

definition sample_cache :: "unit market_data" where
  "sample_cache =
     fst (snd (record_tick sample_contract (sample_tick (Micros 0) (Some (dec_of_int 100)))
       (make_market_data (Flt 5), ())))"

lemma record_tick_step:
  assumes "record_tick c t (m, b) = (r, s)"
  shows "market_step (B \<lparr> br_market_data := \<lambda>now c b. (Inr t, b) \<rparr>) (m, b) s"
  using assms by (intro polled [of _ now c _ r]) (simp add: poll_def)

theorem cached_quotes_are_priced_witness:
  "\<exists>q. latest sample_cache (qualified_key sample_contract) = Some q
     \<and> q_contract_key q = qualified_key sample_contract \<and> (\<exists>p. quote_mid q = Inr (Some p))"
proof -
  let ?t = "sample_tick (Micros 0) (Some (dec_of_int 100))"
  obtain r u where run: "record_tick sample_contract ?t (make_market_data (Flt 5), ()) = (r, (sample_cache, u))"
    by (metis (full_types) prod.collapse sample_cache_def)
  have "latest sample_cache (qualified_key sample_contract) \<noteq> None" by code_simp
  then obtain q where q: "latest sample_cache (qualified_key sample_contract) = Some q" by blast
  have "(market_step (B \<lparr> br_market_data := \<lambda>now c b. (Inr ?t, b) \<rparr>))\<^sup>*\<^sup>*
      (make_market_data (Flt 5), ()) (sample_cache, u)" for B :: "unit broker"
    using record_tick_step [OF run] by (rule r_into_rtranclp)
  from cached_quotes_are_priced [OF this q] q show ?thesis by blast
qed



text \<open>
  A refused entitlement is asked for again: whatever the manager remembers as denied, a poll
  sends its request to the broker, and the broker's state afterwards is the one that request left
  (for a manager without listeners).
\<close>

theorem denied_request_is_repeated:
  assumes "md_listeners m = []"
  shows "snd (snd (poll B now c (m, b))) = snd (br_market_data B now c b)"
  using assms
  by (auto simp: poll_def record_tick_def Let_def split: prod.splits sum.splits bool.splits)

theorem denied_request_is_repeated_witness:
  "\<forall>B :: nat broker.
     snd (snd (poll (B \<lparr> br_market_data := \<lambda>now c n. (Inl BrokerPermissionError, Suc n) \<rparr>) (Micros 0)
       sample_contract (make_market_data (Flt 5) \<lparr> md_denied := [qualified_key sample_contract] \<rparr>, 0))) = 1"
  using denied_request_is_repeated
    [of "make_market_data (Flt 5) \<lparr> md_denied := [qualified_key sample_contract] \<rparr> :: nat market_data"]
  by (simp add: make_market_data_def)

end
