(* ===== verification/Strategy.thy ===== *)
theory Strategy
  imports MarketData Signals
begin

text \<open>
  \<^verbatim>\<open>app/strategy/base.py\<close> and \<^verbatim>\<open>app/strategy/noop.py\<close>. A strategy is the bookkeeping of the base class
  around the method a subclass supplies, \<open>sg_on_quote\<close>: it sees the number of quotes so far, the
  quote and its own state \<open>'z\<close>, and returns intents or raises. The registry holds the no-op strategy.
\<close>

record 'z strategy =
  sg_name :: string
  sg_enabled :: bool
  sg_params :: "(string \<times> string) list"
  sg_quotes_seen :: int
  sg_inner :: 'z
  sg_on_quote :: "int \<Rightarrow> quote \<Rightarrow> ('z, intent list) action"

definition make_strategy ::
  "string \<Rightarrow> (int \<Rightarrow> quote \<Rightarrow> ('z, intent list) action) \<Rightarrow> 'z \<Rightarrow> bool \<Rightarrow> 'z strategy" where
  "make_strategy name on_quote z enabled =
     \<lparr> sg_name = name, sg_enabled = enabled, sg_params = [], sg_quotes_seen = 0, sg_inner = z,
       sg_on_quote = on_quote \<rparr>"

definition disable :: "string \<Rightarrow> 'z strategy \<Rightarrow> 'z strategy" where
  "disable reason s =
     s \<lparr> sg_enabled := False, sg_params := AList.update ''disabled_reason'' reason (sg_params s) \<rparr>"

definition handle_quote :: "quote \<Rightarrow> ('z strategy, intent list) action" where
  "handle_quote q = (\<lambda>s.
     (let s1 = s \<lparr> sg_quotes_seen := sg_quotes_seen s + 1 \<rparr> in
      if \<not> sg_enabled s1 then (Inr [], s1)
      else (case sg_on_quote s1 (sg_quotes_seen s1) q (sg_inner s1) of
              (r, z) \<Rightarrow> (r, s1 \<lparr> sg_inner := z \<rparr>))))"

definition noop_on_quote :: "int \<Rightarrow> quote \<Rightarrow> (unit, intent list) action" where
  "noop_on_quote seen q = sreturn []"

definition strategy_registry :: "(string \<times> (bool \<Rightarrow> unit strategy)) list" where
  "strategy_registry = [(''noop'', make_strategy ''noop'' noop_on_quote ())]"

definition build_strategy :: "string \<Rightarrow> bool \<Rightarrow> unit strategy result" where
  "build_strategy name enabled =
     (case map_of strategy_registry (py_lower (py_strip name)) of
        None \<Rightarrow> Inl KeyError
      | Some build \<Rightarrow> Inr (build enabled))"

section \<open>What a strategy may do\<close>

fun handle_quotes :: "quote list \<Rightarrow> ('z strategy, intent list) action" where
  "handle_quotes [] = sreturn []"
| "handle_quotes (q # qs) =
     sbind (handle_quote q) (\<lambda>xs. sbind (handle_quotes qs) (\<lambda>ys. sreturn (xs @ ys)))"

lemma handle_quote_frame:
  assumes "handle_quote q s = (r, s')"
  shows "sg_enabled s' = sg_enabled s" and "sg_name s' = sg_name s" and "sg_on_quote s' = sg_on_quote s"
    and "sg_quotes_seen s' = sg_quotes_seen s + 1"
  using assms by (auto simp: handle_quote_def Let_def split: if_splits prod.splits)

text \<open>A strategy that is disabled, or whose method never returns an intent, never yields one.\<close>

definition silent :: "'z strategy \<Rightarrow> bool" where
  "silent s = (\<not> sg_enabled s \<or> (\<forall>n q z. fst (sg_on_quote s n q z) = Inr []))"

lemma handle_quote_silent:
  assumes "silent s"
  shows "\<exists>s'. handle_quote q s = (Inr [], s') \<and> silent s'"
proof (cases "sg_enabled s")
  case False
  with assms show ?thesis by (simp add: handle_quote_def silent_def Let_def)
next
  case True
  obtain r z where run: "sg_on_quote s (sg_quotes_seen s + 1) q (sg_inner s) = (r, z)" by (metis surj_pair)
  from assms True have all: "fst (sg_on_quote s n q z) = Inr []" for n q z by (simp add: silent_def)
  from all [of "sg_quotes_seen s + 1" q "sg_inner s"] run have "r = Inr []" by simp
  with run True all show ?thesis by (simp add: handle_quote_def silent_def Let_def)
qed

lemma handle_quotes_silent: "silent s \<Longrightarrow> \<exists>s'. handle_quotes qs s = (Inr [], s') \<and> silent s'"
proof (induction qs arbitrary: s)
  case Nil
  then show ?case by simp
next
  case (Cons q qs)
  then obtain s1 where "handle_quote q s = (Inr [], s1)" "silent s1" using handle_quote_silent by blast
  with Cons.IH [of s1] show ?case by auto
qed

lemma disable_silent: "silent (disable reason s)"
  by (simp add: silent_def disable_def)

lemma built_strategy_silent:
  assumes "build_strategy name enabled = Inr s"
  shows "silent s \<and> sg_name s = ''noop'' \<and> sg_enabled s = enabled"
  using assms
  by (auto simp: build_strategy_def strategy_registry_def make_strategy_def silent_def noop_on_quote_def
      split: if_splits option.splits)

lemma build_strategy_iff:
  "(\<exists>s. build_strategy name enabled = Inr s) \<longleftrightarrow> py_lower (py_strip name) = ''noop''"
  by (auto simp: build_strategy_def strategy_registry_def)

section \<open>Properties\<close>

text \<open>
  This build cannot trade by itself: every strategy the registry can build answers every
  sequence of quotes with no intent at all, enabled or not, and never raises.
\<close>

theorem built_strategies_never_trade:
  assumes "build_strategy name enabled = Inr s"
  shows "\<exists>s'. handle_quotes qs s = (Inr [], s')"
  using handle_quotes_silent [of s qs] built_strategy_silent [OF assms] by blast

theorem built_strategies_never_trade_witness:
  "\<exists>s'. handle_quotes [quote_of sample_contract (sample_tick (Micros 0) (Some (dec_of_int 100)))]
     (make_strategy ''noop'' noop_on_quote () True) = (Inr [], s')"
proof -
  have "build_strategy '' NoOp'' True = Inr (make_strategy ''noop'' noop_on_quote () True)"
  proof -
    have "py_lower (py_strip '' NoOp'') = ''noop''" by code_simp
    then show ?thesis by (simp add: build_strategy_def strategy_registry_def)
  qed
  then show ?thesis by (rule built_strategies_never_trade)
qed

end
