(* ===== verification/MockBroker.thy ===== *)
theory MockBroker
  imports MarketData Positions
begin

text \<open>
  \<^verbatim>\<open>app/broker/mock_broker.py\<close>: the simulated broker. Its three outside sources are arguments: the
  drift drawn for a seed text (\<^verbatim>\<open>Decimal(str(round(random.Random(text).uniform(-2, 2), 2)))\<close>), the first
  four bytes of a SHA-256 digest as a number, and the ISO text of an instant. Every operation is
  sequential; the one suspension, inside \<^verbatim>\<open>connect\<close>, changes nothing here.
\<close>

section \<open>State\<close>

record mock_sources =
  draw_drift :: "string \<Rightarrow> decimal"
  digest_prefix :: "string \<Rightarrow> int"
  iso_text :: "instant \<Rightarrow> string"

record mock =
  mk_seed :: int
  mk_account_id :: string
  mk_account_type_override :: "account_type option"
  mk_permission_denied :: bool
  mk_fail_connect :: bool
  mk_fill_market_orders :: bool
  mk_connection_state :: connection_state
  mk_connected_at :: "instant option"
  mk_last_heartbeat :: "instant option"
  mk_positions :: "(int \<times> broker_position) list"
  mk_open_orders :: "(string \<times> order_snapshot) list"
  mk_fills :: "broker_fill list"
  mk_order_counter :: int
  mk_exec_counter :: int
  mk_tick_counter :: "(string \<times> int) list"
  mk_subscribed :: "string set"

definition make_mock ::
  "int \<Rightarrow> string \<Rightarrow> account_type option \<Rightarrow> bool \<Rightarrow> bool \<Rightarrow> broker_position list \<Rightarrow> bool \<Rightarrow> mock" where
  "make_mock seed account override denied fail_connect initial fill =
     \<lparr> mk_seed = seed, mk_account_id = account, mk_account_type_override = override,
       mk_permission_denied = denied, mk_fail_connect = fail_connect, mk_fill_market_orders = fill,
       mk_connection_state = Disconnected, mk_connected_at = None, mk_last_heartbeat = None,
       mk_positions = fold (\<lambda>p ps. AList.update (bp_con_id p) p ps) initial [],
       mk_open_orders = [], mk_fills = [], mk_order_counter = 0, mk_exec_counter = 0,
       mk_tick_counter = [], mk_subscribed = {} \<rparr>"

definition default_mock :: mock where
  "default_mock = make_mock 20240101 ''DUMOCK0001'' None False False [] True"

section \<open>Test controls\<close>

definition set_account_type :: "account_type \<Rightarrow> mock \<Rightarrow> mock" where
  "set_account_type a s = s \<lparr> mk_account_type_override := Some a \<rparr>"

definition set_permission_denied :: "bool \<Rightarrow> mock \<Rightarrow> mock" where
  "set_permission_denied denied s = s \<lparr> mk_permission_denied := denied \<rparr>"

definition force_disconnect :: "connection_state \<Rightarrow> mock \<Rightarrow> mock" where
  "force_disconnect st s = s \<lparr> mk_connection_state := st, mk_subscribed := {} \<rparr>"

definition seed_position :: "broker_position \<Rightarrow> mock \<Rightarrow> mock" where
  "seed_position p s = s \<lparr> mk_positions := AList.update (bp_con_id p) p (mk_positions s) \<rparr>"

section \<open>Lifecycle\<close>

definition mock_is_connected :: "mock \<Rightarrow> bool" where
  "mock_is_connected s = (mk_connection_state s = Connected)"

definition mock_connection_info :: "mock \<Rightarrow> connection_info" where
  "mock_connection_info s =
     \<lparr> ci_connected = mock_is_connected s,
       ci_account_type =
         (if \<not> mock_is_connected s then Acct_Unknown
          else (case mk_account_type_override s of Some a \<Rightarrow> a | None \<Rightarrow> Acct_Simulated)),
       ci_account_id = (if mock_is_connected s then Some (mk_account_id s) else None),
       ci_connection_time = mk_connected_at s \<rparr>"

definition mock_connect :: "instant \<Rightarrow> (mock, connection_info) action" where
  "mock_connect now = (\<lambda>s.
     if mk_fail_connect s then (Inl BrokerConnectionError, s \<lparr> mk_connection_state := Failed \<rparr>)
     else (let s' = s \<lparr> mk_connected_at := Some now, mk_last_heartbeat := Some now,
                        mk_connection_state := Connected \<rparr>
           in (Inr (mock_connection_info s'), s')))"

definition mock_disconnect :: "(mock, unit) action" where
  "mock_disconnect = smodify (\<lambda>s. s \<lparr> mk_connection_state := Disconnected, mk_subscribed := {} \<rparr>)"

definition last_heartbeat_age :: "instant \<Rightarrow> mock \<Rightarrow> pyfloat option" where
  "last_heartbeat_age now s = map_option (\<lambda>t. age_seconds t now) (mk_last_heartbeat s)"

definition require_connected :: "(mock, unit) action" where
  "require_connected = (\<lambda>s. sguard (\<not> mock_is_connected s) BrokerConnectionError s)"

definition require_permission :: "(mock, unit) action" where
  "require_permission = (\<lambda>s. sguard (mk_permission_denied s) BrokerPermissionError s)"

section \<open>Account and state\<close>

definition mock_account_summary :: "instant \<Rightarrow> (mock, account_summary) action" where
  "mock_account_summary now =
     sbind require_connected (\<lambda>_.
     sbind (smodify (\<lambda>s. s \<lparr> mk_last_heartbeat := Some now \<rparr>)) (\<lambda>_.
     sgets (\<lambda>s.
       \<lparr> as_account_id = mk_account_id s, as_account_type = ci_account_type (mock_connection_info s),
         as_currency = ''USD'', net_liquidation = Some (Dec 10000000 (- 2)),
         available_funds = Some (Dec 10000000 (- 2)), buying_power = Some (Dec 10000000 (- 2)),
         excess_liquidity = Some (Dec 10000000 (- 2)), maintenance_margin = None,
         as_realized_pnl = Some (Dec 0 0), as_unrealized_pnl = Some (Dec 0 0),
         futures_permission = Some (\<not> mk_permission_denied s) \<rparr>)))"

definition mock_positions :: "(mock, broker_position list) action" where
  "mock_positions = sbind require_connected (\<lambda>_. sgets (\<lambda>s. map snd (mk_positions s)))"

definition mock_open_orders :: "(mock, order_snapshot list) action" where
  "mock_open_orders = sbind require_connected (\<lambda>_. sgets (\<lambda>s. map snd (mk_open_orders s)))"

text \<open>
  The cutoff is computed in binary floating point seconds since the epoch; here it is the exact
  instant. \<open>since_seconds\<close> is 86400 for every caller.
\<close>

definition mock_fills :: "instant \<Rightarrow> (mock, broker_fill list) action" where
  "mock_fills now =
     sbind require_connected (\<lambda>_.
     sgets (\<lambda>s. filter (\<lambda>f. hours_ago 24 now \<le> bf_executed_at f) (mk_fills s)))"

section \<open>Contracts\<close>

definition deterministic_con_id :: "mock_sources \<Rightarrow> string \<Rightarrow> string \<Rightarrow> int" where
  "deterministic_con_id S symbol expiry =
     900000000 + digest_prefix S (symbol @ '':'' @ expiry) mod 90000000"

text \<open>\<^verbatim>\<open>codes[month - 1]\<close>: a negative index counts from the end.\<close>

definition month_code :: "string \<Rightarrow> string result" where
  "month_code expiry =
     (case py_int (take 2 (drop 4 expiry)) of
        None \<Rightarrow> Inl ValueError
      | Some month \<Rightarrow>
          if length expiry < 4 then Inl IndexError
          else if month - 1 < - 12 \<or> 12 \<le> month - 1 then Inl IndexError
          else Inr [''FGHJKMNQUVXZ'' ! nat ((month - 1) mod 12), expiry ! 3])"

definition mock_contract ::
  "mock_sources \<Rightarrow> instant \<Rightarrow> string \<Rightarrow> futures_product \<Rightarrow> string \<Rightarrow> qualified_contract result" where
  "mock_contract S now symbol p expiry =
     ebind (month_code expiry) (\<lambda>code.
       make_qualified
         \<lparr> con_id = deterministic_con_id S symbol expiry, qc_symbol = fp_symbol p,
           qc_local_symbol = fp_symbol p @ code, qc_sec_type = Future, qc_exchange = fp_exchange p,
           qc_currency = fp_currency p, expiration = expiry,
           last_trade_date = (if length expiry = 8 then expiry else expiry @ ''15''),
           qc_multiplier = reference_multiplier p, min_tick = reference_min_tick p,
           qc_trading_class = fp_trading_class p, primary_exchange = Some (fp_exchange p),
           trading_hours = Some ''SIMULATED:0000-2359'', liquid_hours = Some ''SIMULATED:1330-2000'',
           time_zone_id = Some ''UTC'', long_name = Some (fp_description p),
           qualified_at = Some (iso_text S now) \<rparr>)"

definition mock_contract_details ::
  "mock_sources \<Rightarrow> instant \<Rightarrow> contract_spec \<Rightarrow> (mock, qualified_contract list) action" where
  "mock_contract_details S now spec =
     sbind require_connected (\<lambda>_.
     sbind require_permission (\<lambda>_.
     slift
       (if sp_sec_type spec = Continuous_Future then Inl BrokerContractError
        else (case get_product (sp_symbol spec) of
                Inl e \<Rightarrow> Inl (if e = KeyError then BrokerContractError else e)
              | Inr p \<Rightarrow>
                  (case sp_last_trade_date_or_contract_month spec of
                     None \<Rightarrow> Inl BrokerContractError
                   | Some expiry \<Rightarrow>
                       if expiry = [] then Inl BrokerContractError
                       else ebind (mock_contract S now (sp_symbol spec) p expiry) (\<lambda>c. Inr [c]))))))"

definition mock_qualify ::
  "mock_sources \<Rightarrow> instant \<Rightarrow> contract_spec \<Rightarrow> (mock, qualified_contract) action" where
  "mock_qualify S now spec =
     sbind (mock_contract_details S now spec) (\<lambda>matches.
       slift (case matches of
                [] \<Rightarrow> Inl BrokerContractError
              | [c] \<Rightarrow> Inr c
              | _ \<Rightarrow> Inl BrokerContractError))"

section \<open>Market data\<close>

definition seed_text :: "int \<Rightarrow> string \<Rightarrow> int \<Rightarrow> string" where
  "seed_text seed key step = int_str seed @ '':'' @ key @ '':'' @ int_str step"

definition next_tick :: "mock_sources \<Rightarrow> instant \<Rightarrow> qualified_contract \<Rightarrow> (mock, tick) action" where
  "next_tick S now c =
     (let key = qualified_key c in
      sbind (sgets (\<lambda>s. case map_of (mk_tick_counter s) key of None \<Rightarrow> 0 | Some n \<Rightarrow> n)) (\<lambda>step.
      sbind (smodify (\<lambda>s. s \<lparr> mk_tick_counter := AList.update key (step + 1) (mk_tick_counter s) \<rparr>)) (\<lambda>_.
      sbind (slift (get_product (qc_symbol c))) (\<lambda>p.
      sbind (sgets mk_seed) (\<lambda>seed.
      slift (ebind (dec_add (mock_reference_price p) (draw_drift S (seed_text seed key step))) (\<lambda>mid.
             ebind (dec_sub mid (min_tick c)) (\<lambda>bid.
             ebind (dec_add mid (min_tick c)) (\<lambda>ask.
               Inr \<lparr> tk_contract_key = key, tk_received_at = now, tk_source = ''mock'',
                     tk_bid = Some bid, tk_ask = Some ask, tk_last = Some mid,
                     tk_bid_size = Some 10, tk_ask_size = Some 10, tk_is_delayed = False \<rparr>)))))))))"

definition mock_market_data :: "mock_sources \<Rightarrow> instant \<Rightarrow> qualified_contract \<Rightarrow> (mock, tick) action" where
  "mock_market_data S now c =
     sbind require_connected (\<lambda>_.
     sbind require_permission (\<lambda>_.
     sbind (smodify (\<lambda>s. s \<lparr> mk_subscribed := insert (qualified_key c) (mk_subscribed s),
                              mk_last_heartbeat := Some now \<rparr>)) (\<lambda>_.
     next_tick S now c)))"

definition mock_cancel_market_data :: "qualified_contract \<Rightarrow> (mock, unit) action" where
  "mock_cancel_market_data c =
     smodify (\<lambda>s. s \<lparr> mk_subscribed := mk_subscribed s - {qualified_key c} \<rparr>)"

section \<open>Orders\<close>

definition padded :: "int \<Rightarrow> string" where
  "padded n = replicate (6 - length (int_str n)) CHR ''0'' @ int_str n"

definition filled_position :: "mock \<Rightarrow> broker_fill \<Rightarrow> qualified_contract \<Rightarrow> int \<Rightarrow> decimal \<Rightarrow> broker_position" where
  "filled_position s f c quantity cost =
     \<lparr> bp_account_id = mk_account_id s, bp_con_id = bf_con_id f, bp_symbol = bf_symbol f,
       bp_local_symbol = qc_local_symbol c, bp_sec_type = security_type_value (qc_sec_type c),
       bp_exchange = qc_exchange c, bp_currency = qc_currency c, bp_quantity = quantity,
       bp_average_cost = cost \<rparr>"

definition apply_fill_to_positions :: "broker_fill \<Rightarrow> qualified_contract \<Rightarrow> (mock, unit) action" where
  "apply_fill_to_positions f c = (\<lambda>s.
     (let delta = bf_quantity f * side_sign (bf_side f);
          new_quantity = (case map_of (mk_positions s) (bf_con_id f) of None \<Rightarrow> 0 | Some p \<Rightarrow> bp_quantity p) + delta
      in if new_quantity = 0
         then (Inr (), s \<lparr> mk_positions := AList.delete (bf_con_id f) (mk_positions s) \<rparr>)
         else (case ebind (multiplier_decimal c) (dec_mul (bf_price f)) of
                 Inl e \<Rightarrow> (Inl e, s)
               | Inr cost \<Rightarrow>
                   (Inr (), s \<lparr> mk_positions := AList.update (bf_con_id f)
                      (filled_position s f c new_quantity cost) (mk_positions s) \<rparr>))))"

definition simulate_fill ::
  "mock_sources \<Rightarrow> instant \<Rightarrow> order_snapshot \<Rightarrow> qualified_contract \<Rightarrow> (mock, unit) action" where
  "simulate_fill S now o' c =
     sbind (next_tick S now c) (\<lambda>t.
     sbind (slift (tick_mid t)) (\<lambda>mid.
     sbind (smodify (\<lambda>s. s \<lparr> mk_exec_counter := mk_exec_counter s + 1 \<rparr>)) (\<lambda>_.
     sbind (slift (dec_mul (Dec 35 (- 2)) (dec_of_int (os_quantity o')))) (\<lambda>commission.
     sbind (sgets (\<lambda>s.
       \<lparr> bf_execution_id = ''mockexec-'' @ padded (mk_exec_counter s),
         bf_broker_order_id = os_broker_order_id o', bf_account_id = mk_account_id s,
         bf_con_id = os_con_id o', bf_symbol = os_symbol o', bf_side = os_side o',
         bf_quantity = os_quantity o',
         bf_price = (case mid of Some p \<Rightarrow> p | None \<Rightarrow> min_tick c),
         bf_executed_at = now, bf_commission = Some commission,
         bf_commission_currency = Some ''USD'' \<rparr>)) (\<lambda>f.
     sbind (smodify (\<lambda>s. s \<lparr> mk_fills := mk_fills s @ [f],
                              mk_open_orders := AList.delete (os_broker_order_id o') (mk_open_orders s) \<rparr>)) (\<lambda>_.
     apply_fill_to_positions f c))))))"

definition working_order ::
  "string \<Rightarrow> string \<Rightarrow> int \<Rightarrow> string \<Rightarrow> order_request \<Rightarrow> order_snapshot" where
  "working_order account oid cid symbol r =
     \<lparr> os_broker_order_id = oid, os_account_id = account, os_con_id = cid, os_symbol = symbol,
       os_side = rq_side r, os_quantity = rq_quantity r, os_order_type = rq_order_type r,
       os_status = St_Submitted, os_filled_quantity = 0, os_remaining_quantity = rq_quantity r,
       os_limit_price = rq_limit_price r, os_stop_price = rq_stop_price r,
       os_average_fill_price = None, os_perm_id = None, os_client_id = None,
       os_time_in_force = rq_time_in_force r \<rparr>"

definition accepted_as :: "string \<Rightarrow> order_status \<Rightarrow> place_result" where
  "accepted_as oid st =
     \<lparr> pr_accepted = True, pr_broker_order_id = Some oid, pr_status = st, pr_error_code = None,
       pr_error_message = None \<rparr>"

definition mock_place_order :: "mock_sources \<Rightarrow> instant \<Rightarrow> order_request \<Rightarrow> (mock, place_result) action" where
  "mock_place_order S now r =
     sbind (sguard (\<not> rq_transmit r) BrokerOrderRejectedError) (\<lambda>_.
     sbind require_connected (\<lambda>_.
     sbind require_permission (\<lambda>_.
     sbind (sguard (rq_order_type r \<notin> {Market, Limit}) BrokerOrderRejectedError) (\<lambda>_.
     sbind (smodify (\<lambda>s. s \<lparr> mk_order_counter := mk_order_counter s + 1 \<rparr>)) (\<lambda>_.
     sbind (sgets (\<lambda>s. working_order (mk_account_id s) (''mock-'' @ padded (mk_order_counter s))
                         (con_id (rq_contract r)) (qc_symbol (rq_contract r)) r)) (\<lambda>o'.
     sbind (smodify (\<lambda>s. s \<lparr> mk_open_orders := AList.update (os_broker_order_id o') o' (mk_open_orders s) \<rparr>)) (\<lambda>_.
     sbind (sgets mk_fill_market_orders) (\<lambda>fills.
       if rq_order_type r = Market \<and> fills
       then sbind (simulate_fill S now o' (rq_contract r)) (\<lambda>_.
              sreturn (accepted_as (os_broker_order_id o') St_Filled))
       else sreturn (accepted_as (os_broker_order_id o') St_Submitted)))))))))"

definition mock_modify_order :: "order_request \<Rightarrow> string \<Rightarrow> (mock, place_result) action" where
  "mock_modify_order r oid =
     sbind (sguard (\<not> rq_transmit r) BrokerOrderRejectedError) (\<lambda>_.
     sbind require_connected (\<lambda>_. (\<lambda>s.
       (case map_of (mk_open_orders s) oid of
          None \<Rightarrow>
            (Inr \<lparr> pr_accepted = False, pr_broker_order_id = Some oid, pr_status = St_Rejected,
                   pr_error_code = Some ''UNKNOWN_ORDER'',
                   pr_error_message = Some (''no working order '' @ oid) \<rparr>, s)
        | Some old \<Rightarrow>
            (Inr (accepted_as oid St_Submitted),
             s \<lparr> mk_open_orders := AList.update oid
                   (working_order (os_account_id old) oid (os_con_id old) (os_symbol old) r)
                   (mk_open_orders s) \<rparr>)))))"

definition mock_cancel_order :: "string \<Rightarrow> (mock, bool) action" where
  "mock_cancel_order oid =
     sbind require_connected (\<lambda>_. (\<lambda>s.
       (Inr (map_of (mk_open_orders s) oid \<noteq> None),
        s \<lparr> mk_open_orders := AList.delete oid (mk_open_orders s) \<rparr>)))"

definition mock_cancel_all_orders :: "(mock, int) action" where
  "mock_cancel_all_orders =
     sbind require_connected (\<lambda>_. (\<lambda>s.
       (Inr (int (length (mk_open_orders s))), s \<lparr> mk_open_orders := [] \<rparr>)))"

section \<open>The broker it is\<close>

definition mock_broker :: "mock_sources \<Rightarrow> mock broker" where
  "mock_broker S =
     \<lparr> br_connect = mock_connect, br_disconnect = mock_disconnect, br_is_connected = mock_is_connected,
       br_connection_state = mk_connection_state, br_connection_info = mock_connection_info,
       br_account_summary = mock_account_summary, br_positions = mock_positions,
       br_open_orders = mock_open_orders, br_fills = mock_fills,
       br_contract_details = mock_contract_details S, br_qualify = mock_qualify S,
       br_market_data = mock_market_data S, br_cancel_market_data = mock_cancel_market_data,
       br_place_order = mock_place_order S, br_modify_order = mock_modify_order,
       br_cancel_order = mock_cancel_order, br_cancel_all_orders = mock_cancel_all_orders \<rparr>"

section \<open>The interface and the position ledger\<close>

lemma month_code_length: "month_code expiry = Inr code \<Longrightarrow> length code = 2"
  by (auto simp: month_code_def split: option.splits if_splits)

lemma mock_contract_ok: "mock_contract S now symbol p expiry = Inr c \<Longrightarrow> qualified_ok c"
  by (auto simp: mock_contract_def ebind_eq_Inr make_qualified_iff)

lemma mock_contract_details_single:
  assumes "mock_contract_details S now spec s = (Inr cs, s')"
  shows "s' = s \<and> mock_is_connected s \<and> \<not> mk_permission_denied s \<and> (\<exists>c. cs = [c] \<and> qualified_ok c)"
  using assms
  by (auto simp: mock_contract_details_def require_connected_def require_permission_def sbind_Inr
      ebind_eq_Inr mock_contract_ok split: if_splits sum.splits option.splits)

lemma mock_qualify_ok: "mock_qualify S now spec s = (Inr c, s') \<Longrightarrow> qualified_ok c \<and> s' = s"
  by (auto simp: mock_qualify_def sbind_Inr dest!: mock_contract_details_single)

interpretation mock: broker_interface mock_is_connected mk_connection_state
  "\<lambda>s. ci_account_type (mock_connection_info s)" "mock_place_order S" "mock_qualify S" for S
proof
  fix s :: mock and t :: instant and r :: order_request and sp :: contract_spec and c s'
  show "mock_is_connected s \<longleftrightarrow> mk_connection_state s = Connected"
    by (simp add: mock_is_connected_def)
  show "\<not> mock_is_connected s \<Longrightarrow> ci_account_type (mock_connection_info s) = Acct_Unknown"
    by (simp add: mock_connection_info_def)
  show "\<exists>e. is_broker_error e \<and> mock_place_order S t r s = (Inl e, s)" if "\<not> rq_transmit r"
    using that by (intro exI [of _ BrokerOrderRejectedError]) (simp add: mock_place_order_def is_broker_error_def)
  show "\<exists>e. is_broker_error e \<and> mock_place_order S t r s = (Inl e, s)" if "\<not> mock_is_connected s"
    using that
    by (cases "rq_transmit r")
      (auto simp: mock_place_order_def is_broker_error_def require_connected_def sbind_def)
  show "mock_qualify S t sp s = (Inr c, s') \<Longrightarrow> qualified_ok c"
    by (simp add: mock_qualify_ok)
qed

text \<open>The position dictionary is a ledger in the sense of the position book.\<close>

definition held :: "mock \<Rightarrow> int \<Rightarrow> int" where
  "held s k = (case map_of (mk_positions s) k of None \<Rightarrow> 0 | Some p \<Rightarrow> bp_quantity p)"

definition fill_delta :: "broker_fill \<Rightarrow> int" where
  "fill_delta f = bf_quantity f * side_sign (bf_side f)"

lemma held_fun: "held s = (\<lambda>k. case map_of (mk_positions s) k of None \<Rightarrow> 0 | Some p \<Rightarrow> bp_quantity p)"
  by (rule ext) (simp add: held_def)

lemma apply_fill_to_positions_cases:
  assumes "apply_fill_to_positions f c s = (r, s')"
  obtains (flat) "r = Inr ()" "held s (bf_con_id f) + fill_delta f = 0"
      "s' = s \<lparr> mk_positions := AList.delete (bf_con_id f) (mk_positions s) \<rparr>"
  | (failed) e where "r = Inl e" "s' = s" "ebind (multiplier_decimal c) (dec_mul (bf_price f)) = Inl e"
  | (moved) p where "r = Inr ()" "bp_quantity p = held s (bf_con_id f) + fill_delta f" "bp_con_id p = bf_con_id f"
      "s' = s \<lparr> mk_positions := AList.update (bf_con_id f) p (mk_positions s) \<rparr>"
proof (cases "held s (bf_con_id f) + fill_delta f = 0")
  case True
  with assms show ?thesis
    by (intro flat) (auto simp: apply_fill_to_positions_def held_def fill_delta_def Let_def)
next
  case False
  show ?thesis
  proof (cases "ebind (multiplier_decimal c) (dec_mul (bf_price f))")
    case (Inl e)
    with assms False show ?thesis
      by (intro failed [of e]) (auto simp: apply_fill_to_positions_def held_def fill_delta_def Let_def)
  next
    case (Inr cost)
    with assms False show ?thesis
      by (intro moved [of "filled_position s f c (held s (bf_con_id f) + fill_delta f) cost"])
        (simp_all add: apply_fill_to_positions_def held_def fill_delta_def filled_position_def Let_def)
  qed
qed

lemma held_update [simp]:
  "held (s \<lparr> mk_positions := AList.update k p (mk_positions s) \<rparr>) = (held s)(k := bp_quantity p)"
  by (rule ext) (simp add: held_def update_conv')

lemma held_delete [simp]:
  "held (s \<lparr> mk_positions := AList.delete k (mk_positions s) \<rparr>) = (held s)(k := 0)"
  by (rule ext) (simp add: held_def delete_conv')

interpretation mock_ledger: ledger held "\<lambda>(f, c). apply_fill_to_positions f c" "\<lambda>(f, c). bf_con_id f"
  "\<lambda>(f, c). fill_delta f" "\<lambda>s. True"
proof
  fix s s' :: mock and fc :: "broker_fill \<times> qualified_contract" and x e
  obtain f c where fc: "fc = (f, c)" by (cases fc)
  show "held s' = (held s)((case fc of (f, c) \<Rightarrow> bf_con_id f) :=
      held s (case fc of (f, c) \<Rightarrow> bf_con_id f) + (case fc of (f, c) \<Rightarrow> fill_delta f))"
    if "(case fc of (f, c) \<Rightarrow> apply_fill_to_positions f c) s = (Inr x, s')"
    using that fc by (auto elim!: apply_fill_to_positions_cases)
  show "held s' = held s" if "(case fc of (f, c) \<Rightarrow> apply_fill_to_positions f c) s = (Inl e, s')"
    using that fc by (auto elim!: apply_fill_to_positions_cases)
qed simp

section \<open>Runs\<close>

text \<open>Contracts the simulation can price: a known product with a finite tick and multiplier.\<close>

definition tradeable :: "qualified_contract \<Rightarrow> bool" where
  "tradeable c =
     ((\<exists>p. get_product (qc_symbol c) = Inr p) \<and> dec_finite (min_tick c)
      \<and> (\<exists>m. multiplier_decimal c = Inr m \<and> dec_finite m))"

definition good_sources :: "mock_sources \<Rightarrow> bool" where
  "good_sources S = (\<forall>x. dec_finite (draw_drift S x))"

lemma dec_finite_ops:
  assumes "dec_finite a" and "dec_finite b"
  shows "\<exists>r. dec_add a b = Inr r \<and> dec_finite r" and "\<exists>r. dec_sub a b = Inr r \<and> dec_finite r"
    and "\<exists>r. dec_mul a b = Inr r \<and> dec_finite r"
  using assms by (cases a; cases b; simp)+

lemma dec_half_finite: "dec_finite a \<Longrightarrow> \<exists>r. dec_div a (dec_of_int 2) = Inr r \<and> dec_finite r"
  by (cases a) (auto simp: dec_of_int_def dec_div_finite_def Let_def split: prod.splits)

lemma mid_price_finite:
  assumes "dec_finite b" and "dec_finite a"
  shows "\<exists>m. mid_price (Some b) (Some a) trade = Inr (Some m) \<and> dec_finite m"
proof -
  from dec_finite_ops(1) [OF assms] obtain s where "dec_add b a = Inr s" "dec_finite s" by blast
  with dec_half_finite [of s] show ?thesis by (auto simp: mid_price_def)
qed

lemma product_reference_finite: "get_product symbol = Inr p \<Longrightarrow> dec_finite (mock_reference_price p)"
  by (auto simp: get_product_cases micro_solana_def solana_def)

lemma next_tick_runs:
  assumes "good_sources S" and "tradeable c"
  obtains t mid counters where
    "next_tick S now c s = (Inr t, s \<lparr> mk_tick_counter := counters \<rparr>)"
    "tick_mid t = Inr (Some mid)" "dec_finite mid"
    "tk_received_at t = now" "tk_contract_key t = qualified_key c" "\<not> tk_is_delayed t"
proof -
  let ?key = "qualified_key c"
  let ?step = "case map_of (mk_tick_counter s) ?key of None \<Rightarrow> 0 | Some n \<Rightarrow> n"
  let ?s = "s \<lparr> mk_tick_counter := AList.update ?key (?step + 1) (mk_tick_counter s) \<rparr>"
  from assms(2) obtain p where p: "get_product (qc_symbol c) = Inr p" and tick: "dec_finite (min_tick c)"
    by (auto simp: tradeable_def)
  let ?drift = "draw_drift S (seed_text (mk_seed s) ?key ?step)"
  have "dec_finite ?drift" using assms(1) by (simp add: good_sources_def)
  with dec_finite_ops(1) [OF product_reference_finite [OF p]] obtain mid
    where mid: "dec_add (mock_reference_price p) ?drift = Inr mid" "dec_finite mid" by blast
  from dec_finite_ops(1,2) [OF mid(2) tick] obtain bid ask
    where bid: "dec_sub mid (min_tick c) = Inr bid" "dec_finite bid"
      and ask: "dec_add mid (min_tick c) = Inr ask" "dec_finite ask" by blast
  from mid_price_finite [OF bid(2) ask(2)] obtain m
    where m: "mid_price (Some bid) (Some ask) (Some mid) = Inr (Some m)" "dec_finite m" by blast
  let ?t = "\<lparr> tk_contract_key = ?key, tk_received_at = now, tk_source = ''mock'',
      tk_bid = Some bid, tk_ask = Some ask, tk_last = Some mid, tk_bid_size = Some 10,
      tk_ask_size = Some 10, tk_is_delayed = False \<rparr>"
  have run: "next_tick S now c s = (Inr ?t, ?s)"
    by (simp add: next_tick_def Let_def sbind_def p mid bid ask)
  show thesis by (rule that [OF run _ m(2)]) (simp_all add: tick_mid_def m)
qed

lemma apply_fill_runs:
  assumes "tradeable c" and "dec_finite (bf_price f)"
  shows "\<exists>ps. apply_fill_to_positions f c s = (Inr (), s \<lparr> mk_positions := ps \<rparr>)
    \<and> held (s \<lparr> mk_positions := ps \<rparr>) = (held s)(bf_con_id f := held s (bf_con_id f) + fill_delta f)"
proof -
  obtain r s' where run: "apply_fill_to_positions f c s = (r, s')" by (metis surj_pair)
  from assms(1) obtain m where m: "multiplier_decimal c = Inr m" "dec_finite m" by (auto simp: tradeable_def)
  with dec_finite_ops(3) [OF assms(2)] have "\<exists>x. ebind (multiplier_decimal c) (dec_mul (bf_price f)) = Inr x"
    by auto
  from run show ?thesis
  proof (cases rule: apply_fill_to_positions_cases)
    case (failed e)
    with \<open>\<exists>x. ebind (multiplier_decimal c) (dec_mul (bf_price f)) = Inr x\<close> show ?thesis by simp
  next
    case flat
    with run show ?thesis by (intro exI [of _ "AList.delete (bf_con_id f) (mk_positions s)"]) simp
  next
    case (moved p)
    with run show ?thesis by (intro exI [of _ "AList.update (bf_con_id f) p (mk_positions s)"]) simp
  qed
qed

text \<open>Filling a working order: it leaves the working orders, one execution is appended, the position moves.\<close>

lemma simulate_fill_runs:
  assumes "good_sources S" and "tradeable c"
  obtains f counters ps where
    "simulate_fill S now o' c s = (Inr (), s \<lparr> mk_tick_counter := counters, mk_exec_counter := mk_exec_counter s + 1,
        mk_fills := mk_fills s @ [f], mk_open_orders := AList.delete (os_broker_order_id o') (mk_open_orders s),
        mk_positions := ps \<rparr>)"
    "held (s \<lparr> mk_positions := ps \<rparr>) = (held s)(os_con_id o' := held s (os_con_id o') + os_quantity o' * side_sign (os_side o'))"
    "bf_execution_id f = ''mockexec-'' @ padded (mk_exec_counter s + 1)" "bf_con_id f = os_con_id o'"
    "fill_delta f = os_quantity o' * side_sign (os_side o')"
proof -
  obtain t mid counters where tick: "next_tick S now c s = (Inr t, s \<lparr> mk_tick_counter := counters \<rparr>)"
    and mid: "tick_mid t = Inr (Some mid)" "dec_finite mid"
    by (rule next_tick_runs [OF assms])
  obtain com where com: "dec_mul (Dec 35 (- 2)) (dec_of_int (os_quantity o')) = Inr com"
    by (simp add: dec_of_int_def)
  let ?f = "\<lparr> bf_execution_id = ''mockexec-'' @ padded (mk_exec_counter s + 1),
      bf_broker_order_id = os_broker_order_id o', bf_account_id = mk_account_id s,
      bf_con_id = os_con_id o', bf_symbol = os_symbol o', bf_side = os_side o', bf_quantity = os_quantity o',
      bf_price = mid, bf_executed_at = now, bf_commission = Some com, bf_commission_currency = Some ''USD'' \<rparr>"
  let ?s = "s \<lparr> mk_tick_counter := counters, mk_exec_counter := mk_exec_counter s + 1,
      mk_fills := mk_fills s @ [?f], mk_open_orders := AList.delete (os_broker_order_id o') (mk_open_orders s) \<rparr>"
  from apply_fill_runs [of c ?f ?s] assms(2) mid(2) obtain ps where
    ps: "apply_fill_to_positions ?f c ?s = (Inr (), ?s \<lparr> mk_positions := ps \<rparr>)"
      "held (?s \<lparr> mk_positions := ps \<rparr>) = (held ?s)(os_con_id o' := held ?s (os_con_id o') + fill_delta ?f)"
    by auto
  have "simulate_fill S now o' c s = apply_fill_to_positions ?f c ?s"
    by (simp add: simulate_fill_def sbind_def tick mid com)
  with ps(1) have run: "simulate_fill S now o' c s = (Inr (), ?s \<lparr> mk_positions := ps \<rparr>)" by simp
  show thesis
    using that [where f = ?f and counters = counters and ps = ps] run ps(2)
    by (simp add: held_fun fill_delta_def)
qed

section \<open>The exchange it simulates\<close>

text \<open>
  The specification: positions as quantities, the working orders by id, the executions in order.
  Every operation of the simulated broker is one of five events there.
\<close>

record exchange =
  ex_quantity :: "int \<Rightarrow> int"
  ex_working :: "string \<Rightarrow> order_snapshot option"
  ex_executed :: "(int \<times> int) list"

datatype exchange_event =
  Idles | Rests order_snapshot | Executes int int | Withdraws string | Withdraws_All

fun exchange_apply :: "exchange_event \<Rightarrow> exchange \<Rightarrow> exchange" where
  "exchange_apply Idles x = x"
| "exchange_apply (Rests o') x = x \<lparr> ex_working := (ex_working x)(os_broker_order_id o' := Some o') \<rparr>"
| "exchange_apply (Executes k d) x =
     x \<lparr> ex_quantity := (ex_quantity x)(k := ex_quantity x k + d), ex_executed := ex_executed x @ [(k, d)] \<rparr>"
| "exchange_apply (Withdraws i) x = x \<lparr> ex_working := (ex_working x)(i := None) \<rparr>"
| "exchange_apply Withdraws_All x = x \<lparr> ex_working := (\<lambda>i. None) \<rparr>"

definition mock_abs :: "mock \<Rightarrow> exchange" where
  "mock_abs s =
     \<lparr> ex_quantity = held s, ex_working = map_of (mk_open_orders s),
       ex_executed = map (\<lambda>f. (bf_con_id f, fill_delta f)) (mk_fills s) \<rparr>"

text \<open>Ids are drawn from the counters, so no id is given twice.\<close>

definition issued :: "string \<Rightarrow> int \<Rightarrow> string \<Rightarrow> bool" where
  "issued prefix n i = (\<exists>k. 1 \<le> k \<and> k \<le> n \<and> i = prefix @ padded k)"

definition mock_ok :: "mock \<Rightarrow> bool" where
  "mock_ok s =
     (0 \<le> mk_order_counter s \<and> 0 \<le> mk_exec_counter s
      \<and> distinct (map fst (mk_open_orders s))
      \<and> (\<forall>(i, o') \<in> set (mk_open_orders s). os_broker_order_id o' = i \<and> issued ''mock-'' (mk_order_counter s) i)
      \<and> distinct (map bf_execution_id (mk_fills s))
      \<and> (\<forall>f \<in> set (mk_fills s). issued ''mockexec-'' (mk_exec_counter s) (bf_execution_id f)))"

lemma digits_val_zeros: "digits_val (replicate n CHR ''0'' @ s) = digits_val s"
proof (induction n)
  case (Suc n)
  have "digits_val (CHR ''0'' # t) = digits_val t" for t
    by (simp add: digits_val_def digit_val_def ch_def)
  with Suc show ?case by simp
qed simp

lemma padded_inject: "0 \<le> m \<Longrightarrow> 0 \<le> n \<Longrightarrow> padded m = padded n \<longleftrightarrow> m = n"
  by (metis digits_val_zeros digits_val_nat_digits int_str_def not_less padded_def)

lemma issued_Suc: "issued p n i \<Longrightarrow> issued p (n + 1) i"
  by (auto simp: issued_def intro: exI)

lemma issued_new: "0 \<le> n \<Longrightarrow> issued p (n + 1) (p @ padded (n + 1)) \<and> \<not> issued p n (p @ padded (n + 1))"
  by (auto simp: issued_def padded_inject intro!: exI [of _ "n + 1"])

lemma mock_ok_made: "mock_ok (make_mock seed account override denied fail_connect initial fill)"
  by (simp add: mock_ok_def make_mock_def)

text \<open>A resting order is added under a new id.\<close>

lemma rest_order:
  assumes "mock_ok s" and "os_broker_order_id o' = ''mock-'' @ padded (mk_order_counter s + 1)"
  shows "mock_ok (s \<lparr> mk_order_counter := mk_order_counter s + 1,
           mk_open_orders := AList.update (os_broker_order_id o') o' (mk_open_orders s) \<rparr>)"
    and "map_of (mk_open_orders s) (os_broker_order_id o') = None"
proof -
  have new: "issued ''mock-'' (mk_order_counter s + 1) (os_broker_order_id o')"
    and fresh: "\<not> issued ''mock-'' (mk_order_counter s) (os_broker_order_id o')"
    using issued_new [of "mk_order_counter s" "''mock-''"] assms by (simp_all add: mock_ok_def)
  let ?P = "\<lambda>i o'. os_broker_order_id o' = i \<and> issued ''mock-'' (mk_order_counter s + 1) i"
  have "\<forall>(i, p) \<in> set (mk_open_orders s). ?P i p"
    using assms(1) by (auto simp: mock_ok_def intro: issued_Suc)
  with update_all [of "mk_open_orders s" ?P "os_broker_order_id o'" o'] new assms(1)
  show "mock_ok (s \<lparr> mk_order_counter := mk_order_counter s + 1,
           mk_open_orders := AList.update (os_broker_order_id o') o' (mk_open_orders s) \<rparr>)"
    by (simp add: mock_ok_def distinct_update)
  show "map_of (mk_open_orders s) (os_broker_order_id o') = None"
    using assms(1) fresh by (auto simp: mock_ok_def map_of_eq_None_iff)
qed

lemma withdraw_ok:
  assumes "mock_ok s"
  shows "mock_ok (s \<lparr> mk_open_orders := AList.delete i (mk_open_orders s) \<rparr>)"
  using assms by (auto simp: mock_ok_def AList.delete_eq distinct_map_filter)

lemma execute_ok:
  assumes "mock_ok s" and "bf_execution_id f = ''mockexec-'' @ padded (mk_exec_counter s + 1)"
  shows "mock_ok (s \<lparr> mk_exec_counter := mk_exec_counter s + 1, mk_fills := mk_fills s @ [f] \<rparr>)"
proof -
  have "issued ''mockexec-'' (mk_exec_counter s + 1) (bf_execution_id f)"
    and "\<not> issued ''mockexec-'' (mk_exec_counter s) (bf_execution_id f)"
    using issued_new [of "mk_exec_counter s" "''mockexec-''"] assms by (simp_all add: mock_ok_def)
  with assms(1) show ?thesis by (auto simp: mock_ok_def intro: issued_Suc)
qed

text \<open>The fields the invariant and the abstraction do not read.\<close>

lemma mock_frame [simp]:
  "mock_ok (s \<lparr> mk_tick_counter := x1 \<rparr>) = mock_ok s" "mock_abs (s \<lparr> mk_tick_counter := x1 \<rparr>) = mock_abs s"
  "mock_ok (s \<lparr> mk_subscribed := x2 \<rparr>) = mock_ok s" "mock_abs (s \<lparr> mk_subscribed := x2 \<rparr>) = mock_abs s"
  "mock_ok (s \<lparr> mk_last_heartbeat := x3 \<rparr>) = mock_ok s" "mock_abs (s \<lparr> mk_last_heartbeat := x3 \<rparr>) = mock_abs s"
  "mock_ok (s \<lparr> mk_connected_at := x3 \<rparr>) = mock_ok s" "mock_abs (s \<lparr> mk_connected_at := x3 \<rparr>) = mock_abs s"
  "mock_ok (s \<lparr> mk_connection_state := x4 \<rparr>) = mock_ok s" "mock_abs (s \<lparr> mk_connection_state := x4 \<rparr>) = mock_abs s"
  "mock_ok (s \<lparr> mk_account_type_override := x5 \<rparr>) = mock_ok s"
  "mock_abs (s \<lparr> mk_account_type_override := x5 \<rparr>) = mock_abs s"
  "mock_ok (s \<lparr> mk_permission_denied := x6 \<rparr>) = mock_ok s" "mock_abs (s \<lparr> mk_permission_denied := x6 \<rparr>) = mock_abs s"
  "mock_ok (s \<lparr> mk_positions := x7 \<rparr>) = mock_ok s"
  by (simp_all add: mock_ok_def mock_abs_def held_fun)

text \<open>Placement: refused with nothing changed, or one event at the exchange.\<close>

definition placed_as :: "mock \<Rightarrow> order_request \<Rightarrow> order_snapshot" where
  "placed_as s r = working_order (mk_account_id s) (''mock-'' @ padded (mk_order_counter s + 1))
     (con_id (rq_contract r)) (qc_symbol (rq_contract r)) r"

definition placement_event :: "mock \<Rightarrow> order_request \<Rightarrow> exchange_event" where
  "placement_event s r =
     (if rq_order_type r = Market \<and> mk_fill_market_orders s
      then Executes (con_id (rq_contract r)) (rq_quantity r * side_sign (rq_side r))
      else Rests (placed_as s r))"

lemma place_refusal:
  assumes "\<not> (rq_transmit r \<and> mock_is_connected s \<and> \<not> mk_permission_denied s \<and> rq_order_type r \<in> {Market, Limit})"
  shows "\<exists>e. is_broker_error e \<and> mock_place_order S now r s = (Inl e, s)"
  using assms
  by (auto simp: mock_place_order_def sbind_def require_connected_def require_permission_def is_broker_error_def)

lemma place_accepts:
  assumes "good_sources S" and "tradeable (rq_contract r)" and "mock_ok s"
    and "rq_transmit r" "mock_is_connected s" "\<not> mk_permission_denied s" "rq_order_type r \<in> {Market, Limit}"
  shows "\<exists>s'. mock_place_order S now r s =
      (Inr (accepted_as (''mock-'' @ padded (mk_order_counter s + 1))
         (if rq_order_type r = Market \<and> mk_fill_market_orders s then St_Filled else St_Submitted)), s')
     \<and> mock_ok s' \<and> mock_abs s' = exchange_apply (placement_event s r) (mock_abs s)"
proof -
  let ?o = "placed_as s r"
  let ?s = "s \<lparr> mk_order_counter := mk_order_counter s + 1,
              mk_open_orders := AList.update (os_broker_order_id ?o) ?o (mk_open_orders s) \<rparr>"
  have oid: "os_broker_order_id ?o = ''mock-'' @ padded (mk_order_counter s + 1)"
    by (simp add: placed_as_def working_order_def)
  have run: "mock_place_order S now r s =
      (if rq_order_type r = Market \<and> mk_fill_market_orders s
       then sbind (simulate_fill S now ?o (rq_contract r)) (\<lambda>_. sreturn (accepted_as (os_broker_order_id ?o) St_Filled)) ?s
       else (Inr (accepted_as (os_broker_order_id ?o) St_Submitted), ?s))"
    using assms(4-7)
    by (simp add: mock_place_order_def sbind_def require_connected_def require_permission_def placed_as_def)
  have ok: "mock_ok ?s" and new: "map_of (mk_open_orders s) (os_broker_order_id ?o) = None"
    using rest_order [OF assms(3) oid] by simp_all
  show ?thesis
  proof (cases "rq_order_type r = Market \<and> mk_fill_market_orders s")
    case False
    with run ok oid show ?thesis
      by (auto simp: placement_event_def mock_abs_def held_fun update_conv')
  next
    case True
    obtain f counters ps where fill: "simulate_fill S now ?o (rq_contract r) ?s =
        (Inr (), ?s \<lparr> mk_tick_counter := counters, mk_exec_counter := mk_exec_counter s + 1,
           mk_fills := mk_fills s @ [f],
           mk_open_orders := AList.delete (os_broker_order_id ?o) (mk_open_orders ?s), mk_positions := ps \<rparr>)"
      (is "_ = (_, ?t)")
      and moved: "held (?s \<lparr> mk_positions := ps \<rparr>) =
         (held ?s)(os_con_id ?o := held ?s (os_con_id ?o) + os_quantity ?o * side_sign (os_side ?o))"
      and f: "bf_execution_id f = ''mockexec-'' @ padded (mk_exec_counter ?s + 1)"
        "bf_con_id f = os_con_id ?o" "fill_delta f = os_quantity ?o * side_sign (os_side ?o)"
      by (rule simulate_fill_runs [OF assms(1,2), where s = ?s and o' = ?o and now = now]) simp
    have "mock_ok ?t"
      using execute_ok [OF withdraw_ok [OF ok, of "os_broker_order_id ?o"], of f] f(1)
      by (simp add: mock_ok_def)
    moreover have "map_of (AList.delete (os_broker_order_id ?o) (mk_open_orders ?s)) = map_of (mk_open_orders s)"
      using new by (auto simp: delete_conv' update_conv')
    then have "mock_abs ?t = exchange_apply (placement_event s r) (mock_abs s)"
      using True moved f(2,3)
      by (simp add: placement_event_def mock_abs_def held_fun placed_as_def working_order_def)
    ultimately show ?thesis using run True fill oid by simp
  qed
qed

lemma mock_place_refines:
  assumes "good_sources S" and "tradeable (rq_contract r)" and "mock_ok s"
    and "mock_place_order S now r s = (res, s')"
  shows "mock_ok s' \<and>
    (case res of Inl e \<Rightarrow> is_broker_error e \<and> s' = s
     | Inr x \<Rightarrow> mock_abs s' = exchange_apply (placement_event s r) (mock_abs s))"
proof (cases "rq_transmit r \<and> mock_is_connected s \<and> \<not> mk_permission_denied s \<and> rq_order_type r \<in> {Market, Limit}")
  case False
  from place_refusal [OF this, of S now] assms(3,4) show ?thesis by auto
next
  case True
  with place_accepts [OF assms(1-3), of now] assms(4) show ?thesis by auto
qed

lemma mock_modify_refines:
  assumes "mock_ok s" and "mock_modify_order r oid s = (res, s')"
  shows "mock_ok s' \<and> (\<exists>ev. ev \<in> {Idles} \<union> {Rests o' | o'. os_broker_order_id o' = oid}
      \<and> mock_abs s' = exchange_apply ev (mock_abs s))"
proof (cases "rq_transmit r \<and> mock_is_connected s")
  case False
  with assms have "s' = s" by (auto simp: mock_modify_order_def sbind_def require_connected_def split: if_splits)
  with assms(1) show ?thesis by (intro conjI exI [of _ Idles]) simp_all
next
  case True
  show ?thesis
  proof (cases "map_of (mk_open_orders s) oid")
    case None
    with assms True have "s' = s" by (simp add: mock_modify_order_def sbind_def require_connected_def)
    with assms(1) show ?thesis by (intro conjI exI [of _ Idles]) simp_all
  next
    case (Some old)
    let ?o = "working_order (os_account_id old) oid (os_con_id old) (os_symbol old) r"
    have s': "s' = s \<lparr> mk_open_orders := AList.update oid ?o (mk_open_orders s) \<rparr>"
      using assms(2) True Some by (simp add: mock_modify_order_def sbind_def require_connected_def)
    have "issued ''mock-'' (mk_order_counter s) oid"
      using assms(1) Some by (auto simp: mock_ok_def dest: map_of_SomeD)
    with assms(1) update_all [of "mk_open_orders s"
        "\<lambda>i o'. os_broker_order_id o' = i \<and> issued ''mock-'' (mk_order_counter s) i" oid ?o]
    have "mock_ok s'"
      by (simp add: s' mock_ok_def distinct_update working_order_def)
    moreover have "mock_abs s' = exchange_apply (Rests ?o) (mock_abs s)"
      by (simp add: s' mock_abs_def held_fun update_conv' working_order_def)
    moreover have "os_broker_order_id ?o = oid" by (simp add: working_order_def)
    ultimately show ?thesis by blast
  qed
qed

lemma mock_cancel_refines:
  assumes "mock_ok s" and "mock_cancel_order oid s = (res, s')"
  shows "mock_ok s' \<and> (case res of Inl e \<Rightarrow> is_broker_error e \<and> s' = s
    | Inr known \<Rightarrow> known = (ex_working (mock_abs s) oid \<noteq> None)
        \<and> mock_abs s' = exchange_apply (Withdraws oid) (mock_abs s))"
  using assms withdraw_ok [OF assms(1), of oid]
  by (auto simp: mock_cancel_order_def sbind_def require_connected_def is_broker_error_def mock_abs_def
      held_fun delete_conv' split: if_splits)

lemma mock_cancel_all_refines:
  assumes "mock_ok s" and "mock_cancel_all_orders s = (res, s')"
  shows "mock_ok s' \<and> (case res of Inl e \<Rightarrow> is_broker_error e \<and> s' = s
    | Inr n \<Rightarrow> n = int (card (dom (ex_working (mock_abs s))))
        \<and> mock_abs s' = exchange_apply Withdraws_All (mock_abs s))"
proof -
  have "card (dom (map_of (mk_open_orders s))) = length (mk_open_orders s)"
    using assms(1) distinct_card [of "map fst (mk_open_orders s)"]
    by (simp add: mock_ok_def dom_map_of_conv_image_fst)
  with assms show ?thesis
    by (auto simp: mock_cancel_all_orders_def sbind_def require_connected_def is_broker_error_def
        mock_abs_def held_fun mock_ok_def split: if_splits)
qed

text \<open>Everything a program can do with the simulated broker, requests for priceable contracts.\<close>

inductive mock_step :: "mock_sources \<Rightarrow> mock \<Rightarrow> mock \<Rightarrow> bool" for S where
  connects: "mock_connect now s = (r, s') \<Longrightarrow> mock_step S s s'"
| disconnects: "mock_disconnect s = (r, s') \<Longrightarrow> mock_step S s s'"
| drops: "mock_step S s (force_disconnect st s)"
| summarises: "mock_account_summary now s = (r, s') \<Longrightarrow> mock_step S s s'"
| quotes: "mock_market_data S now c s = (r, s') \<Longrightarrow> tradeable c \<Longrightarrow> mock_step S s s'"
| unquotes: "mock_cancel_market_data c s = (r, s') \<Longrightarrow> mock_step S s s'"
| permits: "mock_step S s (set_permission_denied denied s)"
| identifies: "mock_step S s (set_account_type a s)"
| places: "mock_place_order S now r s = (res, s') \<Longrightarrow> tradeable (rq_contract r) \<Longrightarrow> mock_step S s s'"
| modifies: "mock_modify_order r oid s = (res, s') \<Longrightarrow> mock_step S s s'"
| cancels: "mock_cancel_order oid s = (c, s') \<Longrightarrow> mock_step S s s'"
| cancels_all: "mock_cancel_all_orders s = (n, s') \<Longrightarrow> mock_step S s s'"

lemma mock_market_data_frame:
  assumes "mock_market_data S now c s = (r, s')" and "good_sources S" and "tradeable c"
  shows "mock_ok s' = mock_ok s \<and> mock_abs s' = mock_abs s"
proof -
  let ?s = "s \<lparr> mk_subscribed := insert (qualified_key c) (mk_subscribed s), mk_last_heartbeat := Some now \<rparr>"
  obtain t counters where "next_tick S now c ?s = (Inr t, ?s \<lparr> mk_tick_counter := counters \<rparr>)"
    by (rule next_tick_runs [OF assms(2,3)])
  with assms(1) show ?thesis
    by (auto simp: mock_market_data_def sbind_def require_connected_def require_permission_def split: if_splits)
qed

text \<open>A simulation of the exchange: each step is an event there, and keeps the invariant.\<close>

lemma mock_step_simulates:
  assumes "mock_step S s s'" and "good_sources S" and "mock_ok s"
  shows "mock_ok s' \<and> (\<exists>ev. mock_abs s' = exchange_apply ev (mock_abs s))"
proof -
  have idle: ?thesis if "mock_ok s' = mock_ok s" "mock_abs s' = mock_abs s"
    using that assms(3) by (intro conjI exI [of _ Idles]) simp_all
  show ?thesis
    using assms(1)
  proof cases
    case (connects now r)
    then show ?thesis by (intro idle) (auto simp: mock_connect_def Let_def split: if_splits)
  next
    case (disconnects r)
    then show ?thesis by (intro idle) (auto simp: mock_disconnect_def)
  next
    case (drops st)
    then show ?thesis by (intro idle) (auto simp: force_disconnect_def)
  next
    case (summarises now r)
    then show ?thesis
      by (intro idle) (auto simp: mock_account_summary_def sbind_def require_connected_def split: if_splits)
  next
    case (quotes now c r)
    with assms(2) show ?thesis by (intro idle) (auto dest: mock_market_data_frame)
  next
    case (unquotes c r)
    then show ?thesis by (intro idle) (auto simp: mock_cancel_market_data_def)
  next
    case (permits denied)
    then show ?thesis by (intro idle) (auto simp: set_permission_denied_def)
  next
    case (identifies a)
    then show ?thesis by (intro idle) (auto simp: set_account_type_def)
  next
    case (places now r res)
    from mock_place_refines [OF assms(2) places(2) assms(3) places(1)] show ?thesis
      by (cases res) (auto intro: exI [of _ Idles])
  next
    case (modifies r oid res)
    from mock_modify_refines [OF assms(3) modifies] show ?thesis by blast
  next
    case (cancels oid c)
    from mock_cancel_refines [OF assms(3) cancels] show ?thesis
      by (cases c) (auto intro: exI [of _ Idles] exI [of _ "Withdraws oid"])
  next
    case (cancels_all n)
    from mock_cancel_all_refines [OF assms(3) cancels_all] show ?thesis
      by (cases n) (auto intro: exI [of _ Idles] exI [of _ Withdraws_All])
  qed
qed

text \<open>Positions are the opening ones plus what was executed.\<close>

definition balanced :: "(int \<Rightarrow> int) \<Rightarrow> exchange \<Rightarrow> bool" where
  "balanced q0 x = (\<forall>k. ex_quantity x k = q0 k + (\<Sum>(c, d)\<leftarrow>ex_executed x. if c = k then d else 0))"

lemma balanced_apply: "balanced q0 x \<Longrightarrow> balanced q0 (exchange_apply ev x)"
  by (cases ev) (auto simp: balanced_def)

lemma mock_run_balanced:
  assumes "(mock_step S)\<^sup>*\<^sup>* s s'" and "good_sources S" and "mock_ok s" and "balanced q0 (mock_abs s)"
  shows "mock_ok s' \<and> balanced q0 (mock_abs s')"
  using assms(1)
proof (induction rule: rtranclp_induct)
  case base
  with assms show ?case by simp
next
  case (step t u)
  with mock_step_simulates [OF step.hyps(2) assms(2)] show ?case by (auto simp: balanced_apply)
qed

section \<open>Properties\<close>


definition sample_sources :: mock_sources where
  "sample_sources = \<lparr> draw_drift = (\<lambda>x. Dec 125 (- 2)), digest_prefix = (\<lambda>x. 1), iso_text = (\<lambda>t. ''now'') \<rparr>"

lemma sample_sources_good: "good_sources sample_sources"
  by (simp add: good_sources_def sample_sources_def)

lemma sample_contract_tradeable: "tradeable sample_contract"
proof -
  have "get_product (qc_symbol sample_contract) = Inr micro_solana" by code_simp
  moreover have "multiplier_decimal sample_contract = Inr (Dec 25 0)" by code_simp
  moreover have "dec_finite (min_tick sample_contract)" by code_simp
  ultimately show ?thesis by (auto simp: tradeable_def)
qed

definition connected_mock :: mock where
  "connected_mock = default_mock \<lparr> mk_connection_state := Connected \<rparr>"

definition sample_order_request :: "order_type \<Rightarrow> order_request" where
  "sample_order_request ty =
     \<lparr> rq_internal_order_id = ''ord_1'', rq_correlation_id = ''c'', rq_contract = sample_contract,
       rq_side = Sell, rq_quantity = 2, rq_order_type = ty, rq_time_in_force = Day,
       rq_limit_price = None, rq_stop_price = None, rq_transmit = True \<rparr>"

lemma connected_mock_ok: "mock_ok connected_mock"
  by (simp add: connected_mock_def default_mock_def mock_ok_made)


text \<open>
  The simulated account balances: along any sequence of operations on any market, connected or
  not, every position is the opening position plus the signed quantities of the executions, no
  execution id and no working order id is ever issued twice, and every working order is listed
  under its own id.
\<close>

theorem mock_positions_are_executions:
  assumes "(mock_step S)\<^sup>*\<^sup>* (make_mock seed account override denied fail_connect initial fill) s"
    and "good_sources S"
  shows "held s k = held (make_mock seed account override denied fail_connect initial fill) k
        + (\<Sum>f\<leftarrow>mk_fills s. if bf_con_id f = k then fill_delta f else 0)
     \<and> distinct (map bf_execution_id (mk_fills s)) \<and> distinct (map fst (mk_open_orders s))
     \<and> map_of (mk_open_orders s) i \<in> {None} \<union> {Some o' | o'. os_broker_order_id o' = i}"
proof -
  let ?s0 = "make_mock seed account override denied fail_connect initial fill"
  have "balanced (held ?s0) (mock_abs ?s0)" by (simp add: balanced_def mock_abs_def make_mock_def)
  with mock_run_balanced [OF assms mock_ok_made] have ok: "mock_ok s" and bal: "balanced (held ?s0) (mock_abs s)"
    by blast+
  have "held s k = held ?s0 k + (\<Sum>f\<leftarrow>mk_fills s. if bf_con_id f = k then fill_delta f else 0)"
    using bal by (simp add: balanced_def mock_abs_def comp_def)
  with ok show ?thesis
    by (cases "map_of (mk_open_orders s) i") (auto simp: mock_ok_def dest!: map_of_SomeD)
qed

theorem mock_positions_are_executions_witness:
  "\<exists>s. mock_place_order sample_sources (Micros 1) (sample_order_request Market)
         (snd (mock_connect (Micros 0) default_mock)) = (Inr (accepted_as ''mock-000001'' St_Filled), s)
     \<and> held s (con_id sample_contract) = (\<Sum>f\<leftarrow>mk_fills s. if bf_con_id f = con_id sample_contract then fill_delta f else 0)"
proof -
  let ?s1 = "snd (mock_connect (Micros 0) default_mock)"
  have "fst (mock_place_order sample_sources (Micros 1) (sample_order_request Market) ?s1)
      = Inr (accepted_as ''mock-000001'' St_Filled)" by code_simp
  then obtain s where run: "mock_place_order sample_sources (Micros 1) (sample_order_request Market) ?s1
      = (Inr (accepted_as ''mock-000001'' St_Filled), s)" by (metis prod.collapse)
  have "mock_step sample_sources default_mock ?s1"
    by (rule connects [of "Micros 0" _ "fst (mock_connect (Micros 0) default_mock)"]) simp
  moreover have "mock_step sample_sources ?s1 s"
    using run by (rule places) (simp add: sample_order_request_def sample_contract_tradeable)
  ultimately have "(mock_step sample_sources)\<^sup>*\<^sup>* default_mock s" by (meson r_into_rtranclp rtranclp.rtrancl_into_rtrancl)
  moreover have "held default_mock (con_id sample_contract) = 0" by code_simp
  ultimately show ?thesis
    using mock_positions_are_executions [OF _ sample_sources_good, of 20240101 "''DUMOCK0001''" None False False "[]" True s] run
    by (auto simp: default_mock_def)
qed

text \<open>
  The simulated broker never passes for a real account: unless its reported identity was
  overridden by a test, the gate lets no order through on its identity except in mock mode.
\<close>

theorem mock_never_satisfies_real_account:
  assumes "mk_account_type_override s = None"
    and "gx_broker_account_type x = ci_account_type (mock_connection_info s)"
    and "gd_allowed (gate_evaluate c x)"
  shows "cfg_trading_mode c = Mode_Mock \<and> mock_is_connected s"
proof -
  have "check_account_identity c x = []" and "check_mode c = []"
    using assms(3) by (simp_all add: gate_evaluate_def Let_def)
  with assms(1,2) show ?thesis
    by (cases "cfg_trading_mode c")
      (auto simp: check_account_identity_def check_mode_def expected_account_type_def
        mock_connection_info_def Let_def split: if_splits)
qed

theorem mock_never_satisfies_real_account_witness:
  "\<not> gd_allowed (gate_evaluate (armed_config \<lparr> cfg_trading_mode := Mode_Paper \<rparr>)
      (ready_context \<lparr> gx_broker_account_type := ci_account_type (mock_connection_info connected_mock) \<rparr>))"
proof -
  have "mk_account_type_override connected_mock = None" by code_simp
  from mock_never_satisfies_real_account [OF this,
      of "ready_context \<lparr> gx_broker_account_type := ci_account_type (mock_connection_info connected_mock) \<rparr>"
         "armed_config \<lparr> cfg_trading_mode := Mode_Paper \<rparr>"]
  show ?thesis by auto
qed

end
