(* ===== verification/Runtime.thy ===== *)
theory Runtime
  imports MockBroker Strategy OrderManager Resolver Reconciliation
begin

text \<open>
  \<^verbatim>\<open>app/main.py\<close>: the running application. The methods of \<^verbatim>\<open>TradingApplication\<close> are actions over
  its state: the database, the broker, the cached contract and quotes, the strategy, the validator,
  the position book and the last reconciliation. A method that raises returns its exception with
  the state it had reached.

  The broker, the resolver, the market data manager and the order manager are built together at the
  end of \<^verbatim>\<open>startup\<close>, so one option, \<open>ap_session\<close>, stands for the four being set. What the
  process reads from outside is an argument: the broker's operations, the registry of strategies,
  the readings of the two clocks (the \<open>n\<close>-th value each), the random identifiers, the digest and
  the text of an exception, whether the health port could be bound. Log records, event payloads and
  sleeping are left out.
\<close>

section \<open>State\<close>

datatype broker_choice = Use_Mock | Use_IBKR string int int pyfloat "account_type option"

record ('b, 'z) runtime_env =
  en_config :: config
  en_run_id :: string
  en_admin :: bool
  en_broker :: "'b broker"
  en_open_broker :: "broker_choice \<Rightarrow> 'b"
  en_build_strategy :: "string \<Rightarrow> bool \<Rightarrow> 'z strategy result"
  en_clock :: "nat \<Rightarrow> instant"
  en_loop_time :: "nat \<Rightarrow> pyfloat"
  en_random_id :: "nat \<Rightarrow> string"
  en_digest :: "string \<Rightarrow> string"
  en_text :: "exn \<Rightarrow> string"
  en_iso :: "instant \<Rightarrow> string"
  en_health_start :: "unit result"

record 'b session =
  ss_broker :: 'b
  ss_cache :: contract_cache
  ss_market :: "'b market_data"

record ('b, 'z) app =
  ap_state :: application_state
  ap_stop :: bool
  ap_shutting_down :: bool
  ap_db :: db
  ap_session :: "'b session option"
  ap_strategy :: "'z strategy option"
  ap_validator :: "validator option"
  ap_book :: book
  ap_reconciliation :: reconciliation_result
  ap_account :: "account_summary option"
  ap_contract :: "qualified_contract option"
  ap_connect_attempt :: int
  ap_last_error :: "string option"
  ap_next_reconcile_at :: "pyfloat option"
  ap_health_running :: bool
  ap_reads :: nat
  ap_loop_reads :: nat
  ap_ids :: nat

definition make_app :: "db \<Rightarrow> ('b, 'z) app" where
  "make_app d =
     \<lparr> ap_state = App_Starting, ap_stop = False, ap_shutting_down = False, ap_db = d,
       ap_session = None, ap_strategy = None, ap_validator = None, ap_book = [],
       ap_reconciliation = empty_reconciliation, ap_account = None, ap_contract = None,
       ap_connect_attempt = 0, ap_last_error = None, ap_next_reconcile_at = None,
       ap_health_running = False, ap_reads = 0, ap_loop_reads = 0, ap_ids = 0 \<rparr>"

section \<open>Reaching the parts\<close>

definition on_store :: "(db, 'a) action \<Rightarrow> (('b, 'z) app, 'a) action" where
  "on_store m = (\<lambda>s. case m (ap_db s) of (r, d) \<Rightarrow> (r, s \<lparr> ap_db := d \<rparr>))"

definition on_book :: "(book, 'a) action \<Rightarrow> (('b, 'z) app, 'a) action" where
  "on_book m = (\<lambda>s. case m (ap_book s) of (r, b) \<Rightarrow> (r, s \<lparr> ap_book := b \<rparr>))"

definition on_session :: "('b session, 'a) action \<Rightarrow> (('b, 'z) app, 'a) action" where
  "on_session m = (\<lambda>s.
     (case ap_session s of
        None \<Rightarrow> (Inl AssertionError, s)
      | Some ss \<Rightarrow> (case m ss of (r, ss') \<Rightarrow> (r, s \<lparr> ap_session := Some ss' \<rparr>))))"

definition on_broker :: "('b, 'a) action \<Rightarrow> (('b, 'z) app, 'a) action" where
  "on_broker m = on_session (\<lambda>ss. case m (ss_broker ss) of (r, b) \<Rightarrow> (r, ss \<lparr> ss_broker := b \<rparr>))"

definition on_market :: "('b market_data \<times> 'b, 'a) action \<Rightarrow> (('b, 'z) app, 'a) action" where
  "on_market m = on_session (\<lambda>ss.
     (case m (ss_market ss, ss_broker ss) of (r, (md, b)) \<Rightarrow> (r, ss \<lparr> ss_market := md, ss_broker := b \<rparr>)))"

definition on_cache :: "('b \<times> contract_cache, 'a) action \<Rightarrow> (('b, 'z) app, 'a) action" where
  "on_cache m = on_session (\<lambda>ss.
     (case m (ss_broker ss, ss_cache ss) of (r, (b, c)) \<Rightarrow> (r, ss \<lparr> ss_broker := b, ss_cache := c \<rparr>)))"

definition on_orders :: "(db \<times> 'b, 'a) action \<Rightarrow> (('b, 'z) app, 'a) action" where
  "on_orders m = (\<lambda>s.
     (case ap_session s of
        None \<Rightarrow> (Inl AssertionError, s)
      | Some ss \<Rightarrow>
          (case m (ap_db s, ss_broker ss) of
             (r, (d, b)) \<Rightarrow> (r, s \<lparr> ap_db := d, ap_session := Some (ss \<lparr> ss_broker := b \<rparr>) \<rparr>))))"

definition utc_now :: "('b, 'z) runtime_env \<Rightarrow> (('b, 'z) app, instant) action" where
  "utc_now E = (\<lambda>s. (Inr (en_clock E (ap_reads s)), s \<lparr> ap_reads := Suc (ap_reads s) \<rparr>))"

definition random_id :: "('b, 'z) runtime_env \<Rightarrow> string \<Rightarrow> (('b, 'z) app, string) action" where
  "random_id E prefix = (\<lambda>s. (Inr (prefix @ en_random_id E (ap_ids s)), s \<lparr> ap_ids := Suc (ap_ids s) \<rparr>))"

section \<open>State changes and events\<close>

definition app_set_state :: "application_state \<Rightarrow> (('b, 'z) app, unit) action" where
  "app_set_state st = (\<lambda>s.
     if st = ap_state s then (Inr (), s)
     else ssuppress (on_store (set_state ''last_application_state'' (application_state_value st)))
            (s \<lparr> ap_state := st \<rparr>))"

definition record_event :: "('b, 'z) runtime_env \<Rightarrow> string \<Rightarrow> string \<Rightarrow> (('b, 'z) app, unit) action" where
  "record_event E event level = ssuppress (sbind (utc_now E) (\<lambda>now.
     on_store (record_bot_event
       \<lparr> ev_run_id = en_run_id E, ev_event = event, ev_level = level, ev_occurred_at = now \<rparr>)))"

definition record_broker :: "('b, 'z) runtime_env \<Rightarrow> string \<Rightarrow> (('b, 'z) app, unit) action" where
  "record_broker E event = ssuppress (sbind (utc_now E) (\<lambda>now.
     on_store (record_broker_event
       \<lparr> ev_run_id = en_run_id E, ev_event = event, ev_level = ''INFO'', ev_occurred_at = now \<rparr>)))"

definition kill_switch_engaged :: "('b, 'z) runtime_env \<Rightarrow> (('b, 'z) app, bool) action" where
  "kill_switch_engaged E = on_store (ks_engaged (cfg_kill_switch (en_config E)) (Some get_state))"

definition compute_ready_state :: "('b, 'z) runtime_env \<Rightarrow> (('b, 'z) app, application_state) action" where
  "compute_ready_state E = (\<lambda>s.
     if \<not> rec_succeeded (ap_reconciliation s) then (Inr App_Safe, s)
     else sbind (kill_switch_engaged E) (\<lambda>engaged. sreturn
            (if engaged then App_Halted
             else if cfg_trading_mode (en_config E) = Mode_Disabled then App_Safe
             else if \<not> cfg_allow_order_transmit (en_config E) then App_Safe
             else App_Ready)) s)"

definition connection_state_of :: "('b, 'z) runtime_env \<Rightarrow> ('b, 'z) app \<Rightarrow> connection_state" where
  "connection_state_of E s =
     (case ap_session s of None \<Rightarrow> Disconnected | Some ss \<Rightarrow> br_connection_state (en_broker E) (ss_broker ss))"

definition account_type_of :: "('b, 'z) runtime_env \<Rightarrow> ('b, 'z) app \<Rightarrow> account_type" where
  "account_type_of E s =
     (case ap_session s of None \<Rightarrow> Acct_Unknown
      | Some ss \<Rightarrow> broker_account_type (en_broker E) (ss_broker ss))"

definition broker_permission_ready :: "('b, 'z) runtime_env \<Rightarrow> ('b, 'z) app \<Rightarrow> bool" where
  "broker_permission_ready E s =
     (case ap_account s of
        None \<Rightarrow> False
      | Some a \<Rightarrow>
          (case futures_permission a of
             Some observed \<Rightarrow> observed
           | None \<Rightarrow> cfg_sol_futures_permission_ready (en_config E)))"

definition permission_source :: "('b, 'z) app \<Rightarrow> string" where
  "permission_source s =
     (case ap_account s of
        None \<Rightarrow> ''unknown: no account data''
      | Some a \<Rightarrow>
          (case futures_permission a of
             Some True \<Rightarrow> ''observed at the broker''
           | Some False \<Rightarrow> ''observed at the broker: NOT permitted''
           | None \<Rightarrow> ''declared by the operator (SOL_FUTURES_PERMISSION_READY); the TWS API reports no permission flag. Run `app.cli check-permission` to observe it.''))"

section \<open>Reconciliation\<close>

text \<open>\<^verbatim>\<open>_ingest_fills\<close>: record what is new, apply only that to the book.\<close>

definition fill_of :: "('b, 'z) runtime_env \<Rightarrow> broker_fill \<Rightarrow> order option \<Rightarrow> fill" where
  "fill_of E f o' =
     \<lparr> execution_id = bf_execution_id f,
       fl_internal_order_id = (case o' of None \<Rightarrow> '''' | Some r \<Rightarrow> internal_order_id r),
       fl_correlation_id = (case o' of None \<Rightarrow> '''' | Some r \<Rightarrow> o_correlation_id r),
       fl_run_id = en_run_id E, fl_con_id = bf_con_id f, fl_symbol = bf_symbol f, fl_side = bf_side f,
       fl_quantity = bf_quantity f, fl_price = bf_price f, executed_at = bf_executed_at f,
       fl_commission = bf_commission f, fl_commission_currency = bf_commission_currency f,
       fl_broker_order_id = Some (bf_broker_order_id f) \<rparr>"

definition book_fill_of :: "qualified_contract option \<Rightarrow> broker_fill \<Rightarrow> book_fill" where
  "book_fill_of contract f =
     \<lparr> kf_con_id = bf_con_id f, kf_symbol = bf_symbol f,
       kf_local_symbol =
         (case contract of
            Some c \<Rightarrow> if con_id c = bf_con_id f then qc_local_symbol c else bf_symbol f
          | None \<Rightarrow> bf_symbol f),
       kf_side = bf_side f, kf_quantity = bf_quantity f, kf_price = bf_price f,
       kf_at = bf_executed_at f \<rparr>"

fun ingest_fills :: "('b, 'z) runtime_env \<Rightarrow> broker_fill list \<Rightarrow> (('b, 'z) app, broker_fill list) action" where
  "ingest_fills E [] = sreturn []"
| "ingest_fills E (f # fs) =
     sbind (on_store (order_by_broker_id (bf_broker_order_id f))) (\<lambda>o'.
     sbind (on_store (fill_record (fill_of E f o'))) (\<lambda>new.
       if \<not> new then ingest_fills E fs
       else sbind (sgets ap_contract) (\<lambda>contract.
            sbind (on_book (book_apply_fill (book_fill_of contract f))) (\<lambda>_.
            sbind (ingest_fills E fs) (\<lambda>applied. sreturn (f # applied))))))"

definition read_account :: "('b, 'z) runtime_env \<Rightarrow> (('b, 'z) app, bool) action" where
  "read_account E =
     sbind (utc_now E) (\<lambda>now. (\<lambda>s.
       (case on_broker (br_account_summary (en_broker E) now) s of
          (Inr a, s') \<Rightarrow> (Inr True, s' \<lparr> ap_account := Some a \<rparr>)
        | (Inl e, s') \<Rightarrow>
            if is_broker_error e then (Inr False, s' \<lparr> ap_account := None \<rparr>) else (Inl e, s'))))"

definition read_broker ::
  "('b, 'z) runtime_env \<Rightarrow> (('b, 'z) app, broker_position list \<times> order_snapshot list \<times> broker_fill list) action" where
  "read_broker E =
     sbind (on_broker (br_positions (en_broker E))) (\<lambda>ps.
     sbind (on_broker (br_open_orders (en_broker E))) (\<lambda>os.
     sbind (utc_now E) (\<lambda>now.
     sbind (on_broker (br_fills (en_broker E) now)) (\<lambda>fs.
     sreturn (ps, os, fs)))))"

text \<open>The outcome of the comparison is adopted on success only.\<close>

definition adopt_reconciliation ::
  "('b, 'z) runtime_env \<Rightarrow> reconciliation_result \<Rightarrow> (('b, 'z) app, unit) action" where
  "adopt_reconciliation E rr =
     sbind (smodify (\<lambda>s. s \<lparr> ap_reconciliation := rr \<rparr>)) (\<lambda>_.
     if rec_succeeded rr then
       sbind (smodify (\<lambda>s. s \<lparr> ap_book := book_replace_all (rr_broker_positions rr) (ap_book s) \<rparr>)) (\<lambda>_.
       sbind (on_store (positions_replace_all (rr_broker_positions rr))) (\<lambda>_.
       record_event E ''reconciliation.succeeded'' ''INFO''))
     else record_event E ''reconciliation.failed'' ''ERROR'')"

definition compare_with_broker ::
  "('b, 'z) runtime_env \<Rightarrow> bool \<Rightarrow> broker_position list \<Rightarrow> order_snapshot list \<Rightarrow> broker_fill list
     \<Rightarrow> (('b, 'z) app, unit) action" where
  "compare_with_broker E available ps os fs =
     sbind (ingest_fills E fs) (\<lambda>applied.
     sbind (on_store open_order_tuples) (\<lambda>local_orders.
     sbind (utc_now E) (\<lambda>now.
     sbind (sgets ap_book) (\<lambda>b.
     adopt_reconciliation E (reconcile now b ps os local_orders fs available)))))"

definition read_and_compare :: "('b, 'z) runtime_env \<Rightarrow> bool \<Rightarrow> (('b, 'z) app, unit) action" where
  "read_and_compare E available = (\<lambda>s.
     (case read_broker E s of
        (Inl e, s') \<Rightarrow>
          if is_broker_error e then
            sbind (smodify (\<lambda>s. s \<lparr> ap_reconciliation :=
                     empty_reconciliation \<lparr> rr_errors := [en_text E e] \<rparr> \<rparr>)) (\<lambda>_.
            record_event E ''reconciliation.failed'' ''ERROR'') s'
          else (Inl e, s')
      | (Inr (ps, os, fs), s') \<Rightarrow> compare_with_broker E available ps os fs s'))"

definition run_reconcile :: "('b, 'z) runtime_env \<Rightarrow> (('b, 'z) app, unit) action" where
  "run_reconcile E =
     sbind (app_set_state App_Reconciling) (\<lambda>_. sbind (read_account E) (read_and_compare E))"

section \<open>Connection\<close>

definition select_contract :: "('b, 'z) runtime_env \<Rightarrow> qualified_contract \<Rightarrow> (('b, 'z) app, unit) action" where
  "select_contract E c =
     sbind (smodify (\<lambda>s. s \<lparr> ap_contract := Some c \<rparr>)) (\<lambda>_.
     sbind (utc_now E) (\<lambda>now.
     sbind (on_store (contract_upsert (en_iso E now) c)) (\<lambda>_.
     sbind (utc_now E) (\<lambda>now'.
     on_market (subscribe (en_broker E) now' c)))))"

definition resolve_at :: "('b, 'z) runtime_env \<Rightarrow> instant \<Rightarrow> (('b, 'z) app, unit) action" where
  "resolve_at E now = (\<lambda>s.
     (case on_cache (resolve (br_qualify (en_broker E) now) (default_futures_symbol (en_config E))
                       (default_contract_month (en_config E))) s of
        (Inl e, s') \<Rightarrow>
          if e = ContractResolutionError then
            record_event E ''contract.unresolved'' ''WARNING''
              (s' \<lparr> ap_contract := None, ap_last_error := Some (en_text E e) \<rparr>)
          else (Inl e, s')
      | (Inr c, s') \<Rightarrow> select_contract E c s'))"

definition resolve_contract :: "('b, 'z) runtime_env \<Rightarrow> (('b, 'z) app, unit) action" where
  "resolve_contract E =
     sbind (sgets ap_session) (\<lambda>ss.
     if ss = None then sreturn () else sbind (utc_now E) (resolve_at E))"

definition request_stop :: "(('b, 'z) app, unit) action" where
  "request_stop = smodify (\<lambda>s. s \<lparr> ap_stop := True \<rparr>)"

text \<open>The two handlers of a failed connection, and the whole attempt. The waits are left out.\<close>

definition connection_refused :: "('b, 'z) runtime_env \<Rightarrow> exn \<Rightarrow> (('b, 'z) app, bool) action" where
  "connection_refused E e =
     sbind (smodify (\<lambda>s. s \<lparr> ap_last_error := Some (en_text E e) \<rparr>)) (\<lambda>_.
     sbind (app_set_state App_Safe) (\<lambda>_.
     sbind (record_broker E ''broker.permission_denied'') (\<lambda>_. sreturn False)))"

definition connection_failed :: "('b, 'z) runtime_env \<Rightarrow> int \<Rightarrow> exn \<Rightarrow> (('b, 'z) app, bool) action" where
  "connection_failed E attempt e =
     sbind (smodify (\<lambda>s. s \<lparr> ap_last_error := Some (en_text E e) \<rparr>)) (\<lambda>_.
     sbind (app_set_state App_Disconnected) (\<lambda>_.
     sbind (slift (delay_for_attempt (cfg_reconnect (en_config E)) attempt)) (\<lambda>delay.
     sbind (record_broker E ''broker.connect_failed'') (\<lambda>_.
     if max_attempts (cfg_reconnect (en_config E)) \<noteq> 0 \<and> max_attempts (cfg_reconnect (en_config E)) \<le> attempt
     then sbind request_stop (\<lambda>_. sreturn False)
     else sreturn False))))"

definition connection_made :: "('b, 'z) runtime_env \<Rightarrow> (('b, 'z) app, bool) action" where
  "connection_made E =
     sbind (smodify (\<lambda>s. s \<lparr> ap_connect_attempt := 0, ap_last_error := None \<rparr>)) (\<lambda>_.
     sbind (record_broker E ''broker.connected'') (\<lambda>_. sreturn True))"

definition try_connect :: "('b, 'z) runtime_env \<Rightarrow> int \<Rightarrow> instant \<Rightarrow> (('b, 'z) app, bool) action" where
  "try_connect E attempt now = (\<lambda>s.
     (case on_broker (br_connect (en_broker E) now) s of
        (Inl e, s') \<Rightarrow>
          if e = BrokerPermissionError then connection_refused E e s'
          else if is_broker_error e then connection_failed E attempt e s'
          else (Inl e, s')
      | (Inr info, s') \<Rightarrow> connection_made E s'))"

definition connect_with_backoff :: "('b, 'z) runtime_env \<Rightarrow> (('b, 'z) app, bool) action" where
  "connect_with_backoff E =
     sbind (app_set_state App_Connecting) (\<lambda>_.
     sbind (smodify (\<lambda>s. s \<lparr> ap_connect_attempt := ap_connect_attempt s + 1 \<rparr>)) (\<lambda>_.
     sbind (sgets ap_connect_attempt) (\<lambda>attempt.
     sbind (utc_now E) (try_connect E attempt))))"

text \<open>What follows a reconciliation, at connect and on the timer: SAFE, or the state computed.\<close>

definition settle :: "('b, 'z) runtime_env \<Rightarrow> (('b, 'z) app, unit) action \<Rightarrow> (('b, 'z) app, unit) action" where
  "settle E before =
     sbind (sgets (\<lambda>s. rec_succeeded (ap_reconciliation s))) (\<lambda>ok.
     if \<not> ok then app_set_state App_Safe
     else sbind before (\<lambda>_. sbind (compute_ready_state E) app_set_state))"

definition after_connect :: "('b, 'z) runtime_env \<Rightarrow> (('b, 'z) app, unit) action" where
  "after_connect E = sbind (run_reconcile E) (\<lambda>_. settle E (resolve_contract E))"

definition reconcile_on_timer :: "('b, 'z) runtime_env \<Rightarrow> (('b, 'z) app, unit) action" where
  "reconcile_on_timer E = sbind (run_reconcile E) (\<lambda>_. settle E (sreturn ()))"

text \<open>The deadline is kept on the event loop's clock, a float.\<close>

definition maybe_reconcile :: "('b, 'z) runtime_env \<Rightarrow> (('b, 'z) app, unit) action" where
  "maybe_reconcile E =
     (let interval = reconcile_interval_seconds (en_config E) in
      if flt_leq interval (Flt 0) then sreturn ()
      else (\<lambda>s.
        (let now = en_loop_time E (ap_loop_reads s);
             s1 = s \<lparr> ap_loop_reads := Suc (ap_loop_reads s) \<rparr>
         in case ap_next_reconcile_at s1 of
              None \<Rightarrow> (Inr (), s1 \<lparr> ap_next_reconcile_at := Some (flt_add now interval) \<rparr>)
            | Some due \<Rightarrow>
                if flt_less now due then (Inr (), s1)
                else reconcile_on_timer E (s1 \<lparr> ap_next_reconcile_at := Some (flt_add now interval) \<rparr>))))"

section \<open>Intents\<close>

definition build_risk_context ::
  "('b, 'z) runtime_env \<Rightarrow> intent \<Rightarrow> qualified_contract \<Rightarrow> order_side \<Rightarrow> int
     \<Rightarrow> (('b, 'z) app, risk_context) action" where
  "build_risk_context E i c side quantity =
     sbind (sgets (\<lambda>s. Option.bind (ap_session s) (\<lambda>ss. latest (ss_market ss) (qualified_key c)))) (\<lambda>q.
     sbind (utc_now E) (\<lambda>today.
     sbind (on_store (performance_get (utc_day today))) (\<lambda>performance.
     sbind (slift (case q of None \<Rightarrow> Inr None | Some x \<Rightarrow> quote_mid x)) (\<lambda>price.
     sbind (utc_now E) (\<lambda>now.
     sbind (slift (total_pnl performance)) (\<lambda>pnl.
     sbind (on_store open_order_count) (\<lambda>n_open.
     sbind (utc_now E) (\<lambda>hour.
     sbind (on_store (orders_last_hour hour)) (\<lambda>n_hour.
     sbind (kill_switch_engaged E) (\<lambda>engaged.
     sgets (\<lambda>s.
       \<lparr> rx_intent = i, rx_order_side = side, rx_order_quantity = quantity,
         rx_current_position = book_quantity (ap_book s) (con_id c), rx_contract = Some c,
         rx_reference_price = price,
         rx_market_data_age_seconds =
           Option.bind (ap_session s) (\<lambda>ss. md_age_seconds (ss_market ss) (qualified_key c) now),
         rx_daily_pnl = pnl, rx_open_orders_count = n_open, rx_orders_last_hour = n_hour,
         rx_app_state = ap_state s, rx_connection_state = connection_state_of E s,
         rx_account_type = account_type_of E s, rx_account_available = (ap_account s \<noteq> None),
         rx_positions_reconciled = rr_positions_reconciled (ap_reconciliation s),
         rx_open_orders_reconciled = rr_orders_reconciled (ap_reconciliation s),
         rx_broker_permission_ready = broker_permission_ready E s,
         rx_strategy_enabled = (case ap_strategy s of None \<Rightarrow> False | Some g \<Rightarrow> sg_enabled g),
         rx_kill_switch_engaged = engaged, rx_duplicate_order_exists = False \<rparr>)))))))))))"

definition build_gate_context ::
  "('b, 'z) runtime_env \<Rightarrow> bool \<Rightarrow> (('b, 'z) app, gate_context) action" where
  "build_gate_context E risk_approved =
     sbind (utc_now E) (\<lambda>now. sgets (\<lambda>s.
       (let here = (case (ap_session s, ap_contract s) of
                      (Some ss, Some c) \<Rightarrow> Some (ss_market ss, qualified_key c) | _ \<Rightarrow> None)
        in \<lparr> gx_app_state = ap_state s, gx_connection_state = connection_state_of E s,
             gx_broker_account_type = account_type_of E s,
             gx_contract_qualified = (case ap_contract s of None \<Rightarrow> False | Some c \<Rightarrow> 0 < con_id c),
             gx_contract_is_continuous =
               (case ap_contract s of None \<Rightarrow> True | Some c \<Rightarrow> qualified_is_continuous c),
             gx_account_available = (ap_account s \<noteq> None),
             gx_positions_reconciled = rr_positions_reconciled (ap_reconciliation s),
             gx_open_orders_reconciled = rr_orders_reconciled (ap_reconciliation s),
             gx_market_data_age_seconds = Option.bind here (\<lambda>(md, k). md_age_seconds md k now),
             gx_market_data_is_delayed =
               (case Option.bind here (\<lambda>(md, k). latest md k) of None \<Rightarrow> True | Some q \<Rightarrow> q_is_delayed q),
             gx_broker_permission_ready = broker_permission_ready E s,
             gx_strategy_enabled = (case ap_strategy s of None \<Rightarrow> False | Some g \<Rightarrow> sg_enabled g),
             gx_risk_approved = risk_approved \<rparr>)))"

definition the_manager :: "('b, 'z) runtime_env \<Rightarrow> 'b manager" where
  "the_manager E =
     \<lparr> mg_config = en_config E, mg_run_id = en_run_id E, mg_place = br_place_order (en_broker E),
       mg_digest = en_digest E, mg_text = en_text E \<rparr>"

text \<open>The submission, with the readings of the clock and the new order id it makes.\<close>

definition submit_order ::
  "('b, 'z) runtime_env \<Rightarrow> intent \<Rightarrow> qualified_contract \<Rightarrow> risk_context \<Rightarrow> gate_context \<Rightarrow> order_type
     \<Rightarrow> decimal option \<Rightarrow> (('b, 'z) app, submission) action" where
  "submit_order E i c rx gx ty price =
     sbind (utc_now E) (\<lambda>now. sbind (utc_now E) (\<lambda>placed.
     sbind (utc_now E) (\<lambda>replied. sbind (utc_now E) (\<lambda>changed.
     sbind (random_id E ''ord_'') (\<lambda>new_id.
     on_orders (submit_intent (the_manager E)
       \<lparr> sq_intent = i, sq_contract = c, sq_risk_context = rx, sq_gate_context = gx,
         sq_order_type = ty, sq_limit_price = price, sq_time_in_force = Day, sq_new_id = new_id,
         sq_now = now, sq_placed_at = placed, sq_replied_at = replied, sq_status_at = changed \<rparr>))))))"

definition signal_row_of ::
  "('b, 'z) runtime_env \<Rightarrow> intent \<Rightarrow> string \<Rightarrow> validation \<Rightarrow> signal_record" where
  "signal_row_of E i correlation_id v =
     \<lparr> sr_intent_id = intent_id i, sr_correlation_id = correlation_id, sr_run_id = en_run_id E,
       sr_strategy_name = in_strategy_name i, sr_symbol = in_symbol i,
       sr_direction = in_direction i, sr_requested_position = requested_position i,
       sr_created_at = in_created_at i, sr_accepted = va_accepted v, sr_confidence = confidence i,
       sr_contract_key = in_contract_key i,
       sr_rejection_reasons = map signal_reason_value (va_reasons v) \<rparr>"

definition correlation_of :: "('b, 'z) runtime_env \<Rightarrow> intent \<Rightarrow> (('b, 'z) app, string) action" where
  "correlation_of E i =
     (case in_correlation_id i of
        Some c \<Rightarrow> if c = [] then random_id E ''cor_'' else sreturn c
      | None \<Rightarrow> random_id E ''cor_'')"

definition trade_towards ::
  "('b, 'z) runtime_env \<Rightarrow> order_type \<Rightarrow> decimal option \<Rightarrow> intent \<Rightarrow> qualified_contract
     \<Rightarrow> (('b, 'z) app, submission option) action" where
  "trade_towards E ty price i c =
     sbind (sgets (\<lambda>s. delta_to_side_and_quantity (book_quantity (ap_book s) (con_id c)) (requested_position i)))
       (\<lambda>(side, quantity).
     if quantity = 0 then sreturn None
     else sbind (build_risk_context E i c side quantity) (\<lambda>rx.
          sbind (build_gate_context E True) (\<lambda>gx.
          sbind (submit_order E i c rx gx ty price) (\<lambda>sub. sreturn (Some sub)))))"

definition handle_intent ::
  "('b, 'z) runtime_env \<Rightarrow> order_type \<Rightarrow> decimal option \<Rightarrow> intent \<Rightarrow> (('b, 'z) app, submission option) action" where
  "handle_intent E ty price i = (\<lambda>s.
     (case (ap_validator s, ap_session s) of
        (Some v, Some ss) \<Rightarrow>
          sbind (correlation_of E i) (\<lambda>cor.
          sbind (utc_now E) (\<lambda>now.
          (let (result, v') = validate_intent now i v in
           sbind (smodify (\<lambda>s. s \<lparr> ap_validator := Some v' \<rparr>)) (\<lambda>_.
           sbind (on_store (signal_record_op (signal_row_of E i cor result))) (\<lambda>_.
           if \<not> va_accepted result then sreturn None
           else sbind (sgets ap_contract) (\<lambda>contract.
             case contract of None \<Rightarrow> sreturn None | Some c \<Rightarrow> trade_towards E ty price i c)))))) s
      | _ \<Rightarrow> (Inr None, s)))"

section \<open>The tick\<close>

definition handle_disconnect :: "('b, 'z) runtime_env \<Rightarrow> (('b, 'z) app, unit) action" where
  "handle_disconnect E =
     sbind (app_set_state App_Safe) (\<lambda>_.
     sbind (smodify (\<lambda>s. s
       \<lparr> ap_reconciliation := empty_reconciliation, ap_account := None,
         ap_session := map_option (\<lambda>ss. ss \<lparr> ss_market := md_clear (ss_market ss) \<rparr>) (ap_session s),
         ap_contract := None \<rparr>)) (\<lambda>_.
     record_broker E ''broker.disconnected''))"

definition poll_quotes :: "('b, 'z) runtime_env \<Rightarrow> (('b, 'z) app, quote list) action" where
  "poll_quotes E = (\<lambda>s.
     sbind (on_market (poll_all (en_broker E) (\<lambda>n. en_clock E (ap_reads s + n)))) (\<lambda>qs.
     sbind (smodify (\<lambda>t. t \<lparr> ap_reads := ap_reads s +
       (case ap_session s of None \<Rightarrow> 0 | Some ss \<Rightarrow> length (md_subscribed (ss_market ss))) \<rparr>)) (\<lambda>_.
     sreturn qs)) s)"

fun handle_intents :: "('b, 'z) runtime_env \<Rightarrow> intent list \<Rightarrow> (('b, 'z) app, unit) action" where
  "handle_intents E [] = sreturn ()"
| "handle_intents E (i # is) =
     sbind (handle_intent E Market None i) (\<lambda>_. handle_intents E is)"

definition ask_strategy :: "quote \<Rightarrow> (('b, 'z) app, intent list) action" where
  "ask_strategy q = (\<lambda>s.
     (case ap_strategy s of
        None \<Rightarrow> (Inr [], s)
      | Some g \<Rightarrow> (case handle_quote q g of (r, g') \<Rightarrow> (r, s \<lparr> ap_strategy := Some g' \<rparr>))))"

fun feed_strategy :: "('b, 'z) runtime_env \<Rightarrow> quote list \<Rightarrow> (('b, 'z) app, unit) action" where
  "feed_strategy E [] = sreturn ()"
| "feed_strategy E (q # qs) =
     sbind (ask_strategy q) (\<lambda>is. sbind (handle_intents E is) (\<lambda>_. feed_strategy E qs))"

definition tick :: "('b, 'z) runtime_env \<Rightarrow> (('b, 'z) app, unit) action" where
  "tick E = (\<lambda>s.
     (case ap_session s of
        None \<Rightarrow> (Inr (), s)
      | Some ss \<Rightarrow>
          if ap_strategy s = None then (Inr (), s)
          else if \<not> br_is_connected (en_broker E) (ss_broker ss) then handle_disconnect E s
          else if ap_contract s = None then (Inr (), s)
          else sbind (poll_quotes E) (\<lambda>qs.
               sbind (kill_switch_engaged E) (\<lambda>engaged.
               if engaged then app_set_state App_Halted else feed_strategy E qs)) s))"

section \<open>Lifecycle\<close>

definition build_broker :: "config \<Rightarrow> bool \<Rightarrow> broker_choice result" where
  "build_broker c admin =
     (if cfg_trading_mode c = Mode_Mock then Inr Use_Mock
      else (case ib_port c of
              None \<Rightarrow> Inl (ConfigError ''TRADING_MODE'' InvalidMode)
            | Some port \<Rightarrow>
                Inr (Use_IBKR (ib_host (cfg_ibkr c)) port
                       (if admin then admin_client_id (cfg_ibkr c) else client_id (cfg_ibkr c))
                       (connect_timeout_seconds (cfg_ibkr c))
                       (expected_account_type (cfg_trading_mode c)))))"

definition open_session :: "('b, 'z) runtime_env \<Rightarrow> (('b, 'z) app, unit) action" where
  "open_session E =
     sbind (slift (build_broker (en_config E) (en_admin E))) (\<lambda>choice.
     smodify (\<lambda>s. s \<lparr> ap_session := Some
       \<lparr> ss_broker = en_open_broker E choice, ss_cache = Map.empty,
         ss_market = make_market_data (cfg_market_data_max_age_seconds (en_config E)) \<rparr> \<rparr>))"

definition startup :: "('b, 'z) runtime_env \<Rightarrow> (('b, 'z) app, unit) action" where
  "startup E =
     sbind (app_set_state App_Starting) (\<lambda>_.
     sbind (on_store db_connect) (\<lambda>_.
     sbind (on_store migrate) (\<lambda>version.
     sbind (record_event E ''app.starting'' ''INFO'') (\<lambda>_.
     sbind (kill_switch_engaged E) (\<lambda>_.
     sbind (on_store (set_state ''last_run_id'' (en_run_id E))) (\<lambda>_.
     sbind (slift (en_build_strategy E (cfg_strategy_name (en_config E)) (strategy_enabled (en_config E)))) (\<lambda>g.
     sbind (smodify (\<lambda>s. s \<lparr> ap_strategy := Some g,
              ap_validator := Some (make_validator (default_futures_symbol (en_config E)) [sg_name g]
                                     default_max_signal_age_seconds) \<rparr>)) (\<lambda>_.
     sbind (on_store (known_intent_ids 10000)) (\<lambda>ids.
     sbind (smodify (\<lambda>s. s \<lparr> ap_validator := map_option (seed_seen ids) (ap_validator s) \<rparr>)) (\<lambda>_.
     sbind (on_store positions_all) (\<lambda>ps.
     sbind (smodify (\<lambda>s. s \<lparr> ap_book := book_replace_all ps (ap_book s) \<rparr>)) (\<lambda>_.
     sbind (if en_admin E then sreturn ()
            else sbind (slift (en_health_start E)) (\<lambda>_. smodify (\<lambda>s. s \<lparr> ap_health_running := True \<rparr>))) (\<lambda>_.
     if cfg_trading_mode (en_config E) = Mode_Disabled then app_set_state App_Safe
     else open_session E)))))))))))))"

definition shutdown :: "('b, 'z) runtime_env \<Rightarrow> (('b, 'z) app, unit) action" where
  "shutdown E = (\<lambda>s.
     if ap_shutting_down s then (Inr (), s)
     else sbind (smodify (\<lambda>s. s \<lparr> ap_shutting_down := True \<rparr>)) (\<lambda>_.
          sbind (record_event E ''app.shutdown'' ''INFO'') (\<lambda>_.
          sbind (ssuppress (sbind (sgets ap_state) (\<lambda>st.
                   sbind (on_store (set_state ''last_application_state'' (application_state_value st))) (\<lambda>_.
                   sbind (utc_now E) (\<lambda>now. on_store (set_state ''last_shutdown_at'' (en_iso E now))))))) (\<lambda>_.
          sbind (smodify (\<lambda>s. s \<lparr> ap_health_running := (ap_health_running s \<and> en_admin E) \<rparr>)) (\<lambda>_.
          sbind (sgets ap_session) (\<lambda>ss.
          sbind (if ss = None then sreturn () else ssuppress (on_broker (br_disconnect (en_broker E)))) (\<lambda>_.
          smodify (\<lambda>s. s \<lparr> ap_db := db_close (ap_db s) \<rparr>))))))) s)"

text \<open>One turn of \<^verbatim>\<open>_main_loop\<close>.\<close>

definition loop_once :: "('b, 'z) runtime_env \<Rightarrow> (('b, 'z) app, unit) action" where
  "loop_once E = (\<lambda>s.
     if cfg_trading_mode (en_config E) = Mode_Disabled then (Inr (), s)
     else (case ap_session s of
             None \<Rightarrow> (Inl AssertionError, s)
           | Some ss \<Rightarrow>
               sbind (if br_is_connected (en_broker E) (ss_broker ss) then sreturn True
                      else sbind (connect_with_backoff E) (\<lambda>connected.
                           if connected then sbind (after_connect E) (\<lambda>_. sreturn True) else sreturn False))
                 (\<lambda>go. if go then sbind (maybe_reconcile E) (\<lambda>_. tick E) else sreturn ()) s))"

text \<open>The handler around the loop; what follows it is \<open>shutdown\<close>.\<close>

definition fatal :: "('b, 'z) runtime_env \<Rightarrow> exn \<Rightarrow> (('b, 'z) app, int) action" where
  "fatal E e =
     sbind (smodify (\<lambda>s. s \<lparr> ap_last_error := Some (en_text E e) \<rparr>)) (\<lambda>_.
     sbind (app_set_state App_Error) (\<lambda>_.
     sbind (record_event E ''app.fatal'' ''ERROR'') (\<lambda>_. sreturn 1)))"

text \<open>
  \<^verbatim>\<open>run\<close> for at most \<open>n\<close> turns; \<open>world k\<close> is what happens outside between two turns (the broker,
  another process on the database, a signal). The result is the exit code, \<open>None\<close> while it runs.
\<close>

fun run_loop :: "('b, 'z) runtime_env \<Rightarrow> (nat \<Rightarrow> ('b, 'z) app \<Rightarrow> ('b, 'z) app) \<Rightarrow> nat
    \<Rightarrow> (('b, 'z) app, int option) action" where
  "run_loop E world 0 = (\<lambda>s. (Inr (if ap_stop s then Some 0 else None), s))"
| "run_loop E world (Suc n) = (\<lambda>s.
     if ap_stop s then (Inr (Some 0), s)
     else (case loop_once E s of
             (Inl e, s') \<Rightarrow> sbind (fatal E e) (\<lambda>code. sreturn (Some code)) s'
           | (Inr _, s') \<Rightarrow> run_loop E world n (world n s')))"

definition run_app :: "('b, 'z) runtime_env \<Rightarrow> (nat \<Rightarrow> ('b, 'z) app \<Rightarrow> ('b, 'z) app) \<Rightarrow> nat
    \<Rightarrow> (('b, 'z) app, int option) action" where
  "run_app E world n =
     sbind (startup E) (\<lambda>_.
     sbind (run_loop E world n) (\<lambda>code.
     case code of None \<Rightarrow> sreturn None
     | Some k \<Rightarrow> sbind (shutdown E) (\<lambda>_. sreturn (Some k))))"

end
