(* ===== verification/RuntimeFacts.thy ===== *)
theory RuntimeFacts
  imports Runtime
begin

text \<open>
  What the methods of the running application leave alone, what they establish, and the invariant
  of the lifecycle: which judgement of the account stands behind the state READY.
\<close>

section \<open>Frames\<close>

text \<open>
  Observations that the database, the clocks and the id source do not enter, and those that the
  session does not enter.
\<close>

definition ignores_io :: "(('b, 'z) app \<Rightarrow> 'v) \<Rightarrow> bool" where
  "ignores_io g = (\<forall>s d m n k. g (s \<lparr> ap_db := d \<rparr>) = g s \<and> g (s \<lparr> ap_reads := m \<rparr>) = g s
     \<and> g (s \<lparr> ap_loop_reads := n \<rparr>) = g s \<and> g (s \<lparr> ap_ids := k \<rparr>) = g s)"

definition ignores_session :: "(('b, 'z) app \<Rightarrow> 'v) \<Rightarrow> bool" where
  "ignores_session g = (\<forall>s x y. ap_session s = Some y \<longrightarrow> g (s \<lparr> ap_session := Some x \<rparr>) = g s)"

lemma ignores_fields [simp]:
  "ignores_io ap_state" "ignores_io ap_stop" "ignores_io ap_reconciliation" "ignores_io ap_account"
  "ignores_io ap_book" "ignores_io ap_contract" "ignores_io ap_strategy" "ignores_io ap_validator"
  "ignores_io ap_session" "ignores_io ap_connect_attempt" "ignores_io ap_next_reconcile_at"
  "ignores_io (\<lambda>s. ap_session s = None)"
  "ignores_session ap_state" "ignores_session ap_stop" "ignores_session ap_reconciliation"
  "ignores_session ap_account" "ignores_session ap_book" "ignores_session ap_contract"
  "ignores_session ap_strategy" "ignores_session ap_validator" "ignores_session ap_db"
  "ignores_session ap_connect_attempt" "ignores_session ap_next_reconcile_at"
  "ignores_session (\<lambda>s. ap_session s = None)"
  by (simp_all add: ignores_io_def ignores_session_def)

text \<open>What the risk manager and the gate are told about the account, the book and the contract.\<close>

definition judgement :: "('b, 'z) app \<Rightarrow>
    reconciliation_result \<times> account_summary option \<times> book \<times> qualified_contract option" where
  "judgement s = (ap_reconciliation s, ap_account s, ap_book s, ap_contract s)"

lemma ignores_judgement [simp]: "ignores_io judgement" "ignores_session judgement"
  by (simp_all add: ignores_io_def ignores_session_def judgement_def)

lemma judgement_fields:
  "judgement t = judgement s \<longleftrightarrow> ap_reconciliation t = ap_reconciliation s \<and> ap_account t = ap_account s
     \<and> ap_book t = ap_book s \<and> ap_contract t = ap_contract s"
  by (simp add: judgement_def)

lemma keeps_on_store [intro]: "ignores_io g \<Longrightarrow> keeps g (on_store m)"
  by (auto simp: keeps_def on_store_def ignores_io_def split: prod.splits)

lemma keeps_utc_now [intro]: "ignores_io g \<Longrightarrow> keeps g (utc_now E)"
  by (auto simp: keeps_def utc_now_def ignores_io_def)

lemma keeps_random_id [intro]: "ignores_io g \<Longrightarrow> keeps g (random_id E p)"
  by (auto simp: keeps_def random_id_def ignores_io_def)

lemma keeps_on_session [intro]: "ignores_session g \<Longrightarrow> keeps g (on_session m)"
  by (auto simp: keeps_def on_session_def ignores_session_def split: prod.splits option.splits)

lemma keeps_on_parts [intro]:
  "ignores_session g \<Longrightarrow> keeps g (on_broker m1)" "ignores_session g \<Longrightarrow> keeps g (on_market m2)"
  "ignores_session g \<Longrightarrow> keeps g (on_cache m3)"
  unfolding on_broker_def on_market_def on_cache_def by auto

lemma keeps_on_orders [intro]:
  fixes g :: "('b, 'z) app \<Rightarrow> 'v"
  assumes g: "ignores_io g" "ignores_session g"
  shows "keeps g (on_orders m)"
proof (rule keepsI)
  fix s t :: "('b, 'z) app" and r
  assume run: "on_orders m s = (r, t)"
  show "g t = g s"
  proof (cases "ap_session s")
    case None
    with run show ?thesis by (simp add: on_orders_def)
  next
    case (Some ss)
    with run obtain d b where "t = s \<lparr> ap_db := d \<rparr> \<lparr> ap_session := Some (ss \<lparr> ss_broker := b \<rparr>) \<rparr>"
      by (auto simp: on_orders_def split: prod.splits)
    with g Some show ?thesis by (simp add: ignores_io_def ignores_session_def)
  qed
qed

lemma keeps_Pair [simp, intro]: "keeps g (Pair r)"
  by (simp add: keeps_def)

lemmas frame_intros = keeps_sbind keeps_on_store keeps_utc_now keeps_random_id keeps_on_parts keeps_on_orders
  keeps_smodify keeps_ssuppress

lemma keeps_events [intro]:
  assumes "ignores_io g"
  shows "keeps g (record_event E e l)" "keeps g (record_broker E e)" "keeps g (kill_switch_engaged E)"
  using assms unfolding record_event_def record_broker_def kill_switch_engaged_def
  by (auto intro!: frame_intros)

lemma keeps_compute_ready [intro]:
  fixes g :: "('b, 'z) app \<Rightarrow> 'v"
  assumes "ignores_io g"
  shows "keeps g (compute_ready_state E)"
proof (rule keepsI)
  fix s t :: "('b, 'z) app" and r assume run: "compute_ready_state E s = (r, t)"
  have "keeps g (sbind (kill_switch_engaged E) (\<lambda>engaged. sreturn
      (if engaged then App_Halted
       else if cfg_trading_mode (en_config E) = Mode_Disabled then App_Safe
       else if \<not> cfg_allow_order_transmit (en_config E) then App_Safe
       else App_Ready)))"
    using assms by (auto intro!: frame_intros keeps_events)
  from keepsD [OF this] run show "g t = g s"
    by (auto simp: compute_ready_state_def split: if_splits)
qed

lemma app_set_state_result:
  assumes "app_set_state st s = (r, t)"
  obtains d where "r = Inr ()" "t = s \<lparr> ap_state := st, ap_db := d \<rparr>"
proof (cases "st = ap_state s")
  case True
  have "s = s \<lparr> ap_state := ap_state s, ap_db := ap_db s \<rparr>" by simp
  with that [of "ap_db s"] assms True show ?thesis by (simp add: app_set_state_def)
next
  case False
  with assms that show ?thesis
    by (auto simp: app_set_state_def on_store_def split: prod.splits)
qed

lemma keeps_app_set_state [intro]:
  assumes "ignores_io g" and "\<And>s st. g (s \<lparr> ap_state := st \<rparr>) = g s"
  shows "keeps g (app_set_state st)"
  using assms by (auto simp: keeps_def ignores_io_def elim!: app_set_state_result)

lemma app_set_state_sets: "app_set_state st s = (r, t) \<Longrightarrow> ap_state t = st \<and> r = Inr ()"
  by (auto elim: app_set_state_result)

section \<open>Reconciliation\<close>

lemma keeps_on_book: "(\<And>s b. g (s \<lparr> ap_book := b \<rparr>) = g s) \<Longrightarrow> keeps g (on_book m)"
  by (auto simp: keeps_def on_book_def split: prod.splits)

lemma keeps_ingest:
  assumes "ignores_io g" and "\<And>s b. g (s \<lparr> ap_book := b \<rparr>) = g s"
  shows "keeps g (ingest_fills E fs)"
proof (induction fs)
  case Nil
  then show ?case by simp
next
  case (Cons f fs)
  with assms show ?case by (auto intro!: frame_intros keeps_on_book)
qed

lemma keeps_read_account:
  assumes "ignores_io g" "ignores_session g" and "\<And>s a. g (s \<lparr> ap_account := a \<rparr>) = g s"
  shows "keeps g (read_account E)"
proof -
  have "keeps g (\<lambda>s. case on_broker (br_account_summary (en_broker E) now) s of
          (Inr a, s') \<Rightarrow> (Inr True, s' \<lparr> ap_account := Some a \<rparr>)
        | (Inl e, s') \<Rightarrow> if is_broker_error e then (Inr False, s' \<lparr> ap_account := None \<rparr>) else (Inl e, s'))" for now
    using assms(3) keepsD [OF keeps_on_parts(1) [OF assms(2)]]
    by (intro keepsI) (auto split: prod.splits sum.splits if_splits)
  with assms(1) show ?thesis unfolding read_account_def by (auto intro!: frame_intros)
qed

lemma read_account_available:
  "read_account E s = (Inr True, t) \<Longrightarrow> ap_account t \<noteq> None"
  by (auto simp: read_account_def elim!: sbind_InrE split: prod.splits sum.splits if_splits)

lemma keeps_read_broker [intro]: "ignores_io g \<Longrightarrow> ignores_session g \<Longrightarrow> keeps g (read_broker E)"
  unfolding read_broker_def by (auto intro!: frame_intros)

lemma keeps_adopt:
  assumes "ignores_io g" and "\<And>s b. g (s \<lparr> ap_book := b \<rparr>) = g s"
    and "\<And>s rr. g (s \<lparr> ap_reconciliation := rr \<rparr>) = g s"
  shows "keeps g (adopt_reconciliation E rr)"
  unfolding adopt_reconciliation_def using assms by (auto intro!: frame_intros keeps_events)

lemma keeps_compare:
  assumes "ignores_io g" and "\<And>s b. g (s \<lparr> ap_book := b \<rparr>) = g s"
    and "\<And>s rr. g (s \<lparr> ap_reconciliation := rr \<rparr>) = g s"
  shows "keeps g (compare_with_broker E available ps os fs)"
  unfolding compare_with_broker_def using assms
  by (auto intro!: frame_intros keeps_ingest keeps_adopt)

text \<open>A successful comparison has been adopted as the book.\<close>

lemma adopt_book:
  fixes E :: "('b, 'z) runtime_env"
  assumes "adopt_reconciliation E rr s = (r, t)"
  shows "ap_reconciliation t = rr" and "rec_succeeded rr \<Longrightarrow> ap_book t = book_of (rr_broker_positions rr)"
    and "\<not> rec_succeeded rr \<Longrightarrow> ap_book t = ap_book s \<and> r = Inr ()"
proof -
  let ?s = "s \<lparr> ap_reconciliation := rr \<rparr>"
  have tail: "keeps g (sbind (on_store (positions_replace_all (rr_broker_positions rr))) (\<lambda>_.
      record_event E ''reconciliation.succeeded'' ''INFO''))" if "ignores_io g" for g :: "('b, 'z) app \<Rightarrow> 'v"
    using that by (auto intro!: frame_intros keeps_events)
  have ev: "keeps g (record_event E ''reconciliation.failed'' ''ERROR'')" if "ignores_io g" for g :: "('b, 'z) app \<Rightarrow> 'v"
    using that by auto
  show "ap_reconciliation t = rr"
    using assms keepsD [OF tail [of ap_reconciliation]] keepsD [OF ev [of ap_reconciliation]]
    by (auto simp: adopt_reconciliation_def sbind_def split: if_splits)
  show "rec_succeeded rr \<Longrightarrow> ap_book t = book_of (rr_broker_positions rr)"
    using assms keepsD [OF tail [of ap_book]]
    by (auto simp: adopt_reconciliation_def sbind_def book_replace_all_def split: if_splits)
  show "\<not> rec_succeeded rr \<Longrightarrow> ap_book t = ap_book s \<and> r = Inr ()"
    using assms keepsD [OF ev [of ap_book]]
    by (auto simp: adopt_reconciliation_def sbind_def record_event_def split: if_splits)
qed

text \<open>What a run of the reconciliation ends with, whether it returns or raises.\<close>

lemma keeps_read_and_compare:
  assumes "ignores_io g" "ignores_session g" and "\<And>s b. g (s \<lparr> ap_book := b \<rparr>) = g s"
    and "\<And>s rr. g (s \<lparr> ap_reconciliation := rr \<rparr>) = g s"
  shows "keeps g (read_and_compare E available)"
proof (rule keepsI)
  fix s r t assume run: "read_and_compare E available s = (r, t)"
  obtain x s1 where read: "read_broker E s = (x, s1)" by (metis surj_pair)
  have same: "g s1 = g s" by (rule keepsD [OF keeps_read_broker [OF assms(1,2)] read])
  have failed: "keeps g (sbind (smodify (\<lambda>s. s \<lparr> ap_reconciliation := rr \<rparr>)) (\<lambda>_. record_event E e l))" for rr e l
    using assms by (auto intro!: frame_intros keeps_events)
  show "g t = g s"
  proof (cases x)
    case (Inl e)
    with run read same keepsD [OF failed] show ?thesis
      by (auto simp: read_and_compare_def split: if_splits)
  next
    case (Inr y)
    with run read same keepsD [OF keeps_compare [OF assms(1,3,4)]] show ?thesis
      by (auto simp: read_and_compare_def split: prod.splits)
  qed
qed

lemma keeps_run_reconcile:
  assumes "ignores_io g" "ignores_session g" and "\<And>s b. g (s \<lparr> ap_book := b \<rparr>) = g s"
    and "\<And>s rr. g (s \<lparr> ap_reconciliation := rr \<rparr>) = g s" and "\<And>s a. g (s \<lparr> ap_account := a \<rparr>) = g s"
    and "\<And>s st. g (s \<lparr> ap_state := st \<rparr>) = g s"
  shows "keeps g (run_reconcile E)"
  unfolding run_reconcile_def using assms
  by (auto intro!: keeps_sbind keeps_app_set_state keeps_read_account keeps_read_and_compare)

lemma run_reconcile_state:
  assumes "run_reconcile E s = (r, t)"
  shows "ap_state t = App_Reconciling"
proof -
  obtain u s1 where 1: "app_set_state App_Reconciling s = (u, s1)" by (metis surj_pair)
  then have u: "u = Inr ()" and s1: "ap_state s1 = App_Reconciling" by (auto dest: app_set_state_sets)
  have "keeps ap_state (sbind (read_account E) (read_and_compare E))"
    by (auto intro!: keeps_sbind keeps_read_account keeps_read_and_compare)
  moreover have "sbind (read_account E) (read_and_compare E) s1 = (r, t)"
    using assms 1 u by (simp add: run_reconcile_def)
  ultimately have "ap_state t = ap_state s1" by (rule keepsD)
  with s1 show ?thesis by simp
qed

text \<open>A read that failed leaves an unsuccessful result; otherwise the result is the comparison's.\<close>

lemma read_and_compare_cases:
  assumes "read_and_compare E available s = (r, t)"
  obtains (unread) e s1 where "read_broker E s = (Inl e, s1)" "is_broker_error e" "r = Inr ()"
      "ap_reconciliation t = empty_reconciliation \<lparr> rr_errors := [en_text E e] \<rparr>" "ap_book t = ap_book s1"
    | (raised) e s1 where "read_broker E s = (Inl e, s1)" "r = Inl e" "t = s1" "\<not> is_broker_error e"
    | (compared) ps os fs s1 where "read_broker E s = (Inr (ps, os, fs), s1)"
      "compare_with_broker E available ps os fs s1 = (r, t)"
proof -
  obtain x s1 where read: "read_broker E s = (x, s1)" by (metis surj_pair)
  show thesis
  proof (cases x)
    case (Inr y)
    obtain ps os fs where y: "y = (ps, os, fs)" by (metis surj_pair)
    with assms read Inr show ?thesis by (intro compared [of ps os fs s1]) (simp_all add: read_and_compare_def)
  next
    case (Inl e)
    let ?rr = "empty_reconciliation \<lparr> rr_errors := [en_text E e] \<rparr>"
    show ?thesis
    proof (cases "is_broker_error e")
      case False
      with assms read Inl show ?thesis by (intro raised [of e s1]) (simp_all add: read_and_compare_def)
    next
      case True
      have run: "record_event E ''reconciliation.failed'' ''ERROR'' (s1 \<lparr> ap_reconciliation := ?rr \<rparr>) = (r, t)"
        using assms read Inl True by (simp add: read_and_compare_def sbind_def)
      have "r = Inr ()" using run by (simp add: record_event_def)
      moreover have "ap_reconciliation t = ?rr" "ap_book t = ap_book s1"
        using keepsD [OF keeps_events(1) [of ap_reconciliation] run] keepsD [OF keeps_events(1) [of ap_book] run]
        by simp_all
      ultimately show ?thesis using True read Inl by (intro unread [of e s1]) simp_all
    qed
  qed
qed

lemma compare_result:
  assumes "compare_with_broker E available ps os fs s = (Inr u, t)"
  obtains applied s1 locals now d where "ingest_fills E fs s = (Inr applied, s1)"
    "open_order_tuples (ap_db s1) = (Inr locals, d)"
    "ap_reconciliation t = reconcile now (ap_book s1) ps os locals fs available"
    "rec_succeeded (ap_reconciliation t) \<Longrightarrow> ap_book t = book_of (rr_broker_positions (ap_reconciliation t))"
proof -
  from assms obtain applied s1 locals s2 now s3 where
      1: "ingest_fills E fs s = (Inr applied, s1)" and 2: "on_store open_order_tuples s1 = (Inr locals, s2)"
      and 3: "utc_now E s2 = (Inr now, s3)"
      and 4: "adopt_reconciliation E (reconcile now (ap_book s3) ps os locals fs available) s3 = (Inr u, t)"
    by (auto simp: compare_with_broker_def elim!: sbind_InrE)
  have "ap_book s3 = ap_book s1"
    using keepsD [OF keeps_utc_now [of ap_book] 3] keepsD [OF keeps_on_store [of ap_book] 2] by simp
  with adopt_book [OF 4] have
      rr: "ap_reconciliation t = reconcile now (ap_book s1) ps os locals fs available"
      and book: "rec_succeeded (ap_reconciliation t) \<Longrightarrow> ap_book t = book_of (rr_broker_positions (ap_reconciliation t))"
    by simp_all
  have open_os: "open_order_tuples (ap_db s1) = (Inr locals, ap_db s2)"
    using 2 by (auto simp: on_store_def split: prod.splits)
  show thesis by (rule that [OF 1 open_os rr book])
qed

lemma run_reconcile_success:
  assumes "run_reconcile E s = (Inr u, t)" and "rec_succeeded (ap_reconciliation t)"
  shows "ap_account t \<noteq> None" and "ap_book t = book_of (rr_broker_positions (ap_reconciliation t))"
proof -
  from assms(1) obtain s1 available s2 where
      acc: "read_account E s1 = (Inr available, s2)" and cmp: "read_and_compare E available s2 = (Inr u, t)"
    by (auto simp: run_reconcile_def elim!: sbind_InrE)
  have "available \<and> ap_book t = book_of (rr_broker_positions (ap_reconciliation t))"
    using cmp
  proof (cases rule: read_and_compare_cases)
    case (unread e s3)
    with assms(2) show ?thesis by (simp add: rec_succeeded_def)
  next
    case (raised e s3)
    then show ?thesis by simp
  next
    case (compared ps os fs s3)
    from compared(2) show ?thesis
      by (rule compare_result) (use assms(2) in \<open>simp add: rec_succeeded_def reconcile_def Let_def\<close>)
  qed
  moreover from this have "ap_account s2 \<noteq> None" using acc read_account_available by (cases available) auto
  moreover have "ap_account t = ap_account s2"
    using keepsD [OF keeps_read_and_compare [of ap_account] cmp] by simp
  ultimately show "ap_account t \<noteq> None" and "ap_book t = book_of (rr_broker_positions (ap_reconciliation t))"
    by simp_all
qed

section \<open>The state READY\<close>

lemma kill_switch_reading:
  assumes "kill_switch_engaged E s = (Inr False, t)"
  shows "\<not> cfg_kill_switch (en_config E)" and "\<not> state.latch_set (ap_db s)"
  using assms state.not_engaged_means [of "cfg_kill_switch (en_config E)" "ap_db s"]
  by (auto simp: kill_switch_engaged_def on_store_def split: prod.splits)

lemma kill_switch_returns: "\<exists>b t. kill_switch_engaged E s = (Inr b, t)"
proof -
  obtain b d where "ks_engaged (cfg_kill_switch (en_config E)) (Some get_state) (ap_db s) = (Inr b, d)"
    using state.engaged_returns by blast
  then show ?thesis by (simp add: kill_switch_engaged_def on_store_def)
qed

lemma compute_ready_means:
  assumes "compute_ready_state E s = (Inr App_Ready, t)"
  shows "rec_succeeded (ap_reconciliation s)" and "\<not> cfg_kill_switch (en_config E)"
    and "\<not> state.latch_set (ap_db s)" and "cfg_allow_order_transmit (en_config E)"
    and "cfg_trading_mode (en_config E) \<noteq> Mode_Disabled"
proof -
  obtain engaged s1 where k: "kill_switch_engaged E s = (Inr engaged, s1)" using kill_switch_returns by blast
  from assms k have all: "rec_succeeded (ap_reconciliation s)" "\<not> engaged"
      "cfg_allow_order_transmit (en_config E)" "cfg_trading_mode (en_config E) \<noteq> Mode_Disabled"
    by (auto simp: compute_ready_state_def sbind_def split: if_splits)
  with kill_switch_reading [of E s s1] k show "rec_succeeded (ap_reconciliation s)"
    and "\<not> cfg_kill_switch (en_config E)" and "\<not> state.latch_set (ap_db s)"
    and "cfg_allow_order_transmit (en_config E)" and "cfg_trading_mode (en_config E) \<noteq> Mode_Disabled"
    by simp_all
qed

text \<open>What stands behind READY: an agreed account, its book adopted, and both switches.\<close>

definition ready_ground :: "('b, 'z) runtime_env \<Rightarrow> ('b, 'z) app \<Rightarrow> bool" where
  "ready_ground E s =
     (rec_succeeded (ap_reconciliation s) \<and> ap_account s \<noteq> None
      \<and> ap_book s = book_of (rr_broker_positions (ap_reconciliation s)) \<and> ap_session s \<noteq> None
      \<and> \<not> cfg_kill_switch (en_config E) \<and> cfg_allow_order_transmit (en_config E)
      \<and> cfg_trading_mode (en_config E) \<noteq> Mode_Disabled)"

definition ready_ok :: "('b, 'z) runtime_env \<Rightarrow> ('b, 'z) app \<Rightarrow> bool" where
  "ready_ok E s = (ap_state s = App_Ready \<longrightarrow> ready_ground E s)"

text \<open>An action that leaves the state and the judgement alone, or leaves READY, preserves it.\<close>

definition standing :: "('b, 'z) app \<Rightarrow> application_state \<times> (reconciliation_result \<times> account_summary option
    \<times> book \<times> qualified_contract option) \<times> bool" where
  "standing s = (ap_state s, judgement s, ap_session s = None)"

lemma ignores_standing [simp]: "ignores_io standing" "ignores_session standing"
  by (simp_all add: ignores_io_def ignores_session_def judgement_def standing_def)

lemma standing_ready: "standing t = standing s \<Longrightarrow> ready_ok E t = ready_ok E s"
  by (simp add: standing_def judgement_def ready_ok_def ready_ground_def)

lemma keeps_standing_ready: "keeps standing m \<Longrightarrow> preserves (ready_ok E) m"
  by (erule keeps_preserves) (metis standing_ready)

lemma not_ready_ok: "ap_state t \<noteq> App_Ready \<Longrightarrow> ready_ok E t"
  by (simp add: ready_ok_def)

text \<open>\<open>settle\<close> after a reconciliation: the preparation may do anything but touch the judgement.\<close>

lemma settle_ready:
  assumes run: "settle E before s = (r, t)" and "ap_state s \<noteq> App_Ready"
    and "keeps (\<lambda>s. (ap_state s, ap_reconciliation s, ap_account s, ap_book s, ap_session s = None)) before"
    and ground: "rec_succeeded (ap_reconciliation s) \<Longrightarrow> ap_account s \<noteq> None
      \<and> ap_book s = book_of (rr_broker_positions (ap_reconciliation s)) \<and> ap_session s \<noteq> None"
  shows "ready_ok E t"
proof (cases "rec_succeeded (ap_reconciliation s)")
  case False
  with run show ?thesis
    by (intro not_ready_ok) (auto simp: settle_def sbind_def dest: app_set_state_sets)
next
  case True
  obtain x s1 where before: "before s = (x, s1)" by (metis surj_pair)
  from keepsD [OF assms(3) before] have same: "ap_state s1 = ap_state s"
      "ap_reconciliation s1 = ap_reconciliation s" "ap_account s1 = ap_account s" "ap_book s1 = ap_book s"
      "(ap_session s1 = None) = (ap_session s = None)" by simp_all
  show ?thesis
  proof (cases x)
    case (Inl e)
    with run True before same assms(2) show ?thesis
      by (intro not_ready_ok) (auto simp: settle_def sbind_def)
  next
    case (Inr u)
    obtain y s2 where compute: "compute_ready_state E s1 = (y, s2)" by (metis surj_pair)
    have same2: "standing s2 = standing s1" by (rule keepsD [OF keeps_compute_ready compute]) simp
    show ?thesis
    proof (cases y)
      case (Inl e)
      with run True before Inr compute same same2 assms(2) show ?thesis
        by (intro not_ready_ok) (auto simp: settle_def sbind_def standing_def)
    next
      case st: (Inr st)
      with run True before Inr compute have set: "app_set_state st s2 = (r, t)"
        by (simp add: settle_def sbind_def)
      then obtain d where t: "t = s2 \<lparr> ap_state := st, ap_db := d \<rparr>" by (rule app_set_state_result)
      show ?thesis
      proof (cases "st = App_Ready")
        case False
        with t show ?thesis by (simp add: ready_ok_def)
      next
        case ready: True
        with compute st have "compute_ready_state E s1 = (Inr App_Ready, s2)" by simp
        from compute_ready_means [OF this] ground [OF True] same same2 t show ?thesis
          by (simp add: ready_ok_def ready_ground_def standing_def judgement_def)
      qed
    qed
  qed
qed

lemma keeps_select_contract:
  assumes "ignores_io g" "ignores_session g" and "\<And>s c. g (s \<lparr> ap_contract := c \<rparr>) = g s"
  shows "keeps g (select_contract E c)"
  unfolding select_contract_def using assms by (auto intro!: frame_intros)

lemma keeps_resolve_contract:
  assumes "ignores_io g" "ignores_session g" and "\<And>s c. g (s \<lparr> ap_contract := c \<rparr>) = g s"
    and "\<And>s e. g (s \<lparr> ap_last_error := e \<rparr>) = g s"
  shows "keeps g (resolve_contract E)"
proof -
  have "keeps g (resolve_at E now)" for now
  proof (rule keepsI)
    fix s r t assume run: "resolve_at E now s = (r, t)"
    let ?m = "resolve (br_qualify (en_broker E) now) (default_futures_symbol (en_config E))
        (default_contract_month (en_config E))"
    obtain x s1 where res: "on_cache ?m s = (x, s1)" by (metis surj_pair)
    have same: "g s1 = g s" by (rule keepsD [OF keeps_on_parts(3) [OF assms(2)] res])
    show "g t = g s"
    proof (cases x)
      case (Inl e)
      with run res same keepsD [OF keeps_events(1) [OF assms(1)]] assms(3,4) show ?thesis
        by (auto simp: resolve_at_def split: if_splits)
    next
      case (Inr c)
      with run res same keepsD [OF keeps_select_contract [OF assms(1-3)]] show ?thesis
        by (auto simp: resolve_at_def)
    qed
  qed
  with assms show ?thesis unfolding resolve_contract_def by (auto intro!: frame_intros)
qed

lemma reconcile_then_settle_ready:
  assumes "sbind (run_reconcile E) (\<lambda>_. settle E before) s = (r, t)" and "ap_session s \<noteq> None"
    and "keeps (\<lambda>s. (ap_state s, ap_reconciliation s, ap_account s, ap_book s, ap_session s = None)) before"
  shows "ready_ok E t"
proof -
  obtain x s1 where rec: "run_reconcile E s = (x, s1)" by (metis surj_pair)
  have state: "ap_state s1 = App_Reconciling" by (rule run_reconcile_state [OF rec])
  have "(ap_session s1 = None) = (ap_session s = None)"
    by (rule keepsD [OF keeps_run_reconcile rec]) simp_all
  show ?thesis
  proof (cases x)
    case (Inl e)
    with assms(1) rec state show ?thesis by (intro not_ready_ok) simp
  next
    case (Inr u)
    with assms(1) rec have settled: "settle E before s1 = (r, t)" by simp
    have ground: "ap_account s1 \<noteq> None \<and> ap_book s1 = book_of (rr_broker_positions (ap_reconciliation s1))
        \<and> ap_session s1 \<noteq> None" if "rec_succeeded (ap_reconciliation s1)"
      using run_reconcile_success [OF _ that] rec Inr \<open>(ap_session s1 = None) = _\<close> assms(2) by auto
    show ?thesis by (rule settle_ready [OF settled _ assms(3) ground]) (simp_all add: state)
  qed
qed

lemma after_connect_ready: "after_connect E s = (r, t) \<Longrightarrow> ap_session s \<noteq> None \<Longrightarrow> ready_ok E t"
  unfolding after_connect_def
  by (erule reconcile_then_settle_ready) (auto intro!: keeps_resolve_contract simp: ignores_io_def ignores_session_def)

lemma reconcile_on_timer_ready: "reconcile_on_timer E s = (r, t) \<Longrightarrow> ap_session s \<noteq> None \<Longrightarrow> ready_ok E t"
  unfolding reconcile_on_timer_def by (erule reconcile_then_settle_ready) auto

lemma maybe_reconcile_ready:
  assumes "maybe_reconcile E s = (r, t)" and "ready_ok E s" and "ap_session s \<noteq> None"
  shows "ready_ok E t"
proof -
  have same: "ready_ok E (s \<lparr> ap_loop_reads := n \<rparr>) = ready_ok E s"
    "ready_ok E (s \<lparr> ap_loop_reads := n, ap_next_reconcile_at := x \<rparr>) = ready_ok E s" for n x
    by (simp_all add: ready_ok_def ready_ground_def)
  from assms show ?thesis
    by (auto simp: maybe_reconcile_def Let_def same intro: reconcile_on_timer_ready
        split: if_splits option.splits)
qed

section \<open>Connection\<close>

lemma set_not_ready: "st \<noteq> App_Ready \<Longrightarrow> preserves (\<lambda>s. ap_state s \<noteq> App_Ready) (app_set_state st)"
  by (auto simp: preserves_def dest: app_set_state_sets)

lemma leaf_not_ready:
  "preserves (\<lambda>s. ap_state s \<noteq> App_Ready) (record_broker E e)"
  "preserves (\<lambda>s. ap_state s \<noteq> App_Ready) (utc_now E)"
  by (auto simp: preserves_def dest: keepsD [OF keeps_events(2) [OF ignores_fields(1)]]
      keepsD [OF keeps_utc_now [OF ignores_fields(1)]])

lemmas not_ready_intros = preserves_sbind preserves_smodify preserves_pure set_not_ready leaf_not_ready

lemma try_connect_not_ready: "preserves (\<lambda>s. ap_state s \<noteq> App_Ready) (try_connect E n now)"
proof -
  let ?P = "\<lambda>s. ap_state s \<noteq> App_Ready"
  have refused: "preserves ?P (connection_refused E e)" for e
    unfolding connection_refused_def
    by (auto intro!: not_ready_intros)
  have failed: "preserves ?P (connection_failed E n e)" for e
    unfolding connection_failed_def request_stop_def
    by (auto intro!: not_ready_intros)
  have made: "preserves ?P (connection_made E)"
    unfolding connection_made_def by (auto intro!: not_ready_intros)
  show ?thesis
  proof (rule preservesI)
    fix s r t assume run: "try_connect E n now s = (r, t)" and "?P s"
    obtain x s1 where conn: "on_broker (br_connect (en_broker E) now) s = (x, s1)" by (metis surj_pair)
    from keepsD [OF keeps_on_parts(1) conn, of ap_state] \<open>?P s\<close> have "?P s1" by simp
    with run conn preservesD [OF refused] preservesD [OF failed] preservesD [OF made] show "?P t"
      by (auto simp: try_connect_def split: sum.splits if_splits)
  qed
qed

lemma connect_not_ready:
  assumes "connect_with_backoff E s = (r, t)"
  shows "ap_state t \<noteq> App_Ready"
proof -
  let ?rest = "sbind (smodify (\<lambda>s. s \<lparr> ap_connect_attempt := ap_connect_attempt s + 1 \<rparr>)) (\<lambda>_.
     sbind (sgets ap_connect_attempt) (\<lambda>attempt. sbind (utc_now E) (try_connect E attempt)))"
  obtain u s1 where 1: "app_set_state App_Connecting s = (u, s1)" by (metis surj_pair)
  then have u: "u = Inr ()" "ap_state s1 \<noteq> App_Ready" by (auto dest: app_set_state_sets)
  have "preserves (\<lambda>s. ap_state s \<noteq> App_Ready) ?rest"
    by (auto intro!: not_ready_intros try_connect_not_ready)
  moreover have "?rest s1 = (r, t)" using assms 1 u by (simp add: connect_with_backoff_def)
  ultimately show ?thesis using u(2) by (rule preservesD)
qed

text \<open>No attempt to connect removes or installs the session.\<close>

definition no_session :: "('b, 'z) app \<Rightarrow> bool" where
  "no_session s = (ap_session s = None)"

lemma ignores_no_session [simp]: "ignores_io no_session" "ignores_session no_session"
  by (simp_all add: no_session_def ignores_io_def ignores_session_def)

lemma no_session_update [simp]:
  "no_session (s \<lparr> ap_state := st \<rparr>) = no_session s" "no_session (s \<lparr> ap_last_error := e \<rparr>) = no_session s"
  "no_session (s \<lparr> ap_stop := b \<rparr>) = no_session s" "no_session (s \<lparr> ap_connect_attempt := n \<rparr>) = no_session s"
  "no_session (s \<lparr> ap_connect_attempt := n, ap_last_error := e \<rparr>) = no_session s"
  "no_session (s \<lparr> ap_contract := c \<rparr>) = no_session s" "no_session (s \<lparr> ap_account := a \<rparr>) = no_session s"
  "no_session (s \<lparr> ap_reconciliation := rr \<rparr>) = no_session s" "no_session (s \<lparr> ap_book := bk \<rparr>) = no_session s"
  "no_session (s \<lparr> ap_strategy := g \<rparr>) = no_session s" "no_session (s \<lparr> ap_validator := v \<rparr>) = no_session s"
  by (simp_all add: no_session_def)

lemma keeps_try_connect:
  fixes g :: "('b, 'z) app \<Rightarrow> 'v"
  assumes "ignores_io g" "ignores_session g" and "\<And>s st. g (s \<lparr> ap_state := st \<rparr>) = g s"
    and "\<And>s e. g (s \<lparr> ap_last_error := e \<rparr>) = g s" and "\<And>s. g (s \<lparr> ap_stop := True \<rparr>) = g s"
    and "\<And>s n e. g (s \<lparr> ap_connect_attempt := n, ap_last_error := e \<rparr>) = g s"
  shows "keeps g (try_connect E n now)"
proof (rule keepsI)
  fix s r t assume run: "try_connect E n now s = (r, t)"
  obtain x s1 where conn: "on_broker (br_connect (en_broker E) now) s = (x, s1)" by (metis surj_pair)
  have same: "g s1 = g s" by (rule keepsD [OF keeps_on_parts(1) [OF assms(2)] conn])
  have refused: "keeps g (connection_refused E e)" and failed: "keeps g (connection_failed E n e)"
    and made: "keeps g (connection_made E)" for e
    unfolding connection_refused_def connection_failed_def connection_made_def request_stop_def using assms
    by (auto intro!: keeps_sbind keeps_app_set_state keeps_events)
  show "g t = g s"
    using run conn same keepsD [OF refused] keepsD [OF failed] keepsD [OF made]
    by (auto simp: try_connect_def split: sum.splits if_splits)
qed

lemma keeps_connecting:
  fixes g :: "('b, 'z) app \<Rightarrow> 'v"
  assumes "ignores_io g" "ignores_session g" and "\<And>s st. g (s \<lparr> ap_state := st \<rparr>) = g s"
    and "\<And>s e. g (s \<lparr> ap_last_error := e \<rparr>) = g s" and "\<And>s. g (s \<lparr> ap_stop := True \<rparr>) = g s"
    and "\<And>s n e. g (s \<lparr> ap_connect_attempt := n, ap_last_error := e \<rparr>) = g s"
    and "\<And>s n. g (s \<lparr> ap_connect_attempt := n \<rparr>) = g s"
  shows "keeps g (connect_with_backoff E)"
  unfolding connect_with_backoff_def using assms
  by (auto intro!: keeps_sbind keeps_app_set_state keeps_try_connect)

section \<open>The tick\<close>

lemma disconnect_state:
  assumes "handle_disconnect E s = (r, t)"
  shows "ap_state t = App_Safe" and "ap_reconciliation t = empty_reconciliation" and "ap_account t = None"
    and "ap_contract t = None" and "no_session t = no_session s"
proof -
  obtain u s1 where 1: "app_set_state App_Safe s = (u, s1)" by (metis surj_pair)
  then obtain d where u: "u = Inr ()" and s1: "s1 = s \<lparr> ap_state := App_Safe, ap_db := d \<rparr>"
    by (rule app_set_state_result)
  let ?s2 = "s1 \<lparr> ap_reconciliation := empty_reconciliation, ap_account := None,
      ap_session := map_option (\<lambda>ss. ss \<lparr> ss_market := md_clear (ss_market ss) \<rparr>) (ap_session s1),
      ap_contract := None \<rparr>"
  have run: "record_broker E ''broker.disconnected'' ?s2 = (r, t)"
    using assms 1 u by (simp add: handle_disconnect_def sbind_def)
  from keepsD [OF keeps_events(2) run] show "ap_state t = App_Safe" and "ap_account t = None"
    and "ap_reconciliation t = empty_reconciliation" and "ap_contract t = None" and "no_session t = no_session s"
    using keepsD [OF keeps_events(2) [of no_session] run] keepsD [OF keeps_events(2) [of ap_contract] run]
      keepsD [OF keeps_events(2) [of ap_account] run] keepsD [OF keeps_events(2) [of ap_reconciliation] run]
      keepsD [OF keeps_events(2) [of ap_state] run]
    by (auto simp: s1 no_session_def)
qed

section \<open>Intents\<close>

lemma keeps_contexts [intro]:
  assumes "ignores_io g"
  shows "keeps g (build_risk_context E i c side n)" "keeps g (build_gate_context E b)"
  using assms unfolding build_risk_context_def build_gate_context_def
  by (auto intro!: frame_intros keeps_events)

lemma keeps_submit_order [intro]: "ignores_io g \<Longrightarrow> ignores_session g \<Longrightarrow> keeps g (submit_order E i c rx gx ty price)"
  unfolding submit_order_def by (auto intro!: frame_intros)

lemma keeps_trade_towards [intro]: "ignores_io g \<Longrightarrow> ignores_session g \<Longrightarrow> keeps g (trade_towards E ty price i c)"
  unfolding trade_towards_def by (auto intro!: keeps_sbind keeps_contexts split: prod.splits)

lemma keeps_correlation [intro]: "ignores_io g \<Longrightarrow> keeps g (correlation_of E i)"
  unfolding correlation_of_def by (auto split: option.splits)

lemma keeps_handle_intent:
  fixes g :: "('b, 'z) app \<Rightarrow> 'v"
  assumes "ignores_io g" "ignores_session g" and valid: "\<And>s v. g (s \<lparr> ap_validator := v \<rparr>) = g s"
  shows "keeps g (handle_intent E ty price i)"
proof (rule keepsI)
  fix s r t assume run: "handle_intent E ty price i s = (r, t)"
  have body: "keeps g (sbind (correlation_of E i) (\<lambda>cor.
          sbind (utc_now E) (\<lambda>now.
          (let (result, v') = validate_intent now i v in
           sbind (smodify (\<lambda>s. s \<lparr> ap_validator := Some v' \<rparr>)) (\<lambda>_.
           sbind (on_store (signal_record_op (signal_row_of E i cor result))) (\<lambda>_.
           if \<not> va_accepted result then sreturn None
           else sbind (sgets ap_contract) (\<lambda>contract.
             case contract of None \<Rightarrow> sreturn None | Some c \<Rightarrow> trade_towards E ty price i c)))))))" for v
    using assms by (auto intro!: frame_intros keeps_correlation keeps_trade_towards split: prod.splits option.splits)
  show "g t = g s"
  proof (cases "ap_validator s = None \<or> ap_session s = None")
    case True
    with run show ?thesis by (auto simp: handle_intent_def split: option.splits)
  next
    case False
    then obtain v ss where "ap_validator s = Some v" "ap_session s = Some ss" by auto
    with run show ?thesis unfolding handle_intent_def
      by (intro keepsD [OF body [of v]]) (simp only: option.case prod.case)
  qed
qed

lemma keeps_handle_intents:
  fixes g :: "('b, 'z) app \<Rightarrow> 'v"
  assumes "ignores_io g" "ignores_session g" and "\<And>s v. g (s \<lparr> ap_validator := v \<rparr>) = g s"
  shows "keeps g (handle_intents E is)"
  using keeps_handle_intent [OF assms] by (induction "is") (auto intro!: keeps_sbind)

lemma keeps_feed_strategy:
  fixes g :: "('b, 'z) app \<Rightarrow> 'v"
  assumes "ignores_io g" "ignores_session g" and "\<And>s v. g (s \<lparr> ap_validator := v \<rparr>) = g s"
    and "\<And>s z. g (s \<lparr> ap_strategy := z \<rparr>) = g s"
  shows "keeps g (feed_strategy E qs)"
proof -
  have "keeps g (ask_strategy q)" for q
    using assms(4) by (auto simp: keeps_def ask_strategy_def split: option.splits prod.splits)
  with keeps_handle_intents [OF assms(1-3)] show ?thesis
    by (induction qs) (auto intro!: keeps_sbind)
qed

lemma keeps_poll_quotes [intro]:
  fixes g :: "('b, 'z) app \<Rightarrow> 'v"
  assumes "ignores_io g" "ignores_session g"
  shows "keeps g (poll_quotes E)"
proof (rule keepsI)
  fix s r t assume run: "poll_quotes E s = (r, t)"
  have body: "keeps g (sbind (on_market (poll_all (en_broker E) clock)) (\<lambda>qs.
     sbind (smodify (\<lambda>t. t \<lparr> ap_reads := n \<rparr>)) (\<lambda>_. sreturn qs)))" for clock n
    using assms by (auto intro!: frame_intros) (simp add: ignores_io_def)
  from run show "g t = g s" unfolding poll_quotes_def by (rule keepsD [OF body])
qed

text \<open>The feed leaves the whole ground of READY alone.\<close>

lemma standing_update [simp]:
  "standing (s \<lparr> ap_validator := v \<rparr>) = standing s" "standing (s \<lparr> ap_strategy := z \<rparr>) = standing s"
  by (simp_all add: standing_def judgement_def)

lemma tick_ready:
  assumes run: "tick E s = (r, t)" and "ready_ok E s"
  shows "ready_ok E t" and "no_session t = no_session s"
proof -
  let ?P = "\<lambda>x. ready_ok E x \<and> no_session x = no_session s"
  have same: "?P y" if "standing y = standing x" "?P x" for x y
    using that standing_ready [OF that(1), of E] by (simp add: standing_def no_session_def)
  have feed: "preserves ?P (feed_strategy E qs)" and quotes: "preserves ?P (poll_quotes E)"
    and switch: "preserves ?P (kill_switch_engaged E)" for qs
    by (rule keeps_preserves [OF keeps_feed_strategy same] keeps_preserves [OF keeps_poll_quotes same]
        keeps_preserves [OF keeps_events(3) same]; simp)+
  have halt: "preserves ?P (app_set_state App_Halted)"
    by (auto simp: preserves_def ready_ok_def no_session_def elim!: app_set_state_result)
  have body: "preserves ?P (sbind (poll_quotes E) (\<lambda>qs. sbind (kill_switch_engaged E) (\<lambda>engaged.
      if engaged then app_set_state App_Halted else feed_strategy E qs)))"
    by (intro preserves_sbind quotes switch) (simp add: halt feed)
  have "?P t"
    using run assms(2) preservesD [OF body, of s r t] disconnect_state [of E s r t]
    by (auto simp: tick_def ready_ok_def split: option.splits if_splits)
  then show "ready_ok E t" and "no_session t = no_session s" by simp_all
qed

end
