(* ===== verification/Trading.thy ===== *)
theory Trading
  imports RuntimeFacts
begin

text \<open>
  From an intent to the broker: what the contexts of a submission are read from, and so what must
  hold of the running application when an intent moves the broker.
\<close>

section \<open>Frames of the trading path\<close>

definition broker_of :: "('b, 'z) app \<Rightarrow> 'b option" where
  "broker_of s = map_option ss_broker (ap_session s)"

definition latched :: "('b, 'z) app \<Rightarrow> bool" where
  "latched s = state.latch_set (ap_db s)"

text \<open>Everything the contexts are read from.\<close>

definition picture :: "('b, 'z) app \<Rightarrow> _" where
  "picture s = (ap_state s, judgement s, ap_session s, ap_strategy s, latched s)"

lemma picture_fields:
  "picture t = picture s \<longleftrightarrow> ap_state t = ap_state s \<and> judgement t = judgement s
     \<and> ap_session t = ap_session s \<and> ap_strategy t = ap_strategy s \<and> latched t = latched s"
  by (simp add: picture_def)

lemma picture_update [simp]:
  "picture (s \<lparr> ap_validator := v \<rparr>) = picture s" "picture (s \<lparr> ap_reads := n \<rparr>) = picture s"
  "picture (s \<lparr> ap_ids := n \<rparr>) = picture s"
  by (simp_all add: picture_def judgement_def latched_def)

lemma picture_on_store:
  assumes "keeps t_state m"
  shows "keeps picture (on_store m)"
  using assms unfolding keeps_def on_store_def picture_def judgement_def latched_def state.latch_set_def
  by (auto split: prod.splits)

lemma picture_clock [simp, intro]: "keeps picture (utc_now E)" "keeps picture (random_id E p)"
  by (simp_all add: keeps_def utc_now_def random_id_def)

lemma picture_kill_switch [simp, intro]: "keeps picture (kill_switch_engaged E)"
proof (rule keepsI)
  fix s r t assume "kill_switch_engaged E s = (r, t)"
  then obtain d where run: "ks_engaged (cfg_kill_switch (en_config E)) (Some get_state) (ap_db s) = (r, d)"
    and t: "t = s \<lparr> ap_db := d \<rparr>"
    by (auto simp: kill_switch_engaged_def on_store_def split: prod.splits)
  from state.engaged_frame [OF run] t show "picture t = picture s"
    by (simp add: picture_def judgement_def latched_def state.latch_set_def)
qed

lemma picture_correlation [simp, intro]: "keeps picture (correlation_of E i)"
  unfolding correlation_of_def by (auto split: option.splits)

lemma state_reads:
  "keeps t_state (performance_get d)" "keeps t_state open_order_count" "keeps t_state (orders_last_hour now)"
  "keeps t_state (signal_record_op sr)"
  unfolding open_order_count_def orders_last_hour_def
  by (auto intro!: keeps_sbind frame_simps)

section \<open>What the contexts hold\<close>

lemma picture_risk_context: "keeps picture (build_risk_context E i c side n)"
  unfolding build_risk_context_def by (auto intro!: keeps_sbind picture_on_store state_reads)

lemma picture_gate_context: "keeps picture (build_gate_context E b)"
  unfolding build_gate_context_def by (auto intro!: keeps_sbind)
lemma risk_context_holds:
  assumes run: "build_risk_context E i c side n s = (Inr rx, t)"
  shows "rx_order_side rx = side" "rx_order_quantity rx = n" "rx_contract rx = Some c"
    and "rx_current_position rx = book_quantity (ap_book s) (con_id c)"
    and "rx_app_state rx = ap_state s" "rx_connection_state rx = connection_state_of E s"
    and "rx_account_type rx = account_type_of E s" "rx_account_available rx = (ap_account s \<noteq> None)"
    and "rx_positions_reconciled rx = rr_positions_reconciled (ap_reconciliation s)"
    and "rx_open_orders_reconciled rx = rr_orders_reconciled (ap_reconciliation s)"
    and "\<not> rx_kill_switch_engaged rx \<Longrightarrow> \<not> latched s"
    and "picture t = picture s"
proof -
  note P = keepsD [OF picture_clock(1)] keepsD [OF picture_on_store [OF state_reads(1)]]
    keepsD [OF picture_on_store [OF state_reads(2)]] keepsD [OF picture_on_store [OF state_reads(3)]]
  have same: "picture t = picture s" by (rule keepsD [OF picture_risk_context run])
  from run obtain engaged s1 now pnl price n_open n_hour where
      before: "picture s1 = picture s" and switch: "kill_switch_engaged E s1 = (Inr engaged, t)"
    and rx: "rx = \<lparr> rx_intent = i, rx_order_side = side, rx_order_quantity = n,
         rx_current_position = book_quantity (ap_book t) (con_id c), rx_contract = Some c,
         rx_reference_price = price,
         rx_market_data_age_seconds =
           Option.bind (ap_session t) (\<lambda>ss. md_age_seconds (ss_market ss) (qualified_key c) now),
         rx_daily_pnl = pnl, rx_open_orders_count = n_open, rx_orders_last_hour = n_hour,
         rx_app_state = ap_state t, rx_connection_state = connection_state_of E t,
         rx_account_type = account_type_of E t, rx_account_available = (ap_account t \<noteq> None),
         rx_positions_reconciled = rr_positions_reconciled (ap_reconciliation t),
         rx_open_orders_reconciled = rr_orders_reconciled (ap_reconciliation t),
         rx_broker_permission_ready = broker_permission_ready E t,
         rx_strategy_enabled = (case ap_strategy t of None \<Rightarrow> False | Some g \<Rightarrow> sg_enabled g),
         rx_kill_switch_engaged = engaged, rx_duplicate_order_exists = False \<rparr>"
    unfolding build_risk_context_def
    by (auto elim!: sbind_InrE dest!: P)
  from same rx show "rx_order_side rx = side" "rx_order_quantity rx = n" "rx_contract rx = Some c"
    and "rx_current_position rx = book_quantity (ap_book s) (con_id c)"
    and "rx_app_state rx = ap_state s" "rx_connection_state rx = connection_state_of E s"
    and "rx_account_type rx = account_type_of E s" "rx_account_available rx = (ap_account s \<noteq> None)"
    and "rx_positions_reconciled rx = rr_positions_reconciled (ap_reconciliation s)"
    and "rx_open_orders_reconciled rx = rr_orders_reconciled (ap_reconciliation s)"
    by (simp_all add: picture_fields judgement_fields connection_state_of_def account_type_of_def)
  show "\<not> latched s" if "\<not> rx_kill_switch_engaged rx"
    using that rx switch before kill_switch_reading(2) [of E s1 t] by (auto simp: picture_fields latched_def)
  show "picture t = picture s" by (rule same)
qed

lemma gate_context_holds:
  assumes run: "build_gate_context E b s = (Inr gx, t)"
  shows "gx_app_state gx = ap_state s" "gx_connection_state gx = connection_state_of E s"
    and "gx_broker_account_type gx = account_type_of E s" "gx_risk_approved gx = b"
    and "\<exists>now. gx_market_data_age_seconds gx = Option.bind (ap_session s) (\<lambda>ss. Option.bind (ap_contract s)
        (\<lambda>c. md_age_seconds (ss_market ss) (qualified_key c) now))"
    and "gx_market_data_is_delayed gx = (case Option.bind (ap_session s) (\<lambda>ss. Option.bind (ap_contract s)
        (\<lambda>c. latest (ss_market ss) (qualified_key c))) of None \<Rightarrow> True | Some q \<Rightarrow> q_is_delayed q)"
    and "picture t = picture s"
  using run by (auto simp: build_gate_context_def utc_now_def connection_state_of_def account_type_of_def
      split: option.splits elim!: sbind_InrE)

section \<open>The submission\<close>

lemma submit_unmoved:
  assumes run: "submit_intent m q (d, b) = (r, (d', b'))" and "b' \<noteq> b"
  shows "risk_approves (mg_config m) (sq_risk_context q)
    \<and> gd_allowed (gate_evaluate (mg_config m) (sq_gate_context q))"
proof -
  obtain d1 stored where chk: "check_and_transmit m q stored (d1, b) = (r, (d', b'))"
    using assms
    by (auto simp: submit_intent_def sbind_def on_db_def order_error_text_def
        split: if_splits sum.splits prod.splits exn.splits option.splits)
  then show ?thesis
  proof (cases rule: check_cases)
    case (raised e d2)
    with assms(2) show ?thesis by simp
  next
    case (decided rd d2)
    from decided(3) show ?thesis
    proof (cases rule: gate_cases)
      case (send gd)
      with decided(1) show ?thesis by (simp add: risk_approves_def)
    qed (use assms(2) in \<open>auto dest: block_log\<close>)
  qed
qed

lemma submit_order_moves:
  assumes run: "submit_order E i c rx gx ty price s = (r, t)" and "broker_of t \<noteq> broker_of s"
  shows "risk_approves (en_config E) rx \<and> gd_allowed (gate_evaluate (en_config E) gx)"
proof -
  have "\<exists>q s1. sq_risk_context q = rx \<and> sq_gate_context q = gx \<and> broker_of s1 = broker_of s
      \<and> on_orders (submit_intent (the_manager E) q) s1 = (r, t)"
    using run by (intro exI conjI) (auto simp: submit_order_def utc_now_def random_id_def sbind_def broker_of_def)
  then obtain q s1 where q: "sq_risk_context q = rx" "sq_gate_context q = gx"
    and s1: "broker_of s1 = broker_of s" and orders: "on_orders (submit_intent (the_manager E) q) s1 = (r, t)"
    by blast
  have moved: "broker_of t \<noteq> broker_of s1" using s1 assms(2) by simp
  then obtain ss where ss: "ap_session s1 = Some ss"
    using orders by (cases "ap_session s1") (auto simp: on_orders_def)
  obtain x d b where sub: "submit_intent (the_manager E) q (ap_db s1, ss_broker ss) = (x, (d, b))"
    by (metis surj_pair)
  with orders ss moved have b: "b \<noteq> ss_broker ss" by (auto simp: on_orders_def broker_of_def)
  from submit_unmoved [OF sub b] q show ?thesis by (simp add: the_manager_def)
qed

text \<open>What holds of an application whose intent moves the broker.\<close>

definition may_trade :: "('b, 'z) runtime_env \<Rightarrow> intent \<Rightarrow> ('b, 'z) app \<Rightarrow> qualified_contract \<Rightarrow> bool" where
  "may_trade E i s c =
     (ap_contract s = Some c \<and> 0 < con_id c \<and> ap_state s = App_Ready \<and> connection_state_of E s = Connected
      \<and> expected_account_type (cfg_trading_mode (en_config E)) = Some (account_type_of E s)
      \<and> cfg_allow_order_transmit (en_config E) \<and> \<not> cfg_kill_switch (en_config E) \<and> \<not> latched s
      \<and> ap_account s \<noteq> None
      \<and> rr_positions_reconciled (ap_reconciliation s) \<and> rr_orders_reconciled (ap_reconciliation s)
      \<and> book_quantity (ap_book s) (con_id c) \<noteq> requested_position i
      \<and> \<bar>requested_position i\<bar> \<le> max_position_contracts (cfg_risk (en_config E)))"

text \<open>A real-time quote of the contract, inside the configured age.\<close>

definition fresh_quote :: "('b, 'z) runtime_env \<Rightarrow> ('b, 'z) app \<Rightarrow> qualified_contract \<Rightarrow> instant \<Rightarrow> bool" where
  "fresh_quote E s c now =
     (case Option.bind (ap_session s) (\<lambda>ss. latest (ss_market ss) (qualified_key c)) of
        None \<Rightarrow> False
      | Some q \<Rightarrow> \<not> q_is_delayed q \<and> fresh_enough (en_config E) (Some (quote_age q now)))"

lemma gate_allowed_fresh:
  assumes "gd_allowed (gate_evaluate c x)"
  shows "fresh_enough c (gx_market_data_age_seconds x)" and "\<not> gx_market_data_is_delayed x"
proof -
  have ok: "\<not> gate_fails r (c, x)" for r
    using assms gate.approves_iff_none_fails [of "(c, x)"] by (simp add: gate_allows_def)
  have "flt_less m a \<Longrightarrow> \<not> flt_leq m (Flt 0) \<Longrightarrow> flt_less (Flt 0) m" for m a
    by (cases m; cases a) auto
  with ok [of Market_Data_Unavailable] ok [of Market_Data_In_Future] ok [of Market_Data_Stale]
    ok [of Market_Data_Age_Not_Configured]
  show "fresh_enough c (gx_market_data_age_seconds x)"
    by (auto simp: fresh_enough_def split: option.splits)
  show "\<not> gx_market_data_is_delayed x" using ok [of Market_Data_Delayed] by simp
qed

lemma delta_target:
  assumes "delta_to_side_and_quantity current requested = (side, n)"
  shows "current + n * side_sign side = requested" and "n = 0 \<longleftrightarrow> current = requested"
  using assms by (auto simp: delta_to_side_and_quantity_def Let_def split: if_splits)

lemma trade_moves:
  assumes run: "trade_towards E ty price i c s = (r, t)" and moved: "broker_of t \<noteq> broker_of s"
    and contract: "ap_contract s = Some c"
  shows "may_trade E i s c"
    and "\<exists>now. fresh_quote E s c now"
proof -
  obtain side n where delta: "delta_to_side_and_quantity (book_quantity (ap_book s) (con_id c)) (requested_position i)
      = (side, n)" by (metis surj_pair)
  obtain x s1 where risk: "build_risk_context E i c side n s = (x, s1)" by (metis surj_pair)
  obtain y s2 where gate: "build_gate_context E True s1 = (y, s2)" by (metis surj_pair)
  have same: "picture s1 = picture s" "picture s2 = picture s"
    using keepsD [OF picture_risk_context risk] keepsD [OF picture_gate_context gate] by simp_all
  have n: "n \<noteq> 0" using run moved delta by (auto simp: trade_towards_def)
  obtain rx where rx: "x = Inr rx"
    using run moved delta n risk same by (cases x) (auto simp: trade_towards_def picture_fields broker_of_def)
  obtain gx where gx: "y = Inr gx"
    using run moved delta n risk rx gate same by (cases y) (auto simp: trade_towards_def picture_fields broker_of_def)
  obtain z where sub: "submit_order E i c rx gx ty price s2 = (z, t)"
    using run delta n risk rx gate gx by (auto simp: trade_towards_def sbind_def split: prod.splits sum.splits)
  have "broker_of t \<noteq> broker_of s2" using moved same by (simp add: picture_fields broker_of_def)
  from submit_order_moves [OF sub this]
  have approved: "risk_controls_hold (en_config E) rx" "within_limits (cfg_risk (en_config E)) rx"
      and allowed: "gd_allowed (gate_evaluate (en_config E) gx)"
    by (simp_all add: risk_approves_exact)
  note R = risk_context_holds [OF risk [unfolded rx]]
  have "projected_position rx = requested_position i"
    using delta_target(1) [OF delta] R by (simp add: projected_position_def)
  then show "may_trade E i s c"
    using approved R contract delta_target(2) [OF delta] n
    by (auto simp: may_trade_def risk_controls_hold_def within_limits_def)
  note G = gate_context_holds [OF gate [unfolded gx]] and fresh = gate_allowed_fresh [OF allowed]
  have "ap_session s1 = ap_session s" "ap_contract s1 = Some c"
    using same contract by (simp_all add: picture_fields judgement_fields)
  with G(5,6) fresh show "\<exists>now. fresh_quote E s c now"
    by (auto simp: fresh_quote_def md_age_seconds_def fresh_enough_def bind_eq_Some_conv split: option.splits)
qed

section \<open>The whole handler\<close>

text \<open>An intent moves the broker only after the validator accepted it and \<open>trade_towards\<close> did the rest.\<close>

lemma intent_moves:
  assumes run: "handle_intent E ty price i s = (r, t)" and moved: "broker_of t \<noteq> broker_of s"
  obtains c now v where "ap_validator s = Some v" and "va_accepted (fst (validate_intent now i v))"
    and "may_trade E i s c" and "\<exists>now. fresh_quote E s c now"
proof -
  have still: False if "picture t = picture s" using moved that by (simp add: picture_fields broker_of_def)
  obtain v ss where v: "ap_validator s = Some v" and ss: "ap_session s = Some ss"
    using run moved by (auto simp: handle_intent_def split: option.splits)
  obtain x s1 where cor: "correlation_of E i s = (x, s1)" by (metis surj_pair)
  have same1: "picture s1 = picture s" by (rule keepsD [OF picture_correlation cor])
  show ?thesis
  proof (cases x)
    case (Inl e)
    with run v ss cor same1 still show ?thesis by (auto simp: handle_intent_def)
  next
    case (Inr correlation)
    let ?now = "en_clock E (ap_reads s1)"
    obtain result v' where val: "validate_intent ?now i v = (result, v')" by (metis surj_pair)
    let ?s2 = "s1 \<lparr> ap_reads := Suc (ap_reads s1), ap_validator := Some v' \<rparr>"
    obtain y s3 where rec: "on_store (signal_record_op (signal_row_of E i correlation result)) ?s2 = (y, s3)"
      by (metis surj_pair)
    have same: "picture s3 = picture s"
      using keepsD [OF picture_on_store [OF state_reads(4)] rec] same1 by (simp add: picture_def judgement_def latched_def)
    have rest: "sbind (on_store (signal_record_op (signal_row_of E i correlation result))) (\<lambda>_.
           if \<not> va_accepted result then sreturn None
           else sbind (sgets ap_contract) (\<lambda>contract.
             case contract of None \<Rightarrow> sreturn None | Some c \<Rightarrow> trade_towards E ty price i c)) ?s2 = (r, t)"
      using run v ss cor Inr val by (simp add: handle_intent_def utc_now_def sbind_apply split del: if_split)
    have go: "\<exists>u. y = Inr u" using rest rec same still by (cases y) auto
    have acc: "va_accepted result"
      using rest rec go same still by (cases "va_accepted result") auto
    obtain c where c: "ap_contract s3 = Some c"
      using rest rec go acc same still by (cases "ap_contract s3") auto
    have trade: "trade_towards E ty price i c s3 = (r, t)" using rest rec go acc c by auto
    have eq: "broker_of s3 = broker_of s" "ap_contract s3 = ap_contract s" "may_trade E i s3 c = may_trade E i s c"
      "fresh_quote E s3 c = fresh_quote E s c"
      using same by (auto simp: picture_fields judgement_fields broker_of_def may_trade_def fresh_quote_def
          connection_state_of_def account_type_of_def)
    with trade_moves [OF trade _ c] moved have "may_trade E i s c" "\<exists>now. fresh_quote E s c now" by simp_all
    with v acc val show ?thesis by (intro that [of v ?now c]) simp_all
  qed
qed

section \<open>A running application on the simulated broker\<close>

definition mock_config :: config where
  "mock_config = limits_config \<lparr> cfg_trading_mode := Mode_Mock, default_contract_month := Some ''202609'',
       cfg_risk := (cfg_risk limits_config) \<lparr> max_position_contracts := 1 \<rparr> \<rparr>"

definition mock_env :: "mock broker \<Rightarrow> (mock, unit) runtime_env" where
  "mock_env B =
     \<lparr> en_config = mock_config, en_run_id = ''run_1'', en_admin = False, en_broker = B,
       en_open_broker = (\<lambda>choice. default_mock), en_build_strategy = build_strategy,
       en_clock = (\<lambda>n. Micros 0), en_loop_time = (\<lambda>n. Flt (rat_of_nat n)),
       en_random_id = (\<lambda>n. replicate n CHR ''0''), en_digest = (\<lambda>s. s),
       en_text = (\<lambda>e. ''error''), en_iso = (\<lambda>t. ''now''), en_health_start = Inr () \<rparr>"

definition sample_env :: "(mock, unit) runtime_env" where
  "sample_env = mock_env (mock_broker sample_sources)"

definition long_intent :: "string \<Rightarrow> intent" where
  "long_intent i = sample_intent \<lparr> in_direction := Long, requested_position := 1, intent_id := i \<rparr>"

text \<open>
  The application after it connected to a simulated account without positions, reconciled, resolved
  the contract and received one quote.
\<close>

definition ready_session :: "mock session" where
  "ready_session =
     \<lparr> ss_broker = connected_mock, ss_cache = Map.empty,
       ss_market = fst (snd (record_tick sample_contract (sample_tick (Micros 0) (Some (dec_of_int 100)))
         (make_market_data (Flt 5), connected_mock))) \<rparr>"

definition ready_app :: "(mock, unit) app" where
  "ready_app = (make_app (empty_db \<lparr> db_open := True \<rparr>))
     \<lparr> ap_state := App_Ready, ap_session := Some ready_session,
       ap_strategy := Some (make_strategy ''noop'' noop_on_quote () True),
       ap_validator := Some (make_validator ''MSL'' [''noop''] default_max_signal_age_seconds),
       ap_reconciliation := reconcile (Micros 0) [] [] [] [] [] True,
       ap_account := Some
         \<lparr> as_account_id = ''DUMOCK0001'', as_account_type = Acct_Simulated, as_currency = ''USD'',
           net_liquidation = None, available_funds = None, buying_power = None,
           excess_liquidity = None, maintenance_margin = None, as_realized_pnl = None,
           as_unrealized_pnl = None, futures_permission = Some True \<rparr>,
       ap_contract := Some sample_contract \<rparr>"

text \<open>What the simulated account executed.\<close>

definition executed :: "(mock, 'z) app \<Rightarrow> int list option" where
  "executed s = map_option (\<lambda>b. map fill_delta (mk_fills b)) (broker_of s)"

section \<open>The latched kill switch\<close>

text \<open>The database, as far as the kill switch and the orders are concerned.\<close>

definition untouched :: "('b, 'z) app \<Rightarrow> _" where
  "untouched s = (t_orders (ap_db s), ap_strategy s, ap_validator s, latched s)"

lemma untouched_fields:
  "untouched t = untouched s \<longleftrightarrow> t_orders (ap_db t) = t_orders (ap_db s) \<and> ap_strategy t = ap_strategy s
     \<and> ap_validator t = ap_validator s \<and> latched t = latched s"
  by (simp add: untouched_def)

lemma untouched_update [simp]:
  "untouched (s \<lparr> ap_session := x \<rparr>) = untouched s" "untouched (s \<lparr> ap_reads := n \<rparr>) = untouched s"
  "untouched (s \<lparr> ap_state := st \<rparr>) = untouched s"
  "untouched (s \<lparr> ap_reconciliation := rr, ap_account := a, ap_session := x, ap_contract := c \<rparr>) = untouched s"
  by (simp_all add: untouched_def latched_def)

lemma untouched_on_store:
  assumes "keeps t_orders m" and "keeps (\<lambda>d. map_of (t_state d) kill_switch_state_key) m"
  shows "keeps untouched (on_store m)"
  using assms unfolding keeps_def on_store_def untouched_def latched_def state.latch_set_def
  by (auto split: prod.splits)

lemma untouched_kill_switch: "keeps untouched (kill_switch_engaged E)"
proof -
  let ?m = "ks_engaged (cfg_kill_switch (en_config E)) (Some get_state)"
  have "keeps t_orders (get_state k)" for k by (rule keeps_reads(13)) simp
  then have "keeps t_orders ?m"
    unfolding keeps_def ks_engaged_def ks_latched_def sbind_def by (auto split: prod.splits sum.splits if_splits)
  moreover have "keeps (\<lambda>d. map_of (t_state d) kill_switch_state_key) ?m"
    using state.engaged_frame by (fastforce simp: keeps_def)
  ultimately show ?thesis unfolding kill_switch_engaged_def by (rule untouched_on_store)
qed

lemma untouched_set_application_state: "keeps untouched (app_set_state st)"
proof -
  let ?m = "\<lambda>v. set_state ''last_application_state'' v"
  have other: "''last_application_state'' \<noteq> kill_switch_state_key" by (simp add: kill_switch_state_key_def)
  have "keeps (\<lambda>d. map_of (t_state d) kill_switch_state_key) (?m v)" for v
  proof (rule keepsI)
    fix s r t assume run: "set_state ''last_application_state'' v s = (r, t)"
    show "map_of (t_state t) kill_switch_state_key = map_of (t_state s) kill_switch_state_key"
      using state.set_value [of "''last_application_state''" v s] state.set_frame [of "''last_application_state''" v s] run
        other by (cases r) (auto simp: fun_eq_iff)
  qed
  moreover have "keeps t_orders (?m v)" for v by (rule frame_simps)
  ultimately have "keeps untouched (on_store (?m v))" for v by (intro untouched_on_store)
  then have stored: "keeps untouched (ssuppress (on_store (?m v)))" for v by blast
  show ?thesis
  proof (rule keepsI)
    fix s r t assume run: "app_set_state st s = (r, t)"
    show "untouched t = untouched s"
    proof (cases "st = ap_state s")
      case True
      with run show ?thesis by (simp add: app_set_state_def)
    next
      case False
      with run have "ssuppress (on_store (?m (application_state_value st))) (s \<lparr> ap_state := st \<rparr>) = (r, t)"
        by (simp add: app_set_state_def)
      from keepsD [OF stored this] show ?thesis by simp
    qed
  qed
qed

lemma untouched_poll: "keeps untouched (poll_quotes E)"
proof (rule keepsI)
  fix s r t assume run: "poll_quotes E s = (r, t)"
  have market: "keeps untouched (on_market m)" for m :: "('c market_data \<times> 'c, 'd) action"
    unfolding on_market_def keeps_def on_session_def by (auto split: option.splits prod.splits)
  have body: "keeps untouched (sbind (on_market (poll_all (en_broker E) clock)) (\<lambda>qs.
     sbind (smodify (\<lambda>t. t \<lparr> ap_reads := n \<rparr>)) (\<lambda>_. sreturn qs)))" for clock n
    using market by (intro keeps_sbind) auto
  from run show "untouched t = untouched s" unfolding poll_quotes_def by (rule keepsD [OF body])
qed

lemma untouched_disconnect: "keeps untouched (handle_disconnect E)"
proof -
  have "keeps t_orders (record_broker_event e)" "keeps (\<lambda>d. map_of (t_state d) kill_switch_state_key) (record_broker_event e)" for e
    using keeps_orders(6) keeps_state(7) by (auto simp: keeps_def)
  then have "keeps untouched (on_store (record_broker_event e))" for e by (intro untouched_on_store)
  then have "keeps untouched (record_broker E e)" for e
    unfolding record_broker_def by (intro keeps_ssuppress keeps_sbind) (auto simp: keeps_def utc_now_def)
  then show ?thesis unfolding handle_disconnect_def
    by (intro keeps_sbind untouched_set_application_state keeps_smodify) (simp add: untouched_def latched_def)
qed

lemma latched_engages: "latched s \<Longrightarrow> kill_switch_engaged E s = (x, t) \<Longrightarrow> x = Inr True"
  using kill_switch_returns [of E s] kill_switch_reading(2) [of E s t]
  by (auto simp: latched_def)

lemma latched_tick:
  assumes run: "tick E s = (r, t)" and latch: "latched s"
  shows "untouched t = untouched s" and "\<And>qs u ss. r = Inr () \<Longrightarrow> ap_session s = Some ss
      \<Longrightarrow> br_is_connected (en_broker E) (ss_broker ss) \<Longrightarrow> ap_strategy s \<noteq> None \<Longrightarrow> ap_contract s \<noteq> None
      \<Longrightarrow> ap_state t = App_Halted"
proof -
  let ?body = "sbind (poll_quotes E) (\<lambda>qs. sbind (kill_switch_engaged E) (\<lambda>engaged.
      if engaged then app_set_state App_Halted else feed_strategy E qs))"
  have body: "untouched t = untouched s \<and> (r = Inr () \<longrightarrow> ap_state t = App_Halted)" if "?body s = (r, t)"
  proof -
    obtain x s1 where poll: "poll_quotes E s = (x, s1)" by (metis surj_pair)
    have s1: "untouched s1 = untouched s" by (rule keepsD [OF untouched_poll poll])
    show ?thesis
    proof (cases x)
      case (Inl e)
      with that poll s1 show ?thesis by auto
    next
      case (Inr qs)
      obtain y s2 where read: "kill_switch_engaged E s1 = (y, s2)" by (metis surj_pair)
      have "latched s1" using s1 latch by (simp add: untouched_fields)
      then have y: "y = Inr True" by (rule latched_engages [OF _ read])
      have s2: "untouched s2 = untouched s1" by (rule keepsD [OF untouched_kill_switch read])
      have set: "app_set_state App_Halted s2 = (r, t)" using that poll Inr read y by simp
      from keepsD [OF untouched_set_application_state set] s1 s2 app_set_state_sets [OF set] show ?thesis by simp
    qed
  qed
  show "untouched t = untouched s"
    using run body keepsD [OF untouched_disconnect]
    by (auto simp: tick_def split: option.splits if_splits)
  show "ap_state t = App_Halted" if "r = Inr ()" "ap_session s = Some ss"
    "br_is_connected (en_broker E) (ss_broker ss)" "ap_strategy s \<noteq> None" "ap_contract s \<noteq> None" for qs u ss
    using run body that by (auto simp: tick_def)
qed

section \<open>Properties\<close>

lemma ready_app_trades:
  "executed ready_app = Some [] \<and> executed (snd (handle_intent sample_env Market None (long_intent ''a'') ready_app)) = Some [1]"
proof -
  have "let s = ready_app in executed s = Some []
      \<and> executed (snd (handle_intent sample_env Market None (long_intent ''a'') s)) = Some [1]"
    by code_simp
  then show ?thesis by (simp only: Let_def)
qed




definition engaged_app :: "(mock, unit) app" where
  "engaged_app = snd (on_store (ks_engage (Some set_state) ''stop'' ''now'') ready_app)"

lemma engaged_app_facts:
  "map_of (t_state (ap_db engaged_app)) kill_switch_state_key = Some ''true''"
  "(case ap_session engaged_app of None \<Rightarrow> False | Some ss \<Rightarrow> br_is_connected (en_broker sample_env) (ss_broker ss))"
  "ap_strategy engaged_app \<noteq> None" "ap_contract engaged_app \<noteq> None"
  "fst (tick sample_env engaged_app) = Inr ()"
proof -
  have "let s = engaged_app in map_of (t_state (ap_db s)) kill_switch_state_key = Some ''true''
    \<and> (case ap_session s of None \<Rightarrow> False | Some ss \<Rightarrow> br_is_connected (en_broker sample_env) (ss_broker ss))
    \<and> ap_strategy s \<noteq> None \<and> ap_contract s \<noteq> None \<and> fst (tick sample_env s) = Inr ()"
    by code_simp
  then show "map_of (t_state (ap_db engaged_app)) kill_switch_state_key = Some ''true''"
    "(case ap_session engaged_app of None \<Rightarrow> False | Some ss \<Rightarrow> br_is_connected (en_broker sample_env) (ss_broker ss))"
    "ap_strategy engaged_app \<noteq> None" "ap_contract engaged_app \<noteq> None" "fst (tick sample_env engaged_app) = Inr ()"
    unfolding Let_def by blast+
qed



end
