(* ===== verification/Lifecycle.thy ===== *)
theory Lifecycle
  imports RuntimeFacts
begin

text \<open>
  The life of the process: its turns, its death, and everything that happens to it from outside.
  What holds in every reachable state, and how a run ends.
\<close>

section \<open>Steps\<close>

text \<open>
  \<open>loop_once\<close> is one turn of the main loop and \<open>fatal\<close> follows a turn that raised. Between two
  turns the broker may move in any way, another process may change the database in any way, and a
  signal may ask for the stop.
\<close>

inductive app_step :: "('b, 'z) runtime_env \<Rightarrow> ('b, 'z) app \<Rightarrow> ('b, 'z) app \<Rightarrow> bool"
  for E :: "('b, 'z) runtime_env" where
  turn: "loop_once E s = (Inr u, t) \<Longrightarrow> app_step E s t"
| dies: "loop_once E s = (Inl e, s1) \<Longrightarrow> fatal E e s1 = (r, t) \<Longrightarrow> app_step E s t"
| broker_moves: "ap_session s = Some ss \<Longrightarrow> app_step E s (s \<lparr> ap_session := Some (ss \<lparr> ss_broker := b \<rparr>) \<rparr>)"
| database_changes: "app_step E s (s \<lparr> ap_db := d \<rparr>)"
| signalled: "request_stop s = (r, t) \<Longrightarrow> app_step E s t"

inductive reachable :: "('b, 'z) runtime_env \<Rightarrow> ('b, 'z) app \<Rightarrow> bool" for E :: "('b, 'z) runtime_env" where
  starts: "startup E (make_app d) = (Inr u, s) \<Longrightarrow> reachable E s"
| steps: "reachable E s \<Longrightarrow> app_step E s t \<Longrightarrow> reachable E t"

inductive_cases turnE: "app_step E s t"

section \<open>Startup\<close>

definition early :: "('b, 'z) runtime_env \<Rightarrow> ('b, 'z) app \<Rightarrow> bool" where
  "early E s = (ap_state s \<in> {App_Starting, App_Safe}
     \<and> (cfg_trading_mode (en_config E) = Mode_Disabled \<longrightarrow> ap_session s = None))"

lemma early_kept: "keeps (\<lambda>s. (ap_state s, ap_session s)) m \<Longrightarrow> preserves (early E) m"
  by (auto simp: preserves_def keeps_def early_def)

lemma early_parts:
  "preserves (early E) (on_store m)" "preserves (early E) (record_event E e l)"
  "preserves (early E) (kill_switch_engaged E)"
  by (rule early_kept, rule keeps_on_store keeps_events, simp add: ignores_io_def)+

lemma early_set: "st \<in> {App_Starting, App_Safe} \<Longrightarrow> preserves (early E) (app_set_state st)"
  by (auto simp: preserves_def early_def elim!: app_set_state_result)

lemma startup_early: "preserves (early E) (startup E)"
proof -
  have opens: "preserves (early E)
      (if cfg_trading_mode (en_config E) = Mode_Disabled then app_set_state App_Safe else open_session E)"
    unfolding open_session_def by (auto intro!: preserves_sbind preserves_smodify early_set simp: early_def)
  have health: "preserves (early E) (if en_admin E then sreturn ()
      else sbind (slift (en_health_start E)) (\<lambda>_. smodify (\<lambda>s. s \<lparr> ap_health_running := True \<rparr>)))"
    by (auto intro!: preserves_sbind preserves_smodify simp: early_def)
  have fields: "preserves (early E) (smodify f)" if "\<And>s. ap_state (f s) = ap_state s" "\<And>s. ap_session (f s) = ap_session s" for f
    using that by (auto intro!: preserves_smodify simp: early_def)
  show ?thesis
    unfolding startup_def
    by (intro preserves_sbind early_set early_parts opens health preserves_pure fields) simp_all
qed

lemma startup_state:
  assumes "startup E (make_app d) = (r, s)"
  shows "ap_state s \<in> {App_Starting, App_Safe}"
    and "cfg_trading_mode (en_config E) = Mode_Disabled \<Longrightarrow> ap_session s = None"
  using preservesD [OF startup_early assms] by (simp_all add: early_def make_app_def)

section \<open>Reachable states\<close>

lemma ready_update [simp]:
  "ready_ok E (s \<lparr> ap_db := d \<rparr>) = ready_ok E s" "ready_ok E (s \<lparr> ap_stop := b \<rparr>) = ready_ok E s"
  "ready_ok E (s \<lparr> ap_last_error := e \<rparr>) = ready_ok E s"
  by (simp_all add: ready_ok_def ready_ground_def)

lemma keeps_settle:
  assumes "ignores_io g" and "\<And>s st. g (s \<lparr> ap_state := st \<rparr>) = g s" and "keeps g before"
  shows "keeps g (settle E before)"
  unfolding settle_def using assms by (auto intro!: keeps_sbind keeps_app_set_state)

lemma keeps_reconciliation:
  "keeps no_session (after_connect E)" "keeps no_session (reconcile_on_timer E)"
  unfolding after_connect_def reconcile_on_timer_def
  by (auto intro!: keeps_sbind keeps_run_reconcile keeps_settle keeps_resolve_contract)

lemma keeps_maybe_reconcile: "keeps no_session (maybe_reconcile E)"
proof (rule keepsI)
  fix s r t assume run: "maybe_reconcile E s = (r, t)"
  have same: "no_session (s \<lparr> ap_loop_reads := n \<rparr>) = no_session s"
    "no_session (s \<lparr> ap_loop_reads := n, ap_next_reconcile_at := x \<rparr>) = no_session s" for n x
    by (simp_all add: no_session_def)
  from run show "no_session t = no_session s"
    by (auto simp: maybe_reconcile_def Let_def same dest: keepsD [OF keeps_reconciliation(2)]
        split: if_splits option.splits)
qed

lemma loop_ready:
  assumes run: "loop_once E s = (r, t)" and ok: "ready_ok E s"
  shows "ready_ok E t \<and> no_session t = no_session s"
proof (cases "cfg_trading_mode (en_config E) = Mode_Disabled \<or> ap_session s = None")
  case True
  with run ok show ?thesis by (auto simp: loop_once_def split: option.splits if_splits)
next
  case False
  then obtain ss where mode: "cfg_trading_mode (en_config E) \<noteq> Mode_Disabled" and ss: "ap_session s = Some ss" by auto
  let ?P = "\<lambda>s. ready_ok E s \<and> \<not> no_session s"
  have start: "?P s" using ok ss by (simp add: no_session_def)
  have timer: "preserves ?P (maybe_reconcile E)" and tock: "preserves ?P (tick E)"
    using maybe_reconcile_ready keepsD [OF keeps_maybe_reconcile] tick_ready
    by (fastforce simp: preserves_def no_session_def)+
  have connect: "preserves ?P (connect_with_backoff E)"
    using connect_not_ready not_ready_ok keepsD [OF keeps_connecting [of no_session]]
    by (fastforce simp: preserves_def)
  have agree: "preserves ?P (after_connect E)"
    using after_connect_ready keepsD [OF keeps_reconciliation(1)] by (fastforce simp: preserves_def no_session_def)
  have turn: "preserves ?P (sbind (if br_is_connected (en_broker E) (ss_broker ss) then sreturn True
                      else sbind (connect_with_backoff E) (\<lambda>connected.
                           if connected then sbind (after_connect E) (\<lambda>_. sreturn True) else sreturn False))
                 (\<lambda>go. if go then sbind (maybe_reconcile E) (\<lambda>_. tick E) else sreturn ()))"
    using timer tock connect agree by (auto intro!: preserves_sbind)
  from run mode ss have "?P t" by (intro preservesD [OF turn _ start]) (simp add: loop_once_def)
  with ss show ?thesis by (simp add: no_session_def)
qed

lemma fatal_state:
  assumes "fatal E e s = (r, t)"
  shows "ap_state t = App_Error" and "r = Inr 1" and "no_session t = no_session s"
proof -
  obtain x s1 where 1: "app_set_state App_Error (s \<lparr> ap_last_error := Some (en_text E e) \<rparr>) = (x, s1)"
    by (metis surj_pair)
  then obtain d where x: "x = Inr ()" and s1: "s1 = s \<lparr> ap_last_error := Some (en_text E e), ap_state := App_Error, ap_db := d \<rparr>"
    by (rule app_set_state_result) simp
  obtain y s2 where ev: "record_event E ''app.fatal'' ''ERROR'' s1 = (y, s2)" by (metis surj_pair)
  have y: "y = Inr ()" using ev by (simp add: record_event_def)
  have "t = s2" and r: "r = Inr 1" using assms 1 x ev y by (simp_all add: fatal_def)
  with keepsD [OF keeps_events(1) [of ap_state] ev] keepsD [OF keeps_events(1) [of no_session] ev] s1
  show "ap_state t = App_Error" and "no_session t = no_session s" by (simp_all add: no_session_def)
  show "r = Inr 1" by (rule r)
qed

lemma step_keeps:
  assumes "app_step E s t" and "ready_ok E s"
  shows "ready_ok E t \<and> no_session t = no_session s"
  using assms
proof (cases rule: app_step.cases)
  case (turn u)
  with assms(2) show ?thesis by (intro loop_ready)
next
  case (dies e s1 r)
  with fatal_state [OF dies(2)] loop_ready [OF dies(1) assms(2)] show ?thesis by (simp add: not_ready_ok)
next
  case (broker_moves ss b)
  with assms(2) show ?thesis by (auto simp: ready_ok_def ready_ground_def no_session_def)
next
  case (database_changes d)
  with assms(2) show ?thesis by (simp add: no_session_def)
next
  case (signalled r)
  with assms(2) show ?thesis by (auto simp: request_stop_def)
qed

lemma reachable_ok:
  "reachable E s \<Longrightarrow> ready_ok E s \<and> (cfg_trading_mode (en_config E) = Mode_Disabled \<longrightarrow> no_session s)"
proof (induction rule: reachable.induct)
  case (starts d u s)
  from startup_state [OF starts] show ?case by (auto simp: no_session_def intro: not_ready_ok)
next
  case (steps s t)
  with step_keeps show ?case by blast
qed

section \<open>Attempts to connect\<close>

text \<open>A turn of a session whose broker refuses every attempt.\<close>

definition cannot_connect :: "('b, 'z) runtime_env \<Rightarrow> (exn \<Rightarrow> bool) \<Rightarrow> bool" where
  "cannot_connect E kind =
     (\<forall>b now. \<not> br_is_connected (en_broker E) b
        \<and> (\<exists>e b'. br_connect (en_broker E) now b = (Inl e, b') \<and> kind e))"

lemma session_attempts_ignored:
  "ignores_io (\<lambda>s. (ap_session s, ap_stop s, ap_connect_attempt s))"
  "ignores_session (\<lambda>s. (ap_session s = None, ap_stop s, ap_connect_attempt s))"
  by (simp_all add: ignores_io_def ignores_session_def)

text \<open>One more attempt: the counter moves, and the handler of the failure has the last word.\<close>

lemma refused_turn:
  assumes no: "cannot_connect E kind" and mode: "cfg_trading_mode (en_config E) \<noteq> Mode_Disabled"
    and ss: "ap_session s = Some ss" and run: "loop_once E s = (r, t)"
  obtains e u x v where "kind e" and "ap_connect_attempt u = ap_connect_attempt s + 1"
    and "ap_stop u = ap_stop s" and "ap_session u \<noteq> None"
    and "(if e = BrokerPermissionError then connection_refused E e u
          else if is_broker_error e then connection_failed E (ap_connect_attempt s + 1) e u
          else (Inl e, u)) = (x, v)"
    and "r = (case x of Inl f \<Rightarrow> Inl f | Inr c \<Rightarrow> Inr ())" and "t = v"
proof -
  obtain y s1 where 1: "app_set_state App_Connecting s = (y, s1)" by (metis surj_pair)
  then obtain d where y: "y = Inr ()" and s1: "s1 = s \<lparr> ap_state := App_Connecting, ap_db := d \<rparr>"
    by (rule app_set_state_result)
  let ?now = "en_clock E (ap_reads s)"
  let ?s2 = "s1 \<lparr> ap_connect_attempt := ap_connect_attempt s + 1, ap_reads := Suc (ap_reads s) \<rparr>"
  obtain e b where e: "br_connect (en_broker E) ?now (ss_broker ss) = (Inl e, b)" "kind e"
    using no unfolding cannot_connect_def by blast
  let ?u = "?s2 \<lparr> ap_session := Some (ss \<lparr> ss_broker := b \<rparr>) \<rparr>"
  let ?handler = "if e = BrokerPermissionError then connection_refused E e ?u
          else if is_broker_error e then connection_failed E (ap_connect_attempt s + 1) e ?u
          else (Inl e, ?u)"
  obtain x v where x: "?handler = (x, v)" by (metis surj_pair)
  have conn: "connect_with_backoff E s = (x, v)"
    using 1 y s1 ss e(1) x
    by (simp add: connect_with_backoff_def utc_now_def try_connect_def on_broker_def on_session_def sbind_apply
        cong: if_cong split del: if_split)
  have "x \<noteq> Inr True"
    using x by (auto simp: connection_refused_def connection_failed_def request_stop_def sbind_def
        split: if_splits sum.splits prod.splits)
  moreover have "\<not> br_is_connected (en_broker E) (ss_broker ss)" using no by (simp add: cannot_connect_def)
  then have "loop_once E s = (case x of Inl f \<Rightarrow> (Inl f, v) | Inr c \<Rightarrow> (Inr (), v))"
    using mode ss conn \<open>x \<noteq> Inr True\<close> by (cases x) (simp_all add: loop_once_def)
  ultimately show thesis
    using run by (intro that [OF e(2) _ _ _ x]) (auto simp: s1 split: sum.splits)
qed

lemma permission_handler:
  assumes "connection_refused E e u = (x, v)"
  shows "x = Inr False" and "ap_stop v = ap_stop u" and "ap_connect_attempt v = ap_connect_attempt u"
    and "(ap_session v = None) = (ap_session u = None)" and "ap_state v = App_Safe"
proof -
  obtain y s1 where 1: "app_set_state App_Safe (u \<lparr> ap_last_error := Some (en_text E e) \<rparr>) = (y, s1)"
    by (metis surj_pair)
  then obtain d where y: "y = Inr ()" and s1: "s1 = u \<lparr> ap_last_error := Some (en_text E e), ap_state := App_Safe, ap_db := d \<rparr>"
    by (rule app_set_state_result) simp
  obtain z s2 where ev: "record_broker E ''broker.permission_denied'' s1 = (z, s2)" by (metis surj_pair)
  then have z: "z = Inr ()" by (simp add: record_broker_def)
  have v: "v = s2" and "x = Inr False" using assms 1 y ev z by (simp_all add: connection_refused_def)
  then show "x = Inr False" by simp
  show "ap_stop v = ap_stop u" "ap_connect_attempt v = ap_connect_attempt u"
    "(ap_session v = None) = (ap_session u = None)" "ap_state v = App_Safe"
    using keepsD [OF keeps_events(2) [of ap_stop] ev] keepsD [OF keeps_events(2) [of ap_connect_attempt] ev]
      keepsD [OF keeps_events(2) [of ap_session] ev] keepsD [OF keeps_events(2) [of ap_state] ev] v s1
    by simp_all
qed

lemma failure_handler:
  assumes "connection_failed E n e u = (x, v)" and "0 < max_attempts (cfg_reconnect (en_config E))"
  shows "(\<exists>f. x = Inl f) \<or> x = Inr False \<and> ap_connect_attempt v = ap_connect_attempt u
      \<and> (ap_session v = None) = (ap_session u = None)
      \<and> ap_stop v = (max_attempts (cfg_reconnect (en_config E)) \<le> n \<or> ap_stop u)"
proof (cases "delay_for_attempt (cfg_reconnect (en_config E)) n")
  case (Inl f)
  obtain y s1 where 1: "app_set_state App_Disconnected (u \<lparr> ap_last_error := Some (en_text E e) \<rparr>) = (y, s1)"
    by (metis surj_pair)
  then have "y = Inr ()" by (auto dest: app_set_state_sets)
  with assms(1) 1 Inl show ?thesis by (auto simp: connection_failed_def sbind_def)
next
  case (Inr delay)
  obtain y s1 where 1: "app_set_state App_Disconnected (u \<lparr> ap_last_error := Some (en_text E e) \<rparr>) = (y, s1)"
    by (metis surj_pair)
  then obtain d where y: "y = Inr ()" and s1: "s1 = u \<lparr> ap_last_error := Some (en_text E e), ap_state := App_Disconnected, ap_db := d \<rparr>"
    by (rule app_set_state_result) simp
  obtain z s2 where ev: "record_broker E ''broker.connect_failed'' s1 = (z, s2)" by (metis surj_pair)
  then have z: "z = Inr ()" by (simp add: record_broker_def)
  have "(x, v) = (Inr False, if max_attempts (cfg_reconnect (en_config E)) \<le> n then s2 \<lparr> ap_stop := True \<rparr> else s2)"
    using assms 1 y ev z Inr by (auto simp: connection_failed_def request_stop_def)
  then show ?thesis
    using keepsD [OF keeps_events(2) [of ap_stop] ev] keepsD [OF keeps_events(2) [of ap_connect_attempt] ev]
      keepsD [OF keeps_events(2) [of ap_session] ev] s1
    by auto
qed

text \<open>What the outside may do between two turns in the theorems about attempts.\<close>

definition patient_world :: "(nat \<Rightarrow> ('b, 'z) app \<Rightarrow> ('b, 'z) app) \<Rightarrow> bool" where
  "patient_world world =
     (\<forall>k s. ap_connect_attempt (world k s) = ap_connect_attempt s \<and> ap_stop (world k s) = ap_stop s
        \<and> (ap_session (world k s) = None \<longleftrightarrow> ap_session s = None))"

lemma failing_run_ends:
  assumes no: "cannot_connect E (\<lambda>e. e \<noteq> BrokerPermissionError)"
    and mode: "cfg_trading_mode (en_config E) \<noteq> Mode_Disabled"
    and max: "0 < max_attempts (cfg_reconnect (en_config E))" and world: "patient_world world"
  shows "ap_session s \<noteq> None \<Longrightarrow>
    ap_stop s \<or> 0 < n \<and> max_attempts (cfg_reconnect (en_config E)) \<le> ap_connect_attempt s + int n \<Longrightarrow>
    \<exists>k t. run_loop E world n s = (Inr (Some k), t) \<and> k \<in> {0, 1}"
proof (induction n arbitrary: s)
  case 0
  then show ?case by simp
next
  case (Suc n)
  show ?case
  proof (cases "ap_stop s")
    case True
    then show ?thesis by simp
  next
    case False
    obtain ss where ss: "ap_session s = Some ss" using Suc.prems(1) by blast
    obtain r t where run: "loop_once E s = (r, t)" by (metis surj_pair)
    obtain e u x v where e: "e \<noteq> BrokerPermissionError"
      and u: "ap_connect_attempt u = ap_connect_attempt s + 1" "ap_stop u = ap_stop s" "ap_session u \<noteq> None"
      and h: "(if e = BrokerPermissionError then connection_refused E e u
          else if is_broker_error e then connection_failed E (ap_connect_attempt s + 1) e u
          else (Inl e, u)) = (x, v)"
      and r: "r = (case x of Inl f \<Rightarrow> Inl f | Inr c \<Rightarrow> Inr ())" and t: "t = v"
      by (rule refused_turn [OF no mode ss run])
    have "(\<exists>f. x = Inl f) \<or> x = Inr False \<and> ap_connect_attempt v = ap_connect_attempt s + 1
        \<and> ap_session v \<noteq> None \<and> ap_stop v = (max_attempts (cfg_reconnect (en_config E)) \<le> ap_connect_attempt s + 1)"
      using h e failure_handler [OF _ max, of "ap_connect_attempt s + 1" e u x v] u False
      by (auto split: if_splits)
    then show ?thesis
    proof
      assume "\<exists>f. x = Inl f"
      then obtain f where r': "r = Inl f" using r by auto
      obtain w z where "fatal E f t = (w, z)" by (metis surj_pair)
      with fatal_state(2) [OF this] r' False run show ?thesis by simp
    next
      assume v: "x = Inr False \<and> ap_connect_attempt v = ap_connect_attempt s + 1
        \<and> ap_session v \<noteq> None \<and> ap_stop v = (max_attempts (cfg_reconnect (en_config E)) \<le> ap_connect_attempt s + 1)"
      with r t have "r = Inr ()" "t = v" by simp_all
      moreover have "ap_session (world n v) \<noteq> None" "ap_connect_attempt (world n v) = ap_connect_attempt v"
        "ap_stop (world n v) = ap_stop v" using world v by (simp_all add: patient_world_def)
      ultimately show ?thesis using Suc.IH [of "world n v"] Suc.prems(2) v False run by auto
    qed
  qed
qed

lemma refused_run_goes_on:
  assumes no: "cannot_connect E (\<lambda>e. e = BrokerPermissionError)"
    and mode: "cfg_trading_mode (en_config E) \<noteq> Mode_Disabled" and world: "patient_world world"
  shows "ap_session s \<noteq> None \<Longrightarrow> \<not> ap_stop s \<Longrightarrow>
    \<exists>t. run_loop E world n s = (Inr None, t) \<and> ap_connect_attempt t = ap_connect_attempt s + int n"
proof (induction n arbitrary: s)
  case 0
  then show ?case by simp
next
  case (Suc n)
  obtain ss where ss: "ap_session s = Some ss" using Suc.prems(1) by blast
  obtain r t where run: "loop_once E s = (r, t)" by (metis surj_pair)
  obtain e u x v where e: "e = BrokerPermissionError"
    and u: "ap_connect_attempt u = ap_connect_attempt s + 1" "ap_stop u = ap_stop s" "ap_session u \<noteq> None"
    and h: "(if e = BrokerPermissionError then connection_refused E e u
        else if is_broker_error e then connection_failed E (ap_connect_attempt s + 1) e u
        else (Inl e, u)) = (x, v)"
    and r: "r = (case x of Inl f \<Rightarrow> Inl f | Inr c \<Rightarrow> Inr ())" and v: "t = v"
    by (rule refused_turn [OF no mode ss run])
  have "connection_refused E e u = (x, v)" using h e by simp
  from permission_handler [OF this] r v u Suc.prems have t: "r = Inr ()" "ap_session t \<noteq> None" "\<not> ap_stop t"
      "ap_connect_attempt t = ap_connect_attempt s + 1" by simp_all
  have "ap_session (world n t) \<noteq> None" "\<not> ap_stop (world n t)"
    "ap_connect_attempt (world n t) = ap_connect_attempt s + 1"
    using world t by (simp_all add: patient_world_def)
  with Suc.IH [of "world n t"] run t(1) Suc.prems(2) show ?case by auto
qed

section \<open>A small broker\<close>

text \<open>A broker whose state is whether it is connected, for the concrete runs.\<close>

definition flag_info :: "bool \<Rightarrow> connection_info" where
  "flag_info b =
     \<lparr> ci_connected = b, ci_account_type = (if b then Acct_Simulated else Acct_Unknown),
       ci_account_id = None, ci_connection_time = None \<rparr>"

definition flag_account :: account_summary where
  "flag_account =
     \<lparr> as_account_id = ''A'', as_account_type = Acct_Simulated, as_currency = ''USD'',
       net_liquidation = None, available_funds = None, buying_power = None, excess_liquidity = None,
       maintenance_margin = None, as_realized_pnl = None, as_unrealized_pnl = None,
       futures_permission = Some True \<rparr>"

definition flag_broker :: "exn option \<Rightarrow> bool broker" where
  "flag_broker failure =
     \<lparr> br_connect = (\<lambda>now b. case failure of Some e \<Rightarrow> (Inl e, b) | None \<Rightarrow> (Inr (flag_info True), True)),
       br_disconnect = (\<lambda>b. (Inr (), False)), br_is_connected = (\<lambda>b. b \<and> failure = None),
       br_connection_state = (\<lambda>b. if b then Connected else Disconnected), br_connection_info = flag_info,
       br_account_summary = (\<lambda>now b. (Inr flag_account, b)), br_positions = (\<lambda>b. (Inr [], b)),
       br_open_orders = (\<lambda>b. (Inr [], b)), br_fills = (\<lambda>now b. (Inr [], b)),
       br_contract_details = (\<lambda>now c b. (Inr [], b)), br_qualify = (\<lambda>now c b. (Inl BrokerContractError, b)),
       br_market_data = (\<lambda>now c b. (Inl BrokerTimeoutError, b)), br_cancel_market_data = (\<lambda>c b. (Inr (), b)),
       br_place_order = (\<lambda>now r b. (Inl BrokerTimeoutError, b)),
       br_modify_order = (\<lambda>r i b. (Inl BrokerTimeoutError, b)), br_cancel_order = (\<lambda>i b. (Inr False, b)),
       br_cancel_all_orders = (\<lambda>b. (Inr 0, b)) \<rparr>"

definition flag_env :: "trading_mode \<Rightarrow> exn option \<Rightarrow> (bool, unit) runtime_env" where
  "flag_env mode failure =
     \<lparr> en_config = limits_config \<lparr> cfg_trading_mode := mode,
         cfg_reconnect := default_reconnect_policy \<lparr> max_attempts := 2 \<rparr> \<rparr>,
       en_run_id = ''r'', en_admin = True, en_broker = flag_broker failure,
       en_open_broker = (\<lambda>choice. False),
       en_build_strategy = (\<lambda>name enabled. Inr (make_strategy ''noop'' noop_on_quote () enabled)),
       en_clock = (\<lambda>n. Micros 0), en_loop_time = (\<lambda>n. Flt 0), en_random_id = (\<lambda>n. ''i''),
       en_digest = (\<lambda>s. s), en_text = (\<lambda>e. ''error''), en_iso = (\<lambda>t. ''now''), en_health_start = Inr () \<rparr>"

definition flag_app :: "trading_mode \<Rightarrow> exn option \<Rightarrow> (bool, unit) app" where
  "flag_app mode failure = snd (startup (flag_env mode failure) (make_app empty_db))"

lemma flag_startup:
  "reachable (flag_env mode failure) (flag_app mode failure)" if "mode \<in> {Mode_Mock, Mode_Disabled}"
proof -
  have "fst (startup (flag_env Mode_Mock failure) (make_app empty_db)) = Inr ()"
    and "fst (startup (flag_env Mode_Disabled failure) (make_app empty_db)) = Inr ()"
    by code_simp+
  with that show ?thesis
    by (auto simp: flag_app_def intro!: reachable.starts [of _ empty_db "()"]) (metis prod.collapse)+
qed

lemma flag_turn:
  "fst (loop_once (flag_env Mode_Mock None) (flag_app Mode_Mock None)) = Inr ()
   \<and> ap_state (snd (loop_once (flag_env Mode_Mock None) (flag_app Mode_Mock None))) = App_Ready"
proof -
  have "let x = loop_once (flag_env Mode_Mock None) (flag_app Mode_Mock None)
      in fst x = Inr () \<and> ap_state (snd x) = App_Ready"
    by code_simp
  then show ?thesis by (simp only: Let_def)
qed

section \<open>Properties\<close>

text \<open>
  C3: READY means that the account agreed: in every reachable state, whatever the broker, other
  processes on the database and signals did, an application that is READY holds a reconciliation
  without any discrepancy and with account data, its book is the positions the broker reported
  then, and the configuration allows transmission in a mode that trades.
\<close>

theorem ready_only_after_agreement:
  assumes "reachable E s" and "ap_state s = App_Ready"
  shows "rr_positions_reconciled (ap_reconciliation s) \<and> rr_orders_reconciled (ap_reconciliation s)
    \<and> rec_succeeded (ap_reconciliation s) \<and> ap_account s \<noteq> None
    \<and> ap_book s = book_of (rr_broker_positions (ap_reconciliation s)) \<and> ap_session s \<noteq> None
    \<and> \<not> cfg_kill_switch (en_config E) \<and> cfg_allow_order_transmit (en_config E)
    \<and> cfg_trading_mode (en_config E) \<noteq> Mode_Disabled"
  using reachable_ok [OF assms(1)] assms(2)
  by (auto simp: ready_ok_def ready_ground_def rec_succeeded_def)

theorem ready_only_after_agreement_witness:
  "\<exists>s. reachable (flag_env Mode_Mock None) s \<and> ap_state s = App_Ready
     \<and> ap_book s = book_of (rr_broker_positions (ap_reconciliation s))"
proof -
  let ?E = "flag_env Mode_Mock None"
  obtain s where run: "loop_once ?E (flag_app Mode_Mock None) = (Inr (), s)" and ready: "ap_state s = App_Ready"
    using flag_turn by (metis prod.collapse)
  have "reachable ?E s" using flag_startup [of Mode_Mock] run by (auto intro: reachable.steps app_step.turn)
  from ready_only_after_agreement [OF this ready] this ready show ?thesis by blast
qed

text \<open>
  In disabled mode nothing reaches a broker: no reachable state has a broker, a market data
  manager or an order manager, none is READY, and a turn of the loop changes nothing.
\<close>

theorem disabled_mode_has_no_broker:
  assumes "reachable E s" and "cfg_trading_mode (en_config E) = Mode_Disabled"
  shows "ap_session s = None \<and> ap_state s \<noteq> App_Ready \<and> loop_once E s = (Inr (), s)
    \<and> (\<exists>r t. handle_intent E ty price i s = (r, t) \<and> r = Inr None \<and> t = s)"
proof -
  have none: "ap_session s = None" using reachable_ok [OF assms(1)] assms(2) by (simp add: no_session_def)
  moreover have "ap_state s \<noteq> App_Ready"
    using reachable_ok [OF assms(1)] assms(2) by (auto simp: ready_ok_def ready_ground_def)
  ultimately show ?thesis using assms(2) by (auto simp: loop_once_def handle_intent_def split: option.splits)
qed

theorem disabled_mode_has_no_broker_witness: "ap_session (flag_app Mode_Disabled None) = None"
  using disabled_mode_has_no_broker [OF flag_startup, of Mode_Disabled None]
  by (simp add: flag_env_def)


lemma flag_cannot_connect: "cannot_connect (flag_env mode (Some e)) kind = kind e"
  by (auto simp: cannot_connect_def flag_env_def flag_broker_def)

lemma flag_app_facts:
  "ap_session (flag_app Mode_Mock (Some e)) \<noteq> None" "ap_connect_attempt (flag_app Mode_Mock (Some e)) = 0"
  "\<not> ap_stop (flag_app Mode_Mock (Some e))"
  by code_simp+


text \<open>
  A connection refused for permission reasons is retried: although the handler says that it is
  not, every further turn of the main loop makes one more attempt, the limit of attempts is never
  looked at, and the process runs on.
\<close>

theorem permission_refusal_is_retried:
  assumes "cannot_connect E (\<lambda>e. e = BrokerPermissionError)"
    and "cfg_trading_mode (en_config E) \<noteq> Mode_Disabled" and "ap_session s \<noteq> None"
    and "\<not> ap_stop s" and "patient_world world"
  shows "\<exists>t. run_loop E world n s = (Inr None, t) \<and> ap_connect_attempt t = ap_connect_attempt s + int n"
  using refused_run_goes_on [OF assms(1,2,5,3,4)] .

theorem permission_refusal_is_retried_witness:
  "\<exists>t. run_loop (flag_env Mode_Mock (Some BrokerPermissionError)) (\<lambda>k s. s) 5
     (flag_app Mode_Mock (Some BrokerPermissionError)) = (Inr None, t) \<and> ap_connect_attempt t = 5
     \<and> max_attempts (cfg_reconnect (en_config (flag_env Mode_Mock (Some BrokerPermissionError)))) = 2"
proof -
  let ?E = "flag_env Mode_Mock (Some BrokerPermissionError)"
  have "cfg_trading_mode (en_config ?E) \<noteq> Mode_Disabled" "max_attempts (cfg_reconnect (en_config ?E)) = 2"
    by (simp_all add: flag_env_def)
  with permission_refusal_is_retried [of ?E "flag_app Mode_Mock (Some BrokerPermissionError)" "\<lambda>k s. s" 5]
  show ?thesis by (simp add: flag_cannot_connect flag_app_facts patient_world_def)
qed

text \<open>
  The session is opened for the mode: a socket is opened only in paper or live mode, on that
  mode's own port, with the admin client id for the tools and the other one for the service, and the
  account the broker must prove to be is the mode's.
\<close>

theorem broker_is_built_for_the_mode:
  "build_broker c admin = Inr (Use_IBKR host port client timeout expected) \<longleftrightarrow>
     (cfg_trading_mode c = Mode_Paper \<and> port = paper_port (cfg_ibkr c) \<and> expected = Some Acct_Paper
      \<or> cfg_trading_mode c = Mode_Live \<and> port = live_port (cfg_ibkr c) \<and> expected = Some Acct_Live)
     \<and> host = ib_host (cfg_ibkr c) \<and> timeout = connect_timeout_seconds (cfg_ibkr c)
     \<and> client = (if admin then admin_client_id (cfg_ibkr c) else client_id (cfg_ibkr c))"
  by (cases "cfg_trading_mode c")
    (auto simp: build_broker_def ib_port_def expected_account_type_def)

end
