(* ===== verification/Recovery.thy ===== *)
theory Recovery
  imports Lifecycle
begin

text \<open>
  Fills, reconciliation and restarts together: what an agreement brings back, what a failed
  reconciliation leaves behind, and what the database hands to the next process.
\<close>

section \<open>Fills that are known\<close>

definition known_fills :: "('b, 'z) app \<Rightarrow> broker_fill list \<Rightarrow> bool" where
  "known_fills s fs = (bf_execution_id ` set fs \<subseteq> execution_id ` set (t_fills (ap_db s)))"

lemma ingest_known:
  "ingest_fills E fs s = (r, t) \<Longrightarrow> known_fills s fs \<Longrightarrow>
     ap_book t = ap_book s \<and> t_fills (ap_db t) = t_fills (ap_db s) \<and> (\<forall>x. r = Inr x \<longrightarrow> x = [])"
proof (induction fs arbitrary: s)
  case Nil
  then show ?case by auto
next
  case (Cons f fs)
  obtain x d1 where look: "order_by_broker_id (bf_broker_order_id f) (ap_db s) = (x, d1)" by (metis surj_pair)
  have d1: "t_fills d1 = t_fills (ap_db s)" using keepsD [OF keeps_reads(3) look, of t_fills] by simp
  show ?case
  proof (cases x)
    case (Inl e)
    with Cons.prems look d1 show ?thesis by (auto simp: on_store_def sbind_def)
  next
    case (Inr o')
    obtain y d2 where rec: "fill_record (fill_of E f o') d1 = (y, d2)" by (metis surj_pair)
    have "bf_execution_id f \<in> execution_id ` set (t_fills d1)" using Cons.prems(2) d1 by (simp add: known_fills_def)
    then have d2: "t_fills d2 = t_fills d1" and y: "y = Inr False \<or> (\<exists>e. y = Inl e)"
      using fill_record_result [OF rec] by (auto simp: fill_of_def split: sum.splits bool.splits)
    show ?thesis
    proof (cases "y = Inr False")
      case False
      with y Cons.prems(1) look Inr rec d1 d2 show ?thesis by (auto simp: on_store_def sbind_def)
    next
      case True
      with Cons.prems(1) look Inr rec have rest: "ingest_fills E fs (s \<lparr> ap_db := d2 \<rparr>) = (r, t)"
        by (simp add: on_store_def sbind_def)
      from Cons.IH [OF rest] Cons.prems(2) d1 d2 show ?thesis by (simp add: known_fills_def)
    qed
  qed
qed

section \<open>Frames of a reconciliation\<close>

text \<open>The book and the recorded fills.\<close>

definition holdings :: "('b, 'z) app \<Rightarrow> book \<times> fill list" where
  "holdings s = (ap_book s, t_fills (ap_db s))"

lemma holdings_update [simp]:
  "holdings (s \<lparr> ap_state := st \<rparr>) = holdings s" "holdings (s \<lparr> ap_account := a \<rparr>) = holdings s"
  "holdings (s \<lparr> ap_reconciliation := rr \<rparr>) = holdings s"
  by (simp_all add: holdings_def)

lemma holdings_session: "ignores_session holdings"
  by (simp add: ignores_session_def holdings_def)

lemma holdings_on_store: "keeps t_fills m \<Longrightarrow> keeps holdings (on_store m)"
  by (auto simp: keeps_def on_store_def holdings_def split: prod.splits)

lemma keeps_fills:
  "keeps t_fills (set_state k v)" "keeps t_fills (record_bot_event e)" "keeps t_fills (record_broker_event e)"
  unfolding set_state_def record_bot_event_def record_broker_event_def by (auto intro!: keeps_statement)

lemma holdings_parts:
  "keeps holdings (utc_now E)" "keeps holdings (record_event E e l)" "keeps holdings (on_broker m)"
  "keeps holdings (on_store open_order_tuples)"
proof -
  show clock: "keeps holdings (utc_now E)" by (simp add: keeps_def utc_now_def holdings_def)
  show "keeps holdings (record_event E e l)"
    unfolding record_event_def by (intro keeps_ssuppress keeps_sbind clock holdings_on_store keeps_fills)
  show "keeps holdings (on_broker m)" by (rule keeps_on_parts(1) [OF holdings_session])
  show "keeps holdings (on_store open_order_tuples)" by (rule holdings_on_store) (simp add: frame_simps)
qed

lemma holdings_set_state: "keeps holdings (app_set_state st)"
proof (rule keepsI)
  fix s r t assume run: "app_set_state st s = (r, t)"
  show "holdings t = holdings s"
  proof (cases "st = ap_state s")
    case True
    with run show ?thesis by (simp add: app_set_state_def)
  next
    case False
    with run have "ssuppress (on_store (set_state ''last_application_state'' (application_state_value st)))
        (s \<lparr> ap_state := st \<rparr>) = (r, t)" by (simp add: app_set_state_def)
    from keepsD [OF keeps_ssuppress [OF holdings_on_store [OF keeps_fills(1)]] this] show ?thesis by simp
  qed
qed

lemma holdings_read_account: "keeps holdings (read_account E)"
proof -
  have "keeps holdings (\<lambda>s. case on_broker (br_account_summary (en_broker E) now) s of
          (Inr a, s') \<Rightarrow> (Inr True, s' \<lparr> ap_account := Some a \<rparr>)
        | (Inl e, s') \<Rightarrow> if is_broker_error e then (Inr False, s' \<lparr> ap_account := None \<rparr>) else (Inl e, s'))" for now
    using keepsD [OF holdings_parts(3)]
    by (intro keepsI) (auto split: prod.splits sum.splits if_splits)
  then show ?thesis unfolding read_account_def by (intro keeps_sbind holdings_parts(1))
qed

lemma holdings_read_broker: "keeps holdings (read_broker E)"
  unfolding read_broker_def by (intro keeps_sbind holdings_parts keeps_pure)

text \<open>A comparison that fails adopts nothing.\<close>

lemma failed_adoption:
  assumes "adopt_reconciliation E rr s = (r, t)" and "\<not> rec_succeeded rr"
  shows "holdings t = holdings s" and "ap_reconciliation t = rr"
proof -
  have "keeps holdings (sbind (smodify (\<lambda>s. s \<lparr> ap_reconciliation := rr \<rparr>)) (\<lambda>_. record_event E ''reconciliation.failed'' ''ERROR''))"
    by (intro keeps_sbind keeps_smodify holdings_parts(2)) simp
  from keepsD [OF this] assms show "holdings t = holdings s" by (simp add: adopt_reconciliation_def)
  show "ap_reconciliation t = rr" using adopt_book(1) [OF assms(1)] .
qed

text \<open>With only known fills a comparison against other positions fails and moves nothing.\<close>

lemma mismatch_compare:
  assumes run: "compare_with_broker E available ps os fs s = (r, t)" and known: "known_fills s fs"
    and ok: "book_ok (ap_book s)" and differ: "reported_quantity ps c \<noteq> book_quantity (ap_book s) c"
  shows "holdings t = holdings s \<and> (\<forall>u. r = Inr u \<longrightarrow> \<not> rec_succeeded (ap_reconciliation t))"
proof -
  obtain x s1 where ing: "ingest_fills E fs s = (x, s1)" by (metis surj_pair)
  with ingest_known [OF ing known] have s1: "holdings s1 = holdings s" by (simp add: holdings_def)
  show ?thesis
  proof (cases x)
    case (Inl e)
    with run ing s1 show ?thesis by (auto simp: compare_with_broker_def)
  next
    case (Inr applied)
    obtain y s2 where tup: "on_store open_order_tuples s1 = (y, s2)" by (metis surj_pair)
    have s2: "holdings s2 = holdings s1" by (rule keepsD [OF holdings_parts(4) tup])
    show ?thesis
    proof (cases y)
      case (Inl e)
      with run ing Inr s1 tup s2 show ?thesis by (auto simp: compare_with_broker_def)
    next
      case locals: (Inr locals)
      obtain now s3 where clock: "utc_now E s2 = (Inr now, s3)" by (simp add: utc_now_def)
      have s3: "holdings s3 = holdings s" using keepsD [OF holdings_parts(1) clock] s1 s2 by simp
      let ?rr = "reconcile now (ap_book s3) ps os locals fs available"
      have adopt: "adopt_reconciliation E ?rr s3 = (r, t)"
        using run ing Inr tup locals clock by (simp add: compare_with_broker_def)
      have "\<not> rec_succeeded ?rr"
        using reconcile_succeeded_exact [of "ap_book s3"] ok differ s3 by (auto simp: holdings_def)
      from failed_adoption [OF adopt this] this s3 show ?thesis by simp
    qed
  qed
qed

text \<open>
  A broker that keeps reporting \<open>q\<close> for contract \<open>c\<close> and no execution outside \<open>ids\<close>, whatever
  its state and however it otherwise answers.
\<close>

definition reports :: "('b, 'z) runtime_env \<Rightarrow> int \<Rightarrow> int \<Rightarrow> string set \<Rightarrow> bool" where
  "reports E c q ids =
     (\<forall>b b' now ps fs. (br_positions (en_broker E) b = (Inr ps, b') \<longrightarrow> reported_quantity ps c = q)
        \<and> (br_fills (en_broker E) now b = (Inr fs, b') \<longrightarrow> bf_execution_id ` set fs \<subseteq> ids))"

lemma on_broker_Inr:
  assumes "on_broker m s = (Inr x, t)"
  obtains b b' where "m b = (Inr x, b')"
  using assms by (auto simp: on_broker_def on_session_def split: option.splits prod.splits)

lemma read_broker_reports:
  assumes "read_broker E s = (Inr (ps, os, fs), t)" and "reports E c q ids"
  shows "reported_quantity ps c = q" and "bf_execution_id ` set fs \<subseteq> ids"
proof -
  from assms(1) obtain s1 s2 now where "on_broker (br_positions (en_broker E)) s = (Inr ps, s1)"
    and "on_broker (br_fills (en_broker E) now) s2 = (Inr fs, t)"
    by (auto simp: read_broker_def elim!: sbind_InrE)
  then obtain b1 b2 b3 b4 where "br_positions (en_broker E) b1 = (Inr ps, b2)"
    and "br_fills (en_broker E) now b3 = (Inr fs, b4)"
    by (elim on_broker_Inr)
  with assms(2) show "reported_quantity ps c = q" and "bf_execution_id ` set fs \<subseteq> ids"
    unfolding reports_def by blast+
qed

lemma mismatch_reconcile:
  assumes run: "run_reconcile E s = (r, t)" and broker: "reports E c q ids"
    and known: "ids \<subseteq> execution_id ` set (t_fills (ap_db s))"
    and ok: "book_ok (ap_book s)" and differ: "q \<noteq> book_quantity (ap_book s) c"
  shows "holdings t = holdings s \<and> (\<forall>u. r = Inr u \<longrightarrow> \<not> rec_succeeded (ap_reconciliation t))"
proof -
  obtain x s1 where 1: "app_set_state App_Reconciling s = (x, s1)" by (metis surj_pair)
  have x: "x = Inr ()" using 1 by (auto dest: app_set_state_sets)
  obtain y s2 where 2: "read_account E s1 = (y, s2)" by (metis surj_pair)
  have s2: "holdings s2 = holdings s"
    using keepsD [OF holdings_set_state 1] keepsD [OF holdings_read_account 2] by simp
  show ?thesis
  proof (cases y)
    case (Inl e)
    with run 1 x 2 s2 show ?thesis by (auto simp: run_reconcile_def)
  next
    case (Inr available)
    with run 1 x 2 have "read_and_compare E available s2 = (r, t)" by (simp add: run_reconcile_def)
    then show ?thesis
    proof (cases rule: read_and_compare_cases)
      case (unread e s3)
      have s3: "holdings s3 = holdings s2" by (rule keepsD [OF holdings_read_broker unread(1)])
      have "keeps holdings (sbind (smodify (\<lambda>s. s \<lparr> ap_reconciliation := rr \<rparr>)) (\<lambda>_. record_event E v l))" for rr v l
        by (intro keeps_sbind keeps_smodify holdings_parts(2)) simp
      from keepsD [OF this] \<open>read_and_compare E available s2 = (r, t)\<close> unread(1,2)
      have "holdings t = holdings s3" by (auto simp: read_and_compare_def)
      with unread s3 s2 show ?thesis by (simp add: rec_succeeded_def)
    next
      case (raised e s3)
      have "holdings s3 = holdings s2" by (rule keepsD [OF holdings_read_broker raised(1)])
      with raised s2 show ?thesis by simp
    next
      case (compared ps os fs s3)
      have s3: "holdings s3 = holdings s" using keepsD [OF holdings_read_broker compared(1)] s2 by simp
      have "known_fills s3 fs" "book_ok (ap_book s3)" "reported_quantity ps c \<noteq> book_quantity (ap_book s3) c"
        using read_broker_reports [OF compared(1) broker] known ok differ s3
        by (auto simp: known_fills_def holdings_def)
      from mismatch_compare [OF compared(2) this] s3 show ?thesis by simp
    qed
  qed
qed

lemma stranded_timer:
  assumes run: "reconcile_on_timer E s = (r, t)" and broker: "reports E c q ids"
    and known: "ids \<subseteq> execution_id ` set (t_fills (ap_db s))"
    and ok: "book_ok (ap_book s)" and differ: "q \<noteq> book_quantity (ap_book s) c"
  shows "holdings t = holdings s \<and> ap_state t \<noteq> App_Ready \<and> (\<forall>u. r = Inr u \<longrightarrow> ap_state t = App_Safe)"
proof -
  obtain x s1 where 1: "run_reconcile E s = (x, s1)" by (metis surj_pair)
  note fails = mismatch_reconcile [OF 1 broker known ok differ]
  show ?thesis
  proof (cases x)
    case (Inl e)
    with run 1 fails run_reconcile_state [OF 1] show ?thesis by (auto simp: reconcile_on_timer_def)
  next
    case (Inr u)
    with run 1 fails have set: "app_set_state App_Safe s1 = (r, t)"
      by (auto simp: reconcile_on_timer_def settle_def)
    from keepsD [OF holdings_set_state set] app_set_state_sets [OF set] fails show ?thesis by simp
  qed
qed

section \<open>A healthy database\<close>

definition healthy :: "db \<Rightarrow> bool" where
  "healthy d = (db_open d \<and> db_faults d = [])"

lemma statement_healthy: "healthy d \<Longrightarrow> statement f d = f d"
  by (simp add: healthy_def statement_def)

lemma query_healthy: "healthy d \<Longrightarrow> query g d = (Inr (g d), d)"
  by (simp add: query_def statement_healthy)

lemma healthy_update [simp]:
  "healthy (d \<lparr> t_state := x \<rparr>) = healthy d" "healthy (d \<lparr> t_bot_events := y \<rparr>) = healthy d"
  "healthy (d \<lparr> t_positions := z \<rparr>) = healthy d"
  by (simp_all add: healthy_def)

text \<open>The parts of the application a reconciliation reads, over a healthy database without a latch.\<close>

definition calm :: "('b, 'z) app \<Rightarrow> bool" where
  "calm s = (healthy (ap_db s) \<and> \<not> state.latch_set (ap_db s))"

definition content :: "('b, 'z) app \<Rightarrow> book \<times> fill list \<times> order list" where
  "content s = (ap_book s, t_fills (ap_db s), t_orders (ap_db s))"

definition among :: "'b set \<Rightarrow> ('b, 'z) app \<Rightarrow> bool" where
  "among Q s = (case ap_session s of None \<Rightarrow> False | Some ss \<Rightarrow> ss_broker ss \<in> Q)"

lemma content_update [simp]:
  "content (s \<lparr> ap_state := st \<rparr>) = content s" "content (s \<lparr> ap_account := a \<rparr>) = content s"
  "content (s \<lparr> ap_reads := n \<rparr>) = content s" "content (s \<lparr> ap_session := x \<rparr>) = content s"
  "content (s \<lparr> ap_reconciliation := rr \<rparr>) = content s" "content (s \<lparr> ap_loop_reads := n, ap_next_reconcile_at := y \<rparr>) = content s"
  "calm (s \<lparr> ap_state := st \<rparr>) = calm s" "calm (s \<lparr> ap_account := a \<rparr>) = calm s"
  "calm (s \<lparr> ap_reads := n \<rparr>) = calm s" "calm (s \<lparr> ap_session := x \<rparr>) = calm s"
  "calm (s \<lparr> ap_reconciliation := rr \<rparr>) = calm s" "calm (s \<lparr> ap_book := bk \<rparr>) = calm s"
  "calm (s \<lparr> ap_loop_reads := n, ap_next_reconcile_at := y \<rparr>) = calm s"
  "among Q (s \<lparr> ap_state := st \<rparr>) = among Q s" "among Q (s \<lparr> ap_account := a \<rparr>) = among Q s"
  "among Q (s \<lparr> ap_reads := n \<rparr>) = among Q s" "among Q (s \<lparr> ap_db := d \<rparr>) = among Q s"
  "among Q (s \<lparr> ap_reconciliation := rr \<rparr>) = among Q s" "among Q (s \<lparr> ap_book := bk \<rparr>) = among Q s"
  "among Q (s \<lparr> ap_loop_reads := n, ap_next_reconcile_at := y \<rparr>) = among Q s"
  by (simp_all add: content_def calm_def among_def)

text \<open>An action that returns, leaves the content as it is and the database calm.\<close>

definition quietly :: "'b set \<Rightarrow> (('b, 'z) app, 'a) action \<Rightarrow> bool" where
  "quietly Q m = (\<forall>s. calm s \<and> among Q s \<longrightarrow> (\<exists>x t. m s = (Inr x, t) \<and> calm t \<and> among Q t \<and> content t = content s))"

lemma quietlyE:
  assumes "quietly Q m" and "calm s" and "among Q s"
  obtains x t where "m s = (Inr x, t)" and "calm t" and "among Q t" and "content t = content s"
  using assms unfolding quietly_def by blast

lemma quietly_utc_now: "quietly Q (utc_now E)"
  by (simp add: quietly_def utc_now_def)

lemma quietly_event: "quietly Q (record_event E e l)"
  by (simp add: quietly_def record_event_def utc_now_def calm_def content_def on_store_def record_bot_event_def
      statement_healthy sbind_def state.latch_set_def among_def)

lemma quietly_set_state: "quietly Q (app_set_state st)"
proof -
  have "state.latch_set (d \<lparr> t_state := AList.update ''last_application_state'' v (t_state d) \<rparr>) = state.latch_set d" for d v
    by (simp add: state.latch_set_def update_conv' kill_switch_state_key_def)
  then show ?thesis
    by (simp add: quietly_def app_set_state_def calm_def content_def on_store_def set_state_def
        statement_healthy among_def)
qed

lemma calm_tuples: "calm s \<Longrightarrow> \<exists>ts. on_store open_order_tuples s = (Inr ts, s)"
  by (simp add: calm_def on_store_def open_order_tuples_def open_orders_def query_healthy sbind_def)

lemma calm_kill_switch: "calm s \<Longrightarrow> kill_switch_engaged E s = (Inr (cfg_kill_switch (en_config E)), s)"
  by (simp add: calm_def kill_switch_engaged_def on_store_def ks_engaged_def ks_latched_def get_state_def
      query_healthy sbind_def state.latch_set_def)

lemma calm_known_fills:
  "calm s \<Longrightarrow> known_fills s fs \<Longrightarrow> ingest_fills E fs s = (Inr [], s)"
proof (induction fs)
  case Nil
  then show ?case by simp
next
  case (Cons f fs)
  obtain o' where look: "on_store (order_by_broker_id (bf_broker_order_id f)) s = (Inr o', s)"
    using Cons.prems by (simp add: calm_def on_store_def order_by_broker_id_def query_healthy)
  have "\<exists>r \<in> set (t_fills (ap_db s)). execution_id r = execution_id (fill_of E f o')"
    using Cons.prems by (auto simp: known_fills_def fill_of_def)
  then have "on_store (fill_record (fill_of E f o')) s = (Inr False, s)"
    using Cons.prems by (simp add: calm_def on_store_def fill_record_def query_healthy sbind_def)
  with look Cons show ?case by (simp add: known_fills_def sbind_apply)
qed

lemma insert_all_healthy:
  "healthy d \<Longrightarrow> distinct (map po_con_id (t_positions d @ ps)) \<Longrightarrow>
     position_insert_all ps d = (Inr (), d \<lparr> t_positions := t_positions d @ ps \<rparr>)"
proof (induction ps arbitrary: d)
  case Nil
  then show ?case by simp
next
  case (Cons p ps)
  have "po_con_id p \<notin> po_con_id ` set (t_positions d)" using Cons.prems(2) by simp
  then have "\<not> (\<exists>r \<in> set (t_positions d). po_con_id r = po_con_id p)" by (metis image_eqI)
  with Cons.prems(1) have "position_insert p d = (Inr (), d \<lparr> t_positions := t_positions d @ [p] \<rparr>)"
    by (simp add: position_insert_def statement_healthy)
  with Cons.IH [of "d \<lparr> t_positions := t_positions d @ [p] \<rparr>"] Cons.prems show ?case by simp
qed

lemma replace_all_healthy:
  "healthy d \<Longrightarrow> distinct (map po_con_id ps) \<Longrightarrow> positions_replace_all ps d = (Inr (), d \<lparr> t_positions := ps \<rparr>)"
  by (simp add: positions_replace_all_def transaction_def statement_healthy insert_all_healthy sbind_def)

section \<open>An agreement\<close>

text \<open>
  A broker that, in the states \<open>Q\<close> and never leaving them, reports an account, these positions,
  these working orders and these executions.
\<close>

definition broker_answers ::
  "'b broker \<Rightarrow> 'b set \<Rightarrow> broker_position list \<Rightarrow> order_snapshot list \<Rightarrow> broker_fill list \<Rightarrow> bool" where
  "broker_answers B Q ps os fs =
     (\<forall>b \<in> Q. (\<forall>now. \<exists>a. \<exists>b' \<in> Q. br_account_summary B now b = (Inr a, b'))
        \<and> (\<exists>b' \<in> Q. br_positions B b = (Inr ps, b')) \<and> (\<exists>b' \<in> Q. br_open_orders B b = (Inr os, b'))
        \<and> (\<forall>now. \<exists>b' \<in> Q. br_fills B now b = (Inr fs, b')))"

lemma on_answers:
  assumes "among Q s" and "\<And>b. b \<in> Q \<Longrightarrow> \<exists>b' \<in> Q. m b = (Inr x, b')"
  shows "\<exists>ss. on_broker m s = (Inr x, s \<lparr> ap_session := ss \<rparr>) \<and> among Q (s \<lparr> ap_session := ss \<rparr>)"
proof -
  obtain ss where ss: "ap_session s = Some ss" "ss_broker ss \<in> Q" using assms(1) by (auto simp: among_def split: option.splits)
  obtain b' where "b' \<in> Q" "m (ss_broker ss) = (Inr x, b')" using assms(2) [OF ss(2)] by blast
  with ss show ?thesis by (auto simp: on_broker_def on_session_def among_def)
qed

lemma read_account_answers:
  assumes "broker_answers (en_broker E) Q ps os fs" and "calm s" and "among Q s"
  shows "\<exists>t. read_account E s = (Inr True, t) \<and> calm t \<and> among Q t \<and> content t = content s"
proof -
  let ?now = "en_clock E (ap_reads s)"
  let ?s = "s \<lparr> ap_reads := Suc (ap_reads s) \<rparr>"
  obtain ss where ss: "ap_session s = Some ss" "ss_broker ss \<in> Q" using assms(3) by (auto simp: among_def split: option.splits)
  obtain a b' where "b' \<in> Q" "br_account_summary (en_broker E) ?now (ss_broker ss) = (Inr a, b')"
    using assms(1) ss(2) unfolding broker_answers_def by blast
  with ss assms(2) show ?thesis
    by (simp add: read_account_def utc_now_def on_broker_def on_session_def among_def sbind_apply)
qed

lemma read_answers:
  assumes B: "broker_answers (en_broker E) Q ps os fs" and "calm s" and "among Q s"
  shows "\<exists>t. read_broker E s = (Inr (ps, os, fs), t) \<and> calm t \<and> among Q t \<and> content t = content s"
proof -
  obtain x where 1: "on_broker (br_positions (en_broker E)) s = (Inr ps, s \<lparr> ap_session := x \<rparr>)"
      and Q1: "among Q (s \<lparr> ap_session := x \<rparr>)"
    using on_answers [OF assms(3), of "br_positions (en_broker E)" ps] B unfolding broker_answers_def by blast
  obtain y where 2: "on_broker (br_open_orders (en_broker E)) (s \<lparr> ap_session := x \<rparr>) = (Inr os, s \<lparr> ap_session := y \<rparr>)"
      and Q2: "among Q (s \<lparr> ap_session := y \<rparr>)"
    using on_answers [OF Q1, of "br_open_orders (en_broker E)" os] B unfolding broker_answers_def by auto
  let ?s = "s \<lparr> ap_session := y, ap_reads := Suc (ap_reads s) \<rparr>"
  have "among Q ?s" using Q2 by (simp add: among_def)
  then obtain z where 3: "on_broker (br_fills (en_broker E) (en_clock E (ap_reads s))) ?s = (Inr fs, ?s \<lparr> ap_session := z \<rparr>)"
      and Q3: "among Q (?s \<lparr> ap_session := z \<rparr>)"
    using on_answers [of Q ?s "br_fills (en_broker E) (en_clock E (ap_reads s))" fs] B
    unfolding broker_answers_def by blast
  from 1 2 3 have "read_broker E s = (Inr (ps, os, fs), ?s \<lparr> ap_session := z \<rparr>)"
    by (simp add: read_broker_def utc_now_def sbind_apply)
  with Q3 assms(2) show ?thesis by simp
qed

definition orders_agree :: "order list \<Rightarrow> order_snapshot list \<Rightarrow> bool" where
  "orders_agree rs os =
     ((\<forall>r \<in> set rs. o_status r \<in> set open_statuses \<longrightarrow> (\<exists>x \<in> set os. broker_order_id r = Some (os_broker_order_id x)))
      \<and> (\<forall>x \<in> set os. \<exists>r \<in> set rs. o_status r \<in> set open_statuses \<and> broker_order_id r = Some (os_broker_order_id x)))"

lemma tuples_agree:
  assumes "calm s" and "orders_agree (t_orders (ap_db s)) os"
  obtains ts where "on_store open_order_tuples s = (Inr ts, s)" and "\<forall>t \<in> set ts. fst (snd t) \<noteq> None"
    and "set (local_broker_ids ts) = set (map os_broker_order_id os)"
proof -
  let ?open = "sort_key o_created_at (filter (\<lambda>r. o_status r \<in> set open_statuses) (t_orders (ap_db s)))"
  let ?ts = "map (\<lambda>r. (internal_order_id r, broker_order_id r, o_symbol r)) ?open"
  have run: "on_store open_order_tuples s = (Inr ?ts, s)"
    using assms(1) by (simp add: calm_def on_store_def open_order_tuples_def open_orders_def query_healthy sbind_def)
  have sent: "\<forall>t \<in> set ?ts. fst (snd t) \<noteq> None"
    using assms(2) unfolding orders_agree_def by fastforce
  have "x \<in> set (local_broker_ids ?ts) \<longleftrightarrow> x \<in> os_broker_order_id ` set os" for x
  proof
    assume "x \<in> set (local_broker_ids ?ts)"
    then obtain r where "r \<in> set (t_orders (ap_db s))" "o_status r \<in> set open_statuses" "broker_order_id r = Some x"
      by (auto simp: local_broker_ids_set)
    with assms(2) show "x \<in> os_broker_order_id ` set os" unfolding orders_agree_def by fastforce
  next
    assume "x \<in> os_broker_order_id ` set os"
    then obtain y where y: "y \<in> set os" "x = os_broker_order_id y" by blast
    with assms(2) obtain r where "r \<in> set (t_orders (ap_db s))" "o_status r \<in> set open_statuses" "broker_order_id r = Some x"
      unfolding orders_agree_def by blast
    then have "(internal_order_id r, Some x, o_symbol r) \<in> set ?ts" by force
    then show "x \<in> set (local_broker_ids ?ts)" by (auto simp only: local_broker_ids_set)
  qed
  then have "set (local_broker_ids ?ts) = set (map os_broker_order_id os)" by (simp only: set_map set_eq_iff) blast
  then show thesis by (rule that [OF run sent])
qed

lemma calm_adoption:
  assumes "calm s" and "among Q s" and "rec_succeeded rr" and "distinct (map po_con_id (rr_broker_positions rr))"
  shows "\<exists>t. adopt_reconciliation E rr s = (Inr (), t) \<and> calm t \<and> among Q t \<and> ap_reconciliation t = rr
    \<and> ap_state t = ap_state s"
proof -
  let ?d = "(ap_db s) \<lparr> t_positions := rr_broker_positions rr \<rparr>"
  let ?s = "s \<lparr> ap_reconciliation := rr, ap_book := book_of (rr_broker_positions rr), ap_db := ?d \<rparr>"
  have "calm ?s" using assms(1) by (simp add: calm_def state.latch_set_def)
  moreover have "among Q ?s" using assms(2) by (simp add: among_def)
  ultimately obtain u t where ev: "record_event E ''reconciliation.succeeded'' ''INFO'' ?s = (Inr u, t)"
      and t: "calm t" "among Q t"
    using quietly_event unfolding quietly_def by blast
  have "adopt_reconciliation E rr s = (Inr (), t)"
    using assms ev by (simp add: adopt_reconciliation_def on_store_def replace_all_healthy calm_def
        book_replace_all_def sbind_apply)
  moreover have "ap_reconciliation t = rr" "ap_state t = ap_state s"
    using keepsD [OF keeps_events(1) [of ap_reconciliation] ev] keepsD [OF keeps_events(1) [of ap_state] ev] by simp_all
  ultimately show ?thesis using t by blast
qed

lemma agreement_compares:
  assumes calm: "calm s" and Q: "among Q s" and known: "known_fills s fs" and ok: "book_ok (ap_book s)"
    and book: "\<forall>c. book_quantity (ap_book s) c = reported_quantity ps c"
    and orders: "orders_agree (t_orders (ap_db s)) os" and ids: "distinct (map bp_con_id ps)"
  shows "\<exists>t. compare_with_broker E True ps os fs s = (Inr (), t) \<and> calm t \<and> among Q t
    \<and> rec_succeeded (ap_reconciliation t) \<and> ap_state t = ap_state s"
proof -
  obtain ts where tup: "on_store open_order_tuples s = (Inr ts, s)" and ts: "\<forall>t \<in> set ts. fst (snd t) \<noteq> None"
      "set (local_broker_ids ts) = set (map os_broker_order_id os)"
    by (rule tuples_agree [OF calm orders])
  let ?s = "s \<lparr> ap_reads := Suc (ap_reads s) \<rparr>"
  let ?rr = "reconcile (en_clock E (ap_reads s)) (ap_book s) ps os ts fs True"
  have "rec_succeeded ?rr" using reconcile_succeeded_exact [OF ok] book ts by blast
  moreover have "map po_con_id (rr_broker_positions ?rr) = map bp_con_id ps"
    by (simp add: reconcile_def Let_def from_broker_def)
  ultimately obtain t where "adopt_reconciliation E ?rr ?s = (Inr (), t)" "calm t" "among Q t"
      "ap_reconciliation t = ?rr" "ap_state t = ap_state s"
    using calm_adoption [of ?s Q ?rr E] calm Q ids by auto
  with calm_known_fills [OF calm known, of E] tup \<open>rec_succeeded ?rr\<close> show ?thesis
    by (simp add: compare_with_broker_def utc_now_def sbind_apply)
qed

lemma agreement_settles:
  assumes calm: "calm s" and Q: "among Q s" and B: "broker_answers (en_broker E) Q ps os fs"
    and known: "known_fills s fs" and ok: "book_ok (ap_book s)"
    and book: "\<forall>c. book_quantity (ap_book s) c = reported_quantity ps c"
    and orders: "orders_agree (t_orders (ap_db s)) os" and ids: "distinct (map bp_con_id ps)"
    and mode: "cfg_trading_mode (en_config E) \<noteq> Mode_Disabled" and allow: "cfg_allow_order_transmit (en_config E)"
    and switch: "\<not> cfg_kill_switch (en_config E)"
  shows "\<exists>t. reconcile_on_timer E s = (Inr (), t) \<and> ap_state t = App_Ready"
proof -
  obtain u s1 where 1: "app_set_state App_Reconciling s = (Inr u, s1)" and s1: "calm s1" "among Q s1" "content s1 = content s"
    using quietlyE [OF quietly_set_state calm Q] .
  obtain s2 where 2: "read_account E s1 = (Inr True, s2)" and s2: "calm s2" "among Q s2" "content s2 = content s"
    using read_account_answers [OF B s1(1,2)] s1(3) by auto
  obtain s3 where 3: "read_broker E s2 = (Inr (ps, os, fs), s3)" and s3: "calm s3" "among Q s3" "content s3 = content s"
    using read_answers [OF B s2(1,2)] s2(3) by auto
  have "known_fills s3 fs" "book_ok (ap_book s3)" "\<forall>c. book_quantity (ap_book s3) c = reported_quantity ps c"
    "orders_agree (t_orders (ap_db s3)) os"
    using known ok book orders s3(3) by (simp_all add: content_def known_fills_def)
  from agreement_compares [OF s3(1,2) this ids, of E]
  obtain s4 where 4: "compare_with_broker E True ps os fs s3 = (Inr (), s4)" and s4: "calm s4" "among Q s4"
      "rec_succeeded (ap_reconciliation s4)" by blast
  have "run_reconcile E s = (Inr (), s4)"
    using 1 2 3 4 by (simp add: run_reconcile_def read_and_compare_def sbind_apply)
  moreover have "compute_ready_state E s4 = (Inr App_Ready, s4)"
    using s4 mode allow switch calm_kill_switch [OF s4(1), of E] by (simp add: compute_ready_state_def sbind_apply)
  moreover obtain t where "app_set_state App_Ready s4 = (Inr (), t)" "ap_state t = App_Ready"
    using app_set_state_sets [of App_Ready s4] by (metis surj_pair)
  ultimately show ?thesis using s4(3) by (simp add: reconcile_on_timer_def settle_def sbind_apply)
qed

section \<open>What the next process starts from\<close>

text \<open>A list of positions without two entries for a contract is read as a map, in any order.\<close>

lemma book_of_fold:
  "distinct (map po_con_id ps) \<Longrightarrow> set (map po_con_id ps) \<inter> fst ` set b = {} \<Longrightarrow>
     map_of (fold (\<lambda>p b. if is_flat p then b else AList.update (po_con_id p) p b) ps b) c =
       (case List.find (\<lambda>p. po_con_id p = c \<and> \<not> is_flat p) ps of None \<Rightarrow> map_of b c | Some p \<Rightarrow> Some p)"
proof (induction ps arbitrary: b)
  case Nil
  then show ?case by simp
next
  case (Cons p ps)
  have absent: "List.find (\<lambda>q. po_con_id q = po_con_id p \<and> \<not> is_flat q) ps = None"
    using Cons.prems(1) by (auto simp: find_None_iff image_iff)
  have "set (map po_con_id ps) \<inter> fst ` set (AList.update (po_con_id p) p b) = {}"
    using Cons.prems by (auto simp: dom_update)
  with Cons show ?case
    by (auto simp: absent update_conv' split: option.splits)
qed

lemma book_of_quantity:
  assumes "distinct (map po_con_id ps)"
  shows "book_quantity (book_of ps) c =
     (case List.find (\<lambda>p. po_con_id p = c) ps of None \<Rightarrow> 0 | Some p \<Rightarrow> po_quantity p)"
proof -
  have "List.find (\<lambda>p. po_con_id p = c \<and> \<not> is_flat p) ps =
      (case List.find (\<lambda>p. po_con_id p = c) ps of None \<Rightarrow> None | Some p \<Rightarrow> if is_flat p then None else Some p)"
    using assms
  proof (induction ps)
    case Nil
    then show ?case by simp
  next
    case (Cons p ps)
    have "List.find (\<lambda>q. po_con_id q = c \<and> \<not> is_flat q) ps = None" if "po_con_id p = c"
      using Cons.prems that by (auto simp: find_None_iff image_iff)
    with Cons show ?case by auto
  qed
  with book_of_fold [OF assms, of "[]" c] show ?thesis
    by (auto simp: book_of_def book_quantity_def is_flat_def split: option.splits)
qed

lemma find_permuted:
  assumes "distinct (map f xs)" and "set ys = set xs" and "distinct (map f ys)"
  shows "List.find (\<lambda>x. f x = c) ys = List.find (\<lambda>x. f x = c) xs"
proof (cases "List.find (\<lambda>x. f x = c) xs")
  case None
  with assms(2) have "List.find (\<lambda>x. f x = c) ys = None" by (simp add: find_None_iff)
  with None show ?thesis by simp
next
  case (Some x)
  then have x: "x \<in> set xs" "f x = c" by (auto dest: find_Some_mem)
  obtain y where y: "List.find (\<lambda>x. f x = c) ys = Some y"
    using x assms(2) by (cases "List.find (\<lambda>x. f x = c) ys") (auto simp: find_None_iff)
  then have "y \<in> set xs" "f y = c" using assms(2) by (auto dest: find_Some_mem)
  with x assms(1) have "y = x" by (metis distinct_map inj_onD)
  with y Some show ?thesis by simp
qed

lemma keeps_positions:
  "keeps t_positions (set_state k v)" "keeps t_positions (record_bot_event e)"
  unfolding set_state_def record_bot_event_def by (auto intro!: keeps_statement)

definition stored_positions :: "('b, 'z) app \<Rightarrow> position list" where
  "stored_positions s = t_positions (ap_db s)"

lemma stored_on_store: "keeps t_positions m \<Longrightarrow> keeps stored_positions (on_store m)"
  by (auto simp: keeps_def on_store_def stored_positions_def split: prod.splits)

lemma stored_event: "keeps stored_positions (record_event E e l)"
  unfolding record_event_def
  by (intro keeps_ssuppress keeps_sbind stored_on_store keeps_positions) (simp add: keeps_def utc_now_def stored_positions_def)

lemma stored_kill_switch: "keeps stored_positions (kill_switch_engaged E)"
proof -
  have "keeps t_positions (get_state k)" for k by (rule keeps_reads(13)) simp
  then have "keeps t_positions (ks_engaged b (Some get_state))" for b
    unfolding keeps_def ks_engaged_def ks_latched_def sbind_def by (auto split: prod.splits sum.splits if_splits)
  then show ?thesis unfolding kill_switch_engaged_def by (rule stored_on_store)
qed

lemma stored_update [simp]:
  "stored_positions (s \<lparr> ap_validator := v \<rparr>) = stored_positions s"
  "stored_positions (s \<lparr> ap_strategy := z \<rparr>) = stored_positions s"
  by (simp_all add: stored_positions_def)

lemma stored_migrate: "keeps stored_positions (on_store migrate)"
  by (intro stored_on_store keeps_migrate) simp_all

lemma startup_book:
  fixes E :: "('b, 'z) runtime_env"
  assumes run: "startup E (make_app d) = (Inr u, s)"
  shows "ap_book s = book_of (sort_key po_symbol (t_positions d))"
proof -
  note P = keepsD [OF stored_on_store [OF keeps_connect [OF observes_tables(3)]]]
    keepsD [OF stored_migrate] keepsD [OF stored_event] keepsD [OF stored_kill_switch]
    keepsD [OF stored_on_store [OF keeps_positions(1)]]
    keepsD [OF stored_on_store [OF keeps_reads(11) [OF observes_tables(3)]]]
  obtain s0 :: "('b, 'z) app" where 0: "app_set_state App_Starting (make_app d) = (Inr (), s0)" and s0: "stored_positions s0 = t_positions d"
    by (simp add: app_set_state_def make_app_def stored_positions_def)
  define health :: "(('b, 'z) app, unit) action" where "health = (if en_admin E then sreturn ()
      else sbind (slift (en_health_start E)) (\<lambda>_. smodify (\<lambda>s. s \<lparr> ap_health_running := True \<rparr>)))"
  define finish :: "(('b, 'z) app, unit) action" where "finish =
      (if cfg_trading_mode (en_config E) = Mode_Disabled then app_set_state App_Safe else open_session E)"
  from run obtain a ps b e where all: "on_store positions_all a = (Inr ps, b)"
    and a: "stored_positions a = stored_positions s0"
    and e: "health (b \<lparr> ap_book := book_replace_all ps (ap_book b) \<rparr>) = (Inr (), e)"
    and f: "finish e = (Inr u, s)"
    unfolding startup_def health_def [symmetric] finish_def [symmetric]
    by (auto simp: 0 elim!: sbind_InrE dest!: P)
  have "ps = sort_key po_symbol (stored_positions a)"
    using all query_value [of "\<lambda>s. sort_key po_symbol (t_positions s)" "ap_db a" ps]
    by (auto simp: on_store_def positions_all_def stored_positions_def observes_def split: prod.splits)
  moreover have "ap_book e = book_of ps"
    using e by (auto simp: health_def book_replace_all_def elim!: sbind_InrE split: if_splits)
  moreover have "ap_book s = ap_book e"
    using f by (auto simp: finish_def open_session_def elim!: sbind_InrE app_set_state_result split: if_splits)
  ultimately show ?thesis using a s0 by simp
qed

lemma adoption_stores:
  assumes "adopt_reconciliation E rr s = (Inr u, t)" and "rec_succeeded rr"
  shows "stored_positions t = rr_broker_positions rr" and "distinct (map po_con_id (rr_broker_positions rr))"
proof -
  from assms obtain x s1 where store: "on_store (positions_replace_all (rr_broker_positions rr))
        (s \<lparr> ap_reconciliation := rr, ap_book := book_replace_all (rr_broker_positions rr) (ap_book s) \<rparr>) = (Inr x, s1)"
    and ev: "record_event E ''reconciliation.succeeded'' ''INFO'' s1 = (Inr u, t)"
    by (auto simp: adopt_reconciliation_def elim!: sbind_InrE)
  from store obtain d where "positions_replace_all (rr_broker_positions rr) (ap_db s) = (Inr x, d)" and "ap_db s1 = d"
    by (auto simp: on_store_def split: prod.splits)
  with positions_replace_all_result [OF this(1)] keepsD [OF stored_event ev]
  show "stored_positions t = rr_broker_positions rr" and "distinct (map po_con_id (rr_broker_positions rr))"
    by (simp_all add: stored_positions_def)
qed

lemma reconcile_stores:
  assumes run: "run_reconcile E s = (Inr u, t)" and ok: "rec_succeeded (ap_reconciliation t)"
  shows "stored_positions t = rr_broker_positions (ap_reconciliation t)"
    and "distinct (map po_con_id (stored_positions t))" and "ap_book t = book_of (stored_positions t)"
proof -
  from run obtain s1 available s2 where cmp: "read_and_compare E available s2 = (Inr u, t)"
    by (auto simp: run_reconcile_def elim!: sbind_InrE)
  have "stored_positions t = rr_broker_positions (ap_reconciliation t)
      \<and> distinct (map po_con_id (rr_broker_positions (ap_reconciliation t)))"
    using cmp
  proof (cases rule: read_and_compare_cases)
    case (unread e s3)
    with ok show ?thesis by (simp add: rec_succeeded_def)
  next
    case (raised e s3)
    then show ?thesis by simp
  next
    case (compared ps os fs s3)
    from compared(2) obtain rr s4 where adopt: "adopt_reconciliation E rr s4 = (Inr u, t)"
      by (auto simp: compare_with_broker_def elim!: sbind_InrE)
    have "ap_reconciliation t = rr" by (rule adopt_book(1) [OF adopt])
    with adoption_stores [OF adopt] ok show ?thesis by simp
  qed
  with run_reconcile_success(2) [OF run ok]
  show "stored_positions t = rr_broker_positions (ap_reconciliation t)"
    and "distinct (map po_con_id (stored_positions t))" and "ap_book t = book_of (stored_positions t)" by simp_all
qed

section \<open>A concrete account\<close>

text \<open>
  One contract bought by another client, with its execution; while the state of the broker is
  \<open>True\<close> that client also has an order working.
\<close>

definition held_position :: broker_position where
  "held_position =
     \<lparr> bp_account_id = ''A'', bp_con_id = 7, bp_symbol = ''MSL'', bp_local_symbol = ''MSLU6'',
       bp_sec_type = ''FUT'', bp_exchange = ''CME'', bp_currency = ''USD'', bp_quantity = 1,
       bp_average_cost = Dec 150 0 \<rparr>"

definition stray_order :: order_snapshot where
  "stray_order =
     \<lparr> os_broker_order_id = ''9'', os_account_id = ''A'', os_con_id = 7, os_symbol = ''MSL'', os_side = Buy,
       os_quantity = 1, os_order_type = Limit, os_status = St_Submitted, os_filled_quantity = 0,
       os_remaining_quantity = 1, os_limit_price = Some (Dec 1 0), os_stop_price = None,
       os_average_fill_price = None, os_perm_id = None, os_client_id = None, os_time_in_force = Day \<rparr>"

definition seen_fill :: broker_fill where
  "seen_fill =
     \<lparr> bf_execution_id = ''e1'', bf_broker_order_id = ''8'', bf_account_id = ''A'', bf_con_id = 7,
       bf_symbol = ''MSL'', bf_side = Buy, bf_quantity = 1, bf_price = Dec 150 0, bf_executed_at = Micros 0,
       bf_commission = None, bf_commission_currency = None \<rparr>"

definition account_broker :: "bool broker" where
  "account_broker = (flag_broker None)
     \<lparr> br_is_connected := (\<lambda>b. True), br_positions := (\<lambda>b. (Inr [held_position], b)),
       br_open_orders := (\<lambda>b. (Inr (if b then [stray_order] else []), b)),
       br_fills := (\<lambda>now b. (Inr [seen_fill], b)) \<rparr>"

definition account_env :: "(bool, unit) runtime_env" where
  "account_env = (flag_env Mode_Mock None) \<lparr> en_broker := account_broker \<rparr>"

definition with_broker :: "bool \<Rightarrow> (bool, unit) app \<Rightarrow> (bool, unit) app" where
  "with_broker b s = s \<lparr> ap_session := Some
     \<lparr> ss_broker = b, ss_cache = Map.empty, ss_market = make_market_data (Flt 5) \<rparr> \<rparr>"

text \<open>The application after a reconciliation that the stray order made fail.\<close>

definition disturbed_app :: "(bool, unit) app" where
  "disturbed_app = snd (run_reconcile account_env
     (with_broker True (make_app (empty_db \<lparr> db_open := True \<rparr>))))"

definition restarted_app :: "(bool, unit) app" where
  "restarted_app = snd (startup account_env (make_app (ap_db disturbed_app)))"

definition settled_app :: "(bool, unit) app" where
  "settled_app = snd (run_reconcile account_env (with_broker False disturbed_app))"

lemma settled_app_facts:
  "fst (run_reconcile account_env (with_broker False disturbed_app)) = Inr ()"
  "rec_succeeded (ap_reconciliation settled_app)" "book_quantity (ap_book settled_app) 7 = 1"
  "fst (startup account_env (make_app (db_close (ap_db settled_app)))) = Inr ()"
proof -
  have "let x = run_reconcile account_env (with_broker False disturbed_app); s = snd x
      in fst x = Inr () \<and> rec_succeeded (ap_reconciliation s) \<and> book_quantity (ap_book s) 7 = 1
        \<and> fst (startup account_env (make_app (db_close (ap_db s)))) = Inr ()"
    by code_simp
  then show "fst (run_reconcile account_env (with_broker False disturbed_app)) = Inr ()"
    "rec_succeeded (ap_reconciliation settled_app)" "book_quantity (ap_book settled_app) 7 = 1"
    "fst (startup account_env (make_app (db_close (ap_db settled_app)))) = Inr ()"
    unfolding Let_def settled_app_def by blast+
qed

lemma restarted_app_facts:
  "ap_book restarted_app = []" "map execution_id (t_fills (ap_db restarted_app)) = [''e1'']"
  by code_simp+

lemma restarted_fills: "{''e1''} \<subseteq> execution_id ` set (t_fills (ap_db restarted_app))"
proof -
  have "set (map execution_id (t_fills (ap_db restarted_app))) = {''e1''}"
    by (simp only: restarted_app_facts(2)) simp
  then show ?thesis by (simp only: set_map)
qed

section \<open>Properties\<close>

text \<open>
  C23: Recovery is automatic: once the timer is due, an application over a healthy database without a
  latched kill switch whose account agrees with it (the quantities of every contract, the working
  orders, no unrecorded execution) becomes READY in that turn, whatever state it was in, provided
  the configuration trades.
\<close>

theorem agreement_restores_ready:
  assumes "calm s" and "among Q s" and "broker_answers (en_broker E) Q ps os fs" and "known_fills s fs"
    and "book_ok (ap_book s)" and "\<forall>c. book_quantity (ap_book s) c = reported_quantity ps c"
    and "orders_agree (t_orders (ap_db s)) os" and "distinct (map bp_con_id ps)"
    and "cfg_trading_mode (en_config E) \<noteq> Mode_Disabled" and "cfg_allow_order_transmit (en_config E)"
    and "\<not> cfg_kill_switch (en_config E)"
    and "\<not> flt_leq (reconcile_interval_seconds (en_config E)) (Flt 0)"
    and "ap_next_reconcile_at s = Some due" and "\<not> flt_less (en_loop_time E (ap_loop_reads s)) due"
  shows "\<exists>t. maybe_reconcile E s = (Inr (), t) \<and> ap_state t = App_Ready"
proof -
  let ?next = "Some (flt_add (en_loop_time E (ap_loop_reads s)) (reconcile_interval_seconds (en_config E)))"
  let ?s = "s \<lparr> ap_loop_reads := Suc (ap_loop_reads s), ap_next_reconcile_at := ?next \<rparr>"
  have "maybe_reconcile E s = reconcile_on_timer E ?s"
    using assms(12-14) by (simp add: maybe_reconcile_def Let_def)
  moreover have "\<exists>t. reconcile_on_timer E ?s = (Inr (), t) \<and> ap_state t = App_Ready"
    by (rule agreement_settles [of ?s Q E ps os fs]) (use assms in \<open>simp_all add: known_fills_def\<close>)
  ultimately show ?thesis by simp
qed

definition waiting_app :: "(bool, unit) app" where
  "waiting_app = (with_broker True (make_app (empty_db \<lparr> db_open := True \<rparr>)))
     \<lparr> ap_state := App_Safe, ap_next_reconcile_at := Some (Flt 0) \<rparr>"

theorem agreement_restores_ready_witness:
  "\<exists>t. ap_state waiting_app = App_Safe \<and> maybe_reconcile (flag_env Mode_Mock None) waiting_app = (Inr (), t)
     \<and> ap_state t = App_Ready"
proof -
  let ?E = "flag_env Mode_Mock None"
  have "calm waiting_app"
    by (simp add: calm_def healthy_def waiting_app_def with_broker_def make_app_def empty_db_def state.latch_set_def)
  moreover have "among UNIV waiting_app" by (simp add: among_def waiting_app_def with_broker_def)
  moreover have "broker_answers (en_broker ?E) UNIV [] [] []" by (simp add: broker_answers_def flag_env_def flag_broker_def)
  moreover have "cfg_trading_mode (en_config ?E) \<noteq> Mode_Disabled" "cfg_allow_order_transmit (en_config ?E)"
    "\<not> cfg_kill_switch (en_config ?E)" "\<not> flt_leq (reconcile_interval_seconds (en_config ?E)) (Flt 0)"
    by code_simp+
  ultimately show ?thesis
    using agreement_restores_ready [of waiting_app UNIV ?E "[]" "[]" "[]" "Flt 0"]
    by (simp add: known_fills_def waiting_app_def with_broker_def make_app_def book_ok_empty book_quantity_def
        reported_quantity_def orders_agree_def empty_db_def flag_env_def)
qed

text \<open>
  C34: A fill that was recorded but not adopted is never made up for: while the broker reports, for
  some contract, another quantity than the book and no execution that is not recorded yet, every
  reconciliation leaves the book and the recorded executions as they are and the application out of
  READY, however the broker otherwise answers and the database fails.
\<close>

theorem recorded_fills_never_catch_up:
  assumes "reconcile_on_timer E s = (r, t)" and "reports E c q ids"
    and "ids \<subseteq> execution_id ` set (t_fills (ap_db s))" and "book_ok (ap_book s)"
    and "q \<noteq> book_quantity (ap_book s) c"
  shows "ap_book t = ap_book s \<and> t_fills (ap_db t) = t_fills (ap_db s) \<and> ap_state t \<noteq> App_Ready"
  using stranded_timer [OF assms] by (simp add: holdings_def)

lemma account_reports: "reports account_env 7 1 {''e1''}"
  by (simp add: reports_def account_env_def account_broker_def flag_env_def flag_broker_def
      reported_quantity_def held_position_def seen_fill_def)

theorem recorded_fills_never_catch_up_witness:
  "ap_state (snd (reconcile_on_timer account_env (with_broker False restarted_app))) \<noteq> App_Ready"
proof -
  let ?s = "with_broker False restarted_app"
  obtain r t where run: "reconcile_on_timer account_env ?s = (r, t)" by (metis surj_pair)
  have "book_ok (ap_book ?s)" "1 \<noteq> book_quantity (ap_book ?s) 7" "{''e1''} \<subseteq> execution_id ` set (t_fills (ap_db ?s))"
    using restarted_app_facts(1) restarted_fills
    by (simp_all add: with_broker_def book_ok_empty book_quantity_def)
  with recorded_fills_never_catch_up [OF run account_reports] run show ?thesis by simp
qed

text \<open>
  The order of recording and adopting matters: the execution is recorded before the comparison and
  the book is written to disk only after it succeeded. With a stray order at the broker the comparison
  fails; when the stray order is gone the same process agrees with the account, but a process
  started from the database in between never does, as it neither has the position nor applies the
  execution again.
\<close>

theorem restart_after_failed_reconciliation_loses_fill:
  "\<not> rec_succeeded (ap_reconciliation disturbed_app) \<and> book_quantity (ap_book disturbed_app) 7 = 1
   \<and> rec_succeeded (ap_reconciliation settled_app)
   \<and> book_quantity (ap_book restarted_app) 7 = 0
   \<and> \<not> rec_succeeded (ap_reconciliation (snd (run_reconcile account_env (with_broker False restarted_app))))"
  by code_simp

text \<open>
  C24: What a reconciliation adopted survives a crash: if it returned and agreed, a process started
  from the database it left has, for every contract, the quantity this process has.
\<close>

theorem restart_restores_the_book:
  assumes "run_reconcile E s = (Inr u, t)" and "rec_succeeded (ap_reconciliation t)"
    and "startup E' (make_app (db_close (ap_db t))) = (Inr v, s')"
  shows "book_quantity (ap_book s') c = book_quantity (ap_book t) c"
proof -
  let ?ps = "stored_positions t"
  note stored = reconcile_stores [OF assms(1,2)]
  have "ap_book s' = book_of (sort_key po_symbol ?ps)"
    using startup_book [OF assms(3)] by (simp add: db_close_def stored_positions_def)
  moreover have "distinct (map po_con_id (sort_key po_symbol ?ps))"
    using stored(2) by (simp add: distinct_map)
  ultimately show ?thesis
    using stored(2,3) find_permuted [OF stored(2), of "sort_key po_symbol ?ps" c]
    by (simp add: book_of_quantity)
qed

theorem restart_restores_the_book_witness:
  "book_quantity (ap_book (snd (startup account_env (make_app (db_close (ap_db settled_app)))))) 7 = 1"
proof -
  let ?s = "snd (startup account_env (make_app (db_close (ap_db settled_app))))"
  have "run_reconcile account_env (with_broker False disturbed_app) = (Inr (), settled_app)"
    using settled_app_facts(1) by (simp add: settled_app_def) (metis prod.collapse)
  moreover have "startup account_env (make_app (db_close (ap_db settled_app))) = (Inr (), ?s)"
    using settled_app_facts(4) by (metis prod.collapse)
  ultimately show ?thesis
    using restart_restores_the_book [OF _ settled_app_facts(2)] settled_app_facts(3) by metis
qed

end
