(* ===== verification/IbWire.thy ===== *)
theory IbWire
  imports BrokerModels
begin

text \<open>
  \<^verbatim>\<open>app/broker/ibkr_broker.py\<close>, its pure part: the classification of broker errors, the identity of
  an account, and the translation between the objects of the broker's library and the program's
  own. The objects of that library are records of the attributes the adapter reads or assigns; an
  attribute a release lacks holds the default the adapter's \<^verbatim>\<open>getattr\<close> names. An attribute whose
  type varies with the release is an \<open>ib_value\<close>. The blank objects its constructors return, the
  time zone data and ISO text are arguments.
\<close>

section \<open>Errors\<close>

definition info_codes :: "int list" where
  "info_codes = [2103, 2104, 2105, 2106, 2107, 2108, 2119, 2158, 2168, 2169]"

definition connectivity_codes :: "int list" where
  "connectivity_codes = [502, 504, 1100, 1101, 1102, 1300, 2110]"

definition permission_codes :: "int list" where
  "permission_codes = [354, 10089, 10090, 10091, 10197, 10168, 10187, 10276, 460]"

definition contract_codes :: "int list" where
  "contract_codes = [200, 203, 321, 322, 430]"

definition order_reject_codes :: "int list" where
  "order_reject_codes = [201, 202, 103, 104, 110, 10147, 10148]"

definition classify_ib_error :: "int \<Rightarrow> string \<Rightarrow> exn option" where
  "classify_ib_error code message =
     (if code \<in> set info_codes then None
      else if code \<in> set connectivity_codes then Some BrokerConnectionError
      else if code \<in> set permission_codes then Some BrokerPermissionError
      else if code \<in> set contract_codes then Some BrokerContractError
      else if code \<in> set order_reject_codes then Some BrokerOrderRejectedError
      else (let lowered = py_lower message in
            if occurs_in ''not permitted'' lowered \<or> occurs_in ''not enabled'' lowered
               \<or> occurs_in ''permission'' lowered
            then Some BrokerPermissionError
            else Some BrokerError))"

text \<open>The two shapes in which the library reports an error.\<close>

datatype ib_arg = A_Int int | A_Str string | A_Other

fun arg_int :: "ib_arg \<Rightarrow> int option" where
  "arg_int (A_Int i) = Some i"
| "arg_int _ = None"

fun arg_str :: "ib_arg \<Rightarrow> string option" where
  "arg_str (A_Str s) = Some s"
| "arg_str _ = None"

record ib_error_kwargs =
  kw_req_id :: "int option"
  kw_error_code :: "int option"
  kw_error_string :: "string option"

definition parse_error_args ::
  "ib_arg list \<Rightarrow> ib_error_kwargs option \<Rightarrow> int option \<times> int \<times> string" where
  "parse_error_args args kwargs =
     (case kwargs of
        Some k \<Rightarrow> (kw_req_id k, or_else (kw_error_code k) (- 1), or_else (kw_error_string k) '''')
      | None \<Rightarrow>
          (let numeric = List.map_filter arg_int args;
               strings = List.map_filter arg_str args;
               message = (case strings of [] \<Rightarrow> '''' | s # _ \<Rightarrow> s)
           in if 3 \<le> length numeric then (Some (numeric ! 0), numeric ! 2, message)
              else if length numeric = 2 then (Some (numeric ! 0), numeric ! 1, message)
              else if length numeric = 1 then (None, numeric ! 0, message)
              else (None, - 1, message)))"

section \<open>Accounts\<close>

definition account_type_from_account_id :: "string option \<Rightarrow> account_type" where
  "account_type_from_account_id account_id =
     (let cleaned = py_upper (py_strip (or_else account_id '''')) in
      if cleaned = [] then Acct_Unknown
      else if starts_with ''DU'' cleaned \<or> starts_with ''DF'' cleaned \<or> starts_with ''DI'' cleaned
      then Acct_Paper
      else if starts_with ''U'' cleaned \<and> 2 \<le> length cleaned \<and> is_digit (cleaned ! 1) then Acct_Live
      else Acct_Unknown)"

definition account_type_for_accounts :: "string list \<Rightarrow> account_type" where
  "account_type_for_accounts account_ids =
     (case remdups (map (\<lambda>a. account_type_from_account_id (Some a)) (filter (\<lambda>a. py_strip a \<noteq> []) account_ids)) of
        [t] \<Rightarrow> t
      | _ \<Rightarrow> Acct_Unknown)"

section \<open>Numbers\<close>

text \<open>
  \<^verbatim>\<open>Decimal(str(x))\<close> of a float. \<^verbatim>\<open>str\<close> writes the shortest decimal number that reads back as the
  float, the nearest one when there are two, with a point unless the exponent is out of range.
\<close>

definition float_exponent :: "int \<Rightarrow> int \<Rightarrow> int" where
  "float_exponent n d =
     (let k = int (ndigits n) - int (ndigits d) in
      if n * 10 ^ nat (- k) \<ge> d * 10 ^ nat k then k else k - 1)"

definition digits_at :: "rat \<Rightarrow> nat \<Rightarrow> (int \<times> int) option" where
  "digits_at q count =
     (case quotient_of q of (n, d) \<Rightarrow>
        (let k = float_exponent n d - int count + 1;
             num = n * 10 ^ nat (- k);
             den = d * 10 ^ nat k;
             lo = num div den;
             reads_back = (\<lambda>c. rnd_frac (c * 10 ^ nat k) (10 ^ nat (- k)) = Flt q);
             low_is_near = 2 * (num mod den) < den \<or> 2 * (num mod den) = den \<and> even lo
         in if reads_back lo \<and> (low_is_near \<or> \<not> reads_back (lo + 1)) then Some (lo, k)
            else if reads_back (lo + 1) then Some (lo + 1, k)
            else None))"

primrec shortest_digits :: "rat \<Rightarrow> nat list \<Rightarrow> int \<times> int" where
  "shortest_digits q [] = (0, 0)"
| "shortest_digits q (n # ns) = (case digits_at q n of Some r \<Rightarrow> r | None \<Rightarrow> shortest_digits q ns)"

fun dec_of_float :: "pyfloat \<Rightarrow> decimal" where
  "dec_of_float FNaN = DNaN"
| "dec_of_float (FInf n) = DInf n"
| "dec_of_float (Flt q) =
     (if q = 0 then Dec 0 (- 1)
      else (case (case shortest_digits \<bar>q\<bar> [1..<18] of (c, e) \<Rightarrow> strip_zeros 18 c e) of (c, e) \<Rightarrow>
              if 0 \<le> e \<and> ndigits c + nat e \<le> 16
              then Dec ((if q < 0 then - 1 else 1) * c * 10 ^ nat e * 10) (- 1)
              else Dec ((if q < 0 then - 1 else 1) * c) e))"

text \<open>\<^verbatim>\<open>float(d)\<close> and \<^verbatim>\<open>int(d)\<close>.\<close>

fun float_of_dec :: "decimal \<Rightarrow> pyfloat" where
  "float_of_dec (Dec c e) = rnd_frac (c * 10 ^ nat e) (10 ^ nat (- e))"
| "float_of_dec (DInf n) = FInf n"
| "float_of_dec DNaN = FNaN"

fun int_of_dec :: "decimal \<Rightarrow> int result" where
  "int_of_dec (Dec c e) = Inr (sgn c * ((\<bar>c\<bar> * 10 ^ nat e) div 10 ^ nat (- e)))"
| "int_of_dec (DInf n) = Inl OverflowError"
| "int_of_dec DNaN = Inl ValueError"

datatype ib_value = V_None | V_Int int | V_Str string | V_Dec decimal | V_Flt pyfloat

fun ib_number :: "ib_value \<Rightarrow> decimal option" where
  "ib_number V_None = None"
| "ib_number (V_Int i) = Some (dec_of_int i)"
| "ib_number (V_Str s) = py_decimal s"
| "ib_number (V_Dec d) = Some d"
| "ib_number (V_Flt x) = Some (dec_of_float x)"

definition to_decimal :: "ib_value \<Rightarrow> decimal result" where
  "to_decimal v = (case ib_number v of None \<Rightarrow> Inl InvalidOperation | Some d \<Rightarrow> Inr d)"

text \<open>\<^verbatim>\<open>_safe_int\<close> answers 0 on the three exceptions it names.\<close>

definition safe_int :: "ib_value \<Rightarrow> int result" where
  "safe_int v =
     (case ebind (to_decimal v) int_of_dec of
        Inl e \<Rightarrow> if e \<in> set [InvalidOperation, TypeError, ValueError] then Inr 0 else Inl e
      | Inr i \<Rightarrow> Inr i)"

definition no_value_sentinels :: "decimal list" where
  "no_value_sentinels = [Dec (- 1) 0, Dec 17976931348623157 292]"

definition opt_decimal :: "ib_value \<Rightarrow> decimal option" where
  "opt_decimal v =
     (if v = V_None \<or> v = V_Str '''' then None
      else (case ib_number v of
              None \<Rightarrow> None
            | Some d \<Rightarrow> if \<exists>x \<in> set no_value_sentinels. dec_eq d x then None else Some d))"

section \<open>Execution times\<close>

text \<open>
  \<^verbatim>\<open>strptime\<close> with \<^verbatim>\<open>%Y%m%d %H:%M:%S\<close>. Each directive is a regular expression whose alternatives
  are tried in order; a field is the list of its readings, with what follows each of them.
\<close>

definition reads_digits :: "nat \<Rightarrow> (int \<Rightarrow> bool) \<Rightarrow> string \<Rightarrow> (int \<times> string) list" where
  "reads_digits n ok s =
     (let w = take n s in
      if length w = n \<and> list_all is_digit w \<and> ok (digits_val w) then [(digits_val w, drop n s)] else [])"

definition reads_char :: "char \<Rightarrow> string \<Rightarrow> string list" where
  "reads_char c s = (case s of [] \<Rightarrow> [] | x # r \<Rightarrow> if x = c then [r] else [])"

definition reads_year :: "string \<Rightarrow> (int \<times> string) list" where
  "reads_year = reads_digits 4 (\<lambda>n. True)"

definition reads_month :: "string \<Rightarrow> (int \<times> string) list" where
  "reads_month s = reads_digits 2 (\<lambda>n. 1 \<le> n \<and> n \<le> 12) s @ reads_digits 1 (\<lambda>n. 1 \<le> n) s"

definition reads_day :: "string \<Rightarrow> (int \<times> string) list" where
  "reads_day s =
     reads_digits 2 (\<lambda>n. 1 \<le> n \<and> n \<le> 31) s @ reads_digits 1 (\<lambda>n. 1 \<le> n) s
     @ concat (map (reads_digits 1 (\<lambda>n. 1 \<le> n)) (reads_char (CHR '' '') s))"

definition reads_hour :: "string \<Rightarrow> (int \<times> string) list" where
  "reads_hour s = reads_digits 2 (\<lambda>n. n \<le> 23) s @ reads_digits 1 (\<lambda>n. True) s"

definition reads_minute :: "string \<Rightarrow> (int \<times> string) list" where
  "reads_minute s = reads_digits 2 (\<lambda>n. n \<le> 59) s @ reads_digits 1 (\<lambda>n. True) s"

definition reads_second :: "string \<Rightarrow> (int \<times> string) list" where
  "reads_second s = reads_digits 2 (\<lambda>n. n \<le> 61) s @ reads_digits 1 (\<lambda>n. True) s"

definition reads_stamp :: "string \<Rightarrow> ((int \<times> int \<times> int) \<times> (int \<times> int \<times> int) \<times> string) list" where
  "reads_stamp s =
     [((y, m, d), (hh, mm, ss), r6).
        (y, r1) \<leftarrow> reads_year s, (m, r2) \<leftarrow> reads_month r1, (d, r3) \<leftarrow> reads_day r2,
        q3 \<leftarrow> reads_char (CHR '' '') r3, (hh, r4) \<leftarrow> reads_hour q3,
        q4 \<leftarrow> reads_char (CHR '':'') r4, (mm, r5) \<leftarrow> reads_minute q4,
        q5 \<leftarrow> reads_char (CHR '':'') r5, (ss, r6) \<leftarrow> reads_second q5]"

definition is_leap :: "int \<Rightarrow> bool" where
  "is_leap y = (y mod 4 = 0 \<and> (y mod 100 \<noteq> 0 \<or> y mod 400 = 0))"

definition month_days :: "int \<Rightarrow> int \<Rightarrow> int" where
  "month_days y m =
     (if m = 2 then (if is_leap y then 29 else 28) else if m \<in> set [4, 6, 9, 11] then 30 else 31)"

text \<open>Days from the epoch to a date of the proleptic Gregorian calendar.\<close>

definition days_before_year :: "int \<Rightarrow> int" where
  "days_before_year y = 365 * (y - 1) + (y - 1) div 4 - (y - 1) div 100 + (y - 1) div 400 - 719162"

definition days_from_epoch :: "int \<Rightarrow> int \<Rightarrow> int \<Rightarrow> int" where
  "days_from_epoch y m d = days_before_year y + sum_list (map (month_days y) [1..m - 1]) + d - 1"

definition parse_stamp :: "string \<Rightarrow> int result" where
  "parse_stamp s =
     (case reads_stamp s of
        ((y, m, d), (hh, mm, ss), rest) # _ \<Rightarrow>
          if rest \<noteq> [] \<or> y < 1 \<or> d > month_days y m \<or> ss > 59 then Inl ValueError
          else Inr ((days_from_epoch y m d * 86400 + hh * 3600 + mm * 60 + ss) * 1000000)
      | [] \<Rightarrow> Inl ValueError)"

text \<open>
  \<^verbatim>\<open>_parse_ib_time\<close>. \<open>zone name local\<close> is the instant that the reading \<open>local\<close> of a wall clock in the
  named zone denotes, \<open>None\<close> where \<^verbatim>\<open>ZoneInfo\<close> or the conversion raises.
\<close>

definition from_timestamp :: "int \<Rightarrow> instant result" where
  "from_timestamp n =
     (if n \<ge> 2 ^ 63 then Inl OverflowError
      else if n > 67768036191676799 then Inl OSError
      else if n > 253402300799 then Inl ValueError
      else Inr (Micros (n * 1000000)))"

definition parse_ib_time :: "(string \<Rightarrow> int \<Rightarrow> instant option) \<Rightarrow> string \<Rightarrow> instant result" where
  "parse_ib_time zone value =
     (let text = py_strip value in
      if py_isdigit text \<and> 10 \<le> length text
      then (if 4300 < length text then Inl ValueError else from_timestamp (digits_val text))
      else
        (let parts = py_words text;
             stamp = (case parts of [] \<Rightarrow> '''' | [d] \<Rightarrow> d | d # t # _ \<Rightarrow> d @ '' '' @ t);
             tz_name = (if 2 < length parts then Some (parts ! 2) else None)
         in ebind (parse_stamp stamp) (\<lambda>local.
              (case tz_name of
                 None \<Rightarrow> Inr (Micros local)
               | Some name \<Rightarrow> Inr (or_else (zone name local) (Micros local))))))"

lemma zone_unknown_is_read_as_utc:
  assumes "zone name local = None" and "parse_stamp (d @ '' '' @ t) = Inr local"
    and "py_words (py_strip value) = [d, t, name]" and "\<not> py_isdigit (py_strip value)"
  shows "parse_ib_time zone value = Inr (Micros local)"
  using assms by (simp add: parse_ib_time_def Let_def)

section \<open>Orders\<close>

definition ib_status_map :: "(string \<times> order_status) list" where
  "ib_status_map =
     [(''PendingSubmit'', St_Pending_Submit), (''PendingCancel'', St_Cancel_Pending),
      (''PreSubmitted'', St_Submitted), (''Submitted'', St_Acknowledged),
      (''ApiCancelled'', St_Cancelled), (''Cancelled'', St_Cancelled),
      (''Filled'', St_Filled), (''Inactive'', St_Rejected)]"

definition order_type_map :: "(order_type \<times> string) list" where
  "order_type_map = [(Market, ''MKT''), (Limit, ''LMT''), (Stop, ''STP''), (Stop_Limit, ''STP LMT'')]"

definition transmittable_order_types :: "order_type list" where
  "transmittable_order_types = [Market, Limit]"

definition order_type_from_ib :: "string \<Rightarrow> order_type" where
  "order_type_from_ib value =
     or_else (map_of (map (\<lambda>(k, v). (v, k)) order_type_map) (py_upper value)) Market"

record ib_contract =
  ic_con_id :: int
  ic_symbol :: string
  ic_sec_type :: string
  ic_exchange :: string
  ic_currency :: string
  ic_expiry :: string
  ic_trading_class :: string
  ic_local_symbol :: string
  ic_multiplier :: string
  ic_primary_exchange :: string

record ib_order =
  io_action :: string
  io_total_quantity :: ib_value
  io_order_type :: string
  io_tif :: string
  io_lmt_price :: ib_value
  io_aux_price :: ib_value
  io_transmit :: bool
  io_order_ref :: string
  io_what_if :: bool
  io_account :: string
  io_perm_id :: int
  io_client_id :: int

record ib_order_state =
  ost_status :: string
  ost_commission :: ib_value
  ost_commission_and_fee :: ib_value
  ost_init_margin :: ib_value
  ost_maint_margin :: ib_value

record ib_execution =
  ie_exec_id :: string
  ie_order_id :: int
  ie_account :: string
  ie_side :: string
  ie_shares :: ib_value
  ie_price :: ib_value
  ie_time :: string

record ib_details =
  idt_contract :: ib_contract
  idt_real_expiration :: string
  idt_min_tick :: ib_value
  idt_trading_class :: string
  idt_trading_hours :: string
  idt_liquid_hours :: string
  idt_time_zone :: string
  idt_long_name :: string

text \<open>\<open>blank\<close> is the object that the constructor \<^verbatim>\<open>Contract()\<close> or \<^verbatim>\<open>Order()\<close> returns.\<close>

definition set_text :: "string option \<Rightarrow> (string \<Rightarrow> 'c \<Rightarrow> 'c) \<Rightarrow> 'c \<Rightarrow> 'c" where
  "set_text v f c = (case v of None \<Rightarrow> c | Some s \<Rightarrow> if s = [] then c else f s c)"

definition to_ib_contract :: "ib_contract \<Rightarrow> contract_spec \<Rightarrow> ib_contract" where
  "to_ib_contract blank spec =
     (let c0 = blank \<lparr> ic_symbol := sp_symbol spec, ic_sec_type := security_type_value (sp_sec_type spec),
                       ic_exchange := sp_exchange spec, ic_currency := sp_currency spec \<rparr>;
          c1 = set_text (sp_last_trade_date_or_contract_month spec) (\<lambda>s c. c \<lparr> ic_expiry := s \<rparr>) c0;
          c2 = set_text (sp_trading_class spec) (\<lambda>s c. c \<lparr> ic_trading_class := s \<rparr>) c1;
          c3 = set_text (sp_local_symbol spec) (\<lambda>s c. c \<lparr> ic_local_symbol := s \<rparr>) c2;
          c4 = (case sp_con_id spec of None \<Rightarrow> c3
                | Some i \<Rightarrow> if i = 0 then c3 else c3 \<lparr> ic_con_id := i \<rparr>)
      in set_text (sp_multiplier spec) (\<lambda>s c. c \<lparr> ic_multiplier := s \<rparr>) c4)"

definition to_ib_order :: "ib_order \<Rightarrow> order_request \<Rightarrow> ib_order result" where
  "to_ib_order blank r =
     (case map_of order_type_map (rq_order_type r) of
        None \<Rightarrow> Inl KeyError
      | Some kind \<Rightarrow>
          Inr (blank \<lparr> io_action := order_side_value (rq_side r),
                 io_total_quantity := V_Dec (dec_of_int (rq_quantity r)),
                 io_order_type := kind, io_tif := time_in_force_value (rq_time_in_force r),
                 io_lmt_price := (case rq_limit_price r of None \<Rightarrow> io_lmt_price blank
                                  | Some p \<Rightarrow> V_Flt (float_of_dec p)),
                 io_aux_price := (case rq_stop_price r of None \<Rightarrow> io_aux_price blank
                                  | Some p \<Rightarrow> V_Flt (float_of_dec p)),
                 io_transmit := True, io_order_ref := rq_correlation_id r \<rparr>))"

definition permission_probe_limit_price :: decimal where
  "permission_probe_limit_price = Dec 100 (- 2)"

text \<open>The order a permission probe asks the broker to price.\<close>

definition probe_order :: "ib_order \<Rightarrow> ib_order" where
  "probe_order blank =
     blank \<lparr> io_action := order_side_value Buy, io_total_quantity := V_Dec (dec_of_int 1),
             io_order_type := ''LMT'', io_tif := time_in_force_value Day,
             io_lmt_price := V_Flt (float_of_dec permission_probe_limit_price),
             io_order_ref := ''permission-probe'', io_what_if := True \<rparr>"

section \<open>Answers\<close>

definition some_text :: "string \<Rightarrow> string option" where
  "some_text s = (if s = [] then None else Some s)"

definition first_text :: "string list \<Rightarrow> string" where
  "first_text ss = or_else (List.find (\<lambda>s. s \<noteq> []) ss) ''''"

definition ib_falsy :: "ib_value \<Rightarrow> bool" where
  "ib_falsy v =
     (case v of V_None \<Rightarrow> True | V_Int i \<Rightarrow> i = 0 | V_Str s \<Rightarrow> s = [] | V_Dec d \<Rightarrow> \<not> dec_truthy d
      | V_Flt x \<Rightarrow> x = Flt 0)"

definition from_ib_contract_details ::
  "(instant \<Rightarrow> string) \<Rightarrow> instant \<Rightarrow> ib_details \<Rightarrow> qualified_contract result" where
  "from_ib_contract_details as_iso now d =
     (let c = idt_contract d in
      ebind (to_decimal (if ib_falsy (idt_min_tick d) then V_Str ''0.01'' else idt_min_tick d)) (\<lambda>tick.
      make_qualified
        \<lparr> con_id = ic_con_id c, qc_symbol = ic_symbol c, qc_local_symbol = ic_local_symbol c,
          qc_sec_type = Future, qc_exchange = ic_exchange c, qc_currency = ic_currency c,
          expiration = ic_expiry c,
          last_trade_date = first_text [idt_real_expiration d, ic_expiry c],
          qc_multiplier = first_text [ic_multiplier c, ''1''], min_tick = tick,
          qc_trading_class = first_text [idt_trading_class d, ic_trading_class c],
          primary_exchange = some_text (ic_primary_exchange c),
          trading_hours = some_text (idt_trading_hours d),
          liquid_hours = some_text (idt_liquid_hours d),
          time_zone_id = some_text (idt_time_zone d), long_name = some_text (idt_long_name d),
          qualified_at = Some (as_iso now) \<rparr>))"

text \<open>A row of the positions reply; a flat one is dropped.\<close>

definition position_from_row ::
  "string \<times> ib_contract \<times> ib_value \<times> ib_value \<Rightarrow> broker_position option result" where
  "position_from_row row =
     (case row of (account, c, quantity, avg_cost) \<Rightarrow>
        ebind (ebind (to_decimal quantity) int_of_dec) (\<lambda>size.
        if size = 0 then Inr None
        else ebind (to_decimal avg_cost) (\<lambda>cost.
          Inr (Some \<lparr> bp_account_id = account, bp_con_id = ic_con_id c, bp_symbol = ic_symbol c,
                      bp_local_symbol = ic_local_symbol c, bp_sec_type = ic_sec_type c,
                      bp_exchange = ic_exchange c, bp_currency = ic_currency c,
                      bp_quantity = size, bp_average_cost = cost \<rparr>))))"

definition order_from_row ::
  "string option \<Rightarrow> int \<times> ib_contract \<times> ib_order \<times> ib_order_state \<Rightarrow> order_snapshot result" where
  "order_from_row account row =
     (case row of (order_id, c, ord, st) \<Rightarrow>
        ebind (ebind (to_decimal (io_total_quantity ord)) int_of_dec) (\<lambda>quantity.
        Inr \<lparr> os_broker_order_id = int_str order_id,
              os_account_id = first_text [io_account ord, or_else account ''''],
              os_con_id = ic_con_id c, os_symbol = ic_symbol c,
              os_side = (if py_upper (io_action ord) = ''BUY'' then Buy else Sell),
              os_quantity = quantity, os_order_type = order_type_from_ib (io_order_type ord),
              os_status = or_else (map_of ib_status_map (ost_status st)) St_Submitted,
              os_filled_quantity = 0, os_remaining_quantity = 0,
              os_limit_price = opt_decimal (io_lmt_price ord),
              os_stop_price = opt_decimal (io_aux_price ord), os_average_fill_price = None,
              os_perm_id = Some (if io_perm_id ord = 0 then '''' else int_str (io_perm_id ord)),
              os_client_id = Some (io_client_id ord), os_time_in_force = Day \<rparr>))"

definition fill_from_row ::
  "(string \<times> (decimal \<times> string)) list \<Rightarrow> instant \<Rightarrow> ib_contract \<Rightarrow> ib_execution \<Rightarrow> broker_fill result" where
  "fill_from_row commissions executed_at c x =
     (let commission = map_of commissions (ie_exec_id x) in
      ebind (ebind (to_decimal (ie_shares x)) int_of_dec) (\<lambda>quantity.
      ebind (to_decimal (ie_price x)) (\<lambda>price.
      Inr \<lparr> bf_execution_id = ie_exec_id x, bf_broker_order_id = int_str (ie_order_id x),
            bf_account_id = ie_account x, bf_con_id = ic_con_id c, bf_symbol = ic_symbol c,
            bf_side = (if starts_with ''B'' (py_upper (ie_side x)) then Buy else Sell),
            bf_quantity = quantity, bf_price = price, bf_executed_at = executed_at,
            bf_commission = map_option fst commission,
            bf_commission_currency = map_option snd commission \<rparr>)))"

text \<open>What a preview, or the error that answered it, says about permission. The text of an error is
  the one the session built from the code and the message.\<close>

definition permission_probe_from_state :: "string \<Rightarrow> ib_order_state \<Rightarrow> permission_probe" where
  "permission_probe_from_state probed_at st =
     \<lparr> pp_permitted = Some True,
       pp_detail = ''IBKR priced a whatIf preview for this contract, which it does not do ''
                   @ ''for an account that is not permitted to trade it'',
       pp_initial_margin = opt_decimal (ost_init_margin st),
       pp_maintenance_margin = opt_decimal (ost_maint_margin st),
       pp_commission = (case opt_decimal (ost_commission st) of
                          Some d \<Rightarrow> if dec_truthy d then Some d
                                    else opt_decimal (ost_commission_and_fee st)
                        | None \<Rightarrow> opt_decimal (ost_commission_and_fee st)),
       pp_error_code = None, pp_probed_at = Some probed_at \<rparr>"

definition permission_probe_from_error :: "string \<Rightarrow> exn \<times> string \<Rightarrow> permission_probe" where
  "permission_probe_from_error probed_at err =
     (if fst err = BrokerPermissionError
      then \<lparr> pp_permitted = Some False,
             pp_detail = ''IBKR refused the whatIf preview for permission reasons: '' @ snd err,
             pp_initial_margin = None, pp_maintenance_margin = None, pp_commission = None,
             pp_error_code = None, pp_probed_at = Some probed_at \<rparr>
      else \<lparr> pp_permitted = None,
             pp_detail = ''the whatIf preview failed for a reason that says nothing about permission: ''
                         @ snd err @ ''. Undetermined, which is not the same as denied.'',
             pp_initial_margin = None, pp_maintenance_margin = None, pp_commission = None,
             pp_error_code = None, pp_probed_at = Some probed_at \<rparr>)"

section \<open>Properties\<close>

text \<open>
  Every error the gateway reports is dropped exactly when its code is a notice, becomes one of the
  broker errors otherwise, and is retried automatically exactly when its code is a transport code: no
  message text and no unknown code can make an error retryable.
\<close>

theorem only_transport_errors_are_retried:
  "(classify_ib_error code message = None \<longleftrightarrow> code \<in> set info_codes)
   \<and> (case classify_ib_error code message of None \<Rightarrow> True
      | Some e \<Rightarrow> is_broker_error e \<and> (retryable e \<longleftrightarrow> code \<in> set connectivity_codes))"
proof -
  have "set info_codes \<inter> set connectivity_codes = {}" by (simp add: info_codes_def connectivity_codes_def)
  then show ?thesis
    by (auto simp: classify_ib_error_def Let_def is_broker_error_def retryable_def is_connection_error_def)
qed

text \<open>A set of managed accounts has a type when all of them that are not blank have it.\<close>

lemma remdups_singleton: "remdups xs = [t] \<longleftrightarrow> set xs = {t}"
proof
  assume "set xs = {t}"
  then have "set (remdups xs) = {t}" "distinct (remdups xs)" by simp_all
  then have "length (remdups xs) = 1" using distinct_card [of "remdups xs"] by simp
  then obtain y where "remdups xs = [y]" by (auto simp: length_Suc_conv)
  moreover from this have "set [y] = {t}" using \<open>set (remdups xs) = {t}\<close> by simp
  ultimately show "remdups xs = [t]" by simp
qed (metis set_remdups list.simps(15) list.set(1))

text \<open>
  A session has a known account type exactly when at least one managed account is not blank and
  all of those have that type; a mixture of paper and live accounts, an unrecognised account or an
  empty list is UNKNOWN, which the transmit gate refuses.
\<close>

theorem session_type_needs_agreeing_accounts:
  "account_type_for_accounts ids = t \<and> t \<noteq> Acct_Unknown \<longleftrightarrow>
     t \<noteq> Acct_Unknown \<and> (\<exists>a \<in> set ids. py_strip a \<noteq> [])
     \<and> (\<forall>a \<in> set ids. py_strip a = [] \<or> account_type_from_account_id (Some a) = t)"
proof -
  let ?ts = "map (\<lambda>a. account_type_from_account_id (Some a)) (filter (\<lambda>a. py_strip a \<noteq> []) ids)"
  have "account_type_for_accounts ids = t \<longleftrightarrow> remdups ?ts = [t]" if "t \<noteq> Acct_Unknown"
    using that by (auto simp: account_type_for_accounts_def split: list.splits)
  then show ?thesis by (auto simp: remdups_singleton)
qed

lemma set_text_nonempty [simp]: "s \<noteq> [] \<Longrightarrow> set_text (Some s) f c = f s c"
  by (simp add: set_text_def)

text \<open>
  Contracts survive the wire: the contract the adapter sends for a qualified contract, given
  back in a details reply that repeats the qualified contract's tick and last trade date and says
  nothing else, is read as a contract with the same broker id, symbols, exchange, currency,
  expiration, multiplier, trading class and tick.
\<close>

theorem contract_round_trip:
  assumes "qualified_ok c" and "to_spec c = Inr spec"
    and "qc_local_symbol c \<noteq> []" and "qc_trading_class c \<noteq> []" and "qc_multiplier c \<noteq> []" and "last_trade_date c \<noteq> []"
    and "dec_truthy (min_tick c)"
  shows "\<exists>c'. from_ib_contract_details as_iso now
      \<lparr> idt_contract = to_ib_contract blank spec, idt_real_expiration = last_trade_date c,
        idt_min_tick = V_Dec (min_tick c), idt_trading_class = '''', idt_trading_hours = '''',
        idt_liquid_hours = '''', idt_time_zone = '''', idt_long_name = '''' \<rparr> = Inr c'
    \<and> con_id c' = con_id c \<and> qc_symbol c' = qc_symbol c \<and> qc_local_symbol c' = qc_local_symbol c
    \<and> qc_exchange c' = qc_exchange c \<and> qc_currency c' = qc_currency c \<and> expiration c' = expiration c
    \<and> last_trade_date c' = last_trade_date c \<and> qc_multiplier c' = qc_multiplier c
    \<and> qc_trading_class c' = qc_trading_class c \<and> min_tick c' = min_tick c"
proof -
  have spec: "sp_symbol spec = qc_symbol c" "sp_exchange spec = qc_exchange c" "sp_currency spec = qc_currency c"
      "sp_last_trade_date_or_contract_month spec = Some (expiration c)" "sp_sec_type spec = qc_sec_type c"
      "sp_trading_class spec = Some (qc_trading_class c)" "sp_local_symbol spec = Some (qc_local_symbol c)"
      "sp_con_id spec = Some (con_id c)" "sp_multiplier spec = Some (qc_multiplier c)"
    using assms(2) by (auto simp: to_spec_def make_spec_def split: if_splits)
  have "expiration c \<noteq> []" "con_id c > 0" "qc_sec_type c = Future" "dec_leq (min_tick c) dec_zero = Inr False"
    using assms(1) by (simp_all add: qualified_ok_def)
  then show ?thesis
    using assms(3-7)
    by (simp add: from_ib_contract_details_def to_ib_contract_def Let_def spec ib_falsy_def to_decimal_def
        first_text_def make_qualified_def)
qed

theorem contract_round_trip_witness:
  "\<exists>blank c'. con_id c' = 900000001 \<and> qc_local_symbol c' = ''MSLU6'' \<and> min_tick c' = Dec 5 (- 2)
     \<and> from_ib_contract_details (\<lambda>_. '''') (Micros 0)
      \<lparr> idt_contract = to_ib_contract blank
          \<lparr> sp_symbol = ''MSL'', sp_sec_type = Future, sp_exchange = ''CME'', sp_currency = ''USD'',
            sp_last_trade_date_or_contract_month = Some ''20260925'', sp_trading_class = Some ''MSL'',
            sp_local_symbol = Some ''MSLU6'', sp_con_id = Some 900000001, sp_multiplier = Some ''25'' \<rparr>,
        idt_real_expiration = ''20260925'', idt_min_tick = V_Dec (Dec 5 (- 2)), idt_trading_class = '''',
        idt_trading_hours = '''', idt_liquid_hours = '''', idt_time_zone = '''', idt_long_name = '''' \<rparr> = Inr c'"
proof -
  have spec: "to_spec sample_contract = Inr
          \<lparr> sp_symbol = ''MSL'', sp_sec_type = Future, sp_exchange = ''CME'', sp_currency = ''USD'',
            sp_last_trade_date_or_contract_month = Some ''20260925'', sp_trading_class = Some ''MSL'',
            sp_local_symbol = Some ''MSLU6'', sp_con_id = Some 900000001, sp_multiplier = Some ''25'' \<rparr>"
    by (simp add: to_spec_def make_spec_def sample_contract_def py_strip_def is_space_def ch_def)
  show ?thesis
    using contract_round_trip [OF sample_contract_ok spec, of "\<lambda>_. ''''" "Micros 0"]
    by (simp add: sample_contract_def) blast
qed

end
