(* ===== verification/IbSession.thy ===== *)
theory IbSession
  imports IbWire "HOL-Library.AList"
begin

text \<open>
  \<^verbatim>\<open>_IBSession\<close> of \<^verbatim>\<open>app/broker/ibkr_broker.py\<close>: the client object that the broker's library calls
  back on its reader thread. Each callback holds the lock or touches one field, so an arrival is one
  step. Dictionaries are association lists in insertion order. A future is a cell of \<open>se_futures\<close>,
  because a request that was dropped from the table may still be awaited. An error is its class
  with its text. A callback reads the clock once here.
\<close>

section \<open>State\<close>

datatype ib_row =
    Row_Summary string string string string
  | Row_Position "string \<times> ib_contract \<times> ib_value \<times> ib_value"
  | Row_Order "int \<times> ib_contract \<times> ib_order \<times> ib_order_state"
  | Row_Exec ib_contract ib_execution
  | Row_Details ib_details

type_synonym ib_failure = "exn \<times> string"

datatype ib_future = F_Waiting | F_Rows "ib_row list" | F_Raised ib_failure | F_Cancelled

record pending_request =
  pd_future :: nat
  pd_rows :: "ib_row list"

record ib_session =
  se_pending :: "(int \<times> pending_request) list"
  se_futures :: "ib_future list"
  se_next_request_id :: int
  se_next_order_id :: "int option"
  se_order_id_event :: bool
  se_managed_accounts :: "string list"
  se_accounts_event :: bool
  se_last_message_at :: "instant option"
  se_closed :: bool
  se_order_statuses :: "(string \<times> status_update) list"
  se_ticks :: "(int \<times> (string \<times> decimal) list) list"
  se_delayed :: "int set"
  se_commissions :: "(string \<times> decimal \<times> string) list"
  se_unattributed :: "(instant \<times> int \<times> string) option"
  se_request_errors :: "(int \<times> ib_failure) list"
  se_what_if :: "(int \<times> ib_order_state) list"

definition new_session :: ib_session where
  "new_session =
     \<lparr> se_pending = [], se_futures = [], se_next_request_id = 1000, se_next_order_id = None,
       se_order_id_event = False, se_managed_accounts = [], se_accounts_event = False,
       se_last_message_at = None, se_closed = False, se_order_statuses = [], se_ticks = [],
       se_delayed = {}, se_commissions = [], se_unattributed = None, se_request_errors = [],
       se_what_if = [] \<rparr>"

definition position_req_id :: int where
  "position_req_id = 1"

definition open_orders_req_id :: int where
  "open_orders_req_id = 2"

section \<open>Requests\<close>

definition ib_message :: "int \<Rightarrow> string \<Rightarrow> string" where
  "ib_message code message = ''IBKR '' @ int_str code @ '': '' @ message"

definition unattributed_error_since :: "instant \<Rightarrow> ib_session \<Rightarrow> string option" where
  "unattributed_error_since started_at se =
     (case se_unattributed se of
        None \<Rightarrow> None
      | Some (seen_at, code, message) \<Rightarrow>
          if seen_at < started_at then None else Some (ib_message code message))"

definition allocate_request_id :: "(ib_session, int) action" where
  "allocate_request_id = (\<lambda>se.
     (let n = se_next_request_id se + 1 in (Inr n, se \<lparr> se_next_request_id := n \<rparr>)))"

definition register :: "int \<Rightarrow> (ib_session, nat) action" where
  "register request_id = (\<lambda>se.
     (let f = length (se_futures se) in
      (Inr f, se \<lparr> se_futures := se_futures se @ [F_Waiting],
                   se_pending := AList.update request_id \<lparr> pd_future = f, pd_rows = [] \<rparr> (se_pending se) \<rparr>)))"

text \<open>A future that is done keeps its outcome.\<close>

definition settle :: "nat \<Rightarrow> ib_future \<Rightarrow> ib_session \<Rightarrow> ib_session" where
  "settle f outcome se =
     (if f < length (se_futures se) \<and> se_futures se ! f = F_Waiting
      then se \<lparr> se_futures := (se_futures se)[f := outcome] \<rparr> else se)"

definition add_row :: "int \<Rightarrow> ib_row \<Rightarrow> ib_session \<Rightarrow> ib_session" where
  "add_row request_id row se =
     (case map_of (se_pending se) request_id of
        None \<Rightarrow> se
      | Some p \<Rightarrow> se \<lparr> se_pending := AList.update request_id (p \<lparr> pd_rows := pd_rows p @ [row] \<rparr>) (se_pending se) \<rparr>)"

definition resolve_request :: "int \<Rightarrow> ib_session \<Rightarrow> ib_session" where
  "resolve_request request_id se =
     (case map_of (se_pending se) request_id of
        None \<Rightarrow> se
      | Some p \<Rightarrow> settle (pd_future p) (F_Rows (pd_rows p))
                   (se \<lparr> se_pending := AList.delete request_id (se_pending se) \<rparr>))"

definition reject_request :: "int \<Rightarrow> ib_failure \<Rightarrow> ib_session \<Rightarrow> bool \<times> ib_session" where
  "reject_request request_id err se =
     (case map_of (se_pending se) request_id of
        None \<Rightarrow> (False, se)
      | Some p \<Rightarrow> (True, settle (pd_future p) (F_Raised err)
                           (se \<lparr> se_pending := AList.delete request_id (se_pending se) \<rparr>)))"

definition record_request_error :: "int \<Rightarrow> ib_failure \<Rightarrow> ib_session \<Rightarrow> ib_session" where
  "record_request_error request_id err se =
     se \<lparr> se_request_errors := AList.update request_id err (se_request_errors se) \<rparr>"

definition request_error :: "int \<Rightarrow> ib_session \<Rightarrow> ib_failure option" where
  "request_error request_id se = map_of (se_request_errors se) request_id"

definition fail_all :: "ib_failure \<Rightarrow> ib_session \<Rightarrow> ib_session" where
  "fail_all err se =
     fold (\<lambda>x. settle (pd_future (snd x)) (F_Raised err)) (se_pending se) (se \<lparr> se_pending := [] \<rparr>)"

definition take_order_id :: "(ib_session, int) action" where
  "take_order_id = (\<lambda>se.
     (case se_next_order_id se of
        None \<Rightarrow> (Inl BrokerConnectionError, se)
      | Some n \<Rightarrow> (Inr n, se \<lparr> se_next_order_id := Some (n + 1) \<rparr>)))"

definition order_status_of :: "string \<Rightarrow> ib_session \<Rightarrow> status_update option" where
  "order_status_of broker_order_id se = map_of (se_order_statuses se) broker_order_id"

section \<open>Callbacks\<close>

definition seen_at :: "instant \<Rightarrow> ib_session \<Rightarrow> ib_session" where
  "seen_at now se = se \<lparr> se_last_message_at := Some now \<rparr>"

definition on_error ::
  "instant \<Rightarrow> ib_arg list \<Rightarrow> ib_error_kwargs option \<Rightarrow> ib_session \<Rightarrow> ib_session" where
  "on_error now args kwargs se0 =
     (case parse_error_args args kwargs of (req_id, code, message) \<Rightarrow>
        (let se = seen_at now se0; text = ib_message code message in
         case classify_ib_error code message of
           None \<Rightarrow> se
         | Some cls \<Rightarrow>
             (case req_id of
                Some r \<Rightarrow>
                  if 0 < r
                  then (case reject_request r (cls, text) se of
                          (True, se') \<Rightarrow> se'
                        | (False, se') \<Rightarrow> record_request_error r (cls, text) se')
                  else if cls = BrokerConnectionError then fail_all (cls, text) se
                  else se \<lparr> se_unattributed := Some (now, code, message) \<rparr>
              | None \<Rightarrow>
                  if cls = BrokerConnectionError then fail_all (cls, text) se
                  else se \<lparr> se_unattributed := Some (now, code, message) \<rparr>)))"

definition on_connection_closed :: "ib_session \<Rightarrow> ib_session" where
  "on_connection_closed se =
     fail_all (BrokerConnectionError, ''IBKR connection closed'') (se \<lparr> se_closed := True \<rparr>)"

definition on_next_valid_id :: "instant \<Rightarrow> int \<Rightarrow> ib_session \<Rightarrow> ib_session" where
  "on_next_valid_id now order_id se =
     seen_at now (se \<lparr> se_next_order_id := Some order_id, se_order_id_event := True \<rparr>)"

definition on_managed_accounts :: "instant \<Rightarrow> string \<Rightarrow> ib_session \<Rightarrow> ib_session" where
  "on_managed_accounts now accounts se =
     seen_at now (se \<lparr> se_managed_accounts := filter (\<lambda>a. py_strip a \<noteq> []) (split_on (CHR '','') accounts),
                       se_accounts_event := True \<rparr>)"

definition on_open_order ::
  "instant \<Rightarrow> int \<Rightarrow> ib_contract \<Rightarrow> ib_order \<Rightarrow> ib_order_state \<Rightarrow> ib_session \<Rightarrow> ib_session" where
  "on_open_order now order_id c ord st se =
     (let se1 = add_row open_orders_req_id (Row_Order (order_id, c, ord, st)) se;
          se2 = (if io_what_if ord
                 then se1 \<lparr> se_what_if := AList.update order_id st (se_what_if se1) \<rparr> else se1)
      in seen_at now se2)"

definition on_order_status ::
  "(instant \<Rightarrow> string) \<Rightarrow> instant \<Rightarrow> int \<Rightarrow> string \<Rightarrow> ib_value \<Rightarrow> ib_value \<Rightarrow> ib_value \<Rightarrow> string
     \<Rightarrow> (ib_session, unit) action" where
  "on_order_status as_iso now order_id status filled remaining avg_price why_held = (\<lambda>se0.
     (let se = seen_at now se0 in
      case ebind (safe_int filled) (\<lambda>f. ebind (safe_int remaining) (\<lambda>r. Inr (f, r))) of
        Inl e \<Rightarrow> (Inl e, se)
      | Inr (f, r) \<Rightarrow>
          (Inr (), se \<lparr> se_order_statuses := AList.update (int_str order_id)
             \<lparr> su_broker_order_id = int_str order_id,
               su_status = or_else (map_of ib_status_map status) St_Error,
               su_ib_status = status, su_filled_quantity = f, su_remaining_quantity = r,
               su_average_fill_price = opt_decimal avg_price, su_why_held = why_held,
               su_received_at = Some (as_iso now) \<rparr> (se_order_statuses se) \<rparr>)))"

definition on_commission_report :: "string \<Rightarrow> ib_value \<Rightarrow> string \<Rightarrow> ib_session \<Rightarrow> ib_session" where
  "on_commission_report exec_id commission currency se =
     (case to_decimal commission of
        Inl _ \<Rightarrow> se
      | Inr d \<Rightarrow> se \<lparr> se_commissions := AList.update exec_id (d, currency) (se_commissions se) \<rparr>)"

definition tick_price_fields :: "(int \<times> string) list" where
  "tick_price_fields =
     [(1, ''bid''), (2, ''ask''), (4, ''last''), (66, ''bid''), (67, ''ask''), (68, ''last'')]"

definition delayed_tick_types :: "int list" where
  "delayed_tick_types = [66, 67, 68]"

definition ticks_for :: "int \<Rightarrow> ib_session \<Rightarrow> (string \<times> decimal) list" where
  "ticks_for request_id se = or_else (map_of (se_ticks se) request_id) []"

definition on_tick_price :: "instant \<Rightarrow> int \<Rightarrow> int \<Rightarrow> pyfloat option \<Rightarrow> ib_session \<Rightarrow> ib_session" where
  "on_tick_price now request_id tick_type price se =
     (case price of
        None \<Rightarrow> se
      | Some p \<Rightarrow>
          if flt_less p (Flt 0) then se
          else (case map_of tick_price_fields tick_type of
                  None \<Rightarrow> se
                | Some name \<Rightarrow>
                    seen_at now
                      (se \<lparr> se_delayed := (if tick_type \<in> set delayed_tick_types
                                           then insert request_id (se_delayed se) else se_delayed se),
                            se_ticks := AList.update request_id
                              (AList.update name (dec_of_float p) (ticks_for request_id se)) (se_ticks se) \<rparr>)))"

datatype ib_event =
    Ev_Error "ib_arg list" "ib_error_kwargs option"
  | Ev_Closed
  | Ev_Next_Id int
  | Ev_Accounts string
  | Ev_Summary int string string string string
  | Ev_Summary_End int
  | Ev_Position string ib_contract ib_value ib_value
  | Ev_Position_End
  | Ev_Open_Order int ib_contract ib_order ib_order_state
  | Ev_Open_Order_End
  | Ev_Status int string ib_value ib_value ib_value string
  | Ev_Exec int ib_contract ib_execution
  | Ev_Exec_End int
  | Ev_Commission string ib_value string
  | Ev_Details int ib_details
  | Ev_Details_End int
  | Ev_Tick int int "pyfloat option"

fun on_event :: "(instant \<Rightarrow> string) \<Rightarrow> instant \<Rightarrow> ib_event \<Rightarrow> (ib_session, unit) action" where
  "on_event as_iso now (Ev_Error args kwargs) = smodify (on_error now args kwargs)"
| "on_event as_iso now Ev_Closed = smodify on_connection_closed"
| "on_event as_iso now (Ev_Next_Id n) = smodify (on_next_valid_id now n)"
| "on_event as_iso now (Ev_Accounts accounts) = smodify (on_managed_accounts now accounts)"
| "on_event as_iso now (Ev_Summary r account tag val currency) =
     smodify (\<lambda>se. seen_at now (add_row r (Row_Summary account tag val currency) se))"
| "on_event as_iso now (Ev_Summary_End r) = smodify (resolve_request r)"
| "on_event as_iso now (Ev_Position account c quantity cost) =
     smodify (\<lambda>se. seen_at now (add_row position_req_id (Row_Position (account, c, quantity, cost)) se))"
| "on_event as_iso now Ev_Position_End = smodify (resolve_request position_req_id)"
| "on_event as_iso now (Ev_Open_Order n c ord st) = smodify (on_open_order now n c ord st)"
| "on_event as_iso now Ev_Open_Order_End = smodify (resolve_request open_orders_req_id)"
| "on_event as_iso now (Ev_Status n status filled remaining avg held) =
     on_order_status as_iso now n status filled remaining avg held"
| "on_event as_iso now (Ev_Exec r c x) = smodify (\<lambda>se. seen_at now (add_row r (Row_Exec c x) se))"
| "on_event as_iso now (Ev_Exec_End r) = smodify (resolve_request r)"
| "on_event as_iso now (Ev_Commission exec_id commission currency) =
     smodify (on_commission_report exec_id commission currency)"
| "on_event as_iso now (Ev_Details r d) = smodify (\<lambda>se. seen_at now (add_row r (Row_Details d) se))"
| "on_event as_iso now (Ev_Details_End r) = smodify (resolve_request r)"
| "on_event as_iso now (Ev_Tick r kind price) = smodify (on_tick_price now r kind price)"

section \<open>Outcomes are final\<close>

text \<open>A later session: no future is lost, and one that is done keeps its outcome.\<close>

definition later :: "ib_session \<Rightarrow> ib_session \<Rightarrow> bool" where
  "later se se' =
     (length (se_futures se) \<le> length (se_futures se')
      \<and> (\<forall>f < length (se_futures se). se_futures se ! f \<noteq> F_Waiting \<longrightarrow> se_futures se' ! f = se_futures se ! f))"

lemma later_refl [simp]: "later se se"
  by (simp add: later_def)

lemma later_trans [trans]: "later a b \<Longrightarrow> later b c \<Longrightarrow> later a c"
  by (auto simp: later_def)

lemma later_same: "se_futures se' = se_futures se \<Longrightarrow> later se se'"
  by (simp add: later_def)

lemma later_from_same: "se_futures a' = se_futures a \<Longrightarrow> later a' b \<Longrightarrow> later a b"
  by (simp add: later_def)

lemma settle_fields [simp]:
  "se_pending (settle f v se) = se_pending se" "length (se_futures (settle f v se)) = length (se_futures se)"
  "se_managed_accounts (settle f v se) = se_managed_accounts se" "se_ticks (settle f v se) = se_ticks se"
  "se_request_errors (settle f v se) = se_request_errors se"
  by (simp_all add: settle_def)

lemma settle_nth:
  "se_futures (settle f v se) ! g =
     (if g = f \<and> f < length (se_futures se) \<and> se_futures se ! f = F_Waiting then v else se_futures se ! g)"
  by (simp add: settle_def nth_list_update)

lemma later_settle [simp]: "later se (settle f v se)"
  by (simp add: later_def settle_nth)

lemma later_settle_all: "later se (fold (\<lambda>x. settle (f x) v) xs se)"
  by (induction xs arbitrary: se) (auto intro: later_trans [OF later_settle])

text \<open>The fields that hold no future.\<close>

lemma later_update [simp]:
  "later se (t \<lparr> se_pending := a \<rparr>) \<longleftrightarrow> later se t" "later se (t \<lparr> se_request_errors := b \<rparr>) \<longleftrightarrow> later se t"
  "later se (t \<lparr> se_closed := c \<rparr>) \<longleftrightarrow> later se t" "later se (t \<lparr> se_what_if := d \<rparr>) \<longleftrightarrow> later se t"
  "later se (t \<lparr> se_last_message_at := e \<rparr>) \<longleftrightarrow> later se t" "later se (t \<lparr> se_ticks := f \<rparr>) \<longleftrightarrow> later se t"
  "later se (t \<lparr> se_unattributed := g \<rparr>) \<longleftrightarrow> later se t" "later se (t \<lparr> se_delayed := h \<rparr>) \<longleftrightarrow> later se t"
  "later se (t \<lparr> se_commissions := k \<rparr>) \<longleftrightarrow> later se t" "later se (t \<lparr> se_order_statuses := l \<rparr>) \<longleftrightarrow> later se t"
  "later se (t \<lparr> se_next_order_id := m \<rparr>) \<longleftrightarrow> later se t" "later se (t \<lparr> se_order_id_event := n \<rparr>) \<longleftrightarrow> later se t"
  "later se (t \<lparr> se_managed_accounts := u \<rparr>) \<longleftrightarrow> later se t" "later se (t \<lparr> se_accounts_event := v \<rparr>) \<longleftrightarrow> later se t"
  by (simp_all add: later_def)

lemma later_seen [simp]: "later se (seen_at now t) \<longleftrightarrow> later se t" "later (seen_at now se) t \<longleftrightarrow> later se t"
  by (simp_all add: later_def seen_at_def)

lemma later_from_update:
  "later (se \<lparr> se_pending := a \<rparr>) t \<Longrightarrow> later se t" "later (se \<lparr> se_closed := c \<rparr>) t \<Longrightarrow> later se t"
  by (simp_all add: later_def)

lemma later_requests [simp]:
  "later se (add_row r row se)" "later se (resolve_request r se)" "later se (record_request_error r err se)"
  "later se (fail_all err se)"
  using later_from_update(1) [OF later_settle] later_from_update(1) [OF later_settle_all]
  by (auto simp: add_row_def resolve_request_def record_request_error_def fail_all_def split: option.splits)

lemma later_reject: "reject_request r err se = (b, se') \<Longrightarrow> later se se'"
  using later_from_update(1) [OF later_settle] by (auto simp: reject_request_def split: option.splits)

lemma later_record: "later se t \<Longrightarrow> later se (record_request_error r err t)"
  by (simp add: record_request_error_def)

lemma later_on_error: "later se (on_error now args kwargs se)"
proof -
  have rejected: "later se t" if "reject_request r err (seen_at now se) = (b, t)" for r err b t
    using later_reject [OF that] by simp
  have all: "later se (fail_all err (seen_at now se))" for err
    by (rule later_seen(2) [THEN iffD1]) (rule later_requests(4))
  show ?thesis
    by (auto simp: on_error_def Let_def all intro: rejected later_record
        split: option.splits prod.splits bool.splits)
qed

lemma later_event: "on_event as_iso now ev se = (r, se') \<Longrightarrow> later se se'"
proof (induction as_iso now ev rule: on_event.induct)
  case (2 as_iso now)
  then show ?case using later_from_update(2) [OF later_requests(4)] by (auto simp: on_connection_closed_def)
next
  case (11 as_iso now n status filled remaining avg held)
  then show ?case by (auto simp: on_order_status_def Let_def split: sum.splits prod.splits)
qed (auto simp: later_on_error on_open_order_def Let_def on_next_valid_id_def on_managed_accounts_def
    on_commission_report_def on_tick_price_def split: sum.splits option.splits)

section \<open>The table of requests\<close>

text \<open>Two requests in the table never share a future.\<close>

definition table_ok :: "ib_session \<Rightarrow> bool" where
  "table_ok se =
     (distinct (map fst (se_pending se))
      \<and> (\<forall>r p. map_of (se_pending se) r = Some p \<longrightarrow> pd_future p < length (se_futures se))
      \<and> (\<forall>r p s q. map_of (se_pending se) r = Some p \<longrightarrow> map_of (se_pending se) s = Some q
           \<longrightarrow> pd_future p = pd_future q \<longrightarrow> r = s))"

lemma table_ok_new: "table_ok new_session"
  by (simp add: table_ok_def new_session_def)

lemma table_ok_same:
  "se_pending se' = se_pending se \<Longrightarrow> length (se_futures se') = length (se_futures se) \<Longrightarrow>
     table_ok se' \<longleftrightarrow> table_ok se"
  by (simp add: table_ok_def)

lemma table_ok_settle [simp]: "table_ok (settle f v se) \<longleftrightarrow> table_ok se"
  by (rule table_ok_same) simp_all

lemma table_ok_register:
  assumes "register r se = (x, se')" and "table_ok se"
  shows "table_ok se'"
  using assms
  by (auto simp: register_def Let_def table_ok_def update_conv' distinct_update less_Suc_eq split: if_splits)
    (metis less_irrefl)+

lemma table_ok_add_row: "table_ok se \<Longrightarrow> table_ok (add_row r row se)"
  by (auto simp: add_row_def table_ok_def update_conv' distinct_update simp del: map_of_eq_Some_iff
      split: option.splits if_splits)

lemma table_ok_delete:
  "table_ok se \<Longrightarrow> table_ok (se \<lparr> se_pending := AList.delete r (se_pending se) \<rparr>)"
  by (auto simp: table_ok_def delete_conv' distinct_delete split: if_splits)

lemma table_ok_requests:
  "table_ok se \<Longrightarrow> table_ok (resolve_request r se)"
  "table_ok se \<Longrightarrow> reject_request r err se = (b, se') \<Longrightarrow> table_ok se'"
  by (auto simp: resolve_request_def reject_request_def table_ok_delete split: option.splits)

lemma settle_all_fields:
  "se_pending (fold (\<lambda>x. settle (f x) v) xs se) = se_pending se"
  "length (se_futures (fold (\<lambda>x. settle (f x) v) xs se)) = length (se_futures se)"
  by (induction xs arbitrary: se) simp_all

lemma table_ok_fail_all: "table_ok (fail_all err se)"
  using settle_all_fields [of "\<lambda>x. pd_future (snd x)" "F_Raised err" "se_pending se" "se \<lparr> se_pending := [] \<rparr>"]
  by (simp add: fail_all_def table_ok_def)

lemma table_ok_update [simp]:
  "table_ok (t \<lparr> se_request_errors := b \<rparr>) \<longleftrightarrow> table_ok t" "table_ok (t \<lparr> se_what_if := d \<rparr>) \<longleftrightarrow> table_ok t"
  "table_ok (t \<lparr> se_last_message_at := e \<rparr>) \<longleftrightarrow> table_ok t" "table_ok (t \<lparr> se_ticks := f \<rparr>) \<longleftrightarrow> table_ok t"
  "table_ok (t \<lparr> se_unattributed := g \<rparr>) \<longleftrightarrow> table_ok t" "table_ok (t \<lparr> se_delayed := h \<rparr>) \<longleftrightarrow> table_ok t"
  "table_ok (t \<lparr> se_commissions := k \<rparr>) \<longleftrightarrow> table_ok t" "table_ok (t \<lparr> se_order_statuses := l \<rparr>) \<longleftrightarrow> table_ok t"
  "table_ok (t \<lparr> se_next_order_id := m \<rparr>) \<longleftrightarrow> table_ok t" "table_ok (t \<lparr> se_order_id_event := n \<rparr>) \<longleftrightarrow> table_ok t"
  "table_ok (t \<lparr> se_managed_accounts := u \<rparr>) \<longleftrightarrow> table_ok t" "table_ok (t \<lparr> se_accounts_event := v \<rparr>) \<longleftrightarrow> table_ok t"
  "table_ok (seen_at now t) \<longleftrightarrow> table_ok t" "table_ok (record_request_error r err t) \<longleftrightarrow> table_ok t"
  by (simp_all add: table_ok_def seen_at_def record_request_error_def)

lemma table_ok_error:
  assumes "table_ok se"
  shows "table_ok (on_error now args kwargs se)"
proof -
  have rejected: "table_ok t" if "reject_request r err (seen_at now se) = (b, t)" for r err b t
    using table_ok_requests(2) [OF _ that] assms by simp
  show ?thesis
    using assms
    by (auto simp: on_error_def Let_def table_ok_fail_all intro: rejected
        split: option.splits prod.splits bool.splits)
qed

lemma table_ok_event: "on_event as_iso now ev se = (r, se') \<Longrightarrow> table_ok se \<Longrightarrow> table_ok se'"
proof (induction as_iso now ev rule: on_event.induct)
  case (11 as_iso now n status filled remaining avg held)
  then show ?case by (auto simp: on_order_status_def Let_def split: sum.splits prod.splits)
qed (auto simp: table_ok_error table_ok_add_row table_ok_requests table_ok_fail_all on_connection_closed_def
    on_open_order_def Let_def on_next_valid_id_def on_managed_accounts_def on_commission_report_def
    on_tick_price_def split: sum.splits option.splits)

section \<open>Errors find their request\<close>

lemma rejected_request:
  assumes "table_ok se" and "map_of (se_pending se) r = Some p" and "reject_request r err se = (b, se')"
  shows "b" and "map_of (se_pending se') = (map_of (se_pending se))(r := None)"
    and "se_futures se ! pd_future p = F_Waiting \<Longrightarrow> se_futures se' ! pd_future p = F_Raised err"
    and "s \<noteq> r \<Longrightarrow> map_of (se_pending se) s = Some q \<Longrightarrow>
           se_futures se' ! pd_future q = se_futures se ! pd_future q"
  using assms by (auto simp: reject_request_def delete_conv' settle_nth table_ok_def)

text \<open>
  C29: An error that names a request reaches that request and no other. If the request is waiting,
  its future fails with the class and the text of the error and it leaves the table, and every other
  request keeps its place and its outcome; if nothing is waiting under the id, the error is kept for
  whoever reads that subscription, and no future changes.
\<close>

theorem error_reaches_its_request_only:
  assumes "table_ok se" and "parse_error_args args kwargs = (Some r, code, message)" and "0 < r"
    and "classify_ib_error code message = Some cls"
  shows "case map_of (se_pending se) r of
      Some p \<Rightarrow>
        map_of (se_pending (on_error now args kwargs se)) = (map_of (se_pending se))(r := None)
        \<and> (se_futures se ! pd_future p = F_Waiting \<longrightarrow>
             se_futures (on_error now args kwargs se) ! pd_future p = F_Raised (cls, ib_message code message))
        \<and> (\<forall>s q. s \<noteq> r \<longrightarrow> map_of (se_pending se) s = Some q \<longrightarrow>
             se_futures (on_error now args kwargs se) ! pd_future q = se_futures se ! pd_future q)
    | None \<Rightarrow>
        request_error r (on_error now args kwargs se) = Some (cls, ib_message code message)
        \<and> se_futures (on_error now args kwargs se) = se_futures se
        \<and> se_pending (on_error now args kwargs se) = se_pending se"
proof (cases "map_of (se_pending se) r")
  case None
  then show ?thesis
    using assms(2-4)
    by (simp add: on_error_def Let_def reject_request_def seen_at_def record_request_error_def request_error_def
        update_conv')
next
  case (Some p)
  let ?err = "(cls, ib_message code message)"
  obtain b se' where rej: "reject_request r ?err (seen_at now se) = (b, se')" by fastforce
  have ok: "table_ok (seen_at now se)" and p: "map_of (se_pending (seen_at now se)) r = Some p"
    and futures: "se_futures (seen_at now se) = se_futures se" and pending: "se_pending (seen_at now se) = se_pending se"
    using assms(1) Some by (simp_all add: seen_at_def table_ok_def)
  note out = rejected_request [OF ok p rej, unfolded futures pending]
  have "on_error now args kwargs se = se'"
    using assms(2-4) rej out(1) by (simp add: on_error_def Let_def)
  with Some out show ?thesis by simp
qed

text \<open>Positions (id 1) and an account summary (id 1001) are waiting; the summary is refused.\<close>

theorem error_reaches_its_request_only_witness:
  "(let se = snd (register 1001 (snd (register 1 new_session)));
        se' = on_error (Micros 0) [A_Int 1001, A_Int 321, A_Str ''read only''] None se
    in se_futures se' ! 1 = F_Raised (BrokerContractError, ''IBKR 321: read only'')
       \<and> se_futures se' ! 0 = F_Waiting)"
proof -
  let ?se = "snd (register 1001 (snd (register 1 new_session)))"
  let ?args = "[A_Int 1001, A_Int 321, A_Str ''read only'']"
  let ?F = "se_futures (on_error (Micros 0) ?args None ?se)"
  have ok: "table_ok ?se"
    using table_ok_new by (metis prod.collapse table_ok_register)
  have p: "parse_error_args ?args None = (Some 1001, 321, ''read only'')" by code_simp
  have c: "classify_ib_error 321 ''read only'' = Some BrokerContractError" by code_simp
  have m: "map_of (se_pending ?se) 1001 = Some \<lparr> pd_future = 1, pd_rows = [] \<rparr>"
    "map_of (se_pending ?se) 1 = Some \<lparr> pd_future = 0, pd_rows = [] \<rparr>"
    "se_futures ?se ! 1 = F_Waiting" "se_futures ?se ! 0 = F_Waiting"
    by code_simp+
  have message: "ib_message 321 ''read only'' = ''IBKR 321: read only''" by code_simp
  have "?F ! 1 = F_Raised (BrokerContractError, ''IBKR 321: read only'')"
    and others: "\<forall>s q. s \<noteq> 1001 \<longrightarrow> map_of (se_pending ?se) s = Some q \<longrightarrow> ?F ! pd_future q = se_futures ?se ! pd_future q"
    using error_reaches_its_request_only [OF ok p _ c, of "Micros 0"] m(3) by (simp_all add: m(1) message)
  moreover have "?F ! 0 = F_Waiting" using others [rule_format, of 1, OF _ m(2)] m(4) by simp
  ultimately show ?thesis by (simp add: Let_def)
qed

end
