(* ===== verification/IbkrBroker.thy ===== *)
theory IbkrBroker
  imports IbSession MarketData
begin

text \<open>
  \<^verbatim>\<open>IBKRBroker\<close> of \<^verbatim>\<open>app/broker/ibkr_broker.py\<close>: the adapter as actions over its fields and its
  session. What the broker's library and the gateway behind it do is an argument, \<open>ib_gateway\<close>:
  whether a call raises and which callbacks the reader thread delivers while the adapter waits. Both
  are indexed by \<open>ib_turn\<close>, which counts the adapter's dealings with the library, so any schedule of
  callbacks is some gateway. A wait ends when its callbacks are in: a request that is not answered by
  then has timed out. \<open>ib_wire\<close> lists the requests the adapter wrote, newest last.

  The text of a timeout, the server version and log records are left out. A row of another kind
  under the id of a request, which no gateway sends, raises.
\<close>

section \<open>State\<close>

datatype ib_request =
    Q_Summary int | Q_Cancel_Summary int | Q_Positions | Q_Cancel_Positions | Q_All_Open_Orders
  | Q_Executions int | Q_Details int ib_contract | Q_Market_Data int ib_contract
  | Q_Cancel_Market_Data int | Q_Place int ib_contract ib_order | Q_Cancel int bool
  | Q_Global_Cancel bool | Q_Disconnect

record ib_gateway =
  gw_available :: bool
  gw_connect :: "nat \<Rightarrow> unit result"
  gw_send :: "nat \<Rightarrow> ib_request \<Rightarrow> unit result"
  gw_arrivals :: "nat \<Rightarrow> (instant \<times> ib_event) list"
  gw_reader_survives :: bool
  gw_is_connected :: "nat \<Rightarrow> ib_session \<Rightarrow> bool result"
  gw_has_order_cancel :: bool
  gw_blank_contract :: ib_contract
  gw_blank_order :: ib_order
  gw_iso :: "instant \<Rightarrow> string"
  gw_zone :: "string \<Rightarrow> int \<Rightarrow> instant option"

record ibkr =
  ib_expected :: "account_type option"
  ib_client :: "ib_session option"
  ib_state :: connection_state
  ib_account_type :: account_type
  ib_account_id :: "string option"
  ib_connected_at :: "instant option"
  ib_md_requests :: "(string \<times> int) list"
  ib_turn :: nat
  ib_wire :: "ib_request list"

definition make_ibkr :: "account_type option \<Rightarrow> ibkr" where
  "make_ibkr expected =
     \<lparr> ib_expected = expected, ib_client = None, ib_state = Disconnected,
       ib_account_type = Acct_Unknown, ib_account_id = None, ib_connected_at = None,
       ib_md_requests = [], ib_turn = 0, ib_wire = [] \<rparr>"

section \<open>Dealing with the library\<close>

primrec receive :: "ib_gateway \<Rightarrow> (instant \<times> ib_event) list \<Rightarrow> ib_session \<Rightarrow> ib_session" where
  "receive G [] se = se"
| "receive G (x # xs) se =
     (case on_event (gw_iso G) (fst x) (snd x) se of
        (Inr _, se') \<Rightarrow> receive G xs se'
      | (Inl _, se') \<Rightarrow> if gw_reader_survives G then receive G xs se' else se')"

definition await_callbacks :: "ib_gateway \<Rightarrow> (ibkr, unit) action" where
  "await_callbacks G = smodify (\<lambda>b.
     b \<lparr> ib_client := map_option (receive G (gw_arrivals G (ib_turn b))) (ib_client b),
         ib_turn := Suc (ib_turn b) \<rparr>)"

definition send_request :: "ib_gateway \<Rightarrow> ib_request \<Rightarrow> (ibkr, unit) action" where
  "send_request G q = (\<lambda>b.
     (gw_send G (ib_turn b) q, b \<lparr> ib_wire := ib_wire b @ [q], ib_turn := Suc (ib_turn b) \<rparr>))"

text \<open>An action of the session, through the reference the adapter holds.\<close>

definition on_client :: "(ib_session, 'a) action \<Rightarrow> (ibkr, 'a) action" where
  "on_client m = (\<lambda>b.
     (case ib_client b of
        None \<Rightarrow> (Inl AttributeError, b)
      | Some se \<Rightarrow> (case m se of (r, se') \<Rightarrow> (r, b \<lparr> ib_client := Some se' \<rparr>))))"

text \<open>\<^verbatim>\<open>try: m finally: with _suppress_errors(): c\<close>.\<close>

definition finally_suppressed :: "('s, unit) action \<Rightarrow> ('s, 'a) action \<Rightarrow> ('s, 'a) action" where
  "finally_suppressed c m = (\<lambda>s. case m s of (r, s') \<Rightarrow> (r, snd (ssuppress c s')))"

section \<open>Lifecycle\<close>

definition ibkr_is_connected :: "ib_gateway \<Rightarrow> ibkr \<Rightarrow> bool" where
  "ibkr_is_connected G b =
     (case ib_client b of
        None \<Rightarrow> False
      | Some se \<Rightarrow> ib_state b = Connected
          \<and> (case gw_is_connected G (ib_turn b) se of Inl _ \<Rightarrow> False | Inr alive \<Rightarrow> alive))"

definition get_connection_state :: "ib_gateway \<Rightarrow> (ibkr, connection_state) action" where
  "get_connection_state G = (\<lambda>b.
     (let b' = (if ib_state b = Connected \<and> \<not> ibkr_is_connected G b
                then b \<lparr> ib_state := Disconnected \<rparr> else b)
      in (Inr (ib_state b'), b')))"

definition ibkr_connection_state :: "ib_gateway \<Rightarrow> ibkr \<Rightarrow> connection_state" where
  "ibkr_connection_state G b = ib_state (snd (get_connection_state G b))"

definition ibkr_connection_info :: "ib_gateway \<Rightarrow> ibkr \<Rightarrow> connection_info" where
  "ibkr_connection_info G b =
     (let connected = ibkr_is_connected G b in
      \<lparr> ci_connected = connected,
        ci_account_type = (if connected then ib_account_type b else Acct_Unknown),
        ci_account_id = (if connected then ib_account_id b else None),
        ci_connection_time = ib_connected_at b \<rparr>)"

definition last_heartbeat_age_seconds :: "instant \<Rightarrow> ibkr \<Rightarrow> pyfloat option" where
  "last_heartbeat_age_seconds now b =
     (case ib_client b of
        None \<Rightarrow> None
      | Some se \<Rightarrow> map_option (\<lambda>t. age_seconds t now) (se_last_message_at se))"

definition ibkr_disconnect :: "ib_gateway \<Rightarrow> (ibkr, unit) action" where
  "ibkr_disconnect G =
     sbind (smodify (\<lambda>b. b \<lparr> ib_state := Disconnected, ib_account_type := Acct_Unknown,
                             ib_md_requests := [] \<rparr>)) (\<lambda>_.
     sbind (sgets ib_client) (\<lambda>client.
     (case client of
        None \<Rightarrow> sreturn ()
      | Some _ \<Rightarrow>
          sbind (ssuppress (send_request G Q_Disconnect)) (\<lambda>_.
          smodify (\<lambda>b. b \<lparr> ib_client := None \<rparr>)))))"

definition dial :: "ib_gateway \<Rightarrow> (ibkr, unit) action" where
  "dial G = (\<lambda>b.
     (let b1 = b \<lparr> ib_state := Connecting, ib_client := Some new_session, ib_turn := Suc (ib_turn b) \<rparr> in
      case gw_connect G (ib_turn b) of
        Inl e \<Rightarrow> if e = OSError then (Inl BrokerConnectionError, b1 \<lparr> ib_state := Failed \<rparr>) else (Inl e, b1)
      | Inr _ \<Rightarrow> (Inr (), b1)))"

definition refuse_session :: "ib_gateway \<Rightarrow> connection_state \<Rightarrow> exn \<Rightarrow> (ibkr, 'a) action" where
  "refuse_session G st e =
     sbind (ibkr_disconnect G) (\<lambda>_. sbind (smodify (\<lambda>b. b \<lparr> ib_state := st \<rparr>)) (\<lambda>_. sraise e))"

definition adopt_session :: "instant \<Rightarrow> ib_session \<Rightarrow> ibkr \<Rightarrow> ibkr" where
  "adopt_session now se b =
     b \<lparr> ib_account_type := account_type_for_accounts (se_managed_accounts se),
         ib_account_id := (case se_managed_accounts se of [] \<Rightarrow> None | a # _ \<Rightarrow> Some a),
         ib_connected_at := Some now, ib_state := Connected \<rparr>"

definition wrong_account :: "ibkr \<Rightarrow> bool" where
  "wrong_account b = (\<exists>e. ib_expected b = Some e \<and> ib_account_type b \<noteq> e)"

lemma wrong_account_code [code]:
  "wrong_account b = (case ib_expected b of None \<Rightarrow> False | Some e \<Rightarrow> ib_account_type b \<noteq> e)"
  by (simp add: wrong_account_def split: option.splits)

definition ibkr_connect :: "ib_gateway \<Rightarrow> instant \<Rightarrow> (ibkr, connection_info) action" where
  "ibkr_connect G now =
     (if \<not> gw_available G then sraise BrokerConnectionError
      else
        sbind (sgets (ibkr_is_connected G)) (\<lambda>already.
        if already then sgets (ibkr_connection_info G)
        else
          sbind (dial G) (\<lambda>_.
          sbind (await_callbacks G) (\<lambda>_.
          sbind (on_client (sgets se_accounts_event)) (\<lambda>ready.
          if \<not> ready then refuse_session G Failed BrokerTimeoutError
          else
            sbind (await_callbacks G) (\<lambda>_.
            sbind (on_client (sgets id)) (\<lambda>se.
            sbind (smodify (adopt_session now se)) (\<lambda>_.
            sbind (sgets wrong_account) (\<lambda>wrong.
            if wrong then refuse_session G Disconnected BrokerConnectionError
            else sgets (ibkr_connection_info G))))))))))"

section \<open>Requests\<close>

definition require_session :: "ib_gateway \<Rightarrow> (ibkr, unit) action" where
  "require_session G =
     sbind (sgets (ibkr_is_connected G)) (\<lambda>ok. sguard (\<not> ok) BrokerConnectionError)"

definition future_outcome :: "nat \<Rightarrow> ib_session \<Rightarrow> ib_future" where
  "future_outcome f se = (if f < length (se_futures se) then se_futures se ! f else F_Waiting)"

text \<open>The wait cancels the future when it times out; the request stays in the table.\<close>

definition await_request :: "ib_gateway \<Rightarrow> nat \<Rightarrow> (ibkr, ib_row list) action" where
  "await_request G f =
     sbind (await_callbacks G) (\<lambda>_.
     sbind (on_client (sgets (future_outcome f))) (\<lambda>outcome.
     (case outcome of
        F_Rows rows \<Rightarrow> sreturn rows
      | F_Raised err \<Rightarrow> sraise (fst err)
      | _ \<Rightarrow> sbind (on_client (smodify (settle f F_Cancelled))) (\<lambda>_. sraise BrokerTimeoutError))))"

fun collect_rows :: "('r \<Rightarrow> 'a option result) \<Rightarrow> 'r list \<Rightarrow> 'a list result" where
  "collect_rows f [] = Inr []"
| "collect_rows f (r # rs) =
     ebind (f r) (\<lambda>x. ebind (collect_rows f rs) (\<lambda>xs.
       Inr (case x of None \<Rightarrow> xs | Some y \<Rightarrow> y # xs)))"

section \<open>Account and state\<close>

fun summary_values ::
  "ib_row list \<Rightarrow> (string \<times> string) list \<times> string \<times> string
     \<Rightarrow> ((string \<times> string) list \<times> string \<times> string) result" where
  "summary_values [] acc = Inr acc"
| "summary_values (Row_Summary account tag val row_currency # rows) (vals, currency, account_id) =
     summary_values rows
       (AList.update tag val vals, if row_currency = [] then currency else row_currency,
        if account = [] then account_id else account)"
| "summary_values (_ # rows) acc = Inl TypeError"

definition summary_of :: "ibkr \<Rightarrow> ib_row list \<Rightarrow> account_summary result" where
  "summary_of b rows =
     ebind (summary_values rows ([], ''USD'', or_else (ib_account_id b) '''')) (\<lambda>(vals, currency, account).
       (let figure = (\<lambda>tag. case map_of vals tag of None \<Rightarrow> None | Some v \<Rightarrow> opt_decimal (V_Str v)) in
        Inr \<lparr> as_account_id = account, as_account_type = ib_account_type b, as_currency = currency,
              net_liquidation = figure ''NetLiquidation'', available_funds = figure ''AvailableFunds'',
              buying_power = figure ''BuyingPower'', excess_liquidity = figure ''ExcessLiquidity'',
              maintenance_margin = figure ''MaintMarginReq'', as_realized_pnl = figure ''RealizedPnL'',
              as_unrealized_pnl = figure ''UnrealizedPnL'', futures_permission = None \<rparr>))"

definition ibkr_account_summary :: "ib_gateway \<Rightarrow> instant \<Rightarrow> (ibkr, account_summary) action" where
  "ibkr_account_summary G now =
     sbind (require_session G) (\<lambda>_.
     sbind (on_client allocate_request_id) (\<lambda>r.
     sbind (on_client (register r)) (\<lambda>f.
     sbind (send_request G (Q_Summary r)) (\<lambda>_.
     sbind (finally_suppressed (send_request G (Q_Cancel_Summary r)) (await_request G f)) (\<lambda>rows.
     sbind (sgets (\<lambda>b. summary_of b rows)) slift)))))"

fun position_row :: "ib_row \<Rightarrow> broker_position option result" where
  "position_row (Row_Position p) = position_from_row p"
| "position_row _ = Inl TypeError"

definition ibkr_positions :: "ib_gateway \<Rightarrow> (ibkr, broker_position list) action" where
  "ibkr_positions G =
     sbind (require_session G) (\<lambda>_.
     sbind (on_client (register position_req_id)) (\<lambda>f.
     sbind (send_request G Q_Positions) (\<lambda>_.
     sbind (finally_suppressed (send_request G Q_Cancel_Positions) (await_request G f)) (\<lambda>rows.
     slift (collect_rows position_row rows)))))"

fun order_row :: "string option \<Rightarrow> ib_row \<Rightarrow> order_snapshot option result" where
  "order_row account (Row_Order p) = ebind (order_from_row account p) (\<lambda>s. Inr (Some s))"
| "order_row account _ = Inl TypeError"

definition ibkr_open_orders :: "ib_gateway \<Rightarrow> (ibkr, order_snapshot list) action" where
  "ibkr_open_orders G =
     sbind (require_session G) (\<lambda>_.
     sbind (on_client (register open_orders_req_id)) (\<lambda>f.
     sbind (send_request G Q_All_Open_Orders) (\<lambda>_.
     sbind (await_request G f) (\<lambda>rows.
     sbind (sgets ib_account_id) (\<lambda>account.
     slift (collect_rows (order_row account) rows))))))"

text \<open>\<^verbatim>\<open>parsed.timestamp() < now.timestamp() - since_seconds\<close>, in floats.\<close>

definition executed_before :: "instant \<Rightarrow> pyfloat \<Rightarrow> bool" where
  "executed_before t cutoff = flt_less (rnd_frac (micros t) 1000000) cutoff"

definition fills_cutoff :: "instant \<Rightarrow> int \<Rightarrow> pyfloat" where
  "fills_cutoff now since_seconds =
     flt_add (rnd_frac (micros now) 1000000) (rnd_frac (- since_seconds) 1)"

fun fill_row ::
  "ib_gateway \<Rightarrow> (string \<times> decimal \<times> string) list \<Rightarrow> pyfloat \<Rightarrow> ib_row \<Rightarrow> broker_fill option result" where
  "fill_row G commissions cutoff (Row_Exec c x) =
     ebind (parse_ib_time (gw_zone G) (ie_time x)) (\<lambda>executed_at.
     if executed_before executed_at cutoff then Inr None
     else ebind (fill_from_row commissions executed_at c x) (\<lambda>fill. Inr (Some fill)))"
| "fill_row G commissions cutoff _ = Inl TypeError"

definition ibkr_fills :: "ib_gateway \<Rightarrow> int \<Rightarrow> instant \<Rightarrow> (ibkr, broker_fill list) action" where
  "ibkr_fills G since_seconds now =
     sbind (require_session G) (\<lambda>_.
     sbind (on_client allocate_request_id) (\<lambda>r.
     sbind (on_client (register r)) (\<lambda>f.
     sbind (send_request G (Q_Executions r)) (\<lambda>_.
     sbind (await_request G f) (\<lambda>rows.
     sbind (on_client (sgets se_commissions)) (\<lambda>commissions.
     slift (collect_rows (fill_row G commissions (fills_cutoff now since_seconds)) rows)))))))"

section \<open>Contracts\<close>

fun details_row :: "ib_gateway \<Rightarrow> instant \<Rightarrow> ib_row \<Rightarrow> qualified_contract option result" where
  "details_row G now (Row_Details d) =
     ebind (from_ib_contract_details (gw_iso G) now d) (\<lambda>c. Inr (Some c))"
| "details_row G now _ = Inl TypeError"

definition ibkr_contract_details ::
  "ib_gateway \<Rightarrow> instant \<Rightarrow> contract_spec \<Rightarrow> (ibkr, qualified_contract list) action" where
  "ibkr_contract_details G now spec =
     sbind (require_session G) (\<lambda>_.
     sbind (sguard (sp_sec_type spec = Continuous_Future) BrokerContractError) (\<lambda>_.
     sbind (on_client allocate_request_id) (\<lambda>r.
     sbind (on_client (register r)) (\<lambda>f.
     sbind (send_request G (Q_Details r (to_ib_contract (gw_blank_contract G) spec))) (\<lambda>_.
     sbind (await_request G f) (\<lambda>rows.
     slift (collect_rows (details_row G now) rows)))))))"

definition ibkr_qualify ::
  "ib_gateway \<Rightarrow> instant \<Rightarrow> contract_spec \<Rightarrow> (ibkr, qualified_contract) action" where
  "ibkr_qualify G now spec =
     sbind (slift (require_orderable spec)) (\<lambda>_.
     sbind (ibkr_contract_details G now spec) (\<lambda>matches.
     (case matches of [c] \<Rightarrow> sreturn c | _ \<Rightarrow> sraise BrokerContractError)))"

section \<open>Market data\<close>

text \<open>
  The polling loops look, wait for callbacks and look again; the second look is the last one before
  the deadline.
\<close>

definition first_tick_or_error :: "int \<Rightarrow> ib_session \<Rightarrow> bool" where
  "first_tick_or_error r se = (ticks_for r se \<noteq> [] \<or> request_error r se \<noteq> None)"

definition await_first_tick :: "ib_gateway \<Rightarrow> int \<Rightarrow> (ibkr, unit) action" where
  "await_first_tick G r =
     sbind (on_client (sgets (first_tick_or_error r))) (\<lambda>there.
     if there then sreturn () else await_callbacks G)"

definition market_data_request_id :: "ib_gateway \<Rightarrow> qualified_contract \<Rightarrow> (ibkr, int) action" where
  "market_data_request_id G c =
     sbind (sgets (\<lambda>b. map_of (ib_md_requests b) (qualified_key c))) (\<lambda>known.
     (case known of
        Some r \<Rightarrow> sreturn r
      | None \<Rightarrow>
          sbind (on_client allocate_request_id) (\<lambda>r.
          sbind (smodify (\<lambda>b. b \<lparr> ib_md_requests := AList.update (qualified_key c) r (ib_md_requests b) \<rparr>)) (\<lambda>_.
          sbind (slift (to_spec c)) (\<lambda>spec.
          sbind (send_request G (Q_Market_Data r (to_ib_contract (gw_blank_contract G) spec))) (\<lambda>_.
          sbind (await_first_tick G r) (\<lambda>_. sreturn r)))))))"

definition tick_of :: "instant \<Rightarrow> qualified_contract \<Rightarrow> int \<Rightarrow> ib_session \<Rightarrow> tick" where
  "tick_of now c r se =
     \<lparr> tk_contract_key = qualified_key c, tk_received_at = now, tk_source = ''ibkr'',
       tk_bid = map_of (ticks_for r se) ''bid'', tk_ask = map_of (ticks_for r se) ''ask'',
       tk_last = map_of (ticks_for r se) ''last'', tk_bid_size = None, tk_ask_size = None,
       tk_is_delayed = (r \<in> se_delayed se) \<rparr>"

definition ibkr_market_data :: "ib_gateway \<Rightarrow> instant \<Rightarrow> qualified_contract \<Rightarrow> (ibkr, tick) action" where
  "ibkr_market_data G now c =
     sbind (require_session G) (\<lambda>_.
     sbind (market_data_request_id G c) (\<lambda>r.
     sbind (on_client (sgets id)) (\<lambda>se.
     (case (ticks_for r se, request_error r se) of
        ([], Some err) \<Rightarrow>
          sbind (smodify (\<lambda>b. b \<lparr> ib_md_requests := AList.delete (qualified_key c) (ib_md_requests b) \<rparr>)) (\<lambda>_.
          sraise (fst err))
      | _ \<Rightarrow> sreturn (tick_of now c r se)))))"

definition ibkr_cancel_market_data :: "ib_gateway \<Rightarrow> qualified_contract \<Rightarrow> (ibkr, unit) action" where
  "ibkr_cancel_market_data G c = (\<lambda>b.
     (let b1 = b \<lparr> ib_md_requests := AList.delete (qualified_key c) (ib_md_requests b) \<rparr> in
      case (ib_client b, map_of (ib_md_requests b) (qualified_key c)) of
        (Some _, Some r) \<Rightarrow> ssuppress (send_request G (Q_Cancel_Market_Data r)) b1
      | _ \<Rightarrow> (Inr (), b1)))"

section \<open>Orders\<close>

definition accepted_order :: "string \<Rightarrow> place_result" where
  "accepted_order broker_order_id =
     \<lparr> pr_accepted = True, pr_broker_order_id = Some broker_order_id, pr_status = St_Pending_Submit,
       pr_error_code = None, pr_error_message = None \<rparr>"

text \<open>The arguments of \<^verbatim>\<open>placeOrder\<close> are built left to right.\<close>

definition write_order :: "ib_gateway \<Rightarrow> int \<Rightarrow> qualified_contract \<Rightarrow> ib_order \<Rightarrow> (ibkr, unit) action" where
  "write_order G order_id c ord =
     sbind (slift (to_spec c)) (\<lambda>spec.
     send_request G (Q_Place order_id (to_ib_contract (gw_blank_contract G) spec) ord))"

definition ibkr_place_order :: "ib_gateway \<Rightarrow> instant \<Rightarrow> order_request \<Rightarrow> (ibkr, place_result) action" where
  "ibkr_place_order G now r =
     (if \<not> rq_transmit r then sraise BrokerOrderRejectedError
      else if rq_order_type r \<notin> set transmittable_order_types then sraise BrokerUnsupportedOperationError
      else if qualified_is_continuous (rq_contract r) then sraise BrokerOrderRejectedError
      else
        sbind (require_session G) (\<lambda>_.
        sbind (on_client take_order_id) (\<lambda>order_id.
        sbind (slift (to_ib_order (gw_blank_order G) r)) (\<lambda>ord.
        sbind (write_order G order_id (rq_contract r) ord) (\<lambda>_.
        sreturn (accepted_order (int_str order_id)))))))"

definition await_order_status :: "ib_gateway \<Rightarrow> string \<Rightarrow> (ibkr, status_update option) action" where
  "await_order_status G broker_order_id =
     sbind (require_session G) (\<lambda>_.
     sbind (on_client (sgets (order_status_of broker_order_id))) (\<lambda>known.
     (case known of
        Some u \<Rightarrow> sreturn (Some u)
      | None \<Rightarrow>
          sbind (await_callbacks G) (\<lambda>_.
          on_client (sgets (order_status_of broker_order_id))))))"

definition int_of_text :: "string \<Rightarrow> int result" where
  "int_of_text s = (case py_int s of None \<Rightarrow> Inl ValueError | Some i \<Rightarrow> Inr i)"

definition ibkr_modify_order :: "ib_gateway \<Rightarrow> order_request \<Rightarrow> string \<Rightarrow> (ibkr, place_result) action" where
  "ibkr_modify_order G r broker_order_id =
     (if \<not> rq_transmit r then sraise BrokerOrderRejectedError
      else
        sbind (require_session G) (\<lambda>_.
        sbind (slift (int_of_text broker_order_id)) (\<lambda>order_id.
        sbind (slift (to_spec (rq_contract r))) (\<lambda>_.
        sbind (slift (to_ib_order (gw_blank_order G) r)) (\<lambda>ord.
        sbind (write_order G order_id (rq_contract r) ord) (\<lambda>_.
        sreturn (accepted_order broker_order_id)))))))"

definition probe_answer :: "ib_gateway \<Rightarrow> instant \<Rightarrow> int \<Rightarrow> (ib_session, permission_probe option) action" where
  "probe_answer G started_at order_id = (\<lambda>se.
     (case map_of (se_what_if se) order_id of
        Some st \<Rightarrow> (Inr (Some (permission_probe_from_state (gw_iso G started_at) st)),
                    se \<lparr> se_what_if := AList.delete order_id (se_what_if se) \<rparr>)
      | None \<Rightarrow> (Inr (map_option (permission_probe_from_error (gw_iso G started_at)) (request_error order_id se)), se)))"

definition undetermined_probe :: "string \<Rightarrow> string \<Rightarrow> permission_probe" where
  "undetermined_probe detail probed_at =
     \<lparr> pp_permitted = None, pp_detail = detail, pp_initial_margin = None, pp_maintenance_margin = None,
       pp_commission = None, pp_error_code = None, pp_probed_at = Some probed_at \<rparr>"

definition probe_futures_permission ::
  "ib_gateway \<Rightarrow> string \<Rightarrow> instant \<Rightarrow> qualified_contract \<Rightarrow> (ibkr, permission_probe) action" where
  "probe_futures_permission G timeout_text now c =
     sbind (require_session G) (\<lambda>_.
     sbind (sguard (qualified_is_continuous c) BrokerOrderRejectedError) (\<lambda>_.
     sbind (on_client take_order_id) (\<lambda>order_id.
     sbind (write_order G order_id c (probe_order (gw_blank_order G))) (\<lambda>_.
     sbind (on_client (probe_answer G now order_id)) (\<lambda>first.
     (case first of
        Some p \<Rightarrow> sreturn p
      | None \<Rightarrow>
          sbind (await_callbacks G) (\<lambda>_.
          sbind (on_client (probe_answer G now order_id)) (\<lambda>second.
          sreturn (or_else second
            (undetermined_probe
              (''IBKR did not answer the whatIf preview within '' @ timeout_text
               @ ''s; permission is undetermined, not denied'') (gw_iso G now)))))))))))"

text \<open>
  Cancelling with an \<^verbatim>\<open>OrderCancel\<close> object, whose module an old release lacks, and without it after
  a \<^verbatim>\<open>TypeError\<close>.
\<close>

definition with_order_cancel :: "ib_gateway \<Rightarrow> (bool \<Rightarrow> ib_request) \<Rightarrow> (ibkr, unit) action" where
  "with_order_cancel G q = (\<lambda>b.
     (if \<not> gw_has_order_cancel G then (Inl ImportError, b)
      else (case send_request G (q True) b of
              (Inl e, b') \<Rightarrow> if e = TypeError then send_request G (q False) b' else (Inl e, b')
            | ok \<Rightarrow> ok)))"

definition ibkr_cancel_order :: "ib_gateway \<Rightarrow> string \<Rightarrow> (ibkr, bool) action" where
  "ibkr_cancel_order G broker_order_id =
     sbind (require_session G) (\<lambda>_.
     sbind (slift (int_of_text broker_order_id)) (\<lambda>order_id.
     sbind (with_order_cancel G (Q_Cancel order_id)) (\<lambda>_.
     sreturn True)))"

definition ibkr_cancel_all_orders :: "ib_gateway \<Rightarrow> (ibkr, int) action" where
  "ibkr_cancel_all_orders G =
     sbind (require_session G) (\<lambda>_.
     sbind (ibkr_open_orders G) (\<lambda>orders.
     sbind (with_order_cancel G Q_Global_Cancel) (\<lambda>_.
     sreturn (int (length orders)))))"

definition ibkr_broker :: "ib_gateway \<Rightarrow> ibkr broker" where
  "ibkr_broker G =
     \<lparr> br_connect = ibkr_connect G, br_disconnect = ibkr_disconnect G,
       br_is_connected = ibkr_is_connected G, br_connection_state = ibkr_connection_state G,
       br_connection_info = ibkr_connection_info G, br_account_summary = ibkr_account_summary G,
       br_positions = ibkr_positions G, br_open_orders = ibkr_open_orders G,
       br_fills = ibkr_fills G 86400, br_contract_details = ibkr_contract_details G,
       br_qualify = ibkr_qualify G, br_market_data = ibkr_market_data G,
       br_cancel_market_data = ibkr_cancel_market_data G, br_place_order = ibkr_place_order G,
       br_modify_order = ibkr_modify_order G, br_cancel_order = ibkr_cancel_order G,
       br_cancel_all_orders = ibkr_cancel_all_orders G \<rparr>"

end
