(* ===== verification/IbkrFacts.thy ===== *)
theory IbkrFacts
  imports IbkrBroker
begin

text \<open>
  What the adapter guarantees: the interface every broker shares, the account a session belongs to,
  the orders it writes; and what the schedule of callbacks can do to it.
\<close>

section \<open>The interface\<close>

lemma collect_rows_ok:
  assumes "collect_rows f rows = Inr xs" and "x \<in> set xs"
  obtains row where "row \<in> set rows" and "f row = Inr (Some x)"
  using assms by (induction f rows arbitrary: xs rule: collect_rows.induct)
    (fastforce simp: ebind_eq_Inr split: option.splits)+

lemma details_row_ok: "details_row G now row = Inr (Some c) \<Longrightarrow> qualified_ok c"
  by (cases row) (auto simp: ebind_eq_Inr from_ib_contract_details_def Let_def make_qualified_iff)

lemma ibkr_contract_details_ok:
  "ibkr_contract_details G now spec b = (Inr cs, b') \<Longrightarrow> c \<in> set cs \<Longrightarrow> qualified_ok c"
  by (auto simp: ibkr_contract_details_def sbind_Inr elim!: collect_rows_ok dest: details_row_ok)

lemma ibkr_qualify_ok: "ibkr_qualify G now spec b = (Inr c, b') \<Longrightarrow> qualified_ok c"
  unfolding ibkr_qualify_def
  by (elim sbind_InrE) (auto split: list.split_asm dest: ibkr_contract_details_ok)

lemma ibkr_connected_iff: "ibkr_is_connected G b \<longleftrightarrow> ibkr_connection_state G b = Connected"
  by (auto simp: ibkr_connection_state_def get_connection_state_def ibkr_is_connected_def Let_def
      split: option.splits)

lemma ibkr_place_disconnected:
  "\<not> ibkr_is_connected G b \<Longrightarrow> \<exists>e. is_broker_error e \<and> ibkr_place_order G t r b = (Inl e, b)"
  by (auto simp: ibkr_place_order_def require_session_def sbind_def is_broker_error_def)

interpretation ibkr: broker_interface "ibkr_is_connected G" "ibkr_connection_state G"
  "\<lambda>b. ci_account_type (ibkr_connection_info G b)" "ibkr_place_order G" "ibkr_qualify G" for G
proof
  fix b :: ibkr and t :: instant and r :: order_request and sp :: contract_spec and c b'
  show "ibkr_is_connected G b \<longleftrightarrow> ibkr_connection_state G b = Connected"
    by (rule ibkr_connected_iff)
  show "\<not> ibkr_is_connected G b \<Longrightarrow> ci_account_type (ibkr_connection_info G b) = Acct_Unknown"
    by (simp add: ibkr_connection_info_def Let_def)
  show "\<exists>e. is_broker_error e \<and> ibkr_place_order G t r b = (Inl e, b)" if "\<not> rq_transmit r"
    using that by (simp add: ibkr_place_order_def is_broker_error_def)
  show "\<exists>e. is_broker_error e \<and> ibkr_place_order G t r b = (Inl e, b)" if "\<not> ibkr_is_connected G b"
    using that by (rule ibkr_place_disconnected)
  show "ibkr_qualify G t sp b = (Inr c, b') \<Longrightarrow> qualified_ok c"
    by (rule ibkr_qualify_ok)
qed

section \<open>Frames\<close>

definition is_real_order :: "ib_request \<Rightarrow> bool" where
  "is_real_order q = (case q of Q_Place n c ord \<Rightarrow> \<not> io_what_if ord | _ \<Rightarrow> False)"

definition real_orders :: "ibkr \<Rightarrow> ib_request list" where
  "real_orders b = filter is_real_order (ib_wire b)"

text \<open>Observations that the session and the turn do not enter.\<close>

definition ignores_client :: "(ibkr \<Rightarrow> 'v) \<Rightarrow> bool" where
  "ignores_client g = (\<forall>b c n. g (b \<lparr> ib_client := c \<rparr>) = g b \<and> g (b \<lparr> ib_turn := n \<rparr>) = g b)"

lemma ignores_client_fields [simp]:
  "ignores_client real_orders" "ignores_client ib_wire" "ignores_client ib_expected" "ignores_client ib_state"
  "ignores_client ib_account_type" "ignores_client ib_md_requests"
  by (simp_all add: ignores_client_def real_orders_def)

lemma keeps_on_client: "ignores_client g \<Longrightarrow> keeps g (on_client m)"
  by (auto simp: keeps_def on_client_def ignores_client_def split: option.splits prod.splits)

lemma keeps_await: "ignores_client g \<Longrightarrow> keeps g (await_callbacks G)"
  unfolding await_callbacks_def by (rule keeps_smodify) (simp add: ignores_client_def)

lemma keeps_send_other:
  "keeps ib_expected (send_request G q)" "keeps ib_state (send_request G q)"
  "keeps ib_account_type (send_request G q)" "keeps ib_md_requests (send_request G q)"
  "keeps ib_client (send_request G q)"
  by (auto simp: keeps_def send_request_def)

lemma keeps_send_real: "\<not> is_real_order q \<Longrightarrow> keeps real_orders (send_request G q)"
  by (auto simp: keeps_def send_request_def real_orders_def)

lemma not_real [simp]:
  "\<not> is_real_order (Q_Summary r)" "\<not> is_real_order (Q_Cancel_Summary r)" "\<not> is_real_order Q_Positions"
  "\<not> is_real_order Q_Cancel_Positions" "\<not> is_real_order Q_All_Open_Orders" "\<not> is_real_order (Q_Executions r)"
  "\<not> is_real_order (Q_Details r c)" "\<not> is_real_order (Q_Market_Data r c)"
  "\<not> is_real_order (Q_Cancel_Market_Data r)" "\<not> is_real_order (Q_Cancel n x)"
  "\<not> is_real_order (Q_Global_Cancel x)" "\<not> is_real_order Q_Disconnect"
  "is_real_order (Q_Place n c ord) \<longleftrightarrow> \<not> io_what_if ord"
  by (simp_all add: is_real_order_def)

lemma keeps_snd: "keeps g m \<Longrightarrow> g (snd (m s)) = g s"
  by (rule keepsD [of g m s "fst (m s)"]) simp_all

lemma keeps_finally: "keeps g m \<Longrightarrow> keeps g c \<Longrightarrow> keeps g (finally_suppressed c m)"
  unfolding finally_suppressed_def
  by (rule keepsI) (auto dest: keepsD simp: keeps_snd split: prod.splits)

lemma keeps_await_request: "ignores_client g \<Longrightarrow> keeps g (await_request G f)"
  unfolding await_request_def
  by (intro keeps_sbind keeps_await keeps_on_client) (auto split: ib_future.splits intro!: keeps_sbind keeps_on_client)

lemma keeps_require_session [simp]: "keeps g (require_session G)"
  unfolding require_session_def by (intro keeps_sbind) simp_all

lemmas frame_rules = keeps_sbind keeps_on_client keeps_await keeps_await_request keeps_finally

text \<open>A query keeps what ignores the session and is kept by its requests.\<close>

lemma keeps_queries:
  assumes "ignores_client g" and "\<And>q. \<not> is_real_order q \<Longrightarrow> keeps g (send_request G q)"
  shows "keeps g (ibkr_account_summary G now)" "keeps g (ibkr_positions G)" "keeps g (ibkr_open_orders G)"
    "keeps g (ibkr_fills G s now)" "keeps g (ibkr_contract_details G now spec)" "keeps g (ibkr_qualify G now spec)"
    "keeps g (await_order_status G n)"
    "keeps g (with_order_cancel G (Q_Cancel k))" "keeps g (with_order_cancel G Q_Global_Cancel)"
proof -
  show "keeps g (ibkr_account_summary G now)" "keeps g (ibkr_positions G)" "keeps g (ibkr_open_orders G)"
    "keeps g (ibkr_fills G s now)" and details: "keeps g (ibkr_contract_details G now spec)"
    unfolding ibkr_account_summary_def ibkr_positions_def ibkr_open_orders_def ibkr_fills_def
      ibkr_contract_details_def
    by (intro frame_rules; simp add: assms)+
  show "keeps g (ibkr_qualify G now spec)"
    unfolding ibkr_qualify_def by (intro frame_rules details) (auto split: list.splits)
  show "keeps g (await_order_status G n)"
    unfolding await_order_status_def
    by (intro frame_rules) (auto simp: assms split: option.splits intro!: frame_rules)
  have cancel: "keeps g (with_order_cancel G q)" if "\<And>x. \<not> is_real_order (q x)" for q
    using assms(2) [OF that] by (auto simp: keeps_def with_order_cancel_def split: prod.splits sum.splits)
  show "keeps g (with_order_cancel G (Q_Cancel k))" "keeps g (with_order_cancel G Q_Global_Cancel)"
    by (rule cancel; simp)+
qed

section \<open>Operations\<close>

text \<open>Everything that happens to the adapter; \<open>Op_Callbacks\<close> are arrivals between two operations.\<close>

datatype ibkr_op =
    Op_Connect instant | Op_Disconnect | Op_State | Op_Summary instant | Op_Positions | Op_Open_Orders
  | Op_Fills int instant | Op_Details instant contract_spec | Op_Qualify instant contract_spec
  | Op_Market_Data instant qualified_contract | Op_Cancel_Market_Data qualified_contract
  | Op_Place instant order_request | Op_Await_Status string | Op_Modify order_request string
  | Op_Probe string instant qualified_contract | Op_Cancel string | Op_Cancel_All | Op_Callbacks

fun ibkr_do :: "ib_gateway \<Rightarrow> ibkr_op \<Rightarrow> ibkr \<Rightarrow> ibkr" where
  "ibkr_do G (Op_Connect now) b = snd (ibkr_connect G now b)"
| "ibkr_do G Op_Disconnect b = snd (ibkr_disconnect G b)"
| "ibkr_do G Op_State b = snd (get_connection_state G b)"
| "ibkr_do G (Op_Summary now) b = snd (ibkr_account_summary G now b)"
| "ibkr_do G Op_Positions b = snd (ibkr_positions G b)"
| "ibkr_do G Op_Open_Orders b = snd (ibkr_open_orders G b)"
| "ibkr_do G (Op_Fills s now) b = snd (ibkr_fills G s now b)"
| "ibkr_do G (Op_Details now spec) b = snd (ibkr_contract_details G now spec b)"
| "ibkr_do G (Op_Qualify now spec) b = snd (ibkr_qualify G now spec b)"
| "ibkr_do G (Op_Market_Data now c) b = snd (ibkr_market_data G now c b)"
| "ibkr_do G (Op_Cancel_Market_Data c) b = snd (ibkr_cancel_market_data G c b)"
| "ibkr_do G (Op_Place now r) b = snd (ibkr_place_order G now r b)"
| "ibkr_do G (Op_Await_Status n) b = snd (await_order_status G n b)"
| "ibkr_do G (Op_Modify r n) b = snd (ibkr_modify_order G r n b)"
| "ibkr_do G (Op_Probe text now c) b = snd (probe_futures_permission G text now c b)"
| "ibkr_do G (Op_Cancel n) b = snd (ibkr_cancel_order G n b)"
| "ibkr_do G Op_Cancel_All b = snd (ibkr_cancel_all_orders G b)"
| "ibkr_do G Op_Callbacks b = snd (await_callbacks G b)"

lemma real_orders_fields [simp]:
  "real_orders (b \<lparr> ib_md_requests := m \<rparr>) = real_orders b" "real_orders (b \<lparr> ib_state := st \<rparr>) = real_orders b"
  "real_orders (b \<lparr> ib_account_type := a \<rparr>) = real_orders b" "real_orders (b \<lparr> ib_client := c \<rparr>) = real_orders b"
  "real_orders (b \<lparr> ib_turn := n \<rparr>) = real_orders b" "real_orders (adopt_session now se b) = real_orders b"
  by (simp_all add: real_orders_def adopt_session_def)

lemma keeps_market_data:
  assumes "ignores_client g" and "\<And>q. \<not> is_real_order q \<Longrightarrow> keeps g (send_request G q)"
    and "\<And>b m. g (b \<lparr> ib_md_requests := m \<rparr>) = g b"
  shows "keeps g (ibkr_market_data G now c)" and "keeps g (ibkr_cancel_market_data G c)"
proof -
  have first: "keeps g (await_first_tick G r)" for r
    unfolding await_first_tick_def by (intro frame_rules) (auto simp: assms intro: keeps_await)
  have "keeps g (market_data_request_id G c)"
    unfolding market_data_request_id_def
    by (intro frame_rules) (auto simp: assms split: option.splits intro!: frame_rules keeps_smodify first)
  then show "keeps g (ibkr_market_data G now c)"
    unfolding ibkr_market_data_def
    by (intro frame_rules) (auto simp: assms split: list.splits option.splits intro!: frame_rules keeps_smodify)
  show "keeps g (ibkr_cancel_market_data G c)"
    using keeps_snd [OF assms(2) [OF not_real(9)]]
    by (auto simp: keeps_def ibkr_cancel_market_data_def assms(3) Let_def split: option.splits)
qed

lemma keeps_write_order:
  assumes "keeps g (send_request G (Q_Place n (to_ib_contract (gw_blank_contract G) spec) ord))"
    and "to_spec c = Inr spec"
  shows "keeps g (write_order G n c ord)"
  using assms by (simp add: write_order_def sbind_def keeps_def)

lemma keeps_write_order_other:
  assumes "\<And>q. keeps g (send_request G q)"
  shows "keeps g (write_order G n c ord)"
  unfolding write_order_def by (intro frame_rules) (simp_all add: assms)

lemma keeps_probe:
  assumes "ignores_client g" and "\<And>n c. keeps g (write_order G n c (probe_order (gw_blank_order G)))"
  shows "keeps g (probe_futures_permission G text now c)"
  unfolding probe_futures_permission_def
  by (intro frame_rules) (auto simp: assms split: option.splits intro!: frame_rules)

lemma probe_writes_no_order: "keeps real_orders (write_order G n c (probe_order blank))"
  unfolding write_order_def by (intro frame_rules keeps_send_real) (simp_all add: probe_order_def)

lemma keeps_cancel:
  assumes "ignores_client g" and "\<And>q. \<not> is_real_order q \<Longrightarrow> keeps g (send_request G q)"
  shows "keeps g (ibkr_cancel_order G n)" and "keeps g (ibkr_cancel_all_orders G)"
  unfolding ibkr_cancel_order_def ibkr_cancel_all_orders_def
  by (intro frame_rules keeps_queries assms; simp)+

lemma keeps_disconnect_real: "keeps real_orders (ibkr_disconnect G)"
  unfolding ibkr_disconnect_def
  by (intro frame_rules keeps_smodify)
    (auto split: option.splits intro!: frame_rules keeps_smodify keeps_ssuppress keeps_send_real)

lemma keeps_refuse_real: "keeps real_orders (refuse_session G st e)"
  unfolding refuse_session_def by (intro frame_rules keeps_disconnect_real keeps_smodify) simp_all

lemma keeps_dial_real: "keeps real_orders (dial G)"
  by (auto simp: keeps_def dial_def Let_def split: sum.splits if_splits)

lemma keeps_connect_real: "keeps real_orders (ibkr_connect G now)"
  unfolding ibkr_connect_def
  by (auto intro!: frame_rules keeps_dial_real keeps_refuse_real keeps_smodify)

section \<open>Orders on the wire\<close>

lemma write_order_real:
  assumes "write_order G n c ord b = (r, b')"
  shows "real_orders b' = real_orders b \<or>
    (\<exists>spec. to_spec c = Inr spec \<and>
       real_orders b' = real_orders b @ [Q_Place n (to_ib_contract (gw_blank_contract G) spec) ord])"
  using assms
  by (cases "io_what_if ord") (auto simp: write_order_def sbind_def send_request_def real_orders_def split: sum.splits)

lemma to_ib_order_terms:
  assumes "to_ib_order blank r = Inr ord"
  shows "io_action ord = order_side_value (rq_side r)"
    and "io_total_quantity ord = V_Dec (dec_of_int (rq_quantity r))" and "io_transmit ord"
    and "map_of order_type_map (rq_order_type r) = Some (io_order_type ord)"
    and "io_tif ord = time_in_force_value (rq_time_in_force r)"
  using assms by (auto simp: to_ib_order_def split: option.splits)

text \<open>Both writing operations end in \<open>write_order\<close> after steps that write nothing.\<close>

lemma placement_writes:
  assumes "ibkr_place_order G now r b = (x, b')" and "real_orders b' \<noteq> real_orders b"
  shows "rq_transmit r \<and> rq_order_type r \<in> set transmittable_order_types \<and> ibkr_is_connected G b
    \<and> (\<exists>n spec ord. to_spec (rq_contract r) = Inr spec \<and> to_ib_order (gw_blank_order G) r = Inr ord
         \<and> real_orders b' = real_orders b @ [Q_Place n (to_ib_contract (gw_blank_contract G) spec) ord])"
  using assms
  by (auto simp: ibkr_place_order_def sbind_def require_session_def on_client_def
      split: if_splits sum.splits prod.splits option.splits dest!: write_order_real)

lemma modification_writes:
  assumes "ibkr_modify_order G r i b = (x, b')" and "real_orders b' \<noteq> real_orders b"
  shows "rq_transmit r \<and> ibkr_is_connected G b
    \<and> (\<exists>n spec ord. py_int i = Some n \<and> to_spec (rq_contract r) = Inr spec
         \<and> to_ib_order (gw_blank_order G) r = Inr ord
         \<and> real_orders b' = real_orders b @ [Q_Place n (to_ib_contract (gw_blank_contract G) spec) ord])"
  using assms
  by (auto simp: ibkr_modify_order_def sbind_def require_session_def int_of_text_def
      split: if_splits sum.splits prod.splits option.splits dest!: write_order_real)

lemma other_operations_write_no_order:
  assumes "\<And>now r. op \<noteq> Op_Place now r" and "\<And>r i. op \<noteq> Op_Modify r i"
  shows "real_orders (ibkr_do G op b) = real_orders b"
proof -
  note q = keeps_queries [where g = real_orders, OF _ keeps_send_real]
  have "keeps real_orders (get_connection_state G)"
    by (simp add: keeps_def get_connection_state_def Let_def)
  then show ?thesis
    using assms
    by (cases op)
      (auto simp: keeps_snd q keeps_connect_real keeps_disconnect_real keeps_await
        keeps_market_data keeps_send_real keeps_cancel keeps_probe probe_writes_no_order)
qed

section \<open>The account of a session\<close>

text \<open>A connected adapter is attached to the kind of account it was built for.\<close>

definition session_guarded :: "ibkr \<Rightarrow> bool" where
  "session_guarded b = (\<forall>e. ib_expected b = Some e \<longrightarrow> ib_state b = Connected \<longrightarrow> ib_account_type b = e)"

definition identity_of :: "ibkr \<Rightarrow> account_type option \<times> connection_state \<times> account_type" where
  "identity_of b = (ib_expected b, ib_state b, ib_account_type b)"

lemma guarded_from_identity: "keeps identity_of m \<Longrightarrow> preserves session_guarded m"
  by (rule keeps_preserves) (auto simp: identity_of_def session_guarded_def)

lemma identity_of_md [simp]: "identity_of (b \<lparr> ib_md_requests := m \<rparr>) = identity_of b"
  by (simp add: identity_of_def)

lemma ignores_identity [simp]: "ignores_client identity_of"
  by (simp add: ignores_client_def identity_of_def)

lemma keeps_send_identity: "keeps identity_of (send_request G q)"
  by (auto simp: keeps_def send_request_def identity_of_def)

lemma keeps_orders_identity:
  "keeps identity_of (ibkr_place_order G now r)" "keeps identity_of (ibkr_modify_order G r i)"
  unfolding ibkr_place_order_def ibkr_modify_order_def
  by (auto intro!: frame_rules keeps_write_order_other keeps_send_identity)

lemma ibkr_disconnect_state: "ib_state (snd (ibkr_disconnect G b)) = Disconnected"
  by (auto simp: ibkr_disconnect_def sbind_def send_request_def split: option.splits prod.splits sum.splits)

lemma disconnect_expected: "keeps ib_expected (ibkr_disconnect G)"
  unfolding ibkr_disconnect_def
  by (intro frame_rules keeps_smodify)
    (auto split: option.splits intro!: frame_rules keeps_smodify keeps_ssuppress keeps_send_other)

lemma refuse_session_state: "ib_state (snd (refuse_session G st e b)) = st"
  by (cases "ibkr_disconnect G b")
    (auto simp: refuse_session_def sbind_def ibkr_disconnect_def split: option.splits prod.splits sum.splits)

lemma not_connected_guarded: "ib_state b \<noteq> Connected \<Longrightarrow> session_guarded b"
  by (simp add: session_guarded_def)

lemma refuse_session_guarded: "st \<noteq> Connected \<Longrightarrow> preserves session_guarded (refuse_session G st e)"
  using refuse_session_state [of G st e] not_connected_guarded by (metis preservesI snd_conv)

lemma dial_guarded: "preserves session_guarded (dial G)"
  by (rule preservesI) (auto simp: dial_def Let_def session_guarded_def split: sum.splits if_splits)

lemma adoption_guarded:
  "preserves session_guarded
     (sbind (smodify (adopt_session now se)) (\<lambda>_.
      sbind (sgets wrong_account) (\<lambda>wrong.
      if wrong then refuse_session G Disconnected e else sgets (ibkr_connection_info G))))"
proof (rule preservesI)
  fix b r t
  let ?b = "adopt_session now se b"
  assume run: "sbind (smodify (adopt_session now se)) (\<lambda>_.
      sbind (sgets wrong_account) (\<lambda>wrong.
      if wrong then refuse_session G Disconnected e else sgets (ibkr_connection_info G))) b = (r, t)"
  show "session_guarded t"
  proof (cases "wrong_account ?b")
    case True
    with run have "refuse_session G Disconnected e ?b = (r, t)"
      by (auto simp: sbind_apply)
    then show ?thesis
      using refuse_session_state [of G Disconnected e ?b] by (metis not_connected_guarded connection_state.distinct(3) snd_conv)
  next
    case False
    with run have "t = ?b" by (auto simp: sbind_apply)
    with False show ?thesis by (simp add: session_guarded_def wrong_account_def)
  qed
qed

lemma connect_guarded: "preserves session_guarded (ibkr_connect G now)"
proof -
  have await: "preserves session_guarded (await_callbacks G)"
    by (rule guarded_from_identity) (simp add: keeps_await)
  have client: "preserves session_guarded (on_client m)" for m :: "(ib_session, 'a) action"
    by (rule guarded_from_identity) (simp add: keeps_on_client)
  show ?thesis
    unfolding ibkr_connect_def
    by (auto intro!: preserves_sbind dial_guarded await client refuse_session_guarded
        adoption_guarded simp del: id_apply)
qed

lemma operations_guarded: "session_guarded b \<Longrightarrow> session_guarded (ibkr_do G op b)"
proof -
  assume b: "session_guarded b"
  have kept: "session_guarded (snd (m b))" if "preserves session_guarded m" for m :: "(ibkr, 'a) action"
    using preservesD [OF that, of b "fst (m b)" "snd (m b)"] b by simp
  note q = keeps_queries [where g = identity_of, OF _ keeps_send_identity]
  have state: "session_guarded (snd (get_connection_state G b))"
    using b by (simp add: get_connection_state_def Let_def session_guarded_def)
  have disc: "session_guarded (snd (ibkr_disconnect G b))"
    by (simp add: ibkr_disconnect_state not_connected_guarded)
  show ?thesis
    by (cases op)
      (auto intro!: kept [OF guarded_from_identity] kept [OF connect_guarded] state disc
        simp: q keeps_await keeps_market_data keeps_send_identity keeps_cancel keeps_probe keeps_write_order_other
          keeps_orders_identity)
qed

section \<open>Answers\<close>

lemma receive_later: "later se (receive G xs se)"
proof (induction xs arbitrary: se)
  case Nil
  show ?case by simp
next
  case (Cons x xs)
  obtain r t where ev: "on_event (gw_iso G) (fst x) (snd x) se = (r, t)" by fastforce
  from later_event [OF ev] have "later se t" .
  with Cons [of t] ev show ?case by (auto intro: later_trans split: sum.splits)
qed

lemma receive_keeps_outcome:
  "f < length (se_futures se) \<Longrightarrow> se_futures se ! f = v \<Longrightarrow> v \<noteq> F_Waiting \<Longrightarrow>
     future_outcome f (receive G xs se) = v"
  using receive_later [of se G xs] by (auto simp: later_def future_outcome_def)

lemma await_request_rows:
  assumes "ib_client b = Some se" and "future_outcome f (receive G (gw_arrivals G (ib_turn b)) se) = F_Rows rows"
  shows "fst (await_request G f b) = Inr rows"
  using assms by (simp add: await_request_def await_callbacks_def sbind_def on_client_def)

lemma await_request_raised:
  assumes "ib_client b = Some se" and "future_outcome f (receive G (gw_arrivals G (ib_turn b)) se) = F_Raised err"
  shows "fst (await_request G f b) = Inl (fst err)"
  using assms by (simp add: await_request_def await_callbacks_def sbind_def on_client_def)

text \<open>The positions request after its registration, and the two ways its wait can be answered.\<close>

definition asked_positions :: "ib_session \<Rightarrow> ib_session" where
  "asked_positions se = snd (register position_req_id se)"

lemma asked_positions_fields:
  "se_futures (asked_positions se) = se_futures se @ [F_Waiting]"
  "map_of (se_pending (asked_positions se)) =
     (map_of (se_pending se))(position_req_id \<mapsto> \<lparr> pd_future = length (se_futures se), pd_rows = [] \<rparr>)"
  by (simp_all add: asked_positions_def register_def Let_def update_conv')

lemma finally_result: "fst (finally_suppressed c m s) = fst (m s)"
  by (simp add: finally_suppressed_def split: prod.splits)

lemma positions_answer:
  assumes "ibkr_is_connected G b" and se: "ib_client b = Some se" and "gw_send G (ib_turn b) Q_Positions = Inr ()"
    and out: "future_outcome (length (se_futures se))
                (receive G (gw_arrivals G (Suc (ib_turn b))) (asked_positions se)) = v"
  shows "v = F_Rows rows \<Longrightarrow> fst (ibkr_positions G b) = collect_rows position_row rows"
    and "v = F_Raised err \<Longrightarrow> fst (ibkr_positions G b) = Inl (fst err)"
proof -
  let ?b = "b \<lparr> ib_client := Some (asked_positions se), ib_wire := ib_wire b @ [Q_Positions],
               ib_turn := Suc (ib_turn b) \<rparr>"
  let ?m = "finally_suppressed (send_request G Q_Cancel_Positions) (await_request G (length (se_futures se)))"
  have run: "ibkr_positions G b = sbind ?m (\<lambda>rows. slift (collect_rows position_row rows)) ?b"
    using assms(1-3)
    by (simp add: ibkr_positions_def require_session_def sbind_apply on_client_def register_def Let_def
        asked_positions_def send_request_def)
  show "fst (ibkr_positions G b) = collect_rows position_row rows" if "v = F_Rows rows"
  proof -
    have "fst (?m ?b) = Inr rows"
      using await_request_rows [of ?b "asked_positions se"] out that by (simp add: finally_result)
    then show ?thesis unfolding run by (cases "?m ?b") (auto simp: sbind_apply)
  qed
  show "fst (ibkr_positions G b) = Inl (fst err)" if "v = F_Raised err"
  proof -
    have "fst (?m ?b) = Inl (fst err)"
      using await_request_raised [of ?b "asked_positions se"] out that by (simp add: finally_result)
    then show ?thesis unfolding run by (cases "?m ?b") (auto simp: sbind_apply)
  qed
qed

fun position_event :: "instant \<times> string \<times> ib_contract \<times> ib_value \<times> ib_value \<Rightarrow> instant \<times> ib_event" where
  "position_event (t, account, c, quantity, cost) = (t, Ev_Position account c quantity cost)"

lemma receive_position_rows:
  assumes "map_of (se_pending se) position_req_id = Some p"
  obtains se' where "receive G (map position_event rows @ xs) se = receive G xs se'"
    and "map_of (se_pending se') position_req_id =
           Some (p \<lparr> pd_rows := pd_rows p @ map (Row_Position \<circ> snd) rows \<rparr>)"
    and "se_futures se' = se_futures se"
  using assms
proof (induction rows arbitrary: se p thesis)
  case Nil
  show ?case by (rule Nil(1) [of se]) (simp_all add: Nil)
next
  case (Cons row rows)
  obtain t account c quantity cost where row: "row = (t, account, c, quantity, cost)" by (cases row)
  let ?se = "seen_at t (add_row position_req_id (Row_Position (account, c, quantity, cost)) se)"
  have pending: "map_of (se_pending ?se) position_req_id =
      Some (p \<lparr> pd_rows := pd_rows p @ [Row_Position (account, c, quantity, cost)] \<rparr>)"
    and futures: "se_futures ?se = se_futures se"
    using Cons.prems(2) by (simp_all add: seen_at_def add_row_def update_conv')
  show ?case
  proof (rule Cons.IH [OF _ pending])
    fix se'
    assume "receive G (map position_event rows @ xs) ?se = receive G xs se'"
      and "map_of (se_pending se') position_req_id =
        Some (p \<lparr> pd_rows := pd_rows p @ [Row_Position (account, c, quantity, cost)] \<rparr>
               \<lparr> pd_rows := pd_rows (p \<lparr> pd_rows := pd_rows p @ [Row_Position (account, c, quantity, cost)] \<rparr>)
                   @ map (Row_Position \<circ> snd) rows \<rparr>)"
      and "se_futures se' = se_futures ?se"
    then show thesis
      using Cons.prems(1) [of se'] row futures by simp
  qed
qed

lemma position_end_resolves:
  assumes "map_of (se_pending se) position_req_id = Some p" and "pd_future p < length (se_futures se)"
    and "se_futures se ! pd_future p = F_Waiting"
  shows "future_outcome (pd_future p) (receive G ((t, Ev_Position_End) # rest) se) = F_Rows (pd_rows p)"
proof -
  let ?se = "resolve_request position_req_id se"
  have "se_futures ?se ! pd_future p = F_Rows (pd_rows p)" "pd_future p < length (se_futures ?se)"
    using assms by (simp_all add: resolve_request_def settle_nth)
  then show ?thesis using receive_keeps_outcome [of "pd_future p" ?se] by simp
qed

lemma operations_expected: "ib_expected (ibkr_do G op b) = ib_expected b"
proof -
  note q = keeps_queries [where g = ib_expected, OF _ keeps_send_other(1)]
  have state: "keeps ib_expected (get_connection_state G)"
    by (simp add: keeps_def get_connection_state_def Let_def)
  have dialled: "keeps ib_expected (dial G)"
    by (auto simp: keeps_def dial_def Let_def split: sum.splits if_splits)
  have "keeps ib_expected (ibkr_connect G now)" for now
    unfolding ibkr_connect_def refuse_session_def
    by (auto intro!: frame_rules dialled disconnect_expected keeps_smodify simp: adopt_session_def)
  moreover have "keeps ib_expected (ibkr_place_order G now r)" "keeps ib_expected (ibkr_modify_order G r i)" for now r i
    unfolding ibkr_place_order_def ibkr_modify_order_def
    by (auto intro!: frame_rules keeps_write_order_other keeps_send_other)
  ultimately show ?thesis
    by (cases op)
      (auto simp: keeps_snd q state disconnect_expected keeps_await keeps_market_data keeps_send_other
        keeps_cancel keeps_probe keeps_write_order_other)
qed

section \<open>A gateway to evaluate on\<close>

definition blank_contract :: ib_contract where
  "blank_contract =
     \<lparr> ic_con_id = 0, ic_symbol = '''', ic_sec_type = '''', ic_exchange = '''', ic_currency = '''',
       ic_expiry = '''', ic_trading_class = '''', ic_local_symbol = '''', ic_multiplier = '''',
       ic_primary_exchange = '''' \<rparr>"

definition blank_order :: ib_order where
  "blank_order =
     \<lparr> io_action = '''', io_total_quantity = V_None, io_order_type = '''', io_tif = '''',
       io_lmt_price = V_None, io_aux_price = V_None, io_transmit = True, io_order_ref = '''',
       io_what_if = False, io_account = '''', io_perm_id = 0, io_client_id = 0 \<rparr>"

definition sample_gateway :: "(nat \<Rightarrow> (instant \<times> ib_event) list) \<Rightarrow> ib_gateway" where
  "sample_gateway arrivals =
     \<lparr> gw_available = True, gw_connect = (\<lambda>_. Inr ()), gw_send = (\<lambda>_ _. Inr ()), gw_arrivals = arrivals,
       gw_reader_survives = True, gw_is_connected = (\<lambda>_ _. Inr True), gw_has_order_cancel = True,
       gw_blank_contract = blank_contract, gw_blank_order = blank_order, gw_iso = (\<lambda>_. ''''),
       gw_zone = (\<lambda>_ _. None) \<rparr>"

definition attached :: "ib_session \<Rightarrow> ibkr" where
  "attached se =
     (make_ibkr (Some Acct_Paper)) \<lparr> ib_client := Some se, ib_state := Connected, ib_account_type := Acct_Paper \<rparr>"

lemma attached_fields [simp]:
  "ib_client (attached se) = Some se" "ib_state (attached se) = Connected" "ib_turn (attached se) = 0"
  "ib_wire (attached se) = []" "ib_md_requests (attached se) = []" "ib_account_type (attached se) = Acct_Paper"
  "ib_expected (attached se) = Some Acct_Paper" "ib_account_id (attached se) = None"
  by (simp_all add: attached_def make_ibkr_def)

lemma sample_gateway_fields [simp]:
  "gw_available (sample_gateway a)" "gw_connect (sample_gateway a) n = Inr ()"
  "gw_send (sample_gateway a) n q = Inr ()" "gw_arrivals (sample_gateway a) = a"
  "gw_is_connected (sample_gateway a) n se = Inr True" "gw_reader_survives (sample_gateway a)"
  "gw_blank_contract (sample_gateway a) = blank_contract" "gw_blank_order (sample_gateway a) = blank_order"
  by (simp_all add: sample_gateway_def)

lemma attached_connected [simp]: "ibkr_is_connected (sample_gateway a) (attached se)"
  by (simp add: ibkr_is_connected_def)

section \<open>Properties\<close>

text \<open>
  C8: The only thing that puts a working order on the wire is a placement or a modification: if an
  operation of the adapter writes an order that is not a preview, then it was called with a request
  marked for transmission, over a live session, and it wrote exactly one order, with the side, the
  quantity and the type of the request, to the contract of the request. Queries, subscriptions,
  cancellations, connecting and the permission probe write none.
\<close>

theorem wire_orders_were_requested:
  assumes "real_orders (ibkr_do G op b) \<noteq> real_orders b"
  shows "\<exists>r n spec ord.
    ((\<exists>now. op = Op_Place now r \<and> rq_order_type r \<in> set transmittable_order_types) \<or> (\<exists>i. op = Op_Modify r i))
    \<and> rq_transmit r \<and> ibkr_is_connected G b \<and> to_spec (rq_contract r) = Inr spec
    \<and> real_orders (ibkr_do G op b) = real_orders b @ [Q_Place n (to_ib_contract (gw_blank_contract G) spec) ord]
    \<and> io_action ord = order_side_value (rq_side r)
    \<and> io_total_quantity ord = V_Dec (dec_of_int (rq_quantity r)) \<and> io_transmit ord
    \<and> map_of order_type_map (rq_order_type r) = Some (io_order_type ord)"
proof -
  consider (place) now r where "op = Op_Place now r" | (modify) r i where "op = Op_Modify r i"
    using other_operations_write_no_order [of op G b] assms by blast
  then show ?thesis
  proof cases
    case place
    obtain x b' where run: "ibkr_place_order G now r b = (x, b')" by fastforce
    with place have b': "ibkr_do G op b = b'" by simp
    from placement_writes [OF run] assms b' place show ?thesis by (auto dest: to_ib_order_terms)
  next
    case modify
    obtain x b' where run: "ibkr_modify_order G r i b = (x, b')" by fastforce
    with modify have b': "ibkr_do G op b = b'" by simp
    from modification_writes [OF run] assms b' modify show ?thesis by (auto dest: to_ib_order_terms)
  qed
qed

definition sample_order :: order_request where
  "sample_order =
     \<lparr> rq_internal_order_id = ''ord_1'', rq_correlation_id = ''cor_1'', rq_contract = sample_contract,
       rq_side = Sell, rq_quantity = 2, rq_order_type = Market, rq_time_in_force = Day,
       rq_limit_price = None, rq_stop_price = None, rq_transmit = True \<rparr>"

lemma sample_spec: "\<exists>spec. to_spec sample_contract = Inr spec"
  by (simp add: to_spec_def make_spec_def sample_contract_def py_strip_def is_space_def ch_def)

theorem wire_orders_were_requested_witness:
  "\<exists>n c ord. real_orders (ibkr_do (sample_gateway (\<lambda>_. [])) (Op_Place (Micros 0) sample_order)
        (attached (new_session \<lparr> se_next_order_id := Some 7 \<rparr>))) = [Q_Place n c ord]
      \<and> io_action ord = ''SELL'' \<and> io_total_quantity ord = V_Dec (Dec 2 0)"
proof -
  let ?b = "attached (new_session \<lparr> se_next_order_id := Some 7 \<rparr>)"
  let ?G = "sample_gateway (\<lambda>_. [])" and ?op = "Op_Place (Micros 0) sample_order"
  obtain spec where "to_spec sample_contract = Inr spec" using sample_spec by blast
  then have "real_orders (ibkr_do ?G ?op ?b) \<noteq> real_orders ?b"
    by (simp add: ibkr_place_order_def sample_order_def transmittable_order_types_def order_type_map_def
        qualified_is_continuous_def require_session_def sbind_apply on_client_def take_order_id_def
        to_ib_order_def write_order_def send_request_def real_orders_def blank_order_def)
  from wire_orders_were_requested [OF this] show ?thesis
    by (auto simp: sample_order_def real_orders_def dec_of_int_def)
qed

text \<open>
  C13: Whatever the adapter is asked to do and whatever the gateway sends, while it is connected the
  account it reports has the type it was built for: a session over any other account, or over a mix
  of accounts, is torn down before \<^verbatim>\<open>connect\<close> returns.
\<close>

theorem connected_account_is_the_expected_one:
  assumes "ibkr_is_connected G (fold (ibkr_do G) ops (make_ibkr (Some e)))"
  shows "ci_account_type (ibkr_connection_info G (fold (ibkr_do G) ops (make_ibkr (Some e)))) = e"
proof -
  have expected: "ib_expected (fold (ibkr_do G) ops b) = ib_expected b" for b
    by (induction ops arbitrary: b) (simp_all add: operations_expected)
  have "session_guarded (fold (ibkr_do G) ops b)" if "session_guarded b" for b
    using that by (induction ops arbitrary: b) (simp_all add: operations_guarded)
  then have "session_guarded (fold (ibkr_do G) ops (make_ibkr (Some e)))"
    by (simp add: not_connected_guarded make_ibkr_def)
  moreover have "ib_expected (fold (ibkr_do G) ops (make_ibkr (Some e))) = Some e"
    by (simp add: expected make_ibkr_def)
  ultimately show ?thesis
    using assms
    by (auto simp: ibkr_connection_info_def Let_def session_guarded_def ibkr_is_connected_def split: option.splits)
qed

definition greeting :: "string \<Rightarrow> nat \<Rightarrow> (instant \<times> ib_event) list" where
  "greeting accounts n = (if n = 1 then [(Micros 1, Ev_Accounts accounts), (Micros 2, Ev_Next_Id 7)] else [])"

theorem connected_account_is_the_expected_one_witness:
  "ci_account_type (ibkr_connection_info (sample_gateway (greeting ''DU1''))
     (fold (ibkr_do (sample_gateway (greeting ''DU1''))) [Op_Connect (Micros 3)] (make_ibkr (Some Acct_Paper))))
   = Acct_Paper"
  by (rule connected_account_is_the_expected_one) code_simp

text \<open>
  A positions reply is translated row by row: if the rows arrive and then the end marker, the
  answer is the translation of exactly these rows in their order, without the flat ones, or the
  exception of the first malformed one, and nothing that arrives after the end marker changes it.
\<close>

theorem positions_are_the_reply:
  assumes "ibkr_is_connected G b" and "ib_client b = Some se" and "gw_send G (ib_turn b) Q_Positions = Inr ()"
    and "gw_arrivals G (Suc (ib_turn b)) = map position_event rows @ (t, Ev_Position_End) # rest"
  shows "fst (ibkr_positions G b) = collect_rows position_from_row (map snd rows)"
proof -
  let ?f = "length (se_futures se)"
  let ?p = "\<lparr> pd_future = ?f, pd_rows = [] \<rparr>"
  have "map_of (se_pending (asked_positions se)) position_req_id = Some ?p"
    by (simp add: asked_positions_fields)
  then obtain se' where run: "receive G (map position_event rows @ (t, Ev_Position_End) # rest) (asked_positions se)
        = receive G ((t, Ev_Position_End) # rest) se'"
    and pending: "map_of (se_pending se') position_req_id = Some (?p \<lparr> pd_rows := pd_rows ?p @ map (Row_Position \<circ> snd) rows \<rparr>)"
    and futures: "se_futures se' = se_futures (asked_positions se)"
    by (rule receive_position_rows)
  have "future_outcome ?f (receive G (gw_arrivals G (Suc (ib_turn b))) (asked_positions se))
      = F_Rows (map (Row_Position \<circ> snd) rows)"
    using position_end_resolves [OF pending, of G t rest] run futures assms(4)
    by (simp add: asked_positions_fields del: receive.simps)
  from positions_answer(1) [OF assms(1-3) refl this] have
    "fst (ibkr_positions G b) = collect_rows position_row (map (Row_Position \<circ> snd) rows)" .
  moreover have "collect_rows position_row (map (Row_Position \<circ> snd) rows) = collect_rows position_from_row (map snd rows)"
    by (induction rows) simp_all
  ultimately show ?thesis by simp
qed

definition msl_contract :: ib_contract where
  "msl_contract = blank_contract \<lparr> ic_con_id := 900000001, ic_symbol := ''MSL'', ic_exchange := ''CME'' \<rparr>"

definition held_row :: "int \<Rightarrow> instant \<times> string \<times> ib_contract \<times> ib_value \<times> ib_value" where
  "held_row n = (Micros n, ''DU1'', msl_contract, V_Dec (Dec n 0), V_Dec (Dec 3750 0))"

theorem positions_are_the_reply_witness:
  "\<exists>p. fst (ibkr_positions (sample_gateway (\<lambda>_. map position_event [held_row 0, held_row 3] @ [(Micros 4, Ev_Position_End)]))
         (attached new_session)) = Inr [p] \<and> bp_quantity p = 3"
proof -
  have "fst (ibkr_positions (sample_gateway (\<lambda>_. map position_event [held_row 0, held_row 3] @ [(Micros 4, Ev_Position_End)]))
      (attached new_session)) = collect_rows position_from_row (map snd [held_row 0, held_row 3])"
    by (rule positions_are_the_reply [where t = "Micros 4" and rest = "[]"]) simp_all
  then show ?thesis
    by (simp add: position_from_row_def held_row_def to_decimal_def)
qed

text \<open>
  C28: The end marker of an earlier positions request that timed out answers the next one: request
  ids of positions are constant, so a marker that arrives before the first row of the new reply makes
  the adapter report no position at all, whatever the rows that follow say.
\<close>

theorem late_end_marker_reports_flat:
  assumes "ibkr_is_connected G b" and "ib_client b = Some se" and "gw_send G (ib_turn b) Q_Positions = Inr ()"
    and "gw_arrivals G (Suc (ib_turn b)) = (t, Ev_Position_End) # rest"
  shows "fst (ibkr_positions G b) = Inr []"
proof -
  let ?f = "length (se_futures se)"
  have "future_outcome ?f (receive G ((t, Ev_Position_End) # rest) (asked_positions se)) = F_Rows []"
    using position_end_resolves [of "asked_positions se" "\<lparr> pd_future = ?f, pd_rows = [] \<rparr>" G t rest]
    by (simp add: asked_positions_fields)
  then have "future_outcome ?f (receive G (gw_arrivals G (Suc (ib_turn b))) (asked_positions se)) = F_Rows []"
    by (simp only: assms(4))
  from positions_answer(1) [OF assms(1-3) refl this] show ?thesis by simp
qed

text \<open>The first request times out after one row; its end marker arrives in the second wait.\<close>

definition slow_gateway :: ib_gateway where
  "slow_gateway = sample_gateway (\<lambda>n.
     if n = 1 then [position_event (held_row 3)]
     else (Micros 5, Ev_Position_End) # [position_event (held_row 3), (Micros 6, Ev_Position_End)])"

theorem late_end_marker_reports_flat_witness:
  "(let b = snd (ibkr_positions slow_gateway (attached new_session)) in
    fst (ibkr_positions slow_gateway (attached new_session)) = Inl BrokerTimeoutError
    \<and> fst (ibkr_positions slow_gateway b) = Inr [])"
proof -
  let ?b = "snd (ibkr_positions slow_gateway (attached new_session))"
  have "fst (ibkr_positions slow_gateway (attached new_session)) = Inl BrokerTimeoutError" by code_simp
  moreover have "fst (ibkr_positions slow_gateway ?b) = Inr []"
  proof (rule late_end_marker_reports_flat [where se = "the (ib_client ?b)" and t = "Micros 5"])
    show "ibkr_is_connected slow_gateway ?b" by code_simp
    have "ib_client ?b \<noteq> None" by code_simp
    then show "ib_client ?b = Some (the (ib_client ?b))" by simp
    show "gw_send slow_gateway (ib_turn ?b) Q_Positions = Inr ()" by (simp add: slow_gateway_def)
    have "ib_turn ?b = 3" by code_simp
    then show "gw_arrivals slow_gateway (Suc (ib_turn ?b)) =
        (Micros 5, Ev_Position_End) # [position_event (held_row 3), (Micros 6, Ev_Position_End)]"
      by (simp add: slow_gateway_def)
  qed
  ultimately show ?thesis by (simp add: Let_def)
qed

text \<open>
  Order ids and request ids share one table of pending requests, and the ids of the positions and
  open-orders requests, 1 and 2, are also the first order ids a client is given: the rejection of order 1
  fails a positions request that is waiting, with an exception that speaks of an order.
\<close>

theorem order_rejection_fails_positions_request:
  assumes "ibkr_is_connected G b" and "ib_client b = Some se" and "gw_send G (ib_turn b) Q_Positions = Inr ()"
    and "gw_arrivals G (Suc (ib_turn b)) = (t, Ev_Error [A_Int 1, A_Int 201, A_Str message] None) # rest"
  shows "fst (ibkr_positions G b) = Inl BrokerOrderRejectedError"
proof -
  let ?f = "length (se_futures se)" and ?err = "(BrokerOrderRejectedError, ib_message 201 message)"
  let ?se = "on_error t [A_Int 1, A_Int 201, A_Str message] None (asked_positions se)"
  have cls: "classify_ib_error 201 message = Some BrokerOrderRejectedError"
    by (simp add: classify_ib_error_def info_codes_def connectivity_codes_def permission_codes_def
        contract_codes_def order_reject_codes_def)
  have pending: "map_of (se_pending (asked_positions se)) 1 = Some \<lparr> pd_future = ?f, pd_rows = [] \<rparr>"
    by (simp add: asked_positions_fields position_req_id_def)
  have "?se = settle ?f (F_Raised ?err)
      (seen_at t (asked_positions se) \<lparr> se_pending := AList.delete 1 (se_pending (asked_positions se)) \<rparr>)"
    using pending
    by (simp add: on_error_def parse_error_args_def List.map_filter_simps cls reject_request_def seen_at_def)
  then have "se_futures ?se ! ?f = F_Raised ?err" "?f < length (se_futures ?se)"
    by (simp_all add: settle_nth asked_positions_fields seen_at_def)
  then have "future_outcome ?f (receive G rest ?se) = F_Raised ?err"
    using receive_keeps_outcome [of ?f ?se] by simp
  then have "future_outcome ?f (receive G (gw_arrivals G (Suc (ib_turn b))) (asked_positions se)) = F_Raised ?err"
    by (simp add: assms(4))
  from positions_answer(2) [OF assms(1-3) refl this] show ?thesis by simp
qed

theorem order_rejection_fails_positions_request_witness:
  "fst (ibkr_positions (sample_gateway (\<lambda>_. [(Micros 4, Ev_Error [A_Int 1, A_Int 201, A_Str ''rejected''] None)]))
     (attached new_session)) = Inl BrokerOrderRejectedError"
  by (rule order_rejection_fails_positions_request [where t = "Micros 4" and rest = "[]"]) simp_all

section \<open>Quotes\<close>

lemma quote_of_tick_of:
  "quote_of c (tick_of now c r se) =
     \<lparr> q_contract_key = qualified_key c, q_symbol = qc_symbol c, q_received_at = now, q_source = ''ibkr'',
       q_bid = map_of (ticks_for r se) ''bid'', q_ask = map_of (ticks_for r se) ''ask'',
       q_last = map_of (ticks_for r se) ''last'', q_bid_size = None, q_ask_size = None,
       q_is_delayed = (r \<in> se_delayed se) \<rparr>"
  by (simp add: quote_of_def tick_of_def)

lemma known_subscription_answers:
  assumes "ibkr_is_connected G b" and "ib_client b = Some se" and "map_of (ib_md_requests b) (qualified_key c) = Some r"
    and "ticks_for r se \<noteq> [] \<or> request_error r se = None"
  shows "ibkr_market_data G now c b = (Inr (tick_of now c r se), b)"
  using assms
  by (auto simp: ibkr_market_data_def require_session_def market_data_request_id_def sbind_apply on_client_def
      split: list.splits option.splits)

text \<open>
  C14: A feed that has gone silent looks fresh. Once a contract is subscribed and has ticked, asking for
  its quote writes nothing to the gateway and waits for nothing: it stamps the cached prices with the
  time of the question. So at any later time, however long ago the last tick came, a poll caches a
  quote with the old prices that passes the freshness check the transmit gate relies on.
\<close>

theorem silent_feed_stays_fresh:
  assumes "ibkr_is_connected G b" and "ib_client b = Some se"
    and "map_of (ib_md_requests b) (qualified_key c) = Some r" and "ticks_for r se \<noteq> []"
    and "has_prices (quote_of c (tick_of now c r se)) = Inr True"
    and "md_listeners m = []" and "flt_less (Flt 0) (md_max_age_seconds m)"
  shows "\<exists>q m'. poll (ibkr_broker G) now c (m, b) = (Inr (Some q), (m', b))
    \<and> md_is_fresh m' (qualified_key c) now
    \<and> q_bid q = map_of (ticks_for r se) ''bid'' \<and> q_ask q = map_of (ticks_for r se) ''ask''
    \<and> q_last q = map_of (ticks_for r se) ''last''"
proof -
  let ?q = "quote_of c (tick_of now c r se)"
  let ?m = "m \<lparr> md_quotes := AList.update (qualified_key c) ?q (md_quotes m) \<rparr>"
  have key: "q_contract_key ?q = qualified_key c" and at: "q_received_at ?q = now"
    by (simp_all add: quote_of_tick_of)
  have tick: "br_market_data (ibkr_broker G) now c b = (Inr (tick_of now c r se), b)"
    using known_subscription_answers [OF assms(1-3), of now] assms(4) by (simp add: ibkr_broker_def)
  have "poll (ibkr_broker G) now c (m, b) = (Inr (Some ?q), (?m, b))"
    using assms(5,6) by (simp add: poll_def tick record_tick_def Let_def key)
  moreover have "md_is_fresh ?m (qualified_key c) now"
    using assms(7)
    by (cases "md_max_age_seconds m") (simp_all add: md_is_fresh_def latest_def update_conv' quote_is_fresh_def quote_age_def at)
  ultimately show ?thesis by (auto simp: quote_of_tick_of)
qed

definition ticked_session :: ib_session where
  "ticked_session = new_session \<lparr> se_ticks := [(1001, [(''last'', Dec 15000 (- 2))])] \<rparr>"

definition subscribed_ibkr :: ibkr where
  "subscribed_ibkr = (attached ticked_session) \<lparr> ib_md_requests := [(qualified_key sample_contract, 1001)] \<rparr>"

text \<open>A year without a tick.\<close>

theorem silent_feed_stays_fresh_witness:
  "\<exists>q m'. poll (ibkr_broker (sample_gateway (\<lambda>_. []))) (Micros 31536000000000) sample_contract
       (make_market_data (Flt 5), subscribed_ibkr) = (Inr (Some q), (m', subscribed_ibkr))
     \<and> md_is_fresh m' (qualified_key sample_contract) (Micros 31536000000000)
     \<and> q_bid q = None \<and> q_ask q = None \<and> q_last q = Some (Dec 15000 (- 2))"
proof -
  let ?now = "Micros 31536000000000"
  have ticks: "ticks_for 1001 ticked_session = [(''last'', Dec 15000 (- 2))]"
    by (simp add: ticks_for_def ticked_session_def)
  have "has_prices (quote_of sample_contract (tick_of ?now sample_contract 1001 ticked_session)) = Inr True"
    by (simp add: has_prices_def quote_mid_def mid_price_def quote_of_tick_of ticks)
  then show ?thesis
    using silent_feed_stays_fresh [of "sample_gateway (\<lambda>_. [])" subscribed_ibkr ticked_session sample_contract 1001
        ?now "make_market_data (Flt 5)"]
    by (simp add: subscribed_ibkr_def ibkr_is_connected_def ticks make_market_data_def)
qed

section \<open>Reconnecting\<close>

lemma refuse_session_fails [simp]: "refuse_session G st e b \<noteq> (Inr x, b')"
  by (auto simp: refuse_session_def sbind_def split: prod.splits sum.splits)

lemma connect_keeps_subscriptions:
  assumes "ibkr_connect G t b = (Inr info, b1)"
  shows "ib_md_requests b1 = ib_md_requests b"
proof -
  have adopted: "ib_md_requests (adopt_session now se x) = ib_md_requests x" for now se x
    by (simp add: adopt_session_def)
  show ?thesis
    using assms
    by (auto simp: ibkr_connect_def dial_def await_callbacks_def on_client_def Let_def sbind_apply adopted
        split: if_splits sum.splits prod.splits option.splits)
qed

text \<open>
  C15: A reconnection does not bring the quotes back. \<^verbatim>\<open>connect\<close> opens a new session but keeps the
  adapter's table of subscriptions, so for a contract that was subscribed before the connection was lost
  the adapter believes the subscription still stands: it never writes the request to the new session
  and, as long as that session holds neither ticks nor an error for the old id, every poll returns a
  tick without a price.
\<close>

theorem reconnection_does_not_resubscribe:
  assumes "\<not> ibkr_is_connected G b" and "ibkr_connect G t b = (Inr info, b1)"
    and "map_of (ib_md_requests b) (qualified_key c) = Some r"
    and "ibkr_is_connected G b1" and "ib_client b1 = Some se" and "ticks_for r se = []" and "request_error r se = None"
  shows "\<exists>k. ibkr_market_data G now c b1 = (Inr k, b1) \<and> tk_bid k = None \<and> tk_ask k = None \<and> tk_last k = None"
proof -
  have "map_of (ib_md_requests b1) (qualified_key c) = Some r"
    using connect_keeps_subscriptions [OF assms(2)] assms(3) by simp
  from known_subscription_answers [OF assms(4,5) this] assms(6,7) show ?thesis
    by (simp add: tick_of_def)
qed

definition dropped_ibkr :: ibkr where
  "dropped_ibkr = subscribed_ibkr \<lparr> ib_state := Disconnected \<rparr>"

theorem reconnection_does_not_resubscribe_witness:
  "(let G = sample_gateway (greeting ''DU1''); b1 = snd (ibkr_connect G (Micros 9) dropped_ibkr) in
    \<exists>k. ibkr_market_data G (Micros 10) sample_contract b1 = (Inr k, b1)
      \<and> tk_bid k = None \<and> tk_ask k = None \<and> tk_last k = None)"
proof -
  let ?G = "sample_gateway (greeting ''DU1'')"
  let ?r = "ibkr_connect ?G (Micros 9) dropped_ibkr"
  have ok: "(case fst ?r of Inl _ \<Rightarrow> False | Inr _ \<Rightarrow> True) \<and> ibkr_is_connected ?G (snd ?r)
      \<and> (case ib_client (snd ?r) of None \<Rightarrow> False | Some se \<Rightarrow> ticks_for 1001 se = [] \<and> request_error 1001 se = None)"
    by code_simp
  then obtain info b1 where run: "?r = (Inr info, b1)" by (cases ?r) (auto split: sum.splits)
  from ok run obtain se where "ibkr_is_connected ?G b1" "ib_client b1 = Some se" "ticks_for 1001 se = []"
      "request_error 1001 se = None"
    by (auto split: option.splits)
  moreover have "\<not> ibkr_is_connected ?G dropped_ibkr" "map_of (ib_md_requests dropped_ibkr) (qualified_key sample_contract) = Some 1001"
    by (simp_all add: dropped_ibkr_def subscribed_ibkr_def ibkr_is_connected_def)
  ultimately show ?thesis
    using reconnection_does_not_resubscribe [of ?G dropped_ibkr "Micros 9" info b1 sample_contract 1001 se "Micros 10"] run
    by (simp add: Let_def)
qed

end
