(* ===== verification/OperatorOrder.thy ===== *)
theory OperatorOrder
  imports Trading IbkrFacts
begin

text \<open>
  \<^verbatim>\<open>app/execution/operator_order.py\<close>: an order placed by hand, through the same application object
  and the same pipeline as a strategy's. A broker that can report the status of an order offers the
  operation \<open>await_order_status\<close>, which the simulated one does not have: it is an optional argument.
  The texts of the report's fixed notes are constructors or are left to \<open>status_note\<close>.
\<close>

section \<open>Request and report\<close>

record operator_request =
  op_target :: int
  op_order_type :: order_type
  op_limit_price :: "decimal option"
  op_confirm :: "string option"

definition operator_direction :: "operator_request \<Rightarrow> direction" where
  "operator_direction q =
     (if op_target q > 0 then Long else if op_target q < 0 then Short else Flat)"

definition operator_strategy_name :: string where
  "operator_strategy_name = ''operator''"

record operator_plan =
  pl_local_symbol :: string
  pl_con_id :: int
  pl_expiration :: string
  pl_multiplier :: string
  pl_current_position :: int
  pl_target_position :: int
  pl_resulting_order :: "(order_side \<times> int \<times> order_type \<times> decimal option) option"
  pl_app_state :: application_state

record operator_approvals =
  pa_validation :: validation
  pa_risk :: risk_decision
  pa_gate :: gate_decision

datatype status_remark =
    No_Order_Reached_Broker | Undetermined | Broker_Cancelled | Broker_Rejected | Holding | Filled_Note
  | Broker_Reports order_status

record operator_sent =
  se_outcome :: "submission option"
  se_transmitted :: bool
  se_broker_status :: "status_update option"
  se_remark :: status_remark
  se_reconciliation_after :: "reconciliation_result option"
  se_position_after :: "position list"

datatype operator_answer =
    Ans_Refused_Live
  | Ans_Limit_Price_Required
  | Ans_Not_Connected "string option"
  | Ans_No_Contract application_state
  | Ans_Preview operator_plan operator_approvals bool
  | Ans_Confirm_Mismatch operator_plan operator_approvals bool
  | Ans_Sent operator_plan operator_approvals operator_sent

fun answer_result :: "operator_answer \<Rightarrow> string" where
  "answer_result Ans_Refused_Live = ''REFUSED_LIVE_MODE''"
| "answer_result Ans_Limit_Price_Required = ''LIMIT_PRICE_REQUIRED''"
| "answer_result (Ans_Not_Connected e) = ''BROKER_NOT_CONNECTED''"
| "answer_result (Ans_No_Contract st) = ''NO_QUALIFIED_CONTRACT''"
| "answer_result (Ans_Preview p a ok) = ''PREVIEW_ONLY''"
| "answer_result (Ans_Confirm_Mismatch p a ok) = ''CONFIRMATION_MISMATCH''"
| "answer_result (Ans_Sent p a s) = (if se_transmitted s then ''SUBMITTED'' else ''NOT_SUBMITTED'')"

definition status_note :: "status_update option \<Rightarrow> bool \<Rightarrow> status_remark" where
  "status_note status transmitted =
     (if \<not> transmitted then No_Order_Reached_Broker
      else (case status of
              None \<Rightarrow> Undetermined
            | Some u \<Rightarrow>
                if su_status u = St_Cancelled then Broker_Cancelled
                else if su_status u = St_Rejected then Broker_Rejected
                else if su_is_working u then Holding
                else if su_status u = St_Filled then Filled_Note
                else Broker_Reports (su_status u)))"

section \<open>The steps\<close>

type_synonym 'b status_source = "(string \<Rightarrow> ('b, status_update option) action) option"

text \<open>The application the command builds: the admin client, its own run id, no health server.\<close>

definition operator_env :: "('b, 'z) runtime_env \<Rightarrow> ('b, 'z) runtime_env" where
  "operator_env E = E
     \<lparr> en_run_id := ''operator-'' @ ''cor_'' @ en_random_id E 0, en_admin := True,
       en_random_id := (\<lambda>n. en_random_id E (Suc n)) \<rparr>"

definition operator_validator :: "('b, 'z) runtime_env \<Rightarrow> (('b, 'z) app, validator) action" where
  "operator_validator E =
     sbind (sgets ap_strategy) (\<lambda>g.
     sbind (slift (case g of None \<Rightarrow> Inl AttributeError | Some x \<Rightarrow> Inr (sg_name x))) (\<lambda>name.
     sbind (on_store (known_intent_ids 10000)) (\<lambda>ids.
     sreturn (seed_seen ids
       (make_validator (default_futures_symbol (en_config E)) [name, operator_strategy_name]
          default_max_signal_age_seconds)))))"

definition operator_intent ::
  "('b, 'z) runtime_env \<Rightarrow> operator_request \<Rightarrow> qualified_contract \<Rightarrow> (('b, 'z) app, intent) action" where
  "operator_intent E q c =
     sbind (random_id E ''cor_'') (\<lambda>cor.
     sbind (utc_now E) (\<lambda>now.
     sbind (random_id E ''int_'') (\<lambda>new_id.
     slift (make_intent
       \<lparr> in_strategy_name = operator_strategy_name, in_symbol = qc_symbol c,
         in_direction = operator_direction q, requested_position = op_target q, in_created_at = now,
         intent_id = new_id, in_correlation_id = Some cor, confidence = None,
         in_contract_key = Some (qualified_key c) \<rparr> (Aware now)))))"

definition operator_plan_of ::
  "operator_request \<Rightarrow> qualified_contract \<Rightarrow> int \<Rightarrow> order_side \<Rightarrow> int \<Rightarrow> application_state \<Rightarrow> operator_plan" where
  "operator_plan_of q c current side quantity st =
     \<lparr> pl_local_symbol = qc_local_symbol c, pl_con_id = con_id c, pl_expiration = expiration c,
       pl_multiplier = qc_multiplier c, pl_current_position = current,
       pl_target_position = op_target q,
       pl_resulting_order =
         (if quantity = 0 then None else Some (side, quantity, op_order_type q, op_limit_price q)),
       pl_app_state = st \<rparr>"

text \<open>Both approvers, asked but not acted on.\<close>

definition ask_approvers ::
  "('b, 'z) runtime_env \<Rightarrow> validator \<Rightarrow> intent \<Rightarrow> qualified_contract \<Rightarrow> order_side \<Rightarrow> int
     \<Rightarrow> (('b, 'z) app, operator_approvals) action" where
  "ask_approvers E preview i c side quantity =
     sbind (utc_now E) (\<lambda>now.
     sbind (build_risk_context E i c side quantity) (\<lambda>rx.
     sbind (slift (risk_evaluate (en_config E) rx)) (\<lambda>rd.
     sbind (build_gate_context E (rd_approved rd)) (\<lambda>gx.
     sreturn \<lparr> pa_validation = fst (validate_intent now i preview), pa_risk = rd,
               pa_gate = gate_evaluate (en_config E) gx \<rparr>))))"

definition would_be_allowed :: "operator_approvals \<Rightarrow> bool" where
  "would_be_allowed a =
     (va_accepted (pa_validation a) \<and> rd_approved (pa_risk a) \<and> gd_allowed (pa_gate a))"

text \<open>The status a broker reports is written over the row of the order it names.\<close>

definition persist_status ::
  "('b, 'z) runtime_env \<Rightarrow> string \<Rightarrow> status_update \<Rightarrow> (('b, 'z) app, unit) action" where
  "persist_status E broker_id u =
     sbind (on_store (order_by_broker_id broker_id)) (\<lambda>stored.
     case stored of
       None \<Rightarrow> sreturn ()
     | Some o' \<Rightarrow>
         sbind (utc_now E) (\<lambda>now.
         on_store (order_update (o'
           \<lparr> o_status := su_status u, filled_quantity := su_filled_quantity u,
             average_fill_price := su_average_fill_price u, o_updated_at := now \<rparr>))))"

definition await_broker_status ::
  "('b, 'z) runtime_env \<Rightarrow> 'b status_source \<Rightarrow> submission \<Rightarrow> (('b, 'z) app, status_update option) action" where
  "await_broker_status E source sub =
     (case (Option.bind (sb_order sub) broker_order_id, source) of
        (Some broker_id, Some ask) \<Rightarrow>
          sbind (on_broker (ask broker_id)) (\<lambda>status.
          case status of
            None \<Rightarrow> sreturn None
          | Some u \<Rightarrow> sbind (persist_status E broker_id u) (\<lambda>_. sreturn (Some u)))
      | _ \<Rightarrow> sreturn None)"

definition reconcile_after_fill ::
  "('b, 'z) runtime_env \<Rightarrow> status_update option \<Rightarrow> (('b, 'z) app, reconciliation_result option) action" where
  "reconcile_after_fill E status =
     (if (case status of None \<Rightarrow> False | Some u \<Rightarrow> 0 < su_filled_quantity u) then
        sbind (run_reconcile E) (\<lambda>_. sbind (sgets ap_reconciliation) (\<lambda>rr. sreturn (Some rr)))
      else sreturn None)"

definition after_submission ::
  "('b, 'z) runtime_env \<Rightarrow> 'b status_source \<Rightarrow> submission option \<Rightarrow> (('b, 'z) app, operator_sent) action" where
  "after_submission E source outcome =
     (let transmitted = (case outcome of None \<Rightarrow> False | Some sub \<Rightarrow> sb_transmitted sub) in
      sbind (case outcome of
               Some sub \<Rightarrow> if transmitted then await_broker_status E source sub else sreturn None
             | None \<Rightarrow> sreturn None) (\<lambda>status.
      sbind (reconcile_after_fill E status) (\<lambda>reconciled.
      sbind (sgets ap_book) (\<lambda>b.
      sreturn \<lparr> se_outcome = outcome, se_transmitted = transmitted, se_broker_status = status,
                se_remark = status_note status transmitted, se_reconciliation_after = reconciled,
                se_position_after = book_all b \<rparr>))))"

definition confirm_and_send ::
  "('b, 'z) runtime_env \<Rightarrow> 'b status_source \<Rightarrow> operator_request \<Rightarrow> qualified_contract \<Rightarrow> operator_plan
     \<Rightarrow> operator_approvals \<Rightarrow> intent \<Rightarrow> (('b, 'z) app, operator_answer) action" where
  "confirm_and_send E source q c plan approvals i =
     (if op_confirm q \<noteq> Some (qc_local_symbol c) then
        sreturn ((if op_confirm q = None then Ans_Preview else Ans_Confirm_Mismatch)
                   plan approvals (would_be_allowed approvals))
      else
        sbind (handle_intent E (op_order_type q) (op_limit_price q) i) (\<lambda>outcome.
        sbind (after_submission E source outcome) (\<lambda>sent.
        sreturn (Ans_Sent plan approvals sent))))"

text \<open>With a contract: the quotes, the two validators, the intent, the plan, the approvers.\<close>

definition prepare_order ::
  "('b, 'z) runtime_env \<Rightarrow> 'b status_source \<Rightarrow> operator_request \<Rightarrow> qualified_contract
     \<Rightarrow> (('b, 'z) app, operator_answer) action" where
  "prepare_order E source q c =
     sbind (poll_quotes E) (\<lambda>_.
     sbind (operator_validator E) (\<lambda>v.
     sbind (smodify (\<lambda>s. s \<lparr> ap_validator := Some v \<rparr>)) (\<lambda>_.
     sbind (operator_validator E) (\<lambda>preview.
     sbind (operator_intent E q c) (\<lambda>i.
     sbind (sgets (\<lambda>s. book_quantity (ap_book s) (con_id c))) (\<lambda>current.
     sbind (sgets ap_state) (\<lambda>st.
     (case delta_to_side_and_quantity current (op_target q) of
        (side, quantity) \<Rightarrow>
          sbind (ask_approvers E preview i c side quantity) (\<lambda>approvals.
          confirm_and_send E source q c (operator_plan_of q c current side quantity st) approvals i)))))))))"

definition operator_run ::
  "('b, 'z) runtime_env \<Rightarrow> 'b status_source \<Rightarrow> operator_request \<Rightarrow> (('b, 'z) app, operator_answer) action" where
  "operator_run E source q =
     sbind (connect_with_backoff E) (\<lambda>connected.
     if \<not> connected then sbind (sgets ap_last_error) (\<lambda>e. sreturn (Ans_Not_Connected e))
     else
       sbind (after_connect E) (\<lambda>_.
       sbind (sgets ap_contract) (\<lambda>contract.
       case contract of
         None \<Rightarrow> sbind (sgets ap_state) (\<lambda>st. sreturn (Ans_No_Contract st))
       | Some c \<Rightarrow> prepare_order E source q c)))"

definition operator_session ::
  "('b, 'z) runtime_env \<Rightarrow> 'b status_source \<Rightarrow> operator_request \<Rightarrow> (('b, 'z) app, operator_answer) action" where
  "operator_session E source q =
     sbind (startup E) (\<lambda>_. sfinally (operator_run E source q) (shutdown E))"

text \<open>The command over a database. The second component is the application it built, if it did.\<close>

definition place_operator_order ::
  "('b, 'z) runtime_env \<Rightarrow> 'b status_source \<Rightarrow> operator_request \<Rightarrow> db
     \<Rightarrow> operator_answer result \<times> ('b, 'z) app option" where
  "place_operator_order E source q d =
     (if cfg_trading_mode (en_config E) = Mode_Live then (Inr Ans_Refused_Live, None)
      else if op_order_type q = Limit \<and> op_limit_price q = None then (Inr Ans_Limit_Price_Required, None)
      else (case operator_session (operator_env E) source q (make_app d) of (r, s) \<Rightarrow> (r, Some s)))"

end
