(* ===== verification/OperatorFacts.thy ===== *)
theory OperatorFacts
  imports OperatorOrder
begin

text \<open>
  What an operator order can do: nothing without the token a preview prints, and with it only what
  an intent of a strategy can do. The locale \<open>order_observer\<close> is what the command relies on of a
  broker: its reading operations send no order.
\<close>

section \<open>The rows and the broker behind an application\<close>

definition row_trail :: "db \<Rightarrow> order list \<times> signal_record list" where
  "row_trail d = (t_orders d, t_signals d)"

text \<open>An observation of the broker, for a session whose quotes nobody listens to.\<close>

definition quiet_broker :: "('b \<Rightarrow> 'v) \<Rightarrow> 'b market_data \<times> 'b \<Rightarrow> 'v option" where
  "quiet_broker g = (\<lambda>(m, b). if md_listeners m = [] then Some (g b) else None)"

definition session_trail :: "('b \<Rightarrow> 'v) \<Rightarrow> 'b session option \<Rightarrow> 'v option option" where
  "session_trail g x =
     (case x of None \<Rightarrow> None | Some ss \<Rightarrow> Some (quiet_broker g (ss_market ss, ss_broker ss)))"

definition order_trail :: "('b \<Rightarrow> 'v) \<Rightarrow> ('b, 'z) app \<Rightarrow> _" where
  "order_trail g s = (row_trail (ap_db s), session_trail g (ap_session s))"

lemma observes_rows [simp]: "observes row_trail"
  by (simp add: observes_def row_trail_def)

lemma trail_update [simp]:
  "order_trail g (s \<lparr> ap_state := st \<rparr>) = order_trail g s" "order_trail g (s \<lparr> ap_stop := b \<rparr>) = order_trail g s"
  "order_trail g (s \<lparr> ap_shutting_down := b \<rparr>) = order_trail g s"
  "order_trail g (s \<lparr> ap_strategy := z \<rparr>) = order_trail g s"
  "order_trail g (s \<lparr> ap_validator := v \<rparr>) = order_trail g s" "order_trail g (s \<lparr> ap_book := k \<rparr>) = order_trail g s"
  "order_trail g (s \<lparr> ap_reconciliation := rr \<rparr>) = order_trail g s" "order_trail g (s \<lparr> ap_account := a \<rparr>) = order_trail g s"
  "order_trail g (s \<lparr> ap_contract := c \<rparr>) = order_trail g s" "order_trail g (s \<lparr> ap_connect_attempt := n \<rparr>) = order_trail g s"
  "order_trail g (s \<lparr> ap_last_error := e \<rparr>) = order_trail g s" "order_trail g (s \<lparr> ap_health_running := b \<rparr>) = order_trail g s"
  "order_trail g (s \<lparr> ap_connect_attempt := n, ap_last_error := e \<rparr>) = order_trail g s"
  "order_trail g (s \<lparr> ap_contract := c, ap_last_error := e \<rparr>) = order_trail g s"
  "order_trail g (s \<lparr> ap_reads := m \<rparr>) = order_trail g s"
  by (simp_all add: order_trail_def)

lemma trail_clock: "keeps (order_trail g) (utc_now E)" "keeps (order_trail g) (random_id E p)"
  by (simp_all add: keeps_def utc_now_def random_id_def order_trail_def)

lemma trail_store: "keeps row_trail m \<Longrightarrow> keeps (order_trail g) (on_store m)"
  by (auto simp: keeps_def on_store_def order_trail_def split: prod.splits)

lemma trail_book: "keeps (order_trail g) (on_book m)"
  by (rule keeps_on_book) simp

lemma trail_on_market:
  assumes "keeps (quiet_broker g) m"
  shows "keeps (order_trail g) (on_market m)"
  using assms
  by (auto simp: keeps_def on_market_def on_session_def order_trail_def session_trail_def
      split: prod.splits option.splits)

lemma trail_on_cache:
  assumes "keeps (\<lambda>x. g (fst x)) m"
  shows "keeps (order_trail g) (on_cache m)"
proof -
  have "g b' = g b" if "m (b, c) = (r, (b', c'))" for b c r b' c'
    using keepsD [OF assms that] by simp
  then show ?thesis
    by (auto simp: keeps_def on_cache_def on_session_def order_trail_def session_trail_def quiet_broker_def
        split: prod.splits option.splits)
qed

lemma trail_broker: "keeps g m \<Longrightarrow> keeps (order_trail g) (on_broker m)"
  by (auto simp: keeps_def on_broker_def on_session_def order_trail_def session_trail_def quiet_broker_def
      split: prod.splits option.splits)

lemma rows_written:
  "keeps row_trail (set_state k v)" "keeps row_trail (record_bot_event e)" "keeps row_trail (record_broker_event e)"
  "keeps row_trail (contract_upsert n c)" "keeps row_trail db_connect" "keeps row_trail migrate"
  unfolding set_state_def record_bot_event_def record_broker_event_def contract_upsert_def Let_def
  by (rule keeps_statement keeps_connect keeps_migrate; simp add: row_trail_def observes_def)+

lemma rows_fill: "keeps row_trail (fill_record f)"
  unfolding fill_record_def by (auto intro!: keeps_sbind keeps_statement keeps_query simp: row_trail_def)

lemma rows_positions: "keeps row_trail (positions_replace_all ps)"
proof -
  have inserts: "keeps row_trail (position_insert_all ps)"
    by (induction ps) (auto intro!: keeps_sbind keeps_statement simp: position_insert_def, simp_all add: row_trail_def)
  have "keeps row_trail (sbind (statement (\<lambda>s. (Inr (), s \<lparr> t_positions := [] \<rparr>))) (\<lambda>_. position_insert_all ps))"
    by (intro keeps_sbind keeps_statement inserts) (simp_all add: row_trail_def observes_def)
  then show ?thesis
    by (auto simp: keeps_def positions_replace_all_def transaction_def row_trail_def split: prod.splits sum.splits)
qed

lemma rows_kill_switch: "keeps row_trail (ks_engaged b (Some get_state))"
proof -
  have "keeps row_trail (get_state k)" for k by (rule keeps_reads(13)) simp
  then show ?thesis
    unfolding keeps_def ks_engaged_def ks_latched_def sbind_def by (auto split: prod.splits sum.splits if_splits)
qed

lemma rows_read: "keeps row_trail (performance_get d)" "keeps row_trail open_order_count"
  "keeps row_trail (orders_last_hour now)" "keeps row_trail open_order_tuples"
  "keeps row_trail (known_intent_ids n)" "keeps row_trail positions_all" "keeps row_trail (order_by_broker_id b)"
  unfolding open_order_count_def orders_last_hour_def
  by (intro keeps_reads keeps_sbind keeps_pure observes_rows)+

lemma trail_events: "keeps (order_trail g) (record_event E e l)" "keeps (order_trail g) (record_broker E e)"
  unfolding record_event_def record_broker_def
  by (intro keeps_ssuppress keeps_sbind trail_clock trail_store rows_written)+

lemma trail_kill_switch: "keeps (order_trail g) (kill_switch_engaged E)"
  unfolding kill_switch_engaged_def by (rule trail_store [OF rows_kill_switch])

lemma trail_stored_state: "keeps (order_trail g) (ssuppress (on_store (set_state k v)))"
  by (intro keeps_ssuppress trail_store rows_written)

lemma trail_set_state: "keeps (order_trail (g :: 'b \<Rightarrow> 'v)) (app_set_state st :: (('b, 'z) app, unit) action)"
proof (rule keepsI)
  fix s t :: "('b, 'z) app" and r assume run: "app_set_state st s = (r, t)"
  show "order_trail g t = order_trail g s"
  proof (cases "st = ap_state s")
    case True
    with run show ?thesis by (simp add: app_set_state_def)
  next
    case False
    with run have "ssuppress (on_store (set_state ''last_application_state'' (application_state_value st)))
        (s \<lparr> ap_state := st \<rparr>) = (r, t)" by (simp add: app_set_state_def)
    from keepsD [OF trail_stored_state this] show ?thesis by simp
  qed
qed

lemmas trail_intros = keeps_sbind keeps_smodify keeps_ssuppress trail_clock trail_store trail_book trail_events
  trail_kill_switch trail_set_state rows_written rows_fill rows_positions rows_read

lemma trail_ready_state: "keeps (order_trail g) (compute_ready_state E)"
  unfolding compute_ready_state_def keeps_def
  using keepsD [OF trail_kill_switch] by (auto simp: sbind_def split: if_splits prod.splits sum.splits)

lemma trail_contexts:
  "keeps (order_trail g) (build_risk_context E i c side n)" "keeps (order_trail g) (build_gate_context E b)"
  unfolding build_risk_context_def build_gate_context_def by (intro trail_intros keeps_pure)+

lemma trail_ingest: "keeps (order_trail g) (ingest_fills E fs)"
  by (induction fs) (auto intro!: trail_intros)

lemma trail_settle: "keeps (order_trail g) before \<Longrightarrow> keeps (order_trail g) (Runtime.settle E before)"
  unfolding Runtime.settle_def by (auto intro!: trail_intros trail_ready_state)

section \<open>Reading the broker sends nothing\<close>

locale order_observer =
  fixes B :: "'b broker" and source :: "'b status_source" and g :: "'b \<Rightarrow> 'v"
  assumes reading: "keeps g (br_connect B now)" "keeps g (br_disconnect B)" "keeps g (br_account_summary B now)"
      "keeps g (br_positions B)" "keeps g (br_open_orders B)" "keeps g (br_fills B now)"
      "keeps g (br_qualify B now spec)" "keeps g (br_market_data B now c)"
    and asking: "source = Some ask \<Longrightarrow> keeps g (ask n)"
begin

lemma trail_poll: "keeps (quiet_broker g) (poll B now c)"
proof -
  have ticked: "keeps (quiet_broker g) (record_tick c t)" for t
  proof (rule keepsI)
    fix x y :: "'b market_data \<times> 'b" and r assume run: "record_tick c t x = (r, y)"
    obtain m b where x: "x = (m, b)" by (metis surj_pair)
    from run show "quiet_broker g y = quiet_broker g x"
      unfolding x
      by (cases "has_prices (quote_of c t)" rule: sum.exhaust)
        (auto simp: record_tick_def quiet_broker_def Let_def split: sum.splits prod.splits bool.splits)
  qed
  show ?thesis
  proof (rule keepsI)
    fix x y :: "'b market_data \<times> 'b" and r assume run: "poll B now c x = (r, y)"
    obtain m b where x: "x = (m, b)" by (metis surj_pair)
    obtain v b1 where tick: "br_market_data B now c b = (v, b1)" by (metis surj_pair)
    have "g b1 = g b" by (rule keepsD [OF reading(8) tick])
    with run tick keepsD [OF ticked] show "quiet_broker g y = quiet_broker g x"
      unfolding x by (cases v) (auto simp: poll_def quiet_broker_def split: if_splits)
  qed
qed

lemma trail_poll_all: "keeps (quiet_broker g) (poll_all B clock)"
proof -
  have "keeps (quiet_broker g) (poll_each B clock n cs)" for n cs
    by (induction cs arbitrary: n) (auto intro!: keeps_sbind trail_poll)
  then show ?thesis by (auto simp: keeps_def poll_all_def split: prod.splits)
qed

lemma trail_subscribe: "keeps (quiet_broker g) (subscribe B now c)"
proof -
  have polled: "keeps (quiet_broker g) (sbind (poll B now c) (\<lambda>_. sreturn ()))"
    by (intro keeps_sbind trail_poll keeps_pure)
  show ?thesis
    using keepsD [OF polled]
    by (auto simp: keeps_def subscribe_def split: if_splits) (auto simp: quiet_broker_def)
qed

end

section \<open>The application over such a broker\<close>

context order_observer
begin

lemma trail_resolve:
  assumes "en_broker E = B"
  shows "keeps (order_trail g) (resolve_contract E)"
proof -
  have "keeps (\<lambda>x. g (fst x)) (resolve (br_qualify B now) symbol month)" for now symbol month
    using reading(7) [of now] unfolding keeps_def resolve_def
    by (fastforce split: sum.splits option.splits prod.splits)
  note looked = trail_on_cache [OF this]
  have select: "keeps (order_trail g) (select_contract E c)" for c
    unfolding select_contract_def assms by (intro trail_intros trail_on_market trail_subscribe) simp
  have "keeps (order_trail g) (resolve_at E now)" for now
  proof (rule keepsI)
    fix s r t assume run: "resolve_at E now s = (r, t)"
    let ?m = "resolve (br_qualify B now) (default_futures_symbol (en_config E)) (default_contract_month (en_config E))"
    obtain x s1 where res: "on_cache ?m s = (x, s1)" by (metis surj_pair)
    from keepsD [OF looked res] run res show "order_trail g t = order_trail g s"
      by (auto simp: resolve_at_def assms split: sum.splits if_splits
          dest!: keepsD [OF select] keepsD [OF trail_events(1) [of g]])
  qed
  then show ?thesis unfolding resolve_contract_def by (auto intro!: trail_intros)
qed

lemma trail_reconcile:
  assumes "en_broker E = B"
  shows "keeps (order_trail g) (run_reconcile E)"
proof -
  have account: "keeps (order_trail g) (read_account E)"
  proof -
    note asked = trail_broker [OF reading(3)]
    have "keeps (order_trail g) (\<lambda>s. case on_broker (br_account_summary B now) s of
          (Inr a, s') \<Rightarrow> (Inr True, s' \<lparr> ap_account := Some a \<rparr>)
        | (Inl e, s') \<Rightarrow> if is_broker_error e then (Inr False, s' \<lparr> ap_account := None \<rparr>) else (Inl e, s'))" for now
      using keepsD [OF asked] by (intro keepsI) (auto split: prod.splits sum.splits if_splits)
    then show ?thesis unfolding read_account_def assms by (intro trail_intros)
  qed
  have read: "keeps (order_trail g) (read_broker E)"
    unfolding read_broker_def assms by (intro trail_intros trail_broker reading keeps_pure)
  have adopt: "keeps (order_trail g) (adopt_reconciliation E rr)" for rr
    unfolding adopt_reconciliation_def by (auto intro!: trail_intros)
  have compare: "keeps (order_trail g) (compare_with_broker E b ps os fs)" for b ps os fs
    unfolding compare_with_broker_def by (intro trail_intros trail_ingest adopt keeps_pure)
  have "keeps (order_trail g) (read_and_compare E b)" for b
  proof (rule keepsI)
    fix s r t assume run: "read_and_compare E b s = (r, t)"
    obtain x s1 where rd: "read_broker E s = (x, s1)" by (metis surj_pair)
    from keepsD [OF read rd] run rd show "order_trail g t = order_trail g s"
      by (auto simp: read_and_compare_def split: sum.splits if_splits prod.splits
          dest!: keepsD [OF trail_events(1) [of g]] keepsD [OF compare])
  qed
  with account show ?thesis unfolding run_reconcile_def by (intro trail_intros)
qed

lemma trail_connect:
  assumes "en_broker E = B"
  shows "keeps (order_trail g) (connect_with_backoff E)"
proof -
  have ends: "keeps (order_trail g) (connection_refused E e)" "keeps (order_trail g) (connection_failed E n e)"
    "keeps (order_trail g) (connection_made E)" for n e
    unfolding connection_refused_def connection_failed_def connection_made_def request_stop_def
    by (auto intro!: trail_intros)
  have "keeps (order_trail g) (try_connect E n now)" for n now
  proof (rule keepsI)
    fix s r t assume run: "try_connect E n now s = (r, t)"
    obtain x s1 where conn: "on_broker (br_connect B now) s = (x, s1)" by (metis surj_pair)
    from keepsD [OF trail_broker [OF reading(1)] conn] run conn show "order_trail g t = order_trail g s"
      by (auto simp: try_connect_def assms split: sum.splits if_splits dest!: keepsD [OF ends(1)]
          keepsD [OF ends(2)] keepsD [OF ends(3)])
  qed
  then show ?thesis unfolding connect_with_backoff_def by (auto intro!: trail_intros)
qed

lemma trail_after_connect: "en_broker E = B \<Longrightarrow> keeps (order_trail g) (after_connect E)"
  unfolding after_connect_def by (intro trail_intros trail_settle trail_resolve trail_reconcile)

lemma trail_poll_quotes:
  assumes "en_broker E = B"
  shows "keeps (order_trail g) (poll_quotes E)"
proof (rule keepsI)
  fix s r t assume run: "poll_quotes E s = (r, t)"
  have body: "keeps (order_trail g) (sbind (on_market (poll_all B clock)) (\<lambda>qs.
     sbind (smodify (\<lambda>t. t \<lparr> ap_reads := n \<rparr>)) (\<lambda>_. sreturn qs)))" for clock n
    by (intro trail_intros trail_on_market trail_poll_all keeps_pure) simp
  from run show "order_trail g t = order_trail g s"
    unfolding poll_quotes_def assms by (rule keepsD [OF body])
qed

lemma trail_shutdown:
  assumes "en_broker E = B"
  shows "keeps (order_trail g) (shutdown E)"
proof -
  have close: "order_trail g (s \<lparr> ap_db := db_close (ap_db s) \<rparr>) = order_trail g s" for s :: "('b, 'z) app"
    by (simp add: order_trail_def row_trail_def db_close_def)
  have saved: "keeps (order_trail g) (sbind (sgets ap_state) (\<lambda>st.
      sbind (on_store (set_state k (application_state_value st))) (\<lambda>_.
      sbind (utc_now E) (\<lambda>now. on_store (set_state k' (en_iso E now))))))" for k k'
    by (intro trail_intros keeps_pure)
  have left: "keeps (order_trail g) (if x then sreturn () else ssuppress (on_broker (br_disconnect B)))" for x
    by (auto intro!: keeps_ssuppress trail_broker reading)
  have body: "keeps (order_trail g) (sbind (smodify (\<lambda>s. s \<lparr> ap_shutting_down := True \<rparr>)) (\<lambda>_.
          sbind (record_event E ''app.shutdown'' ''INFO'') (\<lambda>_.
          sbind (ssuppress (sbind (sgets ap_state) (\<lambda>st.
                   sbind (on_store (set_state ''last_application_state'' (application_state_value st))) (\<lambda>_.
                   sbind (utc_now E) (\<lambda>now. on_store (set_state ''last_shutdown_at'' (en_iso E now))))))) (\<lambda>_.
          sbind (smodify (\<lambda>s. s \<lparr> ap_health_running := (ap_health_running s \<and> en_admin E) \<rparr>)) (\<lambda>_.
          sbind (sgets ap_session) (\<lambda>ss.
          sbind (if ss = None then sreturn () else ssuppress (on_broker (br_disconnect B))) (\<lambda>_.
          smodify (\<lambda>s. s \<lparr> ap_db := db_close (ap_db s) \<rparr>))))))))"
    by (intro keeps_sbind keeps_smodify keeps_ssuppress saved left trail_events keeps_pure close) simp_all
  show ?thesis
    unfolding shutdown_def assms using keepsD [OF body] by (intro keepsI) (auto split: if_splits)
qed

end

section \<open>Up to the confirmation\<close>

lemma trail_asking:
  "keeps (order_trail g) (operator_validator E)" "keeps (order_trail g) (operator_intent E q c)"
  "keeps (order_trail g) (ask_approvers E v i c side n)"
  unfolding operator_validator_def operator_intent_def ask_approvers_def
  by (intro trail_intros trail_contexts keeps_pure)+

lemma contract_asking:
  "keeps ap_contract (operator_validator E)" "keeps ap_contract (operator_intent E q c)"
  "keeps ap_contract (ask_approvers E v i c side n)" "keeps ap_contract (poll_quotes E)"
  unfolding operator_validator_def operator_intent_def ask_approvers_def
  by (intro frame_intros keeps_contexts keeps_poll_quotes keeps_pure ignores_fields)+

lemma operator_intent_target:
  assumes "operator_intent E q c s = (Inr i, t)"
  shows "requested_position i = op_target q" and "in_strategy_name i = operator_strategy_name"
  using assms by (auto simp: operator_intent_def make_intent_Inr elim!: sbind_InrE)

text \<open>
  What an action of the command may do from \<open>s\<close>: leave the rows and the broker alone, or hand an
  intent for the requested target to the pipeline, the token being that of the contract selected.
\<close>

definition operator_effect ::
  "('b \<Rightarrow> 'v) \<Rightarrow> ('b, 'z) runtime_env \<Rightarrow> operator_request \<Rightarrow> ('b, 'z) app \<Rightarrow> ('b, 'z) app \<Rightarrow> bool" where
  "operator_effect g E q s t =
     (order_trail g t = order_trail g s \<or>
      (\<exists>c i s1 x s2. op_confirm q = Some (qc_local_symbol c) \<and> order_trail g s1 = order_trail g s
         \<and> ap_contract s1 = Some c \<and> requested_position i = op_target q
         \<and> in_strategy_name i = operator_strategy_name
         \<and> handle_intent E (op_order_type q) (op_limit_price q) i s1 = (x, s2)
         \<and> session_trail g (ap_session t) = session_trail g (ap_session s2)))"

definition sends_for ::
  "('b \<Rightarrow> 'v) \<Rightarrow> ('b, 'z) runtime_env \<Rightarrow> operator_request \<Rightarrow> qualified_contract \<Rightarrow> (('b, 'z) app, 'a) action \<Rightarrow> bool" where
  "sends_for g E q c m = (\<forall>s r t. m s = (r, t) \<longrightarrow> ap_contract s = Some c \<longrightarrow> operator_effect g E q s t)"

lemma effect_trail: "order_trail g s' = order_trail g s \<Longrightarrow> operator_effect g E q s' t = operator_effect g E q s t"
  by (simp add: operator_effect_def)

lemma sends_keeps: "keeps (order_trail g) m \<Longrightarrow> sends_for g E q c m"
  by (auto simp: sends_for_def operator_effect_def keeps_def)

lemma sends_bind:
  assumes "keeps (order_trail g) m" and "keeps ap_contract m"
    and "\<And>x s u. m s = (Inr x, u) \<Longrightarrow> sends_for g E q c (f x)"
  shows "sends_for g E q c (sbind m f)"
  unfolding sends_for_def
proof (intro allI impI)
  fix s r t assume run: "sbind m f s = (r, t)" and c: "ap_contract s = Some c"
  obtain x u where m: "m s = (x, u)" by (metis surj_pair)
  note same = keepsD [OF assms(1) m] keepsD [OF assms(2) m]
  show "operator_effect g E q s t"
  proof (cases x)
    case (Inl e)
    with run m same show ?thesis by (simp add: operator_effect_def)
  next
    case (Inr y)
    have "sends_for g E q c (f y)" using m unfolding Inr by (rule assms(3))
    moreover have "f y u = (r, t)" using run m Inr by simp
    ultimately have "operator_effect g E q u t" using same(2) c by (simp add: sends_for_def)
    then show ?thesis by (simp only: effect_trail [OF same(1)])
  qed
qed

text \<open>The broker alone, for what follows a submission: the status may be written over a row.\<close>

definition broker_trail :: "('b \<Rightarrow> 'v) \<Rightarrow> ('b, 'z) app \<Rightarrow> 'v option option" where
  "broker_trail g s = session_trail g (ap_session s)"

lemma broker_trail_reads: "keeps (order_trail g) m \<Longrightarrow> keeps (broker_trail g) m"
  by (auto simp: keeps_def order_trail_def broker_trail_def)

lemma broker_trail_store: "keeps (broker_trail g) (on_store m)"
  by (auto simp: keeps_def on_store_def broker_trail_def split: prod.splits)

lemma broker_trail_persist: "keeps (broker_trail g) (persist_status E n u)"
  unfolding persist_status_def
  by (auto intro!: keeps_sbind broker_trail_store split: option.splits) (auto intro!: broker_trail_reads trail_clock)

context order_observer
begin

lemma broker_trail_after_submission:
  assumes "en_broker E = B"
  shows "keeps (broker_trail g) (after_submission E source outcome)"
proof -
  have asked: "keeps (broker_trail g) (on_broker (ask n))" if "source = Some ask" for ask n
    by (rule broker_trail_reads [OF trail_broker [OF asking [OF that]]])
  have "keeps (broker_trail g) (await_broker_status E source sub)" for sub
    unfolding await_broker_status_def
    by (auto intro!: keeps_sbind asked broker_trail_persist split: option.splits)
  moreover have "keeps (broker_trail g) (reconcile_after_fill E status)" for status
    unfolding reconcile_after_fill_def
    by (auto intro!: keeps_sbind broker_trail_reads [OF trail_reconcile [OF assms]])
  ultimately show ?thesis
    unfolding after_submission_def Let_def by (auto intro!: keeps_sbind split: option.splits)
qed

lemma sends_confirmed:
  assumes "en_broker E = B" and "requested_position i = op_target q" "in_strategy_name i = operator_strategy_name"
  shows "sends_for g E q c (confirm_and_send E source q c plan approvals i)"
  unfolding sends_for_def
proof (intro allI impI)
  fix s r t
  assume run: "confirm_and_send E source q c plan approvals i s = (r, t)" and c: "ap_contract s = Some c"
  show "operator_effect g E q s t"
  proof (cases "op_confirm q = Some (qc_local_symbol c)")
    case False
    with run show ?thesis by (simp add: confirm_and_send_def operator_effect_def)
  next
    case True
    obtain x s2 where sent: "handle_intent E (op_order_type q) (op_limit_price q) i s = (x, s2)" by (metis surj_pair)
    have rest: "keeps (broker_trail g) (sbind (after_submission E source outcome) (\<lambda>sent.
        sreturn (Ans_Sent plan approvals sent)))" for outcome
      by (intro keeps_sbind broker_trail_after_submission assms keeps_pure)
    have "broker_trail g t = broker_trail g s2"
      using run sent True keepsD [OF rest] by (cases x) (auto simp: confirm_and_send_def)
    with True c sent assms(2,3) show ?thesis unfolding operator_effect_def broker_trail_def by blast
  qed
qed

lemma sends_prepared:
  assumes "en_broker E = B"
  shows "sends_for g E q c (prepare_order E source q c)"
  unfolding prepare_order_def
  by (intro sends_bind trail_asking contract_asking trail_poll_quotes assms keeps_smodify keeps_pure)
    (auto intro!: sends_bind sends_confirmed trail_asking contract_asking assms keeps_smodify keeps_pure
      dest: operator_intent_target split: prod.splits)

end

section \<open>The command as a whole\<close>

text \<open>The pipeline does not touch the quotes.\<close>

definition markets :: "('b, 'z) app \<Rightarrow> 'b market_data option" where
  "markets s = map_option ss_market (ap_session s)"

lemma markets_io: "ignores_io markets"
  by (simp add: ignores_io_def markets_def)

lemma markets_trade: "keeps markets (trade_towards E ty price i c)"
proof -
  have "keeps markets (on_orders m)" for m :: "(db \<times> 'x, 'y) action"
    by (auto simp: keeps_def on_orders_def markets_def split: option.splits prod.splits)
  then have "keeps markets (submit_order E i c rx gx ty price)" for rx gx
    unfolding submit_order_def by (auto intro!: keeps_sbind markets_io)
  then show ?thesis
    unfolding trade_towards_def by (auto intro!: keeps_sbind keeps_contexts markets_io split: prod.splits)
qed

lemma markets_intent: "keeps markets (handle_intent E ty price i)"
proof (rule keepsI)
  fix s r t assume run: "handle_intent E ty price i s = (r, t)"
  have body: "keeps markets (sbind (correlation_of E i) (\<lambda>cor.
          sbind (utc_now E) (\<lambda>now.
          (let (result, v') = validate_intent now i v in
           sbind (smodify (\<lambda>s. s \<lparr> ap_validator := Some v' \<rparr>)) (\<lambda>_.
           sbind (on_store (signal_record_op (signal_row_of E i cor result))) (\<lambda>_.
           if \<not> va_accepted result then sreturn None
           else sbind (sgets ap_contract) (\<lambda>contract.
             case contract of None \<Rightarrow> sreturn None | Some c \<Rightarrow> trade_towards E ty price i c)))))))" for v
    by (auto intro!: frame_intros keeps_correlation markets_trade markets_io split: prod.splits option.splits)
      (simp_all add: markets_def)
  show "markets t = markets s"
  proof (cases "ap_validator s = None \<or> ap_session s = None")
    case True
    with run show ?thesis by (auto simp: handle_intent_def split: option.splits)
  next
    case False
    then obtain v ss where "ap_validator s = Some v" "ap_session s = Some ss" by auto
    with run show ?thesis unfolding handle_intent_def
      by (intro keepsD [OF body [of v]]) (simp only: option.case prod.case)
  qed
qed

lemma session_trail_moved:
  assumes "handle_intent E ty price i s = (r, t)"
    and "session_trail g (ap_session t) \<noteq> session_trail g (ap_session s)"
  shows "broker_of t \<noteq> broker_of s"
  using assms(2) keepsD [OF markets_intent assms(1)]
  by (auto simp: session_trail_def quiet_broker_def broker_of_def markets_def split: option.splits if_splits)

context order_observer
begin

lemma run_effect:
  assumes broker: "en_broker E = B" and run: "operator_run E source q s = (r, t)"
  shows "operator_effect g E q s t"
proof -
  obtain x s1 where conn: "connect_with_backoff E s = (x, s1)" by (metis surj_pair)
  have 1: "order_trail g s1 = order_trail g s" by (rule keepsD [OF trail_connect [OF broker] conn])
  show ?thesis
  proof (cases "x = Inr True")
    case False
    with run conn 1 show ?thesis by (cases x) (auto simp: operator_run_def operator_effect_def)
  next
    case True
    obtain y s2 where after: "after_connect E s1 = (y, s2)" by (metis surj_pair)
    have 2: "order_trail g s2 = order_trail g s"
      using keepsD [OF trail_after_connect [OF broker] after] 1 by simp
    show ?thesis
    proof (cases "(\<exists>e. y = Inl e) \<or> ap_contract s2 = None")
      case True
      with run conn \<open>x = Inr True\<close> after 2 show ?thesis
        by (cases y) (auto simp: operator_run_def operator_effect_def)
    next
      case False
      then obtain c u where c: "ap_contract s2 = Some c" and y: "y = Inr u" by (cases y) auto
      with run conn \<open>x = Inr True\<close> after have "prepare_order E source q c s2 = (r, t)"
        by (simp add: operator_run_def)
      with sends_prepared [OF broker] c have "operator_effect g E q s2 t" by (simp add: sends_for_def)
      then show ?thesis by (simp only: effect_trail [OF 2])
    qed
  qed
qed

text \<open>The session a start builds holds a broker as it was opened, and nobody listens to its quotes.\<close>

definition opened_session :: "('b, 'z) runtime_env \<Rightarrow> ('b, 'z) app \<Rightarrow> bool" where
  "opened_session E s =
     (ap_session s = None \<or> (\<exists>ch. session_trail g (ap_session s) = Some (Some (g (en_open_broker E ch)))))"

lemma opened_kept:
  "keeps (order_trail g) m \<Longrightarrow> preserves (\<lambda>s. row_trail (ap_db s) = X \<and> opened_session E s) m"
  by (erule keeps_preserves) (auto simp: order_trail_def opened_session_def session_trail_def split: option.splits)

lemma startup_trail:
  fixes E :: "('b, 'z) runtime_env"
  assumes "startup E (make_app d) = (r, s)"
  shows "row_trail (ap_db s) = row_trail d \<and> opened_session E s"
proof -
  let ?P = "\<lambda>s. row_trail (ap_db s) = row_trail d \<and> opened_session E s"
  have health: "keeps (order_trail g) (if en_admin E then sreturn ()
      else sbind (slift (en_health_start E)) (\<lambda>_. smodify (\<lambda>s. s \<lparr> ap_health_running := True \<rparr>)))"
    by (auto intro!: keeps_sbind keeps_smodify)
  have opens: "preserves ?P (if cfg_trading_mode (en_config E) = Mode_Disabled then app_set_state App_Safe
      else open_session E)"
  proof (cases "cfg_trading_mode (en_config E) = Mode_Disabled")
    case True
    then show ?thesis by (simp add: opened_kept [OF trail_set_state])
  next
    case False
    have "preserves ?P (open_session E)"
      unfolding open_session_def
      by (intro preserves_sbind preserves_pure preserves_smodify)
        (auto simp: opened_session_def session_trail_def quiet_broker_def make_market_data_def)
    with False show ?thesis by simp
  qed
  have "preserves ?P (startup E)"
    unfolding startup_def
    by (intro preserves_sbind opens preserves_pure)
      (rule opened_kept, (rule trail_set_state trail_events trail_kill_switch trail_store rows_written rows_read health
        keeps_smodify; simp)+)+
  from preservesD [OF this assms] show ?thesis by (simp add: make_app_def opened_session_def)
qed

end

context order_observer
begin

lemma place_effect:
  assumes "en_broker E = B" and "place_operator_order E source q d = (r, Some t)"
  obtains s where "row_trail (ap_db s) = row_trail d" and "opened_session E s"
    and "operator_effect g (operator_env E) q s t" and "cfg_trading_mode (en_config E) \<noteq> Mode_Live"
proof -
  let ?E = "operator_env E"
  have broker: "en_broker ?E = B" using assms(1) by (simp add: operator_env_def)
  have live: "cfg_trading_mode (en_config E) \<noteq> Mode_Live"
    and run: "operator_session ?E source q (make_app d) = (r, t)"
    using assms(2) by (auto simp: place_operator_order_def split: if_splits prod.splits)
  obtain x s where start: "startup ?E (make_app d) = (x, s)" by (metis surj_pair)
  have rows: "row_trail (ap_db s) = row_trail d" and opened: "opened_session E s"
    using startup_trail [OF start] by (simp_all add: opened_session_def operator_env_def)
  have "operator_effect g ?E q s t"
  proof (cases x)
    case (Inl e)
    with run start show ?thesis by (simp add: operator_session_def operator_effect_def)
  next
    case (Inr u)
    obtain y s1 where body: "operator_run ?E source q s = (y, s1)" by (metis surj_pair)
    obtain z s2 where down: "shutdown ?E s1 = (z, s2)" by (metis surj_pair)
    have "t = s2" using run start Inr body down by (auto simp: operator_session_def sfinally_def split: sum.splits)
    moreover have "order_trail g s2 = order_trail g s1" by (rule keepsD [OF trail_shutdown [OF broker] down])
    ultimately show ?thesis
      using run_effect [OF broker body] unfolding operator_effect_def by (metis order_trail_def prod.inject)
  qed
  then show thesis using rows opened live by (intro that)
qed

lemma opened_broker:
  assumes "opened_session E s" and "\<And>ch. g (en_open_broker E ch) = v"
    and "session_trail g (ap_session t) = session_trail g (ap_session s)" and "broker_of t = Some b"
  shows "g b = v"
  using assms by (auto simp: opened_session_def session_trail_def quiet_broker_def broker_of_def
      split: option.splits if_splits)

lemma unconfirmed_sends_nothing:
  assumes "en_broker E = B" and "place_operator_order E source q d = (r, Some t)" and "op_confirm q = None"
    and "\<And>ch. g (en_open_broker E ch) = v"
  shows "row_trail (ap_db t) = row_trail d" and "broker_of t = Some b \<Longrightarrow> g b = v"
proof -
  from place_effect [OF assms(1,2)] obtain s where rows: "row_trail (ap_db s) = row_trail d"
    and opened: "opened_session E s" and "operator_effect g (operator_env E) q s t" by blast
  with assms(3) have same: "order_trail g t = order_trail g s" by (simp add: operator_effect_def)
  with rows show "row_trail (ap_db t) = row_trail d" by (simp add: order_trail_def)
  show "g b = v" if "broker_of t = Some b"
    using opened_broker [OF opened assms(4) _ that] same by (simp add: order_trail_def)
qed

lemma sent_order_was_confirmed:
  assumes "en_broker E = B" and "place_operator_order E source q d = (r, Some t)"
    and "\<And>ch. g (en_open_broker E ch) = v" and "broker_of t = Some b" and "g b \<noteq> v"
  shows "cfg_trading_mode (en_config E) \<noteq> Mode_Live \<and>
    (\<exists>c i s now. op_confirm q = Some (qc_local_symbol c) \<and> requested_position i = op_target q
       \<and> in_strategy_name i = operator_strategy_name
       \<and> may_trade (operator_env E) i s c \<and> fresh_quote (operator_env E) s c now)"
proof -
  from place_effect [OF assms(1,2)] obtain s where live: "cfg_trading_mode (en_config E) \<noteq> Mode_Live"
    and opened: "opened_session E s" and effect: "operator_effect g (operator_env E) q s t" by blast
  have moved: "session_trail g (ap_session t) \<noteq> session_trail g (ap_session s)"
    using opened_broker [OF opened assms(3) _ assms(4)] assms(5) by blast
  with effect obtain c i s1 x s2 where token: "op_confirm q = Some (qc_local_symbol c)"
    and same: "order_trail g s1 = order_trail g s" and c: "ap_contract s1 = Some c"
    and i: "requested_position i = op_target q" "in_strategy_name i = operator_strategy_name"
    and sent: "handle_intent (operator_env E) (op_order_type q) (op_limit_price q) i s1 = (x, s2)"
    and t: "session_trail g (ap_session t) = session_trail g (ap_session s2)"
    by (auto simp: operator_effect_def order_trail_def)
  have "session_trail g (ap_session s2) \<noteq> session_trail g (ap_session s1)"
    using moved same t by (simp add: order_trail_def)
  from intent_moves [OF sent session_trail_moved [OF sent this]] obtain c' now v where
    "may_trade (operator_env E) i s1 c'" and "fresh_quote (operator_env E) s1 c' now" by metis
  moreover from this(1) c have "c' = c" by (simp add: may_trade_def)
  ultimately show ?thesis using live token i by blast
qed

end

section \<open>The two brokers\<close>

interpretation ibkr_orders: order_observer "ibkr_broker G" "Some (await_order_status G)" real_orders for G
proof
  note query = keeps_queries [where g = real_orders, OF _ keeps_send_real]
  fix now spec c ask n
  show "keeps real_orders (br_connect (ibkr_broker G) now)" "keeps real_orders (br_disconnect (ibkr_broker G))"
    by (simp_all add: ibkr_broker_def keeps_connect_real keeps_disconnect_real)
  show "keeps real_orders (br_account_summary (ibkr_broker G) now)" "keeps real_orders (br_positions (ibkr_broker G))"
    "keeps real_orders (br_open_orders (ibkr_broker G))" "keeps real_orders (br_fills (ibkr_broker G) now)"
    "keeps real_orders (br_qualify (ibkr_broker G) now spec)"
    by (simp_all add: ibkr_broker_def query)
  show "keeps real_orders (br_market_data (ibkr_broker G) now c)"
    by (simp add: ibkr_broker_def keeps_market_data keeps_send_real)
  show "Some (await_order_status G) = Some ask \<Longrightarrow> keeps real_orders (ask n)"
    using query(7) [of G n] by auto
qed

lemma fresh_wire: "real_orders (make_ibkr expected) = []"
  by (simp add: make_ibkr_def real_orders_def)

definition mock_orders_of :: "mock \<Rightarrow> (string \<times> order_snapshot) list \<times> broker_fill list" where
  "mock_orders_of b = (mk_open_orders b, mk_fills b)"

lemma mock_leaves: "keeps mock_orders_of require_connected" "keeps mock_orders_of require_permission"
  by (simp_all add: keeps_def require_connected_def require_permission_def)

interpretation mock_orders: order_observer "mock_broker S" None mock_orders_of for S
proof
  fix now spec c ask n
  show "keeps mock_orders_of (br_connect (mock_broker S) now)" "keeps mock_orders_of (br_disconnect (mock_broker S))"
    by (auto simp: mock_broker_def mock_connect_def mock_disconnect_def keeps_def mock_orders_of_def Let_def
        split: if_splits)
  show "keeps mock_orders_of (br_account_summary (mock_broker S) now)" "keeps mock_orders_of (br_positions (mock_broker S))"
    "keeps mock_orders_of (br_open_orders (mock_broker S))" "keeps mock_orders_of (br_fills (mock_broker S) now)"
    by (auto simp: mock_broker_def mock_account_summary_def mock_positions_def mock_open_orders_def mock_fills_def
        intro!: keeps_sbind mock_leaves keeps_smodify) (simp add: mock_orders_of_def)
  show "keeps mock_orders_of (br_qualify (mock_broker S) now spec)"
    by (auto simp: mock_broker_def mock_qualify_def mock_contract_details_def intro!: keeps_sbind mock_leaves)
  have "keeps mock_orders_of (next_tick S now c)"
    unfolding next_tick_def Let_def by (auto intro!: keeps_sbind keeps_smodify) (simp add: mock_orders_of_def)
  then show "keeps mock_orders_of (br_market_data (mock_broker S) now c)"
    by (auto simp: mock_broker_def mock_market_data_def intro!: keeps_sbind mock_leaves keeps_smodify)
      (simp add: mock_orders_of_def)
qed simp

section \<open>Properties\<close>

text \<open>
  C7: Without a confirmation token the command is a preview, whatever else happens: over the broker
  adapter, whether the run answers or raises, no order has been put on the wire and the tables of
  orders and signals are as they were.
\<close>

theorem preview_sends_nothing:
  assumes "place_operator_order E (Some (await_order_status G)) q d = (r, Some t)" and "op_confirm q = None"
    and "en_broker E = ibkr_broker G" and "\<forall>ch. \<exists>expected. en_open_broker E ch = make_ibkr expected"
  shows "t_orders (ap_db t) = t_orders d \<and> t_signals (ap_db t) = t_signals d
    \<and> (\<forall>b. broker_of t = Some b \<longrightarrow> real_orders b = [])"
proof -
  have "real_orders (en_open_broker E ch) = []" for ch
    using assms(4) by (metis fresh_wire)
  from ibkr_orders.unconfirmed_sends_nothing [OF assms(3,1,2) this] show ?thesis
    by (auto simp: row_trail_def)
qed

definition adapter_env :: "ib_gateway \<Rightarrow> (ibkr, unit) runtime_env" where
  "adapter_env G =
     \<lparr> en_config = mock_config \<lparr> cfg_trading_mode := Mode_Paper \<rparr>, en_run_id = ''run_1'', en_admin = False,
       en_broker = ibkr_broker G, en_open_broker = (\<lambda>choice. make_ibkr (Some Acct_Paper)),
       en_build_strategy = build_strategy, en_clock = (\<lambda>n. Micros 0),
       en_loop_time = (\<lambda>n. Flt (rat_of_nat n)), en_random_id = (\<lambda>n. replicate n CHR ''0''),
       en_digest = (\<lambda>s. s), en_text = (\<lambda>e. ''error''), en_iso = (\<lambda>t. ''now''), en_health_start = Inr () \<rparr>"

definition sample_request :: "string option \<Rightarrow> operator_request" where
  "sample_request token =
     \<lparr> op_target = 1, op_order_type = Market, op_limit_price = None, op_confirm = token \<rparr>"

theorem preview_sends_nothing_witness:
  "let G = sample_gateway (\<lambda>_. []) in
   \<exists>t. snd (place_operator_order (adapter_env G) (Some (await_order_status G)) (sample_request None) empty_db) = Some t
     \<and> t_orders (ap_db t) = []"
proof -
  let ?G = "sample_gateway (\<lambda>_. [])"
  obtain r t where "operator_session (operator_env (adapter_env ?G)) (Some (await_order_status ?G)) (sample_request None)
      (make_app empty_db) = (r, t)" by (metis surj_pair)
  then have run: "place_operator_order (adapter_env ?G) (Some (await_order_status ?G)) (sample_request None) empty_db
      = (r, Some t)"
    by (simp add: place_operator_order_def adapter_env_def sample_request_def)
  have "t_orders (ap_db t) = t_orders empty_db"
    using preview_sends_nothing [OF run] by (auto simp: sample_request_def adapter_env_def)
  with run show ?thesis by (simp add: empty_db_def)
qed


text \<open>The same over the broker adapter: what is on the wire.\<close>

theorem wire_order_was_confirmed:
  assumes "place_operator_order E (Some (await_order_status G)) q d = (r, Some t)" and "en_broker E = ibkr_broker G"
    and "\<forall>ch. \<exists>expected. en_open_broker E ch = make_ibkr expected"
    and "broker_of t = Some b" and "real_orders b \<noteq> []"
  shows "cfg_trading_mode (en_config E) \<noteq> Mode_Live \<and>
    (\<exists>c i s now. op_confirm q = Some (qc_local_symbol c) \<and> requested_position i = op_target q
       \<and> in_strategy_name i = operator_strategy_name
       \<and> may_trade (operator_env E) i s c \<and> fresh_quote (operator_env E) s c now)"
proof -
  have "real_orders (en_open_broker E ch) = []" for ch
    using assms(3) by (metis fresh_wire)
  from ibkr_orders.sent_order_was_confirmed [OF assms(2,1) this assms(4,5)] show ?thesis .
qed

definition sent_sample :: "operator_answer result \<times> (mock, unit) app option" where
  "sent_sample = place_operator_order sample_env None (sample_request (Some ''MSLU6'')) empty_db"

lemma sent_sample_fills:
  "map_option (\<lambda>s. map_option (\<lambda>b. map fill_delta (mk_fills b)) (broker_of s)) (snd sent_sample) = Some (Some [1])"
  by code_simp


end
