(* ===== verification/Checkout.thy ===== *)
theory Checkout
  imports BrokerModels Gate MarketData
begin

text \<open>
  \<^verbatim>\<open>app/broker/checkout.py\<close>: the read-only checkout of a broker session. A probe keeps its name,
  its status and what was observed; the sentences of its detail and the hints are left out. The
  checkout reads no clock: \<open>clock k\<close> is the instant the broker sees in its \<open>k\<close>-th read.
\<close>

section \<open>Probes and report\<close>

datatype probe_status = Pass | Fail | Skip

datatype observation =
    Nothing_Seen
  | Saw_Connection connection_info
  | Saw_Account_Type account_type
  | Saw_Account account_summary
  | Saw_Positions "broker_position list"
  | Saw_Orders "order_snapshot list"
  | Saw_Fills nat
  | Saw_Contract qualified_contract
  | Saw_Listed "(string \<times> string \<times> int) list"
  | Saw_Nothing_Listed string string string
  | Saw_Tick tick
  | Saw_Gate gate_decision
  | Saw_Error exn bool

record probe =
  pb_name :: string
  pb_status :: probe_status
  pb_seen :: observation

definition probe_of :: "string \<Rightarrow> probe_status \<Rightarrow> observation \<Rightarrow> probe" where
  "probe_of name status seen = \<lparr> pb_name = name, pb_status = status, pb_seen = seen \<rparr>"

definition failed_probes :: "probe list \<Rightarrow> probe list" where
  "failed_probes ps = filter (\<lambda>p. pb_status p = Fail) ps"

definition skipped_probes :: "probe list \<Rightarrow> probe list" where
  "skipped_probes ps = filter (\<lambda>p. pb_status p = Skip) ps"

definition report_ok :: "probe list \<Rightarrow> bool" where
  "report_ok ps = (ps \<noteq> [] \<and> failed_probes ps = [])"

definition describe_report :: "probe list \<Rightarrow> string \<times> nat \<times> nat \<times> nat \<times> string list" where
  "describe_report ps =
     (if report_ok ps then ''CHECKOUT_PASSED'' else ''CHECKOUT_FAILED'',
      length (filter (\<lambda>p. pb_status p = Pass) ps), length (failed_probes ps), length (skipped_probes ps),
      map pb_name (failed_probes ps))"

definition boolean_probe :: "string \<Rightarrow> bool \<Rightarrow> probe" where
  "boolean_probe name ok = probe_of name (if ok then Pass else Fail) Nothing_Seen"

definition error_probe :: "string \<Rightarrow> exn \<Rightarrow> probe" where
  "error_probe name e = probe_of name Fail (Saw_Error e (retryable e))"

section \<open>Preconditions\<close>

definition preconditions :: "config \<Rightarrow> probe list" where
  "preconditions c =
     [boolean_probe ''PRECONDITION_TRANSMIT_DISABLED'' (\<not> cfg_allow_order_transmit c),
      boolean_probe ''PRECONDITION_NOT_LIVE''
        (cfg_trading_mode c \<noteq> Mode_Live \<and> \<not> cfg_live_trading_enabled c),
      boolean_probe ''PRECONDITION_MODE_IS_PAPER'' (cfg_trading_mode c = Mode_Paper),
      boolean_probe ''PRECONDITION_KILL_SWITCH_ENGAGED'' (cfg_kill_switch c)]"

section \<open>Reads\<close>

text \<open>\<^verbatim>\<open>_probe\<close> with what its caller makes of the answer.\<close>

definition read_probe :: "string \<Rightarrow> ('b, 'a) action \<Rightarrow> ('a \<Rightarrow> probe_status \<times> observation) \<Rightarrow> ('b, probe) action" where
  "read_probe name call judge = (\<lambda>b.
     (case call b of
        (Inr x, b') \<Rightarrow> (Inr (case judge x of (st, seen) \<Rightarrow> probe_of name st seen), b')
      | (Inl e, b') \<Rightarrow> if is_broker_error e then (Inr (error_probe name e), b') else (Inl e, b')))"

text \<open>What the two clean-up helpers swallow.\<close>

definition quietly_read :: "('b, unit) action \<Rightarrow> ('b, unit) action" where
  "quietly_read m = (\<lambda>b.
     (case m b of
        (Inl e, b') \<Rightarrow> if is_broker_error e \<or> e = OSError then (Inr (), b') else (Inl e, b')
      | (Inr u, b') \<Rightarrow> (Inr (), b')))"

definition checkout_error :: "exn \<Rightarrow> bool" where
  "checkout_error e = (is_broker_error e \<or> e = ContractError)"

definition checkout_spec :: "config \<Rightarrow> string option \<Rightarrow> contract_spec result" where
  "checkout_spec c month = make_spec
     \<lparr> sp_symbol = default_futures_symbol c, sp_sec_type = Future, sp_exchange = default_exchange c,
       sp_currency = default_currency c, sp_last_trade_date_or_contract_month = month,
       sp_trading_class = None, sp_local_symbol = None, sp_con_id = None, sp_multiplier = None \<rparr>"

text \<open>The undated request is built outside the handler.\<close>

definition list_available_months ::
  "'b broker \<Rightarrow> (nat \<Rightarrow> instant) \<Rightarrow> config \<Rightarrow> ('b, probe) action" where
  "list_available_months B clock c =
     sbind (slift (checkout_spec c None)) (\<lambda>undated. (\<lambda>b.
       (case br_contract_details B (clock 4) undated b of
          (Inl e, b') \<Rightarrow>
            if checkout_error e then (Inr (error_probe ''CONTRACT_MONTHS_AVAILABLE'' e), b') else (Inl e, b')
        | (Inr matches, b') \<Rightarrow>
            (Inr (if matches = [] then
                    probe_of ''CONTRACT_MONTHS_AVAILABLE'' Fail
                      (Saw_Nothing_Listed (sp_symbol undated) (sp_exchange undated) (sp_currency undated))
                  else
                    probe_of ''CONTRACT_MONTHS_AVAILABLE'' Pass
                      (Saw_Listed (map (\<lambda>q. (expiration q, qc_local_symbol q, con_id q))
                        (sort_key expiration matches)))), b'))))"

text \<open>\<^verbatim>\<open>contract_month or config.default_contract_month\<close>: an empty text counts as none.\<close>

definition nonempty :: "string option \<Rightarrow> string option" where
  "nonempty x = (case x of None \<Rightarrow> None | Some m \<Rightarrow> if m = [] then None else Some m)"

definition month_wanted :: "config \<Rightarrow> string option \<Rightarrow> string option" where
  "month_wanted c month =
     (case nonempty month of None \<Rightarrow> nonempty (default_contract_month c) | Some m \<Rightarrow> Some m)"

definition contract_probe ::
  "'b broker \<Rightarrow> (nat \<Rightarrow> instant) \<Rightarrow> config \<Rightarrow> string option
     \<Rightarrow> ('b, probe list \<times> qualified_contract option) action" where
  "contract_probe B clock c month =
     (case month_wanted c month of
        None \<Rightarrow>
          sbind (list_available_months B clock c) (\<lambda>listed.
          sreturn ([probe_of ''CONTRACT_QUALIFIES'' Skip Nothing_Seen, listed], None))
      | Some m \<Rightarrow>
          (case checkout_spec c (Some m) of
             Inl e \<Rightarrow>
               if e = ContractError
               then sreturn ([probe_of ''CONTRACT_QUALIFIES'' Fail Nothing_Seen], None) else sraise e
           | Inr spec \<Rightarrow> (\<lambda>b.
               (case br_qualify B (clock 3) spec b of
                  (Inr q, b') \<Rightarrow> (Inr ([probe_of ''CONTRACT_QUALIFIES'' Pass (Saw_Contract q)], Some q), b')
                | (Inl e, b') \<Rightarrow>
                    if checkout_error e then
                      sbind (list_available_months B clock c) (\<lambda>listed.
                      sreturn ([error_probe ''CONTRACT_QUALIFIES'' e, listed], None)) b'
                    else (Inl e, b')))))"

definition tick_has_price :: "tick \<Rightarrow> bool" where
  "tick_has_price t = (tk_bid t \<noteq> None \<or> tk_ask t \<noteq> None \<or> tk_last t \<noteq> None)"

definition market_data_probe ::
  "'b broker \<Rightarrow> (nat \<Rightarrow> instant) \<Rightarrow> qualified_contract option \<Rightarrow> ('b, probe) action" where
  "market_data_probe B clock contract =
     (case contract of
        None \<Rightarrow> sreturn (probe_of ''MARKET_DATA'' Skip Nothing_Seen)
      | Some q \<Rightarrow>
          sfinally
            (read_probe ''MARKET_DATA'' (br_market_data B (clock 5) q)
               (\<lambda>t. (if tick_has_price t then Pass else Fail, Saw_Tick t)))
            (quietly_read (br_cancel_market_data B q)))"

section \<open>The gate\<close>

definition optimistic_context :: gate_context where
  "optimistic_context =
     \<lparr> gx_app_state = App_Ready, gx_connection_state = Connected, gx_broker_account_type = Acct_Paper,
       gx_contract_qualified = True, gx_contract_is_continuous = False, gx_account_available = True,
       gx_positions_reconciled = True, gx_open_orders_reconciled = True,
       gx_market_data_age_seconds = Some (Flt 0), gx_market_data_is_delayed = False,
       gx_broker_permission_ready = True, gx_strategy_enabled = True, gx_risk_approved = True \<rparr>"

definition gate_probe :: "config \<Rightarrow> probe" where
  "gate_probe c =
     (let d = gate_evaluate c optimistic_context
      in probe_of ''GATE_REFUSES_WHEN_EVERYTHING_ELSE_IS_GREEN'' (if gd_allowed d then Fail else Pass) (Saw_Gate d))"

section \<open>The checkout\<close>

definition post_connect_probes :: "string list" where
  "post_connect_probes =
     [''ACCOUNT_TYPE_IS_PAPER'', ''ACCOUNT_SUMMARY'', ''POSITIONS_READABLE'', ''OPEN_ORDERS_EMPTY'',
      ''FILLS_READABLE'', ''CONTRACT_QUALIFIES'', ''CONTRACT_MONTHS_AVAILABLE'', ''MARKET_DATA'',
      ''GATE_REFUSES_WHEN_EVERYTHING_ELSE_IS_GREEN'']"

definition session_probes ::
  "'b broker \<Rightarrow> (nat \<Rightarrow> instant) \<Rightarrow> config \<Rightarrow> string option \<Rightarrow> ('b, probe list) action" where
  "session_probes B clock c month =
     sbind (sgets (broker_account_type B)) (\<lambda>t.
     sbind (read_probe ''ACCOUNT_SUMMARY'' (br_account_summary B (clock 1)) (\<lambda>a. (Pass, Saw_Account a))) (\<lambda>account.
     sbind (read_probe ''POSITIONS_READABLE'' (br_positions B) (\<lambda>ps. (Pass, Saw_Positions ps))) (\<lambda>held.
     sbind (read_probe ''OPEN_ORDERS_EMPTY'' (br_open_orders B)
              (\<lambda>os. (if os = [] then Pass else Fail, Saw_Orders os))) (\<lambda>working.
     sbind (read_probe ''FILLS_READABLE'' (br_fills B (clock 2)) (\<lambda>fs. (Pass, Saw_Fills (length fs)))) (\<lambda>fills.
     sbind (contract_probe B clock c month) (\<lambda>(contracts, q).
     sbind (market_data_probe B clock q) (\<lambda>quoted.
     sreturn ([probe_of ''ACCOUNT_TYPE_IS_PAPER'' (if t = Acct_Paper then Pass else Fail) (Saw_Account_Type t),
               account, held, working, fills] @ contracts @ [quoted, gate_probe c]))))))))"

text \<open>The connection: the probe, and whether there is a session.\<close>

definition connect_probe :: "'b broker \<Rightarrow> (nat \<Rightarrow> instant) \<Rightarrow> ('b, probe \<times> bool) action" where
  "connect_probe B clock = (\<lambda>b.
     (case br_connect B (clock 0) b of
        (Inr info, b') \<Rightarrow>
          (Inr (probe_of ''SOCKET_CONNECT'' (if ci_connected info then Pass else Fail) (Saw_Connection info),
                ci_connected info), b')
      | (Inl e, b') \<Rightarrow>
          if is_broker_error e then (Inr (error_probe ''SOCKET_CONNECT'' e, False), b')
          else if e = OSError then (Inr (probe_of ''SOCKET_CONNECT'' Fail Nothing_Seen, False), b')
          else (Inl e, b')))"

definition run_checkout ::
  "'b broker \<Rightarrow> (nat \<Rightarrow> instant) \<Rightarrow> config \<Rightarrow> string option \<Rightarrow> ('b, probe list) action" where
  "run_checkout B clock c month =
     (let checks = preconditions c in
      if failed_probes checks \<noteq> [] then sreturn (checks @ [probe_of ''SESSION'' Skip Nothing_Seen])
      else
        sbind (connect_probe B clock) (\<lambda>(socket, connected).
        if \<not> connected
        then sreturn (checks @ [socket] @ map (\<lambda>n. probe_of n Skip Nothing_Seen) post_connect_probes)
        else sbind (sfinally (session_probes B clock c month) (quietly_read (br_disconnect B)))
               (\<lambda>probes. sreturn (checks @ [socket] @ probes))))"

end
