(* ===== verification/CheckoutFacts.thy ===== *)
theory CheckoutFacts
  imports Checkout OperatorFacts
begin

text \<open>
  The checkout only reads: over a broker whose reads send nothing, it sends nothing. A checkout that
  passes has seen a connected paper session without working orders, and every checkout hangs up.
\<close>

section \<open>Reading\<close>

lemma keeps_read_probe: "keeps g m \<Longrightarrow> keeps g (read_probe name m judge)"
  unfolding keeps_def read_probe_def by (auto split: prod.splits sum.splits if_splits)

lemma keeps_quietly: "keeps g m \<Longrightarrow> keeps g (quietly_read m)"
  unfolding keeps_def quietly_read_def by (auto split: prod.splits sum.splits if_splits)

text \<open>The two operations the checkout reads beside those of the application.\<close>

locale checkout_broker = order_observer +
  assumes listing: "keeps g (br_contract_details B now spec)" and unquoting: "keeps g (br_cancel_market_data B c)"
begin

lemma list_months_reads: "keeps g (list_available_months B clock c)"
proof -
  have "keeps g (\<lambda>b. case br_contract_details B now undated b of
          (Inl e, b') \<Rightarrow> if checkout_error e then (Inr (error_probe n e), b') else (Inl e, b')
        | (Inr matches, b') \<Rightarrow> (Inr (f matches), b'))" for now undated n and f :: "qualified_contract list \<Rightarrow> probe"
    using keepsD [OF listing] by (intro keepsI) (auto split: prod.splits sum.splits if_splits)
  then show ?thesis unfolding list_available_months_def by (intro keeps_sbind keeps_pure)
qed

lemma contract_probe_reads: "keeps g (contract_probe B clock c month)"
proof -
  have listed: "keeps g (sbind (list_available_months B clock c) (\<lambda>listed. sreturn (f listed)))" for f :: "probe \<Rightarrow> 'x"
    by (intro keeps_sbind list_months_reads keeps_pure)
  have "keeps g (\<lambda>b. case br_qualify B now spec b of
      (Inr q, b') \<Rightarrow> (Inr (f q), b')
    | (Inl e, b') \<Rightarrow> if checkout_error e then sbind (list_available_months B clock c) (\<lambda>listed. sreturn (h e listed)) b'
        else (Inl e, b'))" for now spec and f :: "qualified_contract \<Rightarrow> 'x" and h
    by (intro keepsI) (auto split: prod.splits sum.splits if_splits dest!: keepsD [OF reading(7)] keepsD [OF listed])
  then show ?thesis
    unfolding contract_probe_def by (auto intro!: listed split: option.splits sum.splits)
qed

lemma market_data_probe_reads: "keeps g (market_data_probe B clock q)"
  unfolding market_data_probe_def
  by (auto intro!: keeps_sfinally keeps_read_probe keeps_quietly reading unquoting split: option.splits)

lemma connect_probe_reads: "keeps g (connect_probe B clock)"
  using reading(1) unfolding keeps_def connect_probe_def
  by (auto split: prod.splits sum.splits if_splits)

lemma session_probes_read: "keeps g (session_probes B clock c month)"
  unfolding session_probes_def
  by (auto intro!: keeps_sbind keeps_read_probe contract_probe_reads market_data_probe_reads reading)

lemma checkout_reads: "keeps g (run_checkout B clock c month)"
  unfolding run_checkout_def Let_def
  by (auto intro!: keeps_sbind keeps_sfinally keeps_quietly connect_probe_reads session_probes_read reading)

end

interpretation ibkr_checkout: checkout_broker "ibkr_broker G" "Some (await_order_status G)" real_orders for G
proof
  fix now spec c
  show "keeps real_orders (br_contract_details (ibkr_broker G) now spec)"
    by (simp add: ibkr_broker_def keeps_queries [where g = real_orders, OF _ keeps_send_real])
  show "keeps real_orders (br_cancel_market_data (ibkr_broker G) c)"
    by (simp add: ibkr_broker_def keeps_market_data keeps_send_real)
qed

interpretation mock_checkout: checkout_broker "mock_broker S" None mock_orders_of for S
proof
  fix now spec c
  show "keeps mock_orders_of (br_contract_details (mock_broker S) now spec)"
    by (auto simp: mock_broker_def mock_contract_details_def intro!: keeps_sbind mock_leaves)
  show "keeps mock_orders_of (br_cancel_market_data (mock_broker S) c)"
    by (auto simp: mock_broker_def mock_cancel_market_data_def intro!: keeps_smodify) (simp add: mock_orders_of_def)
qed

section \<open>What a passed checkout has seen\<close>

lemma no_failures: "failed_probes ps = [] \<longleftrightarrow> (\<forall>p \<in> set ps. pb_status p \<noteq> Fail)"
  by (simp add: failed_probes_def filter_empty_conv)

lemma preconditions_hold:
  "failed_probes (preconditions c) = [] \<longleftrightarrow> \<not> cfg_allow_order_transmit c \<and> cfg_trading_mode c = Mode_Paper
     \<and> \<not> cfg_live_trading_enabled c \<and> cfg_kill_switch c"
  by (auto simp: failed_probes_def preconditions_def boolean_probe_def probe_of_def)

text \<open>The gate cannot allow an order under the configuration the preconditions admit.\<close>

lemma gate_probe_passes: "failed_probes (preconditions c) = [] \<Longrightarrow> pb_status (gate_probe c) = Pass"
  using gate.failing_refuses [of Kill_Switch "(c, optimistic_context)"]
  by (simp add: preconditions_hold gate_probe_def probe_of_def gate_allows_def Let_def)

lemma read_probe_seen:
  assumes "read_probe name m judge b = (Inr p, b')" and "pb_status p \<noteq> Fail"
  obtains x where "m b = (Inr x, b')" and "p = probe_of name (fst (judge x)) (snd (judge x))"
  using assms by (auto simp: read_probe_def error_probe_def probe_of_def split: prod.splits sum.splits if_splits)

lemma session_probes_seen:
  assumes run: "session_probes B clock c month b = (Inr ps, b')" and ok: "failed_probes ps = []"
  shows "broker_account_type B b = Acct_Paper" and "\<exists>b1 b2. br_open_orders B b1 = (Inr [], b2)"
    and "gate_probe c \<in> set ps"
proof -
  from run obtain b1 b2 b3 b4 account held working fills contracts quoted where
      orders: "read_probe ''OPEN_ORDERS_EMPTY'' (br_open_orders B)
          (\<lambda>os. (if os = [] then Pass else Fail, Saw_Orders os)) b1 = (Inr working, b2)"
    and ps: "ps = [probe_of ''ACCOUNT_TYPE_IS_PAPER'' (if broker_account_type B b = Acct_Paper then Pass else Fail)
          (Saw_Account_Type (broker_account_type B b)), account, held, working, fills] @ contracts @ [quoted, gate_probe c]"
    by (auto simp: session_probes_def split: prod.splits elim!: sbind_InrE)
  have "pb_status (probe_of ''ACCOUNT_TYPE_IS_PAPER'' (if broker_account_type B b = Acct_Paper then Pass else Fail)
      (Saw_Account_Type (broker_account_type B b))) \<noteq> Fail"
    using ok ps by (simp add: no_failures)
  then show "broker_account_type B b = Acct_Paper" by (simp add: probe_of_def split: if_splits)
  have "pb_status working \<noteq> Fail" using ok ps by (simp add: no_failures)
  from read_probe_seen [OF orders this] obtain os where "br_open_orders B b1 = (Inr os, b2)"
    and "working = probe_of ''OPEN_ORDERS_EMPTY'' (if os = [] then Pass else Fail) (Saw_Orders os)"
    by (metis fst_conv snd_conv)
  with \<open>pb_status working \<noteq> Fail\<close> show "\<exists>b1 b2. br_open_orders B b1 = (Inr [], b2)"
    by (auto simp: probe_of_def split: if_splits)
  show "gate_probe c \<in> set ps" using ps by simp
qed

section \<open>Hanging up\<close>

text \<open>Every way a connection fails leaves the adapter without one.\<close>

definition unconnected :: "ibkr \<Rightarrow> bool" where
  "unconnected b = (ib_state b \<noteq> Connected)"

lemma unconnected_not: "unconnected b \<Longrightarrow> \<not> ibkr_is_connected G b"
  by (auto simp: unconnected_def ibkr_is_connected_def split: option.splits)

lemma disconnect_hangs_up: "ibkr_disconnect G b = (r, b') \<Longrightarrow> unconnected b' \<and> r = Inr ()"
  by (auto simp: ibkr_disconnect_def sbind_def unconnected_def send_request_def
      split: option.splits sum.splits prod.splits)

lemma refusal_hangs_up: "st \<noteq> Connected \<Longrightarrow> refuse_session G st e b = (r, b') \<Longrightarrow> unconnected b' \<and> r = Inl e"
  by (auto simp: refuse_session_def sbind_def unconnected_def split: prod.splits sum.splits
      dest: disconnect_hangs_up)

lemma dial_unconnected: "dial G b = (r, b') \<Longrightarrow> unconnected b'"
  by (auto simp: dial_def Let_def unconnected_def split: sum.splits if_splits)

lemma await_unconnected: "await_callbacks G b = (r, b') \<Longrightarrow> unconnected b' = unconnected b"
  by (auto simp: await_callbacks_def unconnected_def)

lemma client_unconnected: "on_client m b = (r, b') \<Longrightarrow> unconnected b' = unconnected b"
  by (auto simp: on_client_def unconnected_def split: option.splits prod.splits)

lemma connect_failure_hangs_up:
  assumes run: "ibkr_connect G now b = (Inl e, b')" and "\<not> ibkr_is_connected G b"
  shows "\<not> ibkr_is_connected G b'"
proof (cases "gw_available G")
  case False
  with assms show ?thesis by (simp add: ibkr_connect_def)
next
  case True
  let ?adopted = "\<lambda>se. sbind (smodify (adopt_session now se)) (\<lambda>_. sbind (sgets wrong_account) (\<lambda>wrong.
      if wrong then refuse_session G Disconnected BrokerConnectionError else sgets (ibkr_connection_info G)))"
  obtain x b1 where dialled: "dial G b = (x, b1)" by (metis surj_pair)
  obtain y b2 where waited: "await_callbacks G b1 = (y, b2)" by (metis surj_pair)
  have 2: "unconnected b2" "y = Inr ()"
    using dial_unconnected [OF dialled] await_unconnected [OF waited] waited by (simp_all add: await_callbacks_def)
  obtain z b3 where asked: "on_client (sgets se_accounts_event) b2 = (z, b3)" by (metis surj_pair)
  have 3: "unconnected b3" using client_unconnected [OF asked] 2 by simp
  obtain y' b4 where again: "await_callbacks G b3 = (y', b4)" by (metis surj_pair)
  have 4: "unconnected b4" "y' = Inr ()"
    using await_unconnected [OF again] 3 again by (simp_all add: await_callbacks_def)
  obtain v b5 where session: "on_client (sgets id) b4 = (v, b5)" by (metis surj_pair)
  have 5: "unconnected b5" using client_unconnected [OF session] 4 by simp
  have adopted: "unconnected b'" if "?adopted se b5 = (Inl e, b')" for se
    using that refusal_hangs_up [of Disconnected G BrokerConnectionError]
    by (auto simp: sbind_def split: if_splits)
  have refused: "unconnected b'" if "refuse_session G Failed BrokerTimeoutError b3 = (Inl e, b')"
    using refusal_hangs_up [OF _ that] by simp
  have "unconnected b'"
    using run True assms(2) dialled waited asked again session 2 3 4 5 dial_unconnected [OF dialled] adopted refused
    by (cases x; cases z; cases v) (auto simp: ibkr_connect_def split: if_splits)
  then show ?thesis by (rule unconnected_not)
qed

lemma connected_info:
  assumes "ibkr_connect G now b = (Inr info, b')"
  shows "ci_connected info = ibkr_is_connected G b'"
proof -
  have "info = ibkr_connection_info G b'"
    using assms refuse_session_fails
    by (auto simp: ibkr_connect_def elim!: sbind_InrE split: if_splits)
  then show ?thesis by (simp add: ibkr_connection_info_def Let_def)
qed

lemma checkout_hangs_up:
  assumes run: "run_checkout (ibkr_broker G) clock c month b = (r, b')" and "\<not> ibkr_is_connected G b"
  shows "\<not> ibkr_is_connected G b'"
proof -
  let ?B = "ibkr_broker G"
  have probe: "\<not> ibkr_is_connected G b1"
    if "connect_probe ?B clock b = (x, b1)" "\<forall>p. x \<noteq> Inr (p, True)" for x b1
  proof (cases "ibkr_connect G (clock 0) b")
    case (Pair y b2)
    with that connect_failure_hangs_up [OF _ assms(2)] show ?thesis
      by (cases y) (auto simp: connect_probe_def ibkr_broker_def split: if_splits
          dest!: connected_info)
  qed
  have hung: "\<not> ibkr_is_connected G b2"
    if "sfinally (session_probes ?B clock c month) (quietly_read (br_disconnect ?B)) b1 = (x, b2)" for x b1 b2
    using that
    by (auto simp: sfinally_def quietly_read_def ibkr_broker_def split: prod.splits sum.splits if_splits
        dest!: disconnect_hangs_up unconnected_not)
  show ?thesis
  proof (cases "failed_probes (preconditions c) = []")
    case False
    with run assms(2) show ?thesis by (simp add: run_checkout_def Let_def)
  next
    case True
    obtain x b1 where conn: "connect_probe ?B clock b = (x, b1)" by (metis surj_pair)
    show ?thesis
    proof (cases "\<exists>p. x = Inr (p, True)")
      case False
      with run True conn probe [OF conn] show ?thesis
        by (cases x) (auto simp: run_checkout_def Let_def)
    next
      case connected: True
      obtain y b2 where session: "sfinally (session_probes ?B clock c month) (quietly_read (br_disconnect ?B)) b1 = (y, b2)"
        by (metis surj_pair)
      with run True conn connected have "b' = b2" by (cases y) (auto simp: run_checkout_def Let_def)
      with hung [OF session] show ?thesis by simp
    qed
  qed
qed

section \<open>Properties\<close>

text \<open>
  C9: The checkout of the broker adapter cannot place an order: whatever the gateway answers and
  whether the checkout reports or raises, the wire carries the orders it carried before. Unless the
  configuration refuses to trade (paper, transmission and live trading off, kill switch engaged) the
  adapter is not touched at all, and a checkout that began without a session ends without one.
\<close>

theorem checkout_only_reads:
  assumes "run_checkout (ibkr_broker G) clock c month b = (r, b')"
  shows "real_orders b' = real_orders b
    \<and> (b' \<noteq> b \<longrightarrow> cfg_trading_mode c = Mode_Paper \<and> \<not> cfg_allow_order_transmit c
          \<and> \<not> cfg_live_trading_enabled c \<and> cfg_kill_switch c)
    \<and> (\<not> ibkr_is_connected G b \<longrightarrow> \<not> ibkr_is_connected G b')"
proof (intro conjI impI)
  show "real_orders b' = real_orders b" by (rule keepsD [OF ibkr_checkout.checkout_reads assms])
  show "\<not> ibkr_is_connected G b'" if "\<not> ibkr_is_connected G b"
    using assms that by (rule checkout_hangs_up)
qed (use assms preconditions_hold [of c] in \<open>auto simp: run_checkout_def Let_def split: if_splits\<close>)

definition checkout_config :: config where
  "checkout_config = limits_config \<lparr> cfg_trading_mode := Mode_Paper, cfg_allow_order_transmit := False,
     cfg_live_trading_enabled := False, cfg_kill_switch := True \<rparr>"

theorem checkout_only_reads_witness:
  "real_orders (snd (run_checkout (ibkr_broker (sample_gateway (\<lambda>_. []))) (\<lambda>_. Micros 0) checkout_config None
     (make_ibkr (Some Acct_Paper)))) = []"
  using checkout_only_reads [OF prod.collapse [symmetric]] fresh_wire by metis


definition paper_mock :: mock where
  "paper_mock = default_mock \<lparr> mk_account_type_override := Some Acct_Paper \<rparr>"

definition sample_checkout :: "probe list result \<times> mock" where
  "sample_checkout = run_checkout (mock_broker sample_sources) (\<lambda>_. Micros 0) checkout_config (Some ''202609'') paper_mock"

lemma sample_checkout_passes:
  "(case fst sample_checkout of Inl e \<Rightarrow> False | Inr ps \<Rightarrow> report_ok ps)"
  by code_simp


end
