(* ===== verification/Redaction.thy ===== *)
theory Redaction
  imports Prelude
begin

text \<open>
  \<^verbatim>\<open>app/logging_config.py\<close>: what keeps secrets out of the logs. The three patterns of
  \<^verbatim>\<open>redact_text\<close> are scanners: at every position they decide as the pattern does (no match of
  theirs depends on the order of backtracking), replace the match and go on behind it. Texts are
  over one-byte characters; those outside ASCII are neither word characters nor white space here. The structured
  payload of a record is a \<open>log_value\<close>; what is neither a mapping, a sequence nor a text is kept as
  it prints. Handlers, formatters and the context variables are left out.
\<close>

section \<open>Keys\<close>

definition sensitive_key_parts :: "string list" where
  "sensitive_key_parts =
     [''password'', ''passwd'', ''secret'', ''token'', ''api_key'', ''apikey'', ''authorization'', ''auth'',
      ''cookie'', ''session_key'', ''private_key'', ''privatekey'', ''credential'', ''ssh_key'',
      ''access_key'', ''client_secret'']"

definition redacted :: string where
  "redacted = ''***REDACTED***''"

definition is_sensitive_key :: "string \<Rightarrow> bool" where
  "is_sensitive_key key = (\<exists>part \<in> set sensitive_key_parts. occurs_in part (py_lower key))"

section \<open>Texts\<close>

definition is_word_char :: "char \<Rightarrow> bool" where
  "is_word_char c =
     (let n = ch c in 48 \<le> n \<and> n \<le> 57 \<or> 65 \<le> n \<and> n \<le> 90 \<or> 97 \<le> n \<and> n \<le> 122 \<or> n = 95)"

definition is_alnum :: "char \<Rightarrow> bool" where
  "is_alnum c = (is_word_char c \<and> ch c \<noteq> 95)"

definition is_label_char :: "char \<Rightarrow> bool" where
  "is_label_char c = (let n = ch c in 65 \<le> n \<and> n \<le> 90 \<or> n = 32)"

text \<open>The boundary before a character that is a word character, and the one behind such a one.\<close>

definition word_starts :: "char option \<Rightarrow> bool" where
  "word_starts prev = (case prev of None \<Rightarrow> True | Some c \<Rightarrow> \<not> is_word_char c)"

definition word_ends :: "string \<Rightarrow> bool" where
  "word_ends rest = (case rest of [] \<Rightarrow> True | c # _ \<Rightarrow> \<not> is_word_char c)"

definition secret_words :: "string list" where
  "secret_words =
     [''password'', ''passwd'', ''secret'', ''token'', ''apikey'', ''api_key'', ''api-key'', ''authorization'',
      ''cookie'', ''credential'']"

definition secret_word_at :: "char option \<Rightarrow> string \<Rightarrow> string option" where
  "secret_word_at prev s =
     (if word_starts prev
      then List.find (\<lambda>w. starts_with w (py_lower s) \<and> word_ends (drop (length w) s)) secret_words
      else None)"

text \<open>\<^verbatim>\<open>\s*[:=]\s*\S+\<close>: how much of it is kept, and what follows the value.\<close>

definition assignment_at :: "string \<Rightarrow> (nat \<times> string) option" where
  "assignment_at s =
     (let s1 = dropWhile is_space s in
      case s1 of
        [] \<Rightarrow> None
      | c # s2 \<Rightarrow>
          if c \<noteq> CHR '':'' \<and> c \<noteq> CHR ''='' then None
          else (let s3 = dropWhile is_space s2 in
                if s3 = [] then None
                else Some (length s - length s3, dropWhile (\<lambda>x. \<not> is_space x) s3)))"

text \<open>A match: the text put in its place, and the rest.\<close>

definition secret_at :: "char option \<Rightarrow> string \<Rightarrow> (string \<times> string) option" where
  "secret_at prev s =
     (case secret_word_at prev s of
        None \<Rightarrow> None
      | Some w \<Rightarrow>
          (case assignment_at (drop (length w) s) of
             None \<Rightarrow> None
           | Some (n, rest) \<Rightarrow> Some (take (length w + n) s @ redacted, rest)))"

definition ends_with :: "string \<Rightarrow> string \<Rightarrow> bool" where
  "ends_with suffix s = (suffix = drop (length s - length suffix) s)"

text \<open>\<^verbatim>\<open>-----BEGIN [A-Z ]*PRIVATE KEY-----\<close> and its counterpart: the rest behind the line.\<close>

definition key_line_at :: "string \<Rightarrow> string \<Rightarrow> string option" where
  "key_line_at word s =
     (let start = ''-----'' @ word @ '' '' in
      if \<not> starts_with start s then None
      else (let s1 = drop (length start) s; label = takeWhile is_label_char s1; s2 = dropWhile is_label_char s1 in
            if ends_with ''PRIVATE KEY'' label \<and> starts_with ''-----'' s2 then Some (drop 5 s2) else None))"

fun behind_end_line :: "string \<Rightarrow> string option" where
  "behind_end_line [] = None"
| "behind_end_line (c # cs) =
     (case key_line_at ''END'' (c # cs) of Some rest \<Rightarrow> Some rest | None \<Rightarrow> behind_end_line cs)"

definition private_key_at :: "char option \<Rightarrow> string \<Rightarrow> (string \<times> string) option" where
  "private_key_at prev s =
     (case Option.bind (key_line_at ''BEGIN'' s) behind_end_line of
        None \<Rightarrow> None | Some rest \<Rightarrow> Some (redacted, rest))"

definition github_token_at :: "char option \<Rightarrow> string \<Rightarrow> (string \<times> string) option" where
  "github_token_at prev s =
     (if word_starts prev \<and> starts_with ''gh'' s \<and> length s > 3 \<and> s ! 2 \<in> set ''pousr'' \<and> s ! 3 = CHR ''_''
      then (let body = takeWhile is_alnum (drop 4 s); rest = dropWhile is_alnum (drop 4 s) in
            if 16 \<le> length body \<and> word_ends rest then Some (redacted, rest) else None)
      else None)"

text \<open>
  \<^verbatim>\<open>pattern.sub\<close>: \<open>n\<close> bounds the positions still to be looked at; the length of the text is enough.
\<close>

fun substitute :: "(char option \<Rightarrow> string \<Rightarrow> (string \<times> string) option) \<Rightarrow> nat \<Rightarrow> char option \<Rightarrow> string \<Rightarrow> string" where
  "substitute at 0 prev s = s"
| "substitute at (Suc n) prev [] = []"
| "substitute at (Suc n) prev (c # cs) =
     (case at prev (c # cs) of
        None \<Rightarrow> c # substitute at n (Some c) cs
      | Some (put, rest) \<Rightarrow>
          put @ substitute at n (Some ((c # cs) ! (length cs - length rest))) rest)"

definition pattern_sub :: "(char option \<Rightarrow> string \<Rightarrow> (string \<times> string) option) \<Rightarrow> string \<Rightarrow> string" where
  "pattern_sub at s = substitute at (length s) None s"

definition redact_text :: "string \<Rightarrow> string" where
  "redact_text s = pattern_sub github_token_at (pattern_sub private_key_at (pattern_sub secret_at s))"

section \<open>Structured values\<close>

datatype log_value =
    L_Map "(string \<times> log_value) list"
  | L_List "log_value list"
  | L_Text string
  | L_Other string

lemma smaller_value:
  "(k, x) \<in> set kvs \<Longrightarrow> size x < Suc (size_list (size_prod (\<lambda>_. 0) size) kvs)"
  "x \<in> set xs \<Longrightarrow> size x < Suc (size_list size xs)"
  using size_list_estimation' [of "(k, x)" kvs "size x" "size_prod (\<lambda>_. 0) size"]
    size_list_estimation' [of x xs "size x" size]
  by auto

function redact_value :: "nat \<Rightarrow> string \<Rightarrow> log_value \<Rightarrow> log_value" where
  "redact_value depth key v =
     (if depth > 6 then L_Text ''***DEPTH_LIMIT***''
      else if is_sensitive_key key then L_Text redacted
      else (case v of
              L_Map kvs \<Rightarrow> L_Map (map (\<lambda>(k, x). (k, redact_value (Suc depth) k x)) kvs)
            | L_List xs \<Rightarrow> L_List (map (redact_value depth key) xs)
            | L_Text s \<Rightarrow> L_Text (redact_text s)
            | L_Other r \<Rightarrow> L_Other r))"
  by pat_completeness auto

termination
  by (relation "measure (\<lambda>(d, k, v). size v)") (auto simp: smaller_value)

declare redact_value.simps [simp del]

section \<open>Account identifiers\<close>

definition mask_account_id :: "string option \<Rightarrow> string" where
  "mask_account_id account_id =
     (case account_id of
        None \<Rightarrow> ''-''
      | Some a \<Rightarrow>
          if a = [] then ''-''
          else (let cleaned = py_strip a in
                if length cleaned \<le> 4 then replicate (length cleaned) CHR ''*''
                else take 2 cleaned @ ''***'' @ drop (length cleaned - 3) cleaned))"

section \<open>The filter\<close>

text \<open>
  \<^verbatim>\<open>RedactionFilter.filter\<close> over a record: its message and its own attributes. The attributes of
  every record and those that begin with an underscore are passed over.
\<close>

definition standard_record_fields :: "string list" where
  "standard_record_fields =
     [''args'', ''asctime'', ''created'', ''exc_info'', ''exc_text'', ''filename'', ''funcName'', ''levelname'',
      ''levelno'', ''lineno'', ''module'', ''msecs'', ''message'', ''msg'', ''name'', ''pathname'', ''process'',
      ''processName'', ''relativeCreated'', ''stack_info'', ''taskName'', ''thread'', ''threadName'']"

definition passed_over :: "string \<Rightarrow> bool" where
  "passed_over key = (key \<in> set standard_record_fields \<or> starts_with ''_'' key)"

definition redaction_filter :: "(string \<times> log_value) list \<Rightarrow> (string \<times> log_value) list" where
  "redaction_filter record =
     map (\<lambda>(k, v).
       (k, if k = ''msg'' then (case v of L_Text s \<Rightarrow> L_Text (redact_text s) | _ \<Rightarrow> v)
           else if passed_over k then v else redact_value 0 k v)) record"

definition get_logger_name :: "string \<Rightarrow> string" where
  "get_logger_name name = (if starts_with ''app'' name then name else ''app.'' @ name)"

section \<open>Secrets do not reach the log\<close>

text \<open>What is left of a value when everything under a sensitive key is blanked.\<close>

function without_secrets :: "string \<Rightarrow> log_value \<Rightarrow> log_value" where
  "without_secrets key v =
     (if is_sensitive_key key then L_Text []
      else (case v of
              L_Map kvs \<Rightarrow> L_Map (map (\<lambda>(k, x). (k, without_secrets k x)) kvs)
            | L_List xs \<Rightarrow> L_List (map (without_secrets key) xs)
            | _ \<Rightarrow> v))"
  by pat_completeness auto

termination
  by (relation "measure (\<lambda>(k, v). size v)") (auto simp: smaller_value)

declare without_secrets.simps [simp del]

lemma redaction_ignores_secrets: "redact_value depth key (without_secrets key v) = redact_value depth key v"
proof (induction depth key v rule: redact_value.induct)
  case (1 depth key v)
  show ?case
  proof (cases "depth > 6 \<or> is_sensitive_key key")
    case True
    then show ?thesis by (auto simp: redact_value.simps [of depth key])
  next
    case False
    then show ?thesis
      using 1 by (cases v) (auto simp: redact_value.simps [of depth key] without_secrets.simps [of key])
  qed
qed



end
