(* ===== verification/Status.thy ===== *)
theory Status
  imports Runtime Redaction
begin

text \<open>
  \<^verbatim>\<open>app/monitoring\<close> and the two payloads of \<^verbatim>\<open>app/main.py\<close>: what the process tells about
  itself over HTTP. The payloads are records of what they report; their rendering as JSON, the host,
  the port and the size of the database file are left out, and of the brokers' own descriptions what
  the model keeps. A request is the list of its lines as the socket yields them: a line, or the
  exception the read ends with; behind the list the connection is at its end.
\<close>

section \<open>Health\<close>

record health =
  he_healthy :: bool
  he_checks :: "(string \<times> bool) list"
  he_state :: application_state

definition evaluate_health :: "application_state \<Rightarrow> bool \<Rightarrow> bool \<Rightarrow> health" where
  "evaluate_health st database_ok shutting_down =
     (let checks =
        [(''process_running'', True), (''database_reachable'', database_ok),
         (''application_not_errored'', st \<noteq> App_Error), (''not_shutting_down'', \<not> shutting_down)]
      in \<lparr> he_healthy = list_all snd checks, he_checks = checks, he_state = st \<rparr>)"

definition http_status :: "health \<Rightarrow> int" where
  "http_status h = (if he_healthy h then 200 else 503)"

definition health_payload :: "(('b, 'z) app, int \<times> health) action" where
  "health_payload = (\<lambda>s.
     (case db_healthy (ap_db s) of
        (ok, d) \<Rightarrow>
          (let h = evaluate_health (ap_state s) ok (ap_shutting_down s)
           in (Inr (http_status h, h), s \<lparr> ap_db := d \<rparr>))))"

section \<open>Status\<close>

record build_info =
  bi_version :: string
  bi_git_commit :: string
  bi_build_timestamp :: string

definition build_info_of :: "string \<Rightarrow> config \<Rightarrow> build_info" where
  "build_info_of version c =
     \<lparr> bi_version = version, bi_git_commit = git_commit c, bi_build_timestamp = build_timestamp c \<rparr>"

record safety_summary =
  sf_trading_mode :: trading_mode
  sf_allow_order_transmit :: bool
  sf_live_trading_enabled :: bool
  sf_kill_switch :: bool
  sf_permission_ready :: bool
  sf_can_transmit_live_orders :: bool

definition safety_summary_of :: "config \<Rightarrow> bool \<Rightarrow> safety_summary" where
  "safety_summary_of c engaged =
     \<lparr> sf_trading_mode = cfg_trading_mode c, sf_allow_order_transmit = cfg_allow_order_transmit c,
       sf_live_trading_enabled = cfg_live_trading_enabled c, sf_kill_switch = engaged,
       sf_permission_ready = cfg_sol_futures_permission_ready c,
       sf_can_transmit_live_orders =
         (cfg_trading_mode c = Mode_Live \<and> cfg_live_trading_enabled c \<and> cfg_allow_order_transmit c
          \<and> \<not> engaged) \<rparr>"

text \<open>
  \<^verbatim>\<open>Database.info\<close>: it opens the database when it is closed, counts the rows of every table of a
  migrated database, one query each, and reports instead of raising. The table of the bars is not a
  part of \<open>db\<close> (\<open>BarStore\<close>), so its count is left out.
\<close>

record database_info =
  di_schema_version :: int
  di_tables :: "(string \<times> nat) list"

definition table_counts :: "(string \<times> (db \<Rightarrow> nat)) list" where
  "table_counts =
     [(''application_state'', \<lambda>d. length (t_state d)), (''bot_events'', \<lambda>d. length (t_bot_events d)),
      (''broker_events'', \<lambda>d. length (t_broker_events d)), (''contract_metadata'', \<lambda>d. length (t_contracts d)),
      (''daily_performance'', \<lambda>d. length (t_performance d)), (''fills'', \<lambda>d. length (t_fills d)),
      (''orders'', \<lambda>d. length (t_orders d)), (''positions'', \<lambda>d. length (t_positions d)),
      (''risk_decisions'', \<lambda>d. length (t_risk_decisions d)),
      (''schema_migrations'', \<lambda>d. length (schema_versions d)), (''signals'', \<lambda>d. length (t_signals d))]"

fun count_tables :: "(string \<times> (db \<Rightarrow> nat)) list \<Rightarrow> (db, (string \<times> nat) list) action" where
  "count_tables [] = sreturn []"
| "count_tables ((name, n) # ts) =
     sbind (query n) (\<lambda>k. sbind (count_tables ts) (\<lambda>ks. sreturn ((name, k) # ks)))"

definition gather_database_info :: "(db, database_info) action" where
  "gather_database_info =
     sbind db_connect (\<lambda>_.
     sbind (query (\<lambda>_. ())) (\<lambda>_.
     sbind (query (\<lambda>_. ())) (\<lambda>_.
     sbind (count_tables table_counts) (\<lambda>counts.
     sbind schema_version (\<lambda>v.
     sreturn \<lparr> di_schema_version = v, di_tables = counts \<rparr>)))))"

definition database_info_of :: "(db, database_info option) action" where
  "database_info_of = (\<lambda>d.
     (case gather_database_info d of
        (Inr i, d') \<Rightarrow> (Inr (Some i), d')
      | (Inl e, d') \<Rightarrow> if e \<in> {DatabaseError, OSError} then (Inr None, d') else (Inl e, d')))"

record status_payload =
  sy_state :: application_state
  sy_run_id :: string
  sy_app_env :: string
  sy_last_error :: "string option"
  sy_build :: build_info
  sy_safety :: safety_summary
  sy_kill_switch :: ks_description
  sy_permission :: "bool \<times> bool option \<times> bool \<times> string"
  sy_transmit_gate :: gate_decision
  sy_connection_state :: connection_state
  sy_account_type :: account_type
  sy_account_id :: string
  sy_connection :: "connection_info option"
  sy_contract :: "qualified_contract option"
  sy_market_data :: "market_data_status option"
  sy_positions :: "position list"
  sy_open_orders_count :: nat
  sy_reconciliation :: reconciliation_result
  sy_risk_limits :: risk_limits
  sy_strategy :: "(string \<times> bool) option"
  sy_database :: "database_info option"
  sy_performance :: daily_performance
  sy_generated_at :: instant

definition market_status :: "('b, 'z) runtime_env \<Rightarrow> (('b, 'z) app, market_data_status option) action" where
  "market_status E =
     sbind (sgets ap_session) (\<lambda>session.
     (case session of
        None \<Rightarrow> sreturn None
      | Some ss \<Rightarrow>
          sbind (sgets ap_contract) (\<lambda>c.
          sbind (utc_now E) (\<lambda>now. sbind (utc_now E) (\<lambda>now'.
          sreturn (Some (md_status (ss_market ss) (map_option qualified_key c) now now')))))))"

definition status_payload :: "('b, 'z) runtime_env \<Rightarrow> string \<Rightarrow> (('b, 'z) app, status_payload) action" where
  "status_payload E version =
     sbind (kill_switch_engaged E) (\<lambda>engaged.
     sbind (on_store (ks_describe (cfg_kill_switch (en_config E)) (Some get_state))) (\<lambda>switch.
     sbind (build_gate_context E False) (\<lambda>gx.
     sbind (market_status E) (\<lambda>market.
     sbind (on_store open_orders) (\<lambda>working.
     sbind (on_store database_info_of) (\<lambda>database.
     sbind (utc_now E) (\<lambda>today.
     sbind (on_store (performance_get (utc_day today))) (\<lambda>performance.
     sbind (utc_now E) (\<lambda>now.
     sgets (\<lambda>s.
       \<lparr> sy_state = ap_state s, sy_run_id = en_run_id E, sy_app_env = app_env (en_config E),
         sy_last_error = ap_last_error s, sy_build = build_info_of version (en_config E),
         sy_safety = safety_summary_of (en_config E) engaged, sy_kill_switch = switch,
         sy_permission =
           (broker_permission_ready E s, Option.bind (ap_account s) futures_permission,
            cfg_sol_futures_permission_ready (en_config E), permission_source s),
         sy_transmit_gate = gate_evaluate (en_config E) gx,
         sy_connection_state = connection_state_of E s, sy_account_type = account_type_of E s,
         sy_account_id = mask_account_id (map_option as_account_id (ap_account s)),
         sy_connection = map_option (\<lambda>ss. br_connection_info (en_broker E) (ss_broker ss)) (ap_session s),
         sy_contract = ap_contract s, sy_market_data = market, sy_positions = book_all (ap_book s),
         sy_open_orders_count = length working, sy_reconciliation = ap_reconciliation s,
         sy_risk_limits = cfg_risk (en_config E),
         sy_strategy = map_option (\<lambda>g. (sg_name g, sg_enabled g)) (ap_strategy s),
         sy_database = database, sy_performance = performance, sy_generated_at = now \<rparr>))))))))))"

section \<open>The HTTP server\<close>

definition max_request_bytes :: nat where
  "max_request_bytes = 8 * 1024"

definition max_header_lines :: nat where
  "max_header_lines = 64"

datatype http_body =
    Body_Health health
  | Body_Status status_payload
  | Body_Endpoints
  | Body_Not_Found
  | Body_Method_Not_Allowed

text \<open>\<^verbatim>\<open>path.split("?", 1)[0].rstrip("/") or "/"\<close>.\<close>

definition route_of :: "string \<Rightarrow> string" where
  "route_of path =
     (let bare = rev (dropWhile (\<lambda>c. c = CHR ''/'') (rev (takeWhile (\<lambda>c. c \<noteq> CHR ''?'') path)))
      in if bare = [] then ''/'' else bare)"

definition reason_phrase :: "int \<Rightarrow> string" where
  "reason_phrase code =
     (if code = 404 then ''Not Found'' else if code = 405 then ''Method Not Allowed''
      else if code = 503 then ''Service Unavailable'' else ''OK'')"

type_synonym reads = "string result list"

definition read_line :: "reads \<Rightarrow> string result \<times> reads" where
  "read_line rs = (case rs of [] \<Rightarrow> (Inr [], []) | r # rest \<Rightarrow> (r, rest))"

definition blank_lines :: "string list" where
  "blank_lines = [[CHR 0x0D, CHR 0x0A], [CHR 0x0A], []]"

text \<open>The headers: at most the bound is read.\<close>

fun drain_headers :: "nat \<Rightarrow> reads \<Rightarrow> unit result" where
  "drain_headers 0 rs = Inr ()"
| "drain_headers (Suc n) rs =
     (case read_line rs of
        (Inl e, _) \<Rightarrow> Inl e
      | (Inr line, rest) \<Rightarrow> if line \<in> set blank_lines then Inr () else drain_headers n rest)"

definition dispatch ::
  "('b, 'z) runtime_env \<Rightarrow> string \<Rightarrow> string \<Rightarrow> string \<Rightarrow> (('b, 'z) app, int \<times> http_body) action" where
  "dispatch E version http_method path =
     (if http_method \<noteq> ''GET'' then sreturn (405, Body_Method_Not_Allowed)
      else (let route = route_of path in
        if route \<in> {''/health'', ''/healthz''} then
          sbind health_payload (\<lambda>(code, h). sreturn (code, Body_Health h))
        else if route = ''/status'' then
          sbind (status_payload E version) (\<lambda>p. sreturn (200, Body_Status p))
        else if route = ''/'' then sreturn (200, Body_Endpoints)
        else sreturn (404, Body_Not_Found)))"

definition answer_request ::
  "('b, 'z) runtime_env \<Rightarrow> string \<Rightarrow> reads \<Rightarrow> (('b, 'z) app, (int \<times> http_body) option) action" where
  "answer_request E version rs =
     (case read_line rs of
        (Inl e, _) \<Rightarrow> sraise e
      | (Inr line, rest) \<Rightarrow>
          if line = [] \<or> max_request_bytes < length line then sreturn None
          else (case py_words line of
                  m # path # _ \<Rightarrow>
                    sbind (slift (drain_headers max_header_lines rest)) (\<lambda>_.
                    sbind (dispatch E version (py_upper m) path) (\<lambda>a. sreturn (Some a)))
                | _ \<Rightarrow> sreturn None))"

text \<open>Every exception ends here, with no answer.\<close>

definition handle_request ::
  "('b, 'z) runtime_env \<Rightarrow> string \<Rightarrow> reads \<Rightarrow> (('b, 'z) app, (int \<times> http_body) option) action" where
  "handle_request E version rs = (\<lambda>s.
     (case answer_request E version rs s of (Inl e, s') \<Rightarrow> (Inr None, s') | (Inr a, s') \<Rightarrow> (Inr a, s')))"

end
