(* ===== verification/StatusFacts.thy ===== *)
theory StatusFacts
  imports Status Trading
begin

text \<open>
  Monitoring observes: no request over HTTP raises or changes what the application decides from, and
  what the answers say of it.
\<close>

section \<open>Requests only read\<close>

text \<open>The application without its pending faults, the connection flag and the number of clock readings.\<close>

definition tables_of :: "db \<Rightarrow> db" where
  "tables_of d = d \<lparr> db_faults := [], db_open := False \<rparr>"

definition visible :: "('b, 'z) app \<Rightarrow> ('b, 'z) app" where
  "visible s = s \<lparr> ap_db := tables_of (ap_db s), ap_reads := 0 \<rparr>"

lemma observes_tables_of [simp]: "observes tables_of"
  by (simp add: observes_def tables_of_def)

lemma visible_store: "keeps tables_of m \<Longrightarrow> keeps visible (on_store m)"
  by (auto simp: keeps_def on_store_def visible_def split: prod.splits)

lemma visible_clock: "keeps visible (utc_now E)"
  by (simp add: keeps_def utc_now_def visible_def)

lemma keeps_switch:
  assumes get: "\<And>k. keeps g (get k)"
  shows "keeps g (ks_engaged b (Some get))" and "keeps g (ks_describe b (Some get))"
proof -
  have latched: "keeps g (ks_latched (Some get))"
    unfolding ks_latched_def using get by (auto intro: keeps_sbind)
  show engaged: "keeps g (ks_engaged b (Some get))" for b
    unfolding ks_engaged_def using latched by (auto simp: keeps_def split: prod.splits sum.splits)
  have detail: "g d2 = g d" if "ks_detail (Some get) d = (x, d2)" for d x d2
    using that get unfolding keeps_def ks_detail_def by (auto split: prod.splits sum.splits)
  show "keeps g (ks_describe b (Some get))"
  proof (rule keepsI)
    fix d r d' assume run: "ks_describe b (Some get) d = (r, d')"
    obtain x d1 where 1: "ks_latched (Some get) d = (x, d1)" by (metis surj_pair)
    obtain reason since d2 where 2: "ks_detail (Some get) d1 = ((reason, since), d2)" by (metis surj_pair)
    obtain z d3 where 3: "ks_engaged b (Some get) d2 = (z, d3)" by (metis surj_pair)
    have "d' = d3" using run 1 2 3 by (cases x; cases z) (auto simp: ks_describe_def)
    then show "g d' = g d"
      using keepsD [OF latched 1] detail [OF 2] keepsD [OF engaged 3] by simp
  qed
qed

lemma switch_reads:
  "keeps tables_of (ks_engaged b (Some get_state))" "keeps tables_of (ks_describe b (Some get_state))"
  by (intro keeps_switch keeps_reads observes_tables_of)+

lemma database_reads: "keeps tables_of database_info_of"
proof -
  have "keeps tables_of (count_tables ts)" for ts
    by (induction ts rule: count_tables.induct) (auto intro!: keeps_sbind keeps_query)
  moreover have "keeps tables_of schema_version"
    using keeps_query [OF observes_tables_of] unfolding keeps_def schema_version_def
    by (fastforce split: prod.splits sum.splits)
  ultimately have "keeps tables_of gather_database_info"
    unfolding gather_database_info_def by (intro keeps_sbind keeps_connect keeps_query keeps_pure observes_tables_of)
  then show ?thesis
    by (auto simp: keeps_def database_info_of_def split: prod.splits sum.splits)
qed

lemma visible_contexts: "keeps visible (build_gate_context E b)" "keeps visible (market_status E)"
  unfolding build_gate_context_def market_status_def
  by (auto intro!: keeps_sbind visible_clock split: option.splits)

lemma visible_status: "keeps visible (status_payload E version)"
proof -
  have "keeps tables_of open_orders" "keeps tables_of (performance_get d)" for d
    by (rule keeps_reads; simp)+
  then show ?thesis
    unfolding status_payload_def kill_switch_engaged_def
    by (intro keeps_sbind visible_store switch_reads visible_contexts visible_clock database_reads keeps_pure)
qed

lemma visible_health: "keeps visible health_payload"
proof -
  have "tables_of (snd (db_healthy d)) = tables_of d" for d
    using keepsD [OF keeps_query [OF observes_tables_of, of "\<lambda>_. True"]]
    by (auto simp: db_healthy_def split: prod.splits sum.splits)
  then show ?thesis
    by (auto simp: keeps_def health_payload_def visible_def Let_def split: prod.splits) (metis snd_conv)+
qed

lemma visible_answer: "keeps visible (answer_request E version rs)"
proof -
  have "keeps visible (dispatch E version m path)" for m path
    unfolding dispatch_def Let_def by (auto intro!: keeps_sbind visible_health visible_status)
  then show ?thesis
    unfolding answer_request_def by (auto intro!: keeps_sbind split: prod.splits sum.splits list.splits)
qed

section \<open>Properties\<close>


text \<open>
  C26: The status page cannot answer whether the process may trade: the gate it shows is asked about
  an order the risk manager has not approved, so it refuses in every state of the application, the
  ones in which the next intent is transmitted included.
\<close>

theorem status_gate_never_allows:
  assumes "status_payload E version s = (Inr p, t)"
  shows "\<not> gd_allowed (sy_transmit_gate p) \<and> Risk_Not_Approved \<in> set (gd_reasons (sy_transmit_gate p))"
proof -
  from assms obtain gx s1 s2 where gx: "build_gate_context E False s1 = (Inr gx, s2)"
    and p: "sy_transmit_gate p = gate_evaluate (en_config E) gx"
    by (auto simp: status_payload_def elim!: sbind_InrE)
  have "gate_fails Risk_Not_Approved (en_config E, gx)" using gate_context_holds(4) [OF gx] by simp
  with p gate_reasons_iff [of Risk_Not_Approved] gate.failing_refuses [OF this] show ?thesis
    by (simp add: gate_allows_def)
qed

lemma ready_app_status:
  "(case fst (status_payload sample_env ''1.0'' ready_app) of Inl e \<Rightarrow> False | Inr p \<Rightarrow> True)"
  by code_simp

theorem status_gate_never_allows_witness:
  "(case fst (status_payload sample_env ''1.0'' ready_app) of Inl e \<Rightarrow> False | Inr p \<Rightarrow> \<not> gd_allowed (sy_transmit_gate p))
   \<and> executed (snd (handle_intent sample_env Market None (long_intent ''a'') ready_app)) = Some [1]"
  using ready_app_status ready_app_trades
    status_gate_never_allows [of sample_env "''1.0''" ready_app _ "snd (status_payload sample_env ''1.0'' ready_app)"]
  by (auto simp: prod_eq_iff split: sum.splits)

text \<open>What the health check tells: only a lost database, the state ERROR or the shutdown is unhealthy.\<close>

theorem health_is_not_readiness:
  "\<exists>h t. dispatch E version ''GET'' ''/health'' s = (Inr (if fst (db_healthy (ap_db s)) \<and> ap_state s \<noteq> App_Error
     \<and> \<not> ap_shutting_down s then 200 else 503, Body_Health h), t)"
  by (auto simp: dispatch_def route_of_def health_payload_def evaluate_health_def http_status_def Let_def sbind_def
      split: prod.splits)

text \<open>A request line that is no GET, or is too long, reaches neither payload.\<close>

theorem only_get_is_served:
  "m \<noteq> ''GET'' \<Longrightarrow> dispatch E version m path s = (Inr (405, Body_Method_Not_Allowed), s)"
  "max_request_bytes < length line \<Longrightarrow> handle_request E version (Inr line # rs) s = (Inr None, s)"
  by (simp_all add: dispatch_def handle_request_def answer_request_def read_line_def)

end
