(* ===== verification/Bars.thy ===== *)
theory Bars
  imports PyNum TimeUtils
begin

text \<open>
  \<^verbatim>\<open>app/backtest/models.py\<close> and \<^verbatim>\<open>sources.py\<close>: historical bars, the gaps between them, and the two
  sources they are imported from. A source is a generator: its outcome is the bars it yielded and the
  exception that ended it, if one did.

  What a source reads is an argument: the rows of the file, and the replies of the server, one for
  each page. A value of the JSON payload or of a row is a \<open>raw_value\<close>. The reading of a time text
  (\<^verbatim>\<open>fromisoformat\<close>, or \<^verbatim>\<open>strptime\<close> with the format given) is an argument too. Opening the file and
  the texts of the errors are left out.
\<close>

section \<open>Bars\<close>

definition proxy_sources :: "string list" where
  "proxy_sources = [''binance'', ''coinbase'', ''kraken'']"

definition interval_seconds :: "(string \<times> int) list" where
  "interval_seconds =
     [(''1m'', 60), (''5m'', 300), (''15m'', 900), (''1h'', 3600), (''1d'', 86400)]"

definition interval_micros :: "string \<Rightarrow> int result" where
  "interval_micros i = (case map_of interval_seconds i of None \<Rightarrow> Inl KeyError | Some s \<Rightarrow> Inr (s * 1000000))"

record bar =
  ba_source :: string
  ba_symbol :: string
  ba_interval :: string
  ba_opened_at :: instant
  ba_open :: decimal
  ba_high :: decimal
  ba_low :: decimal
  ba_close :: decimal
  ba_volume :: decimal

text \<open>\<^verbatim>\<open>low <= price <= high\<close>: the second comparison is made only after the first holds.\<close>

definition in_range :: "decimal \<Rightarrow> decimal \<Rightarrow> decimal \<Rightarrow> bool result" where
  "in_range low price high = ebind (dec_leq low price) (\<lambda>ok. if ok then dec_leq price high else Inr False)"

definition require_in_range :: "bar \<Rightarrow> decimal \<Rightarrow> unit result" where
  "require_in_range b price =
     ebind (in_range (ba_low b) price (ba_high b)) (\<lambda>ok. guard_raise (\<not> ok) BarError)"

definition check_bar :: "bar \<Rightarrow> unit result" where
  "check_bar b =
     ebind (guard_raise (py_strip (ba_source b) = []) BarError) (\<lambda>_.
     ebind (guard_raise (map_of interval_seconds (ba_interval b) = None) BarError) (\<lambda>_.
     ebind (dec_less (ba_high b) (ba_low b)) (\<lambda>upside_down.
     ebind (guard_raise upside_down BarError) (\<lambda>_.
     ebind (require_in_range b (ba_open b)) (\<lambda>_.
     ebind (require_in_range b (ba_close b)) (\<lambda>_.
     ebind (dec_less (ba_volume b) (dec_of_int 0)) (\<lambda>negative.
       guard_raise negative BarError)))))))"

text \<open>The constructor; a naive time is refused first, whatever zone an aware one has it is kept.\<close>

definition make_bar :: "bar \<Rightarrow> datetime \<Rightarrow> bar result" where
  "make_bar b opened_at =
     ebind (ensure_utc opened_at) (\<lambda>t.
     (let b' = b \<lparr> ba_opened_at := t \<rparr> in ebind (check_bar b') (\<lambda>_. Inr b')))"

definition is_proxy :: "bar \<Rightarrow> bool" where
  "is_proxy b = (py_lower (ba_source b) \<in> set proxy_sources)"

definition closed_at :: "bar \<Rightarrow> instant result" where
  "closed_at b = ebind (interval_micros (ba_interval b)) (\<lambda>d. Inr (Micros (micros (ba_opened_at b) + d)))"

section \<open>Gaps\<close>

record bar_gap =
  gap_after :: instant
  gap_before :: instant
  missing_bars :: int

text \<open>
  Between two neighbours. The division of the elapsed seconds is one of floats; on microseconds it is
  exact for gaps below two centuries.
\<close>

definition gap_between :: "int \<Rightarrow> bar \<Rightarrow> bar \<Rightarrow> bar_gap list" where
  "gap_between step previous current =
     (let elapsed = micros (ba_opened_at current) - micros (ba_opened_at previous)
      in if elapsed > step
         then [\<lparr> gap_after = ba_opened_at previous, gap_before = ba_opened_at current,
                missing_bars = elapsed div step - 1 \<rparr>]
         else [])"

fun gaps_from :: "int \<Rightarrow> bar list \<Rightarrow> bar_gap list" where
  "gaps_from step (b # c # bs) = gap_between step b c @ gaps_from step (c # bs)"
| "gaps_from step bs = []"

definition find_gaps :: "bar list \<Rightarrow> bar_gap list result" where
  "find_gaps bs =
     (if length bs < 2 then Inr []
      else ebind (interval_micros (ba_interval (hd bs))) (\<lambda>step. Inr (gaps_from step bs)))"

section \<open>Numbers\<close>

text \<open>
  \<open>R_Float\<close> is a JSON number with a fraction or an exponent: its text and what \<^verbatim>\<open>int\<close> makes of it;
  \<open>R_Other\<close> any other value, by its text.
\<close>

datatype raw_value = R_Text string | R_Int int | R_Float string "int result" | R_Other string

fun raw_text :: "raw_value \<Rightarrow> string" where
  "raw_text (R_Text s) = s"
| "raw_text (R_Int i) = int_str i"
| "raw_text (R_Float s i) = s"
| "raw_text (R_Other s) = s"

fun raw_int :: "raw_value \<Rightarrow> int result" where
  "raw_int (R_Text s) = (case py_int s of None \<Rightarrow> Inl ValueError | Some i \<Rightarrow> Inr i)"
| "raw_int (R_Int i) = Inr i"
| "raw_int (R_Float s i) = i"
| "raw_int (R_Other s) = Inl TypeError"

definition to_decimal :: "raw_value \<Rightarrow> decimal result" where
  "to_decimal v = (case py_decimal (raw_text v) of None \<Rightarrow> Inl BarError | Some d \<Rightarrow> Inr d)"

text \<open>The five numbers of a bar, in the order they are read, and the constructor.\<close>

definition bar_from ::
  "string \<Rightarrow> string \<Rightarrow> string \<Rightarrow> instant \<Rightarrow> raw_value result \<Rightarrow> raw_value result \<Rightarrow> raw_value result
     \<Rightarrow> raw_value result \<Rightarrow> raw_value result \<Rightarrow> bar result" where
  "bar_from source symbol interval t v_open v_high v_low v_close v_volume =
     ebind (ebind v_open to_decimal) (\<lambda>p_open.
     ebind (ebind v_high to_decimal) (\<lambda>p_high.
     ebind (ebind v_low to_decimal) (\<lambda>p_low.
     ebind (ebind v_close to_decimal) (\<lambda>p_close.
     ebind (ebind v_volume to_decimal) (\<lambda>volume.
     make_bar
       \<lparr> ba_source = source, ba_symbol = symbol, ba_interval = interval, ba_opened_at = t,
         ba_open = p_open, ba_high = p_high, ba_low = p_low, ba_close = p_close, ba_volume = volume \<rparr>
       (Aware t))))))"

text \<open>An \<^verbatim>\<open>except\<close> clause that turns some exceptions into another.\<close>

definition reraise :: "exn set \<Rightarrow> exn \<Rightarrow> 'a result \<Rightarrow> 'a result" where
  "reraise caught e' r = (case r of Inl e \<Rightarrow> Inl (if e \<in> caught then e' else e) | Inr x \<Rightarrow> Inr x)"

section \<open>CSV files\<close>

type_synonym csv_row = "string \<Rightarrow> raw_value option"

record csv_source =
  cs_source_name :: string
  cs_columns :: "(string \<times> string) list"

definition required_columns :: "string list" where
  "required_columns = [''opened_at'', ''open'', ''high'', ''low'', ''close'']"

definition make_csv_source :: "string \<Rightarrow> (string \<times> string) list \<Rightarrow> csv_source result" where
  "make_csv_source source_name columns =
     (if list_all (\<lambda>c. map_of columns c \<noteq> None) required_columns
      then Inr \<lparr> cs_source_name = source_name, cs_columns = columns \<rparr>
      else Inl HistoricalSourceError)"

text \<open>\<^verbatim>\<open>row[self.columns[name]]\<close>.\<close>

definition csv_field :: "csv_source \<Rightarrow> csv_row \<Rightarrow> string \<Rightarrow> raw_value result" where
  "csv_field S row name =
     (case Option.bind (map_of (cs_columns S) name) row of None \<Rightarrow> Inl KeyError | Some v \<Rightarrow> Inr v)"

text \<open>\<^verbatim>\<open>row.get(self.columns.get("volume", ""), 0) or 0\<close>; of the falsy values a row can hold the empty text
  and \<^verbatim>\<open>None\<close>.\<close>

definition csv_volume :: "csv_source \<Rightarrow> csv_row \<Rightarrow> raw_value" where
  "csv_volume S row =
     (case row (or_else (map_of (cs_columns S) ''volume'') []) of
        None \<Rightarrow> R_Int 0
      | Some v \<Rightarrow> if v = R_Text [] \<or> v = R_Other ''None'' then R_Int 0 else v)"

definition csv_timestamp :: "(string \<Rightarrow> instant result) \<Rightarrow> raw_value \<Rightarrow> instant result" where
  "csv_timestamp parse_time v = (case v of R_Text s \<Rightarrow> parse_time s | _ \<Rightarrow> Inl TypeError)"

text \<open>One row: passed over, a bar, or the exception that ends the import.\<close>

definition csv_bar ::
  "(string \<Rightarrow> instant result) \<Rightarrow> csv_source \<Rightarrow> string \<Rightarrow> string \<Rightarrow> instant \<Rightarrow> instant \<Rightarrow> csv_row
     \<Rightarrow> bar option result" where
  "csv_bar parse_time S symbol interval start finish row =
     ebind (reraise {KeyError, ValueError, BarError} HistoricalSourceError
              (ebind (csv_field S row ''opened_at'') (csv_timestamp parse_time))) (\<lambda>t.
     if \<not> (start \<le> t \<and> t < finish) then Inr None
     else ebind (reraise {BarError, KeyError} HistoricalSourceError
                  (bar_from (cs_source_name S) symbol interval t (csv_field S row ''open'')
                     (csv_field S row ''high'') (csv_field S row ''low'') (csv_field S row ''close'')
                     (Inr (csv_volume S row)))) (\<lambda>b. Inr (Some b)))"

fun csv_bars ::
  "(string \<Rightarrow> instant result) \<Rightarrow> csv_source \<Rightarrow> string \<Rightarrow> string \<Rightarrow> instant \<Rightarrow> instant \<Rightarrow> csv_row list
     \<Rightarrow> bar list \<times> exn option" where
  "csv_bars parse_time S symbol interval start finish [] = ([], None)"
| "csv_bars parse_time S symbol interval start finish (row # rows) =
     (case csv_bar parse_time S symbol interval start finish row of
        Inl e \<Rightarrow> ([], Some e)
      | Inr None \<Rightarrow> csv_bars parse_time S symbol interval start finish rows
      | Inr (Some b) \<Rightarrow>
          (case csv_bars parse_time S symbol interval start finish rows of (bs, e) \<Rightarrow> (b # bs, e)))"

definition csv_fetch ::
  "(string \<Rightarrow> instant result) \<Rightarrow> csv_source \<Rightarrow> string \<Rightarrow> string \<Rightarrow> datetime \<Rightarrow> datetime \<Rightarrow> csv_row list
     \<Rightarrow> bar list \<times> exn option" where
  "csv_fetch parse_time S symbol interval start finish rows =
     (case (ensure_utc start, ensure_utc finish) of
        (Inr s, Inr f) \<Rightarrow> csv_bars parse_time S symbol interval s f rows
      | (Inl e, _) \<Rightarrow> ([], Some e)
      | (_, Inl e) \<Rightarrow> ([], Some e))"

section \<open>Klines over HTTP\<close>

definition page_limit :: int where
  "page_limit = 1000"

definition max_pages :: nat where
  "max_pages = 2000"

definition binance_intervals :: "(string \<times> string) list" where
  "binance_intervals = [(''1m'', ''1m''), (''5m'', ''5m''), (''15m'', ''15m''), (''1h'', ''1h''), (''1d'', ''1d'')]"

record kline_request =
  kr_symbol :: string
  kr_interval :: string
  kr_start :: int
  kr_end :: int
  kr_limit :: int

text \<open>What a request comes back with. Entries of a page are arrays; other entries are left out.\<close>

datatype page_reply =
    Unreachable
  | Invalid_JSON
  | Not_A_List
  | Opener_Raises exn
  | Klines "raw_value list list"

text \<open>\<^verbatim>\<open>int(t.timestamp() * 1000)\<close>, in floating point.\<close>

fun flt_truncate :: "pyfloat \<Rightarrow> int result" where
  "flt_truncate (Flt r) = Inr (if 0 \<le> r then \<lfloor>r\<rfloor> else - \<lfloor>- r\<rfloor>)"
| "flt_truncate FNaN = Inl ValueError"
| "flt_truncate (FInf b) = Inl OverflowError"

definition to_millis :: "instant \<Rightarrow> int result" where
  "to_millis t = flt_truncate (flt_mul (rnd (of_int (micros t) / 1000000)) (Flt 1000))"

definition page_of ::
  "(kline_request \<Rightarrow> page_reply) \<Rightarrow> string \<Rightarrow> string \<Rightarrow> instant \<Rightarrow> instant \<Rightarrow> raw_value list list result" where
  "page_of server symbol interval start finish =
     ebind (case map_of binance_intervals interval of None \<Rightarrow> Inl KeyError | Some i \<Rightarrow> Inr i) (\<lambda>i.
     ebind (to_millis start) (\<lambda>s.
     ebind (to_millis finish) (\<lambda>f.
     case server \<lparr> kr_symbol = symbol, kr_interval = i, kr_start = s, kr_end = f, kr_limit = page_limit \<rparr> of
       Klines rows \<Rightarrow> Inr rows
     | Opener_Raises e \<Rightarrow> Inl (if e = OSError then HistoricalSourceError else e)
     | _ \<Rightarrow> Inl HistoricalSourceError)))"

definition raw_nth :: "raw_value list \<Rightarrow> nat \<Rightarrow> raw_value result" where
  "raw_nth row n = (if n < length row then Inr (row ! n) else Inl IndexError)"

text \<open>
  \<^verbatim>\<open>fromtimestamp(ms / 1000)\<close>: the instant of that millisecond (in floating point it is hit exactly
  up to the year 2106), for years the type can hold.
\<close>

definition from_millis :: "int \<Rightarrow> instant result" where
  "from_millis ms =
     (if - 62135596800000 \<le> ms \<and> ms < 253402300800000 then Inr (Micros (ms * 1000))
      else if \<bar>ms\<bar> < 9223372036854775808000 then Inl ValueError else Inl OverflowError)"

definition kline_open_time :: "raw_value list \<Rightarrow> instant result" where
  "kline_open_time row =
     reraise {IndexError, TypeError, ValueError} HistoricalSourceError
       (ebind (raw_nth row 0) (\<lambda>v. ebind (raw_int v) from_millis))"

definition bar_from_kline :: "string \<Rightarrow> string \<Rightarrow> raw_value list \<Rightarrow> bar result" where
  "bar_from_kline symbol interval row =
     reraise {IndexError, BarError} HistoricalSourceError
       (ebind (kline_open_time row) (\<lambda>t.
        bar_from ''binance'' symbol interval t (raw_nth row 1) (raw_nth row 2) (raw_nth row 3)
          (raw_nth row 4) (raw_nth row 5)))"

text \<open>The bars of one page: those yielded, and how it ended.\<close>

datatype page_end = Page_Done | Past_End | Page_Raised exn

fun page_bars :: "string \<Rightarrow> string \<Rightarrow> instant \<Rightarrow> raw_value list list \<Rightarrow> bar list \<times> page_end" where
  "page_bars symbol interval finish [] = ([], Page_Done)"
| "page_bars symbol interval finish (row # rows) =
     (case bar_from_kline symbol interval row of
        Inl e \<Rightarrow> ([], Page_Raised e)
      | Inr b \<Rightarrow>
          if finish \<le> ba_opened_at b then ([], Past_End)
          else (case page_bars symbol interval finish rows of (bs, e) \<Rightarrow> (b # bs, e)))"

text \<open>The loop over the pages; \<open>left\<close> are the pages it may still ask for.\<close>

fun fetch_pages ::
  "(kline_request \<Rightarrow> page_reply) \<Rightarrow> string \<Rightarrow> string \<Rightarrow> int \<Rightarrow> instant \<Rightarrow> nat \<Rightarrow> instant
     \<Rightarrow> bar list \<times> exn option" where
  "fetch_pages server symbol interval step finish 0 cursor =
     (if cursor < finish then ([], Some HistoricalSourceError) else ([], None))"
| "fetch_pages server symbol interval step finish (Suc left) cursor =
     (if \<not> cursor < finish then ([], None)
      else (case page_of server symbol interval cursor finish of
              Inl e \<Rightarrow> ([], Some e)
            | Inr rows \<Rightarrow>
                if rows = [] then ([], None)
                else (case page_bars symbol interval finish rows of
                        (bs, Past_End) \<Rightarrow> (bs, None)
                      | (bs, Page_Raised e) \<Rightarrow> (bs, Some e)
                      | (bs, Page_Done) \<Rightarrow>
                          (case kline_open_time (last rows) of
                             Inl e \<Rightarrow> (bs, Some e)
                           | Inr t \<Rightarrow>
                               (case fetch_pages server symbol interval step finish left
                                       (Micros (max (micros t + step) (micros cursor + step))) of
                                  (rest, e) \<Rightarrow> (bs @ rest, e))))))"

definition binance_fetch ::
  "(kline_request \<Rightarrow> page_reply) \<Rightarrow> string \<Rightarrow> string \<Rightarrow> datetime \<Rightarrow> datetime \<Rightarrow> bar list \<times> exn option" where
  "binance_fetch server symbol interval start finish =
     (case (ensure_utc start, ensure_utc finish) of
        (Inl e, _) \<Rightarrow> ([], Some e)
      | (_, Inl e) \<Rightarrow> ([], Some e)
      | (Inr s, Inr f) \<Rightarrow>
          if map_of binance_intervals interval = None then ([], Some HistoricalSourceError)
          else (case interval_micros interval of
                  Inl e \<Rightarrow> ([], Some e)
                | Inr step \<Rightarrow> fetch_pages server symbol interval step f max_pages s))"

end
