(* ===== verification/BarStore.thy ===== *)
theory BarStore
  imports Bars Store
begin

text \<open>
  \<^verbatim>\<open>app/backtest/store.py\<close>: the table of historical bars, beside the other tables of the database.
  Its rows are the bars themselves (times and prices are stored as texts that read back as what was
  written, and the order of the time texts is that of the times); a statement on it may fail like
  any other.
\<close>

section \<open>The table\<close>

type_synonym bar_db = "db \<times> bar list"

type_synonym bar_key = "string \<times> string \<times> string \<times> instant"

definition bar_key :: "bar \<Rightarrow> bar_key" where
  "bar_key b = (ba_source b, ba_symbol b, ba_interval b, ba_opened_at b)"

definition bar_statement :: "(bar list \<Rightarrow> 'a \<times> bar list) \<Rightarrow> (bar_db, 'a) action" where
  "bar_statement f = (\<lambda>(d, bars).
     (case statement (\<lambda>d. (Inr (), d)) d of
        (Inl e, d') \<Rightarrow> (Inl e, (d', bars))
      | (Inr _, d') \<Rightarrow> (case f bars of (x, bars') \<Rightarrow> (Inr x, (d', bars')))))"

text \<open>\<^verbatim>\<open>INSERT OR IGNORE\<close>: the number of rows it added.\<close>

definition insert_bar :: "bar \<Rightarrow> (bar_db, nat) action" where
  "insert_bar b = bar_statement (\<lambda>bars.
     if \<exists>r \<in> set bars. bar_key r = bar_key b then (0, bars) else (1, bars @ [b]))"

fun insert_many :: "bar list \<Rightarrow> (bar_db, nat) action" where
  "insert_many [] = sreturn 0"
| "insert_many (b # bs) = sbind (insert_bar b) (\<lambda>k. sbind (insert_many bs) (\<lambda>n. sreturn (k + n)))"

text \<open>Reading back runs the constructor again.\<close>

fun rows_to_bars :: "bar list \<Rightarrow> bar list result" where
  "rows_to_bars [] = Inr []"
| "rows_to_bars (r # rs) =
     ebind (make_bar r (Aware (ba_opened_at r))) (\<lambda>b. ebind (rows_to_bars rs) (\<lambda>bs. Inr (b # bs)))"

definition matches_range ::
  "string \<Rightarrow> string \<Rightarrow> string \<Rightarrow> instant option \<Rightarrow> instant option \<Rightarrow> bar \<Rightarrow> bool" where
  "matches_range source symbol interval start finish b =
     (ba_source b = source \<and> ba_symbol b = symbol \<and> ba_interval b = interval
      \<and> (case start of None \<Rightarrow> True | Some t \<Rightarrow> t \<le> ba_opened_at b)
      \<and> (case finish of None \<Rightarrow> True | Some t \<Rightarrow> ba_opened_at b < t))"

definition load_bars ::
  "string \<Rightarrow> string \<Rightarrow> string \<Rightarrow> instant option \<Rightarrow> instant option \<Rightarrow> (bar_db, bar list) action" where
  "load_bars source symbol interval start finish =
     sbind (bar_statement (\<lambda>bars.
       (sort_key ba_opened_at (filter (matches_range source symbol interval start finish) bars), bars)))
     (\<lambda>rows. slift (rows_to_bars rows))"

record bar_series_info =
  bs_source :: string
  bs_symbol :: string
  bs_interval :: string
  bs_count :: nat
  bs_first_opened_at :: "instant option"
  bs_last_opened_at :: "instant option"
  bs_gaps :: "bar_gap list"

definition series_info :: "string \<Rightarrow> string \<Rightarrow> string \<Rightarrow> (bar_db, bar_series_info) action" where
  "series_info source symbol interval =
     sbind (load_bars source symbol interval None None) (\<lambda>bars.
     sbind (slift (find_gaps bars)) (\<lambda>gaps.
     sreturn
       \<lparr> bs_source = source, bs_symbol = symbol, bs_interval = interval, bs_count = length bars,
         bs_first_opened_at = (if bars = [] then None else Some (ba_opened_at (hd bars))),
         bs_last_opened_at = (if bars = [] then None else Some (ba_opened_at (last bars))),
         bs_gaps = gaps \<rparr>))"

definition stored_series :: "(bar_db, (string \<times> string \<times> string) list) action" where
  "stored_series = bar_statement (\<lambda>bars.
     (sort_key (\<lambda>(a, b, c). [a, b, c]) (remdups (map (\<lambda>b. (ba_source b, ba_symbol b, ba_interval b)) bars)), bars))"

section \<open>Imports\<close>

text \<open>What a run of inserts makes of the table.\<close>

fun add_bars :: "bar list \<Rightarrow> bar list \<Rightarrow> bar list" where
  "add_bars [] bars = bars"
| "add_bars (b # bs) bars =
     add_bars bs (if bar_key b \<in> bar_key ` set bars then bars else bars @ [b])"

lemma bar_statement_cases:
  assumes "bar_statement f (d, bars) = (r, (d', bars'))"
  obtains "r = Inl DatabaseError" "bars' = bars"
    | "r = Inr (fst (f bars))" "bars' = snd (f bars)"
proof -
  obtain x d1 where run: "statement (\<lambda>d. (Inr (), d)) d = ((x :: unit result), d1)"
    by (metis surj_pair)
  from run have "x = Inl DatabaseError \<or> x = Inr ()"
    by (cases rule: statement_cases) auto
  with assms run have
    "(r = Inl DatabaseError \<and> bars' = bars) \<or> (r = Inr (fst (f bars)) \<and> bars' = snd (f bars))"
    by (cases "f bars") (auto simp: bar_statement_def)
  with that show thesis by blast
qed

lemma insert_bar_result:
  assumes "insert_bar b (d, bars) = (r, (d', bars'))"
  obtains "r = Inl DatabaseError" "bars' = bars" | k where "r = Inr k" "bars' = add_bars [b] bars"
      "k = length bars' - length bars"
proof (cases rule: bar_statement_cases [OF assms [unfolded insert_bar_def]])
  case 1
  with that(1) show ?thesis by blast
next
  case 2
  have known: "(\<exists>x \<in> set bars. bar_key x = bar_key b) \<longleftrightarrow> bar_key b \<in> bar_key ` set bars"
    by (metis image_iff)
  show ?thesis
    by (rule that(2) [of "fst (if bar_key b \<in> bar_key ` set bars then (0, bars) else (1, bars @ [b]))"])
      (use 2 in \<open>simp_all add: known split: if_splits\<close>)
qed

lemma add_bars_append: "add_bars (xs @ ys) bars = add_bars ys (add_bars xs bars)"
  by (induction xs arbitrary: bars) auto

lemma add_bars_prefix: "\<exists>new. add_bars bs bars = bars @ new \<and> set new \<subseteq> set bs"
proof (induction bs arbitrary: bars)
  case Nil
  then show ?case by simp
next
  case (Cons b bs)
  show ?case
  proof (cases "bar_key b \<in> bar_key ` set bars")
    case True
    with Cons.IH [of bars] show ?thesis by (auto simp: image_iff)
  next
    case False
    obtain new where "add_bars bs (bars @ [b]) = (bars @ [b]) @ new" "set new \<subseteq> set bs"
      using Cons.IH [of "bars @ [b]"] by blast
    with False show ?thesis by (intro exI [of _ "b # new"]) auto
  qed
qed

lemma add_bars_keys: "bar_key ` set (add_bars bs bars) = bar_key ` set bars \<union> bar_key ` set bs"
  by (induction bs arbitrary: bars) auto

lemma add_bars_distinct: "distinct (map bar_key bars) \<Longrightarrow> distinct (map bar_key (add_bars bs bars))"
  by (induction bs arbitrary: bars) auto

lemma add_bars_present: "bar_key ` set bs \<subseteq> bar_key ` set bars \<Longrightarrow> add_bars bs bars = bars"
  by (induction bs) auto

lemma insert_many_result:
  "insert_many bs (d, bars) = (r, (d', bars')) \<Longrightarrow>
     (\<exists>k. bars' = add_bars (take k bs) bars) \<and> (\<forall>n. r = Inr n \<longrightarrow> bars' = add_bars bs bars \<and> n = length bars' - length bars)"
proof (induction bs arbitrary: d bars r d' bars')
  case Nil
  then show ?case by (auto intro: exI [of _ 0])
next
  case (Cons b bs)
  obtain x d1 bars1 where first: "insert_bar b (d, bars) = (x, (d1, bars1))" by (metis surj_pair)
  from first show ?case
  proof (cases rule: insert_bar_result)
    case 1
    with Cons.prems first have "r = Inl DatabaseError" "bars' = bars" by simp_all
    then show ?thesis by (auto intro: exI [of _ 0])
  next
    case (2 k)
    obtain y d2 bars2 where rest: "insert_many bs (d1, bars1) = (y, (d2, bars2))" by (metis surj_pair)
    note IH = Cons.IH [OF rest]
    have "insert_many (b # bs) (d, bars) = ((case y of Inl e \<Rightarrow> Inl e | Inr n \<Rightarrow> Inr (k + n)), (d2, bars2))"
      using first 2(1) rest by (cases y) (simp_all add: sbind_def sreturn_def)
    with Cons.prems have out: "bars' = bars2" "r = (case y of Inl e \<Rightarrow> Inl e | Inr n \<Rightarrow> Inr (k + n))"
      by auto
    have grown: "length bars \<le> length bars1"
      using add_bars_prefix [of "[b]" bars] 2(2) by auto
    from IH obtain j where j: "bars2 = add_bars (take j bs) bars1" by blast
    have "bars' = add_bars (take (Suc j) (b # bs)) bars"
      using add_bars_append [of "[b]" "take j bs" bars] 2(2) j out(1) by simp
    moreover have "bars' = add_bars (b # bs) bars \<and> n = length bars' - length bars" if n: "r = Inr n" for n
    proof -
      obtain m where m: "y = Inr m" "n = k + m" using out(2) n by (cases y) auto
      with IH have all: "bars2 = add_bars bs bars1" "m = length bars2 - length bars1" by auto
      have "bars' = add_bars (b # bs) bars"
        using add_bars_append [of "[b]" bs bars] 2(2) all(1) out(1) by simp
      moreover have "length bars1 \<le> length bars2"
        using add_bars_prefix [of bs bars1] all(1) by auto
      ultimately show ?thesis using m(2) all(2) 2(3) grown out(1) by simp
    qed
    ultimately show ?thesis by blast
  qed
qed

end
