(* ===== verification/BarFacts.thy ===== *)
theory BarFacts
  imports BarStore
begin

text \<open>
  What holds of imports: a fetch in pages yields the history the server has, an import that was cut
  short is completed by the next one, what is loaded is in order, and the gaps account for every bar
  that is missing.
\<close>

section \<open>Milliseconds\<close>

text \<open>The years the type of times can hold, in microseconds on either side of 1970.\<close>

definition datetime_limit :: int where
  "datetime_limit = 253402300800000000"

lemma to_millis_close:
  assumes k: "to_millis t = Inr k" and t: "\<bar>micros t\<bar> \<le> datetime_limit"
  shows "\<bar>1000 * k - micros t\<bar> < 2000"
    and "0 \<le> micros t \<Longrightarrow> 4 * (1000 * k - micros t) \<le> 1000"
proof -
  define q :: rat where "q = of_int (micros t) / 1000000"
  obtain a where a: "rnd q = Flt a"
    using k unfolding to_millis_def q_def [symmetric] by (cases "rnd q") auto
  obtain b where b: "rnd (a * 1000) = Flt b" and kb: "k = (if 0 \<le> b then \<lfloor>b\<rfloor> else - \<lfloor>- b\<rfloor>)"
    using k a unfolding to_millis_def q_def [symmetric] by (cases "rnd (a * 1000)") auto
  have qm: "(of_int (micros t) :: rat) = 1000000 * q" by (simp add: q_def)
  have "\<bar>of_int (micros t)\<bar> \<le> (of_int datetime_limit :: rat)"
    using t by (simp only: of_int_abs [symmetric] of_int_le_iff)
  then have q: "\<bar>q\<bar> \<le> 253402300800" by (simp add: q_def datetime_limit_def)
  have "(\<bar>q\<bar> + 1) / 2 ^ 53 \<le> 1 / 16384" using q by simp
  with rnd_close [OF a] have one: "\<bar>a - q\<bar> \<le> 1 / 16384" by (rule order_trans)
  have two: "\<bar>b - a * 1000\<bar> \<le> (1000 * \<bar>a\<bar> + 1) / 2 ^ 53"
    using rnd_close [OF b] by (simp add: abs_mult mult.commute)
  have "\<bar>a\<bar> \<le> 253402300801" using one q by linarith
  then have "(1000 * \<bar>a\<bar> + 1) / 2 ^ 53 \<le> 1 / 16" by simp
  with two have "\<bar>b - a * 1000\<bar> \<le> 1 / 16" by (rule order_trans)
  moreover have "\<bar>a * 1000 - q * 1000\<bar> \<le> 1 / 16" using one by linarith
  ultimately have near: "\<bar>b - q * 1000\<bar> \<le> 1 / 8" by linarith
  have trunc: "\<bar>of_int k - b\<bar> < 1" "0 \<le> b \<Longrightarrow> of_int k \<le> b" "b < 0 \<Longrightarrow> of_int k \<le> b + 1"
    unfolding kb by (auto simp: abs_less_iff) linarith+
  have "\<bar>1000 * of_int k - of_int (micros t)\<bar> < (2000::rat)"
    using near trunc(1) unfolding qm by linarith
  then have "of_int \<bar>1000 * k - micros t\<bar> < (of_int 2000 :: rat)" by simp
  then show "\<bar>1000 * k - micros t\<bar> < 2000" by (simp only: of_int_less_iff)
  show "4 * (1000 * k - micros t) \<le> 1000" if "0 \<le> micros t"
  proof (cases "0 \<le> b")
    case True
    have "b \<le> q * 1000 + 1 / 8" using near by linarith
    with trunc(2) [OF True] have "of_int k \<le> q * 1000 + 1 / 8" by (rule order_trans)
    then have "4 * (1000 * of_int k - of_int (micros t)) \<le> (1000::rat)"
      unfolding qm by (simp add: algebra_simps)
    then have "of_int (4 * (1000 * k - micros t)) \<le> (of_int 1000 :: rat)" by simp
    then show ?thesis by (simp only: of_int_le_iff)
  next
    case False
    have "0 \<le> q" using that by (simp add: q_def)
    with near False have "- 1 < b" by linarith
    with False have "k = 0" using kb by (simp add: floor_eq_iff)
    with that show ?thesis by simp
  qed
qed

lemma to_millis_total:
  assumes "\<bar>micros t\<bar> \<le> datetime_limit"
  shows "\<exists>k. to_millis t = Inr k"
proof -
  define q :: rat where "q = of_int (micros t) / 1000000"
  have "\<bar>of_int (micros t)\<bar> \<le> (of_int datetime_limit :: rat)"
    using assms by (simp only: of_int_abs [symmetric] of_int_le_iff)
  then have q: "\<bar>q\<bar> \<le> 253402300800" by (simp add: q_def datetime_limit_def)
  have big: "x \<le> 2 ^ 1000" if "x \<le> 10 ^ 20" for x :: rat
    using that by (rule order_trans) simp
  obtain a where a: "rnd q = Flt a"
    using rnd_finite [OF big] q by fastforce
  have "(\<bar>q\<bar> + 1) / 2 ^ 53 \<le> 1" using q by simp
  with rnd_close [OF a] have "\<bar>a - q\<bar> \<le> 1" by (rule order_trans)
  with q have "\<bar>a\<bar> \<le> 253402300801" by linarith
  then have "\<bar>a * 1000\<bar> \<le> 10 ^ 20" by (simp add: abs_mult)
  then obtain b where "rnd (a * 1000) = Flt b" using rnd_finite [OF big] by blast
  with a show ?thesis by (simp add: to_millis_def flip: q_def)
qed

text \<open>A whole second from 1970 on loses at most its last millisecond.\<close>

lemma to_millis_second:
  assumes "to_millis t = Inr k" "micros t = 1000000 * s" "0 \<le> s" "\<bar>micros t\<bar> \<le> datetime_limit"
  shows "1000 * s - 1 \<le> k" "k \<le> 1000 * s"
  using to_millis_close [OF assms(1,4)] assms(2,3) by auto

section \<open>Paging\<close>

text \<open>When a kline opens, in microseconds.\<close>

definition opens_at :: "raw_value list \<Rightarrow> int" where
  "opens_at row = (case kline_open_time row of Inr t \<Rightarrow> micros t | Inl _ \<Rightarrow> 0)"

text \<open>
  A history of klines of one symbol and interval, as a server may hold it: each is a valid bar, opens on
  a whole second from 1970 on, and at least one interval after the one before.
\<close>

definition kline_history :: "string \<Rightarrow> string \<Rightarrow> int \<Rightarrow> raw_value list list \<Rightarrow> bool" where
  "kline_history symbol interval step H =
     (list_all (\<lambda>row. \<not> isl (bar_from_kline symbol interval row) \<and> 0 \<le> opens_at row \<and> 1000000 dvd opens_at row) H
      \<and> sorted_wrt (\<lambda>a b. opens_at a + step \<le> opens_at b) H)"

text \<open>The klines endpoint as documented: of the history, those that open in the closed range, the first ones.\<close>

definition klines_endpoint :: "raw_value list list \<Rightarrow> kline_request \<Rightarrow> page_reply" where
  "klines_endpoint H req =
     Klines (take (nat (kr_limit req))
       (filter (\<lambda>row. 1000 * kr_start req \<le> opens_at row \<and> opens_at row \<le> 1000 * kr_end req) H))"

lemma kline_opened_at:
  assumes "bar_from_kline symbol interval row = Inr b"
  shows "kline_open_time row = Inr (ba_opened_at b)" and "opens_at row = micros (ba_opened_at b)"
proof -
  show time: "kline_open_time row = Inr (ba_opened_at b)"
    using assms
    by (auto simp: bar_from_kline_def reraise_def bar_from_def make_bar_def Let_def ebind_def split: sum.splits)
  show "opens_at row = micros (ba_opened_at b)" by (simp add: opens_at_def time)
qed

lemma page_bars_within:
  assumes "\<forall>row \<in> set rows. \<not> isl (bar_from_kline symbol interval row) \<and> opens_at row < micros finish"
  shows "\<exists>bs. page_bars symbol interval finish rows = (bs, Page_Done)
    \<and> map Inr bs = map (bar_from_kline symbol interval) rows"
  using assms
proof (induction rows)
  case (Cons row rows)
  then obtain b where b: "bar_from_kline symbol interval row = Inr b"
    by (cases "bar_from_kline symbol interval row") auto
  with Cons.prems kline_opened_at(2) [OF b] have "\<not> finish \<le> ba_opened_at b"
    by (simp add: less_eq_instant_def)
  with Cons b show ?case by force
qed simp

lemma page_bars_past:
  assumes "\<forall>row \<in> set rows. \<not> isl (bar_from_kline symbol interval row) \<and> opens_at row < micros finish"
    and "\<not> isl (bar_from_kline symbol interval late)" and "micros finish \<le> opens_at late"
  shows "\<exists>bs. page_bars symbol interval finish (rows @ late # more_rows) = (bs, Past_End)
    \<and> map Inr bs = map (bar_from_kline symbol interval) rows"
  using assms(1)
proof (induction rows)
  case Nil
  from assms(2) obtain b where b: "bar_from_kline symbol interval late = Inr b"
    by (cases "bar_from_kline symbol interval late") auto
  with assms(3) kline_opened_at(2) [OF b] show ?case by (simp add: less_eq_instant_def)
next
  case (Cons row rows)
  then obtain b where b: "bar_from_kline symbol interval row = Inr b"
    by (cases "bar_from_kline symbol interval row") auto
  with Cons.prems kline_opened_at(2) [OF b] have "\<not> finish \<le> ba_opened_at b"
    by (simp add: less_eq_instant_def)
  with Cons b show ?case by force
qed

section \<open>The loop over the pages\<close>

text \<open>The part of a history in a half-open range.\<close>

definition klines_between :: "raw_value list list \<Rightarrow> int \<Rightarrow> int \<Rightarrow> raw_value list list" where
  "klines_between H c f = filter (\<lambda>row. c \<le> opens_at row \<and> opens_at row < f) H"

lemma filter_disj_append:
  assumes "sorted_wrt R xs" "\<And>x y. R x y \<Longrightarrow> \<not> (C x \<and> B y)" "\<And>x. \<not> (B x \<and> C x)"
  shows "filter (\<lambda>x. B x \<or> C x) xs = filter B xs @ filter C xs"
  using assms(1)
proof (induction xs)
  case (Cons x xs)
  show ?case
  proof (cases "C x")
    case True
    with Cons.prems assms(2) have "filter B xs = []" by (auto simp: filter_empty_conv)
    with Cons True assms(3) [of x] show ?thesis by simp
  next
    case False
    with Cons show ?thesis by auto
  qed
qed simp

lemma spaced_last:
  assumes "sorted_wrt (\<lambda>a b. opens_at a + step \<le> opens_at b) xs" "\<forall>x \<in> set xs. c \<le> opens_at x" "j < length xs"
  shows "c + int j * step \<le> opens_at (xs ! j)"
  using assms(3)
proof (induction j)
  case 0
  with assms(2) show ?case by simp
next
  case (Suc j)
  with assms(1) have "opens_at (xs ! j) + step \<le> opens_at (xs ! Suc j)"
    by (simp add: sorted_wrt_iff_nth_less)
  with Suc show ?case by (simp add: algebra_simps)
qed

lemma advance_drops:
  assumes "sorted_wrt (\<lambda>a b. opens_at a + step \<le> opens_at b) xs" "\<forall>x \<in> set xs. c \<le> opens_at x"
    and "0 < step" "take n xs \<noteq> []"
  defines "c' \<equiv> max (opens_at (last (take n xs)) + step) (c + step)"
  shows "filter (\<lambda>x. c' \<le> opens_at x) xs = drop n xs"
proof -
  have split: "sorted_wrt (\<lambda>a b. opens_at a + step \<le> opens_at b) (take n xs @ drop n xs)"
    using assms(1) by simp
  have last: "last (take n xs) \<in> set (take n xs)" using assms(4) by simp
  have "opens_at x < c'" if "x \<in> set (take n xs)" for x
  proof -
    have "x = last (take n xs) \<or> opens_at x + step \<le> opens_at (last (take n xs))"
    proof -
      have "take n xs = butlast (take n xs) @ [last (take n xs)]" using assms(4) by simp
      moreover have "sorted_wrt (\<lambda>a b. opens_at a + step \<le> opens_at b) (take n xs)"
        using split by (simp only: sorted_wrt_append)
      ultimately show ?thesis using that by (metis UnE set_append list.set_intros(1) set_ConsD sorted_wrt_append empty_iff list.set(1))
    qed
    then show ?thesis using assms(3) by (auto simp: c'_def)
  qed
  then have "filter (\<lambda>x. c' \<le> opens_at x) (take n xs) = []"
    unfolding filter_empty_conv not_le by blast
  moreover have "c' \<le> opens_at x" if "x \<in> set (drop n xs)" for x
  proof -
    have "opens_at (last (take n xs)) + step \<le> opens_at x"
      using split last that unfolding sorted_wrt_append by blast
    moreover have "c \<le> opens_at (last (take n xs))" using last assms(2) by (meson in_set_takeD)
    ultimately show ?thesis by (simp add: c'_def)
  qed
  then have "filter (\<lambda>x. c' \<le> opens_at x) (drop n xs) = drop n xs" by simp
  moreover have "filter (\<lambda>x. c' \<le> opens_at x) xs
      = filter (\<lambda>x. c' \<le> opens_at x) (take n xs) @ filter (\<lambda>x. c' \<le> opens_at x) (drop n xs)"
    by (metis append_take_drop_id filter_append)
  ultimately show ?thesis by simp
qed

lemma history_page:
  assumes serves: "\<forall>req. kr_symbol req = symbol \<and> kr_interval req = i \<longrightarrow> server req = klines_endpoint H req"
    and i: "map_of binance_intervals interval = Some i" and H: "kline_history symbol interval step H" "0 < step"
    and c: "micros cursor = 1000000 * cs" "0 \<le> cs" and f: "micros finish = 1000000 * fs" "micros finish \<le> datetime_limit"
    and order: "micros cursor < micros finish"
  shows "\<exists>late. page_of server symbol interval cursor finish
      = Inr (take 1000 (klines_between H (micros cursor) (micros finish) @ late))
    \<and> (\<forall>row \<in> set late. row \<in> set H \<and> micros finish \<le> opens_at row)"
proof -
  have lim: "\<bar>micros cursor\<bar> \<le> datetime_limit" "\<bar>micros finish\<bar> \<le> datetime_limit" "0 \<le> fs"
    using c f order by auto
  obtain k where k: "to_millis cursor = Inr k" using to_millis_total [OF lim(1)] by blast
  obtain kf where kf: "to_millis finish = Inr kf" using to_millis_total [OF lim(2)] by blast
  note kb = to_millis_second [OF k c lim(1)]
  note kfb = to_millis_second [OF kf f(1) lim(3) lim(2)]
  let ?B = "\<lambda>row. micros cursor \<le> opens_at row \<and> opens_at row < micros finish"
  let ?C = "\<lambda>row. opens_at row = micros finish \<and> kf = 1000 * fs"
  have grid: "1000000 dvd opens_at row" if "row \<in> set H" for row
    using H(1) that by (simp add: kline_history_def list_all_iff)
  have same: "1000 * k \<le> opens_at row \<and> opens_at row \<le> 1000 * kf \<longleftrightarrow> ?B row \<or> ?C row" if "row \<in> set H" for row
  proof -
    obtain m where m: "opens_at row = 1000000 * m" using grid [OF \<open>row \<in> set H\<close>] by (elim dvdE)
    have "1000 * k \<le> opens_at row \<longleftrightarrow> cs \<le> m" using kb by (auto simp: m)
    moreover have "opens_at row \<le> 1000 * kf \<longleftrightarrow> m < fs \<or> m = fs \<and> kf = 1000 * fs"
      using kfb by (auto simp: m)
    ultimately show ?thesis using order c f by (auto simp: m)
  qed
  have "filter (\<lambda>row. 1000 * k \<le> opens_at row \<and> opens_at row \<le> 1000 * kf) H = filter (\<lambda>row. ?B row \<or> ?C row) H"
    using same by (intro filter_cong) auto
  also have "\<dots> = filter ?B H @ filter ?C H"
    by (rule filter_disj_append [where R = "\<lambda>a b. opens_at a + step \<le> opens_at b"])
      (use H in \<open>auto simp: kline_history_def\<close>)
  finally have page: "filter (\<lambda>row. 1000 * k \<le> opens_at row \<and> opens_at row \<le> 1000 * kf) H
      = klines_between H (micros cursor) (micros finish) @ filter ?C H"
    by (simp add: klines_between_def)
  have "page_of server symbol interval cursor finish
      = Inr (take 1000 (klines_between H (micros cursor) (micros finish) @ filter ?C H))"
    using serves by (simp add: page_of_def i k kf ebind_def klines_endpoint_def page_limit_def page)
  then show ?thesis by (intro exI [of _ "filter ?C H"]) auto
qed

text \<open>One page: either it is the rest of the range, or the loop goes on behind a full page.\<close>

lemma fetch_history:
  assumes serves: "\<forall>req. kr_symbol req = symbol \<and> kr_interval req = i \<longrightarrow> server req = klines_endpoint H req"
    and i: "map_of binance_intervals interval = Some i" and H: "kline_history symbol interval step H"
    and step: "step = 1000000 * ss" "0 < ss"
    and f: "micros finish = 1000000 * fs" "micros finish \<le> datetime_limit"
    and "micros cursor = 1000000 * cs" "0 \<le> cs"
    and "micros finish \<le> micros cursor \<or> (\<exists>n. left = Suc n
      \<and> (klines_between H (micros cursor) (micros finish) = [] \<or> micros finish \<le> micros cursor + 1000 * int n * step))"
  shows "\<exists>bs. fetch_pages server symbol interval step finish left cursor = (bs, None)
    \<and> map Inr bs = map (bar_from_kline symbol interval) (klines_between H (micros cursor) (micros finish))"
  using assms(8-)
proof (induction left arbitrary: cursor cs)
  case 0
  then show ?case by (auto simp: klines_between_def less_instant_def filter_empty_conv)
next
  case (Suc left)
  let ?R = "klines_between H (micros cursor) (micros finish)"
  show ?case
  proof (cases "micros cursor < micros finish")
    case False
    then show ?thesis by (auto simp: klines_between_def less_instant_def filter_empty_conv)
  next
    case True
    from history_page [OF serves i H _ Suc.prems(1,2) f True] step
    obtain late where page: "page_of server symbol interval cursor finish = Inr (take 1000 (?R @ late))"
      and late: "\<forall>row \<in> set late. row \<in> set H \<and> micros finish \<le> opens_at row"
      by auto
    have parses: "\<not> isl (bar_from_kline symbol interval row)" if "row \<in> set H" for row
      using H that by (simp add: kline_history_def list_all_iff)
    have R: "row \<in> set H \<and> micros cursor \<le> opens_at row \<and> opens_at row < micros finish" if "row \<in> set ?R" for row
      using that by (simp add: klines_between_def)
    have sorted: "sorted_wrt (\<lambda>a b. opens_at a + step \<le> opens_at b) ?R"
      using H by (simp add: kline_history_def klines_between_def sorted_wrt_filter)
    consider (none) "take 1000 (?R @ late) = []" | (over) l more_rows where "take 1000 (?R @ late) = ?R @ l # more_rows" "l \<in> set late"
      | (full) "take 1000 (?R @ late) = take 1000 ?R" "take 1000 ?R \<noteq> []"
    proof (cases "take (1000 - length ?R) late")
      case Nil
      then have "take 1000 (?R @ late) = take 1000 ?R" by simp
      with that(1,3) show ?thesis by metis
    next
      case (Cons l more_rows)
      moreover from Cons have "l \<in> set late" by (metis in_set_takeD list.set_intros(1))
      moreover from Cons have "length ?R \<le> 1000" by (cases "length ?R \<le> 1000") auto
      ultimately show ?thesis using that(2) by (simp only: take_append take_all)
    qed
    then show ?thesis
    proof cases
      case none
      then have "?R = []" by (cases ?R) simp_all
      with page none True show ?thesis by (simp add: less_instant_def)
    next
      case over
      from page_bars_past [of ?R symbol interval finish l more_rows] R parses late over(2)
      obtain bs where "page_bars symbol interval finish (?R @ l # more_rows) = (bs, Past_End)"
        "map Inr bs = map (bar_from_kline symbol interval) ?R" by auto
      with page over(1) True show ?thesis by (simp add: less_instant_def)
    next
      case full
      let ?rows = "take 1000 ?R"
      define c' where "c' = max (opens_at (last ?rows) + step) (micros cursor + step)"
      have mem: "set ?rows \<subseteq> set ?R" by (simp add: set_take_subset)
      have last: "last ?rows \<in> set ?R" using full(2) mem last_in_set by blast
      with R parses obtain b where b: "bar_from_kline symbol interval (last ?rows) = Inr b"
        by (cases "bar_from_kline symbol interval (last ?rows)") force+
      note time = kline_opened_at [OF b]
      obtain bs where bs: "page_bars symbol interval finish ?rows = (bs, Page_Done)"
        "map Inr bs = map (bar_from_kline symbol interval) ?rows"
        using page_bars_within [of ?rows symbol interval finish] R parses mem by (metis subsetD)
      have ahead: "micros cursor \<le> c'" using step by (simp add: c'_def)
      have "klines_between H c' (micros finish) = filter (\<lambda>row. c' \<le> opens_at row) ?R"
        using ahead by (auto simp: klines_between_def intro: filter_cong)
      also have "\<dots> = drop 1000 ?R"
        unfolding c'_def using sorted R step full(2) by (intro advance_drops) auto
      finally have rest: "klines_between H c' (micros finish) = drop 1000 ?R" .
      have "1000000 dvd opens_at (last ?rows)"
        using H R [OF last] by (simp add: kline_history_def list_all_iff)
      then obtain m where m: "opens_at (last ?rows) = 1000000 * m" by (elim dvdE)
      have c'_m: "c' = max (1000000 * m + step) (micros cursor + step)" by (simp only: c'_def m)
      have whole: "c' = 1000000 * max (m + ss) (cs + ss)" "0 \<le> max (m + ss) (cs + ss)"
        unfolding c'_m Suc.prems(1) step(1) using Suc.prems(2) step(2) by (auto simp: max_def)
      have far: "micros finish \<le> micros cursor + 1000 * int left * step"
        using Suc.prems(3) True last by (cases ?R) auto
      with True obtain n where n: "left = Suc n" by (cases left) auto
      have "klines_between H c' (micros finish) = [] \<or> micros finish \<le> c' + 1000 * int n * step"
      proof (cases "length ?R \<le> 1000")
        case False
        then have "length ?rows = 1000" by simp
        with last_conv_nth [OF full(2)] have "last ?rows = ?R ! 999" by (simp only: nth_take) simp
        with spaced_last [OF sorted, of "micros cursor" 999] R False
        have "micros cursor + 999 * step \<le> opens_at (last ?rows)" by auto
        then have "micros cursor + 1000 * step \<le> c'" by (simp add: c'_def)
        with far n show ?thesis by (simp add: algebra_simps)
      qed (simp add: rest)
      with n whole have "\<exists>ys. fetch_pages server symbol interval step finish left (Micros c') = (ys, None)
          \<and> map Inr ys = map (bar_from_kline symbol interval) (klines_between H c' (micros finish))"
        by (metis Suc.IH instant.sel)
      then obtain ys where ys: "fetch_pages server symbol interval step finish left (Micros c') = (ys, None)"
        "map Inr ys = map (bar_from_kline symbol interval) (drop 1000 ?R)"
        unfolding rest by blast
      have "fetch_pages server symbol interval step finish (Suc left) cursor = (bs @ ys, None)"
        using page [unfolded full(1)] full(2) bs(1) time ys(1) True by (simp add: less_instant_def c'_def)
      moreover have "map Inr (bs @ ys) = map (bar_from_kline symbol interval) (?rows @ drop 1000 ?R)"
        by (simp only: map_append bs(2) ys(2))
      ultimately show ?thesis by (simp only: append_take_drop_id) blast
    qed
  qed
qed

text \<open>
  C19: Fetching in pages yields the history: from a server that answers each request as documented (the
  first thousand klines of the closed range of milliseconds asked for), the generator ends without an
  exception and its bars are exactly the klines that open in the half-open range, in order, each once.
  Start and end are whole seconds from 1970 on, at most 1999 full pages apart; the cursor goes through
  floating-point milliseconds on the way.
\<close>

theorem fetch_is_the_history:
  assumes "\<forall>req. kr_symbol req = symbol \<and> kr_interval req = i \<longrightarrow> server req = klines_endpoint H req"
    and "map_of binance_intervals interval = Some i" and "interval_micros interval = Inr step"
    and "kline_history symbol interval step H"
    and "start = Micros (1000000 * s)" "0 \<le> s" "finish = Micros (1000000 * f)" "micros finish \<le> datetime_limit"
    and "micros finish - micros start \<le> 1999 * 1000 * step"
  shows "\<exists>bs. binance_fetch server symbol interval (Aware start) (Aware finish) = (bs, None)
    \<and> map Inr bs = map (bar_from_kline symbol interval) (klines_between H (micros start) (micros finish))"
proof -
  obtain ss where step: "step = 1000000 * ss" "0 < ss"
    using assms(3)
    by (auto simp: interval_micros_def interval_seconds_def split: if_splits)
  have "micros finish \<le> micros start \<or> (\<exists>n. max_pages = Suc n
      \<and> (klines_between H (micros start) (micros finish) = [] \<or> micros finish \<le> micros start + 1000 * int n * step))"
    using assms(9) by (simp add: max_pages_def)
  from fetch_history [OF assms(1,2,4) step _ assms(8) _ assms(6) this, of f] assms(5,7)
  show ?thesis by (simp add: binance_fetch_def assms(2,3))
qed

definition sample_klines :: "raw_value list list" where
  "sample_klines =
     [[R_Int 0, R_Text ''1'', R_Text ''2'', R_Text ''1'', R_Text ''1.5'', R_Text ''10''],
      [R_Int 60000, R_Text ''1.5'', R_Text ''2'', R_Text ''1'', R_Text ''1'', R_Text ''0''],
      [R_Int 240000, R_Text ''1'', R_Text ''1'', R_Text ''1'', R_Text ''1'', R_Text ''3'']]"

lemma sample_history: "kline_history ''SOLUSDT'' ''1m'' 60000000 sample_klines"
  by code_simp

theorem fetch_is_the_history_witness:
  "\<exists>bs. binance_fetch (klines_endpoint sample_klines) ''SOLUSDT'' ''1m'' (Aware (Micros (1000000 * 0)))
     (Aware (Micros (1000000 * 240))) = (bs, None)
   \<and> map Inr bs = map (bar_from_kline ''SOLUSDT'' ''1m'') (take 2 sample_klines)"
proof -
  have "klines_between sample_klines 0 240000000 = take 2 sample_klines" by code_simp
  moreover have "interval_micros ''1m'' = Inr 60000000" "map_of binance_intervals ''1m'' = Some ''1m''"
    by (simp_all add: interval_micros_def interval_seconds_def binance_intervals_def)
  ultimately show ?thesis
    using fetch_is_the_history [of "''SOLUSDT''" "''1m''" "klines_endpoint sample_klines" sample_klines "''1m''"
      60000000 _ 0 _ 240, OF _ _ _ sample_history refl _ refl]
    by (simp add: datetime_limit_def)
qed

section \<open>Imports\<close>

lemma import_result:
  assumes "insert_many bs (d, bars) = (Inr n, (d', bars'))"
  shows "bars' = add_bars bs bars" "n = length bars' - length bars"
  using insert_many_result [OF assms] by auto

lemma add_bars_again: "add_bars bs (add_bars (take k bs) bars) = add_bars bs bars"
proof -
  have "add_bars bs (add_bars (take k bs) bars)
      = add_bars (drop k bs) (add_bars (take k bs) (add_bars (take k bs) bars))"
    by (metis add_bars_append append_take_drop_id)
  also have "add_bars (take k bs) (add_bars (take k bs) bars) = add_bars (take k bs) bars"
    by (rule add_bars_present) (auto simp: add_bars_keys)
  finally show ?thesis by (metis add_bars_append append_take_drop_id)
qed

text \<open>
  C20: An import that failed half-way is completed by running it again: whatever the first run stored
  before a statement failed, the second run leaves the table an uninterrupted import would have left.
  A bar that was there is never rewritten, only bars of the import are added, every bar asked for is
  then there under its key, and a third run adds nothing.
\<close>

theorem interrupted_import_resumes:
  assumes "insert_many bs (d, bars) = (r, (d1, bars1))"
    and "insert_many bs (d2, bars1) = (Inr n, (d3, bars2))"
  shows "(\<exists>new. bars2 = bars @ new \<and> set new \<subseteq> set bs)
    \<and> bar_key ` set bars2 = bar_key ` set bars \<union> bar_key ` set bs
    \<and> (\<forall>e m e' whole. insert_many bs (e, bars) = (Inr m, (e', whole)) \<longrightarrow> whole = bars2)
    \<and> (\<forall>e m e' again. insert_many bs (e, bars2) = (Inr m, (e', again)) \<longrightarrow> m = 0 \<and> again = bars2)"
proof -
  from insert_many_result [OF assms(1)] obtain k where "bars1 = add_bars (take k bs) bars" by blast
  with import_result(1) [OF assms(2)] have done': "bars2 = add_bars bs bars"
    by (simp add: add_bars_again)
  have "add_bars bs bars2 = bars2"
    unfolding done' by (rule add_bars_present) (simp add: add_bars_keys)
  moreover have "m = 0 \<and> again = bars2"
    if "add_bars bs bars2 = bars2" "insert_many bs (e, bars2) = (Inr m, (e', again))" for e m e' again
    using import_result [OF that(2)] that(1) by simp
  moreover have "whole = bars2" if "insert_many bs (e, bars) = (Inr m, (e', whole))" for e m e' whole
    using import_result(1) [OF that] done' by simp
  moreover have "\<exists>new. bars2 = bars @ new \<and> set new \<subseteq> set bs"
    unfolding done' by (rule add_bars_prefix)
  moreover have "bar_key ` set bars2 = bar_key ` set bars \<union> bar_key ` set bs"
    unfolding done' by (rule add_bars_keys)
  ultimately show ?thesis by blast
qed

definition sample_bar :: "int \<Rightarrow> bar" where
  "sample_bar t =
     \<lparr> ba_source = ''csv'', ba_symbol = ''SOL'', ba_interval = ''1m'', ba_opened_at = Micros t,
       ba_open = Dec 1 0, ba_high = Dec 2 0, ba_low = Dec 1 0, ba_close = Dec 1 0, ba_volume = Dec 0 0 \<rparr>"

definition faulty_db :: "bool list \<Rightarrow> db" where
  "faulty_db fs = empty_db \<lparr> db_open := True, db_faults := fs \<rparr>"

text \<open>The second of three inserts fails; the second run adds two.\<close>

theorem interrupted_import_resumes_witness:
  "let bs = map sample_bar [0, 60000000, 120000000];
       first = insert_many bs (faulty_db [False, True], []);
       second = insert_many bs (faulty_db [], snd (snd first))
   in fst first = Inl DatabaseError \<and> fst second = Inr 2
    \<and> bar_key ` set (snd (snd second)) = bar_key ` set bs"
proof -
  define bs where "bs = map sample_bar [0, 60000000, 120000000]"
  obtain r d1 bars1 where first: "insert_many bs (faulty_db [False, True], []) = (r, (d1, bars1))"
    by (metis surj_pair)
  obtain r2 d2 bars2 where second: "insert_many bs (faulty_db [], bars1) = (r2, (d2, bars2))"
    by (metis surj_pair)
  have runs: "fst (insert_many (map sample_bar [0, 60000000, 120000000]) (faulty_db [False, True], [])) = Inl DatabaseError"
    "fst (insert_many (map sample_bar [0, 60000000, 120000000])
       (faulty_db [], snd (snd (insert_many (map sample_bar [0, 60000000, 120000000]) (faulty_db [False, True], []))))) = Inr 2"
    by code_simp+
  from runs [folded bs_def] first second have "r = Inl DatabaseError" "r2 = Inr 2" by simp_all
  with interrupted_import_resumes [OF first] second show ?thesis
    unfolding Let_def bs_def [symmetric] by (simp add: first)
qed

section \<open>What is read back\<close>

lemma make_bar_again: "make_bar b (Aware (ba_opened_at b)) = Inr b' \<longleftrightarrow> b' = b \<and> check_bar b = Inr ()"
  by (auto simp: make_bar_def ebind_def Let_def split: sum.splits)

lemma rows_to_bars_Inr: "rows_to_bars rows = Inr bs \<longleftrightarrow> bs = rows \<and> (\<forall>b \<in> set rows. check_bar b = Inr ())"
proof (induction rows arbitrary: bs)
  case (Cons b rows)
  show ?case by (auto simp: ebind_eq_Inr make_bar_again Cons.IH)
qed auto

text \<open>
  What a backtest reads: a load returns exactly the stored bars of the source, symbol and interval in
  the half-open range, in strictly increasing order of their opening, each of them valid, and leaves the
  table alone, as long as the table holds one bar for each key.
\<close>

theorem loaded_bars_in_order:
  assumes "load_bars source symbol interval start finish (d, bars) = (Inr bs, (d', bars'))"
    and "distinct (map bar_key bars)"
  shows "bars' = bars \<and> set bs = {b \<in> set bars. matches_range source symbol interval start finish b}
    \<and> sorted_wrt (\<lambda>a b. ba_opened_at a < ba_opened_at b) bs \<and> (\<forall>b \<in> set bs. check_bar b = Inr ())"
proof -
  let ?rows = "sort_key ba_opened_at (filter (matches_range source symbol interval start finish) bars)"
  obtain x s where read: "bar_statement (\<lambda>bars. (sort_key ba_opened_at (filter (matches_range source symbol interval start finish) bars), bars)) (d, bars) = (x, s)"
    by (rule prod.exhaust)
  obtain e left where s: "s = (e, left)" by (cases s)
  have "isl x \<Longrightarrow> False"
    using assms(1) read by (cases x) (simp_all add: load_bars_def)
  with read [unfolded s] have x: "x = Inr ?rows" "left = bars"
    by (auto elim: bar_statement_cases)
  with assms(1) read s have out: "rows_to_bars ?rows = Inr bs" "bars' = bars"
    by (auto simp: load_bars_def slift_def)
  have "distinct (map ba_opened_at ?rows)"
  proof -
    have "distinct (map bar_key (filter (matches_range source symbol interval start finish) bars))"
      using assms(2) by (simp add: distinct_map_filter)
    then have "inj_on bar_key {b \<in> set bars. matches_range source symbol interval start finish b}" "distinct bars"
      using assms(2) by (auto simp: distinct_map)
    then show ?thesis
      by (auto simp: distinct_map inj_on_def bar_key_def matches_range_def)
  qed
  then have "sorted_wrt (<) (map ba_opened_at ?rows)"
    by (simp add: strict_sorted_iff)
  with out show ?thesis by (auto simp: rows_to_bars_Inr sorted_wrt_map)
qed

theorem loaded_bars_in_order_witness:
  "let bars = map sample_bar [60000000, 0, 120000000] in
   load_bars ''csv'' ''SOL'' ''1m'' None (Some (Micros 120000000)) (faulty_db [], bars)
     = (Inr (map sample_bar [0, 60000000]), (faulty_db [], bars))
   \<and> sorted_wrt (\<lambda>a b. ba_opened_at a < ba_opened_at b) (map sample_bar [0, 60000000])"
proof -
  have run: "load_bars ''csv'' ''SOL'' ''1m'' None (Some (Micros 120000000)) (faulty_db [], map sample_bar [60000000, 0, 120000000])
     = (Inr (map sample_bar [0, 60000000]), (faulty_db [], map sample_bar [60000000, 0, 120000000]))"
    by code_simp
  from loaded_bars_in_order [OF run] run show ?thesis by (simp add: bar_key_def sample_bar_def)
qed

section \<open>Gaps\<close>

lemma gap_between_missing:
  assumes "0 < step" "micros (ba_opened_at a) < micros (ba_opened_at b)"
    and "step dvd micros (ba_opened_at b) - micros (ba_opened_at a)"
  shows "sum_list (map missing_bars (gap_between step a b)) + 1
    = (micros (ba_opened_at b) - micros (ba_opened_at a)) div step"
proof -
  obtain k where k: "micros (ba_opened_at b) - micros (ba_opened_at a) = step * k" using assms(3) by (elim dvdE)
  with assms(1,2) have "0 < k" by (metis diff_gt_0_iff_gt zero_less_mult_pos)
  moreover have "step < step * k \<longleftrightarrow> 1 < k" using assms(1) by simp
  ultimately show ?thesis using assms(1) by (auto simp: gap_between_def Let_def k)
qed

lemma gaps_from_missing:
  assumes "0 < step" "sorted_wrt (\<lambda>a b. ba_opened_at a < ba_opened_at b) (b # bs)"
    and "\<forall>c \<in> set bs. step dvd micros (ba_opened_at c) - micros (ba_opened_at b)"
  shows "sum_list (map missing_bars (gaps_from step (b # bs))) + int (length bs)
    = (micros (ba_opened_at (last (b # bs))) - micros (ba_opened_at b)) div step"
  using assms(2,3)
proof (induction bs arbitrary: b)
  case (Cons c bs)
  let ?t = "\<lambda>b. micros (ba_opened_at b)"
  have grid: "step dvd ?t x - ?t c" if "x \<in> set (c # bs)" for x
  proof -
    have "step dvd (?t x - ?t b) - (?t c - ?t b)"
    proof (rule dvd_diff)
      show "step dvd ?t x - ?t b" "step dvd ?t c - ?t b" using Cons.prems(2) that by auto
    qed
    then show ?thesis by simp
  qed
  have "step dvd ?t c - ?t b" "?t b < ?t c" using Cons.prems by (simp_all add: less_instant_def)
  note here = gap_between_missing [OF assms(1) this(2,1)]
  have "sum_list (map missing_bars (gaps_from step (c # bs))) + int (length bs) = (?t (last (c # bs)) - ?t c) div step"
    using Cons grid by simp
  with here have "sum_list (map missing_bars (gaps_from step (b # c # bs))) + int (length (c # bs))
      = (?t c - ?t b) div step + (?t (last (c # bs)) - ?t c) div step" by simp
  also have "\<dots> = ((?t c - ?t b) + (?t (last (c # bs)) - ?t c)) div step"
    using \<open>step dvd ?t c - ?t b\<close> by (rule div_plus_div_distrib_dvd_left [symmetric])
  finally show ?case by simp
qed simp

lemma gaps_from_bounds:
  assumes "g \<in> set (gaps_from step bs)" "0 < step" "sorted_wrt (\<lambda>a b. ba_opened_at a < ba_opened_at b) bs"
  shows "gap_after g < gap_before g \<and> (\<forall>b \<in> set bs. ba_opened_at b \<le> gap_after g \<or> gap_before g \<le> ba_opened_at b)"
  using assms
proof (induction step bs rule: gaps_from.induct)
  case (1 step b c bs)
  show ?case
  proof (cases "g \<in> set (gap_between step b c)")
    case True
    then have "gap_after g = ba_opened_at b" "gap_before g = ba_opened_at c"
      by (auto simp: gap_between_def Let_def split: if_splits)
    with 1(4) show ?thesis by auto
  next
    case False
    with 1 have *: "gap_after g < gap_before g
        \<and> (\<forall>x \<in> set (c # bs). ba_opened_at x \<le> gap_after g \<or> gap_before g \<le> ba_opened_at x)"
      by simp
    have "ba_opened_at c \<le> gap_after g"
    proof -
      from False 1(2) have "g \<in> set (gaps_from step (c # bs))" by simp
      then have "gap_after g \<in> ba_opened_at ` set (c # bs)"
        by (induction step "c # bs" arbitrary: c bs rule: gaps_from.induct)
          (auto simp: gap_between_def Let_def split: if_splits)
      with 1(4) show ?thesis by auto
    qed
    with * 1(4) show ?thesis by (auto intro: less_imp_le order_trans less_le_trans)
  qed
qed auto

text \<open>
  The gaps account for every bar that is missing: for bars in increasing order on the grid of their
  interval, the bars there are and the bars reported missing add up to the number of intervals from the
  first opening to the last; each gap ends after it begins and no bar of the series lies inside it.
\<close>

theorem gaps_account_for_missing_bars:
  assumes "find_gaps bs = Inr gaps" and "bs \<noteq> []" and "interval_micros (ba_interval (hd bs)) = Inr step"
    and "sorted_wrt (\<lambda>a b. ba_opened_at a < ba_opened_at b) bs"
    and "\<forall>b \<in> set bs. step dvd micros (ba_opened_at b) - micros (ba_opened_at (hd bs))"
  shows "sum_list (map missing_bars gaps) + int (length bs)
      = (micros (ba_opened_at (last bs)) - micros (ba_opened_at (hd bs))) div step + 1
    \<and> (\<forall>g \<in> set gaps. gap_after g < gap_before g
         \<and> (\<forall>b \<in> set bs. ba_opened_at b \<le> gap_after g \<or> gap_before g \<le> ba_opened_at b))"
proof -
  obtain b rest where bs: "bs = b # rest" using assms(2) by (cases bs) auto
  have step: "0 < step"
    using assms(3) by (auto simp: interval_micros_def interval_seconds_def split: if_splits)
  have gaps: "gaps = gaps_from step bs"
    using assms(1,3) by (cases rest) (auto simp: find_gaps_def bs ebind_def split: if_splits)
  show ?thesis
    using gaps_from_missing [OF step assms(4) [unfolded bs]] assms(5) gaps_from_bounds [OF _ step assms(4)]
    by (auto simp: bs gaps)
qed

theorem gaps_account_for_missing_bars_witness:
  "let bs = map sample_bar [0, 60000000, 240000000]; gaps = gaps_from 60000000 bs
   in find_gaps bs = Inr gaps \<and> sum_list (map missing_bars gaps) + 3 = 240000000 div 60000000 + 1"
proof -
  have "find_gaps (map sample_bar [0, 60000000, 240000000])
      = Inr (gaps_from 60000000 (map sample_bar [0, 60000000, 240000000]))"
    by code_simp
  from gaps_account_for_missing_bars [OF this, of 60000000] this show ?thesis
    by (simp add: sample_bar_def interval_micros_def interval_seconds_def less_instant_def)
qed

end
