(* ===== verification/Latch.thy ===== *)
theory Latch
  imports OperatorOrder Trading
begin

text \<open>
  The kill switch and everything that writes to the database: no operation of the runtime or of the
  operator order touches the key the switch is latched under, so a latch holds across every path of a
  process, failures and restarts included. The observation is \<open>switch_key\<close>; a frame lemma for each
  operation, in the order of \<open>Runtime\<close>.
\<close>

definition switch_key :: "db \<Rightarrow> string option" where
  "switch_key d = map_of (t_state d) kill_switch_state_key"

definition switch_of :: "('b, 'z) app \<Rightarrow> string option" where
  "switch_of s = switch_key (ap_db s)"

section \<open>Statements\<close>

lemma observes_switch [simp]: "observes switch_key"
  by (simp add: observes_def switch_key_def)

lemma keeps_switch_state: "keeps t_state m \<Longrightarrow> keeps switch_key m"
  by (simp add: keeps_def switch_key_def)

lemma switch_set_state: "k \<noteq> kill_switch_state_key \<Longrightarrow> keeps switch_key (set_state k v)"
  unfolding set_state_def by (rule keeps_statement) (simp_all add: switch_key_def update_conv')

lemma switch_state_keys:
  "keeps switch_key (set_state ''last_application_state'' v)" "keeps switch_key (set_state ''last_run_id'' v)"
  "keeps switch_key (set_state ''last_shutdown_at'' v)"
  by (rule switch_set_state; simp add: kill_switch_state_key_def)+

lemma switch_positions: "keeps switch_key (positions_replace_all ps)"
proof -
  have inserts: "keeps switch_key (position_insert_all ps)"
    by (induction ps)
      (auto intro!: keeps_sbind keeps_statement simp: position_insert_def, simp_all add: switch_key_def)
  have "keeps switch_key (sbind (statement (\<lambda>s. (Inr (), s \<lparr> t_positions := [] \<rparr>))) (\<lambda>_. position_insert_all ps))"
    by (intro keeps_sbind keeps_statement inserts) (simp_all add: switch_key_def)
  then show ?thesis
    by (auto simp: keeps_def positions_replace_all_def transaction_def switch_key_def split: prod.splits sum.splits)
qed

lemma switch_insert: "keeps switch_key (insert_if_absent (\<lambda>d. d) o')"
proof -
  have won: "keeps switch_key (insert_or_winner o')"
  proof (rule keepsI)
    fix s t and r :: "(order \<times> bool) result" assume "insert_or_winner o' s = (r, t)"
    then show "switch_key t = switch_key s"
      using keepsD [OF keeps_switch_state [OF keeps_state(4)], of o'] keepsD [OF keeps_reads(2) [OF observes_switch]]
      by (auto simp: insert_or_winner_def split: prod.splits sum.splits option.splits if_splits)
  qed
  show ?thesis
    unfolding insert_if_absent_def by (auto intro!: keeps_sbind keeps_reads won split: option.splits)
qed

lemma switch_reading:
  "keeps switch_key open_order_count" "keeps switch_key (orders_last_hour now)" "keeps switch_key migrate"
  "keeps switch_key db_connect" "keeps switch_key (ks_engaged c (Some get_state))"
proof -
  show "keeps switch_key open_order_count" "keeps switch_key (orders_last_hour now)"
    unfolding open_order_count_def orders_last_hour_def by (intro keeps_sbind keeps_reads keeps_pure observes_switch)+
  show "keeps switch_key migrate" "keeps switch_key db_connect"
    by (simp_all add: keeps_migrate keeps_connect switch_key_def)
  have "keeps switch_key (get_state k)" for k by (simp add: keeps_reads)
  then show "keeps switch_key (ks_engaged c (Some get_state))"
    unfolding keeps_def ks_engaged_def ks_latched_def sbind_def by (auto split: prod.splits sum.splits if_splits)
qed

lemmas switch_stores = keeps_reads [OF observes_switch] keeps_state [THEN keeps_switch_state] switch_state_keys
  switch_positions switch_insert switch_reading

section \<open>The application\<close>

lemma switch_update [simp]:
  "switch_of (s \<lparr> ap_state := st \<rparr>) = switch_of s" "switch_of (s \<lparr> ap_stop := b \<rparr>) = switch_of s"
  "switch_of (s \<lparr> ap_shutting_down := b \<rparr>) = switch_of s" "switch_of (s \<lparr> ap_session := x \<rparr>) = switch_of s"
  "switch_of (s \<lparr> ap_strategy := g \<rparr>) = switch_of s" "switch_of (s \<lparr> ap_validator := v \<rparr>) = switch_of s"
  "switch_of (s \<lparr> ap_book := k \<rparr>) = switch_of s" "switch_of (s \<lparr> ap_reconciliation := rr \<rparr>) = switch_of s"
  "switch_of (s \<lparr> ap_account := a \<rparr>) = switch_of s" "switch_of (s \<lparr> ap_contract := c \<rparr>) = switch_of s"
  "switch_of (s \<lparr> ap_connect_attempt := n \<rparr>) = switch_of s" "switch_of (s \<lparr> ap_last_error := e \<rparr>) = switch_of s"
  "switch_of (s \<lparr> ap_next_reconcile_at := f \<rparr>) = switch_of s" "switch_of (s \<lparr> ap_health_running := b \<rparr>) = switch_of s"
  "switch_of (s \<lparr> ap_reads := m \<rparr>) = switch_of s" "switch_of (s \<lparr> ap_loop_reads := m \<rparr>) = switch_of s"
  "switch_of (s \<lparr> ap_ids := m \<rparr>) = switch_of s" "switch_of (s \<lparr> ap_db := db_close (ap_db s) \<rparr>) = switch_of s"
  "switch_of (make_app d) = switch_key d"
  by (simp_all add: switch_of_def switch_key_def db_close_def make_app_def)

lemma ignores_switch [simp]: "ignores_session switch_of"
  by (simp add: ignores_session_def)

lemma switch_store: "keeps switch_key m \<Longrightarrow> keeps switch_of (on_store m)"
  by (auto simp: keeps_def on_store_def switch_of_def split: prod.splits)

lemma switch_clock: "keeps switch_of (utc_now E)" "keeps switch_of (random_id E p)"
  by (auto simp: keeps_def utc_now_def random_id_def)

lemma switch_book: "keeps switch_of (on_book m)"
  by (rule keeps_on_book) simp

lemmas switch_intros = keeps_sbind keeps_smodify keeps_ssuppress keeps_pure switch_clock switch_book
  switch_store switch_stores keeps_on_parts [OF ignores_switch]

lemma switch_events:
  "keeps switch_of (record_event E e l)" "keeps switch_of (record_broker E e)"
  "keeps switch_of (kill_switch_engaged E)"
  unfolding record_event_def record_broker_def kill_switch_engaged_def by (intro switch_intros)+

lemma switch_set_app_state: "keeps switch_of (app_set_state st :: (('b, 'z) app, unit) action)"
proof (rule keepsI)
  fix s t :: "('b, 'z) app" and r assume run: "app_set_state st s = (r, t)"
  have saved: "keeps switch_of (ssuppress (on_store (set_state ''last_application_state'' v)) :: (('b, 'z) app, unit) action)" for v
    by (intro switch_intros)
  show "switch_of t = switch_of s"
  proof (cases "st = ap_state s")
    case True
    with run show ?thesis by (simp add: app_set_state_def)
  next
    case False
    with run have "ssuppress (on_store (set_state ''last_application_state'' (application_state_value st)))
        (s \<lparr> ap_state := st \<rparr>) = (r, t)" by (simp add: app_set_state_def)
    from keepsD [OF saved this] show ?thesis by simp
  qed
qed

lemma switch_ready: "keeps switch_of (compute_ready_state E)"
  unfolding compute_ready_state_def keeps_def
  using keepsD [OF switch_events(3)] by (auto simp: sbind_def split: if_splits prod.splits sum.splits)

lemma switch_settle: "keeps switch_of before \<Longrightarrow> keeps switch_of (Runtime.settle E before)"
  unfolding Runtime.settle_def by (auto intro!: switch_intros switch_ready switch_set_app_state)

lemma switch_ingest: "keeps switch_of (ingest_fills E fs)"
  by (induction fs) (auto intro!: switch_intros)

lemma switch_reconcile: "keeps switch_of (run_reconcile E)"
proof -
  note events = switch_events(1) [of E]
  have account: "keeps switch_of (read_account E)"
  proof -
    have asked: "keeps switch_of (on_broker (br_account_summary (en_broker E) now))" for now by (intro switch_intros)
    have "keeps switch_of (\<lambda>s. case on_broker (br_account_summary (en_broker E) now) s of
          (Inr a, s') \<Rightarrow> (Inr True, s' \<lparr> ap_account := Some a \<rparr>)
        | (Inl e, s') \<Rightarrow> if is_broker_error e then (Inr False, s' \<lparr> ap_account := None \<rparr>) else (Inl e, s'))" for now
      using keepsD [OF asked] by (intro keepsI) (auto split: prod.splits sum.splits if_splits)
    then show ?thesis unfolding read_account_def by (intro switch_intros)
  qed
  have read: "keeps switch_of (read_broker E)" unfolding read_broker_def by (intro switch_intros)
  have adopt: "keeps switch_of (adopt_reconciliation E rr)" for rr
    unfolding adopt_reconciliation_def by (auto intro!: switch_intros events)
  have compare: "keeps switch_of (compare_with_broker E b ps os fs)" for b ps os fs
    unfolding compare_with_broker_def by (intro switch_intros switch_ingest adopt)
  have "keeps switch_of (read_and_compare E b)" for b
  proof (rule keepsI)
    fix s r t assume run: "read_and_compare E b s = (r, t)"
    obtain x s1 where rd: "read_broker E s = (x, s1)" by (metis surj_pair)
    from keepsD [OF read rd] run rd show "switch_of t = switch_of s"
      by (auto simp: read_and_compare_def split: sum.splits if_splits prod.splits
          dest!: keepsD [OF events] keepsD [OF compare])
  qed
  with account show ?thesis unfolding run_reconcile_def by (intro switch_intros switch_set_app_state)
qed

lemma switch_resolve: "keeps switch_of (resolve_contract E)"
proof -
  have select: "keeps switch_of (select_contract E c)" for c
    unfolding select_contract_def by (intro switch_intros) simp
  have "keeps switch_of (resolve_at E now)" for now
  proof (rule keepsI)
    fix s r t assume run: "resolve_at E now s = (r, t)"
    let ?m = "resolve (br_qualify (en_broker E) now) (default_futures_symbol (en_config E)) (default_contract_month (en_config E))"
    have looked: "keeps switch_of (on_cache ?m)" by (intro switch_intros)
    obtain x s1 where res: "on_cache ?m s = (x, s1)" by (metis surj_pair)
    from keepsD [OF looked res] run res show "switch_of t = switch_of s"
      by (auto simp: resolve_at_def split: sum.splits if_splits
          dest!: keepsD [OF select] keepsD [OF switch_events(1)])
  qed
  then show ?thesis unfolding resolve_contract_def by (auto intro!: switch_intros)
qed

lemma switch_connect: "keeps switch_of (connect_with_backoff E)"
proof -
  have ends: "keeps switch_of (connection_refused E e)" "keeps switch_of (connection_failed E n e)"
    "keeps switch_of (connection_made E)" for n e
    unfolding connection_refused_def connection_failed_def connection_made_def request_stop_def
    by (auto intro!: switch_intros switch_events switch_set_app_state)
  have "keeps switch_of (try_connect E n now)" for n now
  proof (rule keepsI)
    fix s r t assume run: "try_connect E n now s = (r, t)"
    have asked: "keeps switch_of (on_broker (br_connect (en_broker E) now))" by (intro switch_intros)
    obtain x s1 where conn: "on_broker (br_connect (en_broker E) now) s = (x, s1)" by (metis surj_pair)
    from keepsD [OF asked conn] run conn show "switch_of t = switch_of s"
      by (auto simp: try_connect_def split: sum.splits if_splits dest!: keepsD [OF ends(1)]
          keepsD [OF ends(2)] keepsD [OF ends(3)])
  qed
  then show ?thesis unfolding connect_with_backoff_def by (auto intro!: switch_intros switch_set_app_state)
qed

lemma switch_after_connect: "keeps switch_of (after_connect E)"
  unfolding after_connect_def by (intro switch_intros switch_settle switch_resolve switch_reconcile)

section \<open>Orders\<close>

lemma switch_on_db: "keeps switch_key m \<Longrightarrow> keeps (\<lambda>(d, b). switch_key d) (on_db m)"
  by (auto simp: keeps_def on_db_def split: prod.splits)

lemma switch_submit: "keeps (\<lambda>(d, b). switch_key d) (submit_intent m q)"
proof -
  note db = keeps_sbind keeps_pure switch_on_db switch_stores
  have fail: "keeps (\<lambda>(d, b). switch_key d) (record_failure o' rd gd res err)" for o' rd gd res err
    unfolding record_failure_def by (intro db)
  have answer: "keeps (\<lambda>(d, b). switch_key d) (record_answer m q o' rd gd a)" for o' rd gd a
    unfolding record_answer_def Let_def
    by (auto intro!: db fail split: sum.splits option.splits bool.splits prod.splits)
  have placed: "keeps (\<lambda>(d, b). switch_key d) (\<lambda>(d, b). case mg_place m t req b of
       (a, b') \<Rightarrow> record_answer m q o' rd gd a (d, b'))" for t req o' rd gd
    using keepsD [OF answer] by (fastforce intro!: keepsI split: prod.splits)
  have transmit: "keeps (\<lambda>(d, b). switch_key d) (transmit m q o' rd gd)" for o' rd gd
    unfolding transmit_def Let_def by (intro db placed)
  have block: "keeps (\<lambda>(d, b). switch_key d) (block q reasons o' report)" for reasons o' report
    unfolding block_def Let_def by (intro db)
  have "keeps (\<lambda>(d, b). switch_key d) (gate_and_transmit m q o' rd)" for o' rd
    unfolding gate_and_transmit_def Let_def
    by (auto intro!: block transmit split: sum.splits option.splits)
  then have "keeps (\<lambda>(d, b). switch_key d) (check_and_transmit m q o')" for o'
    unfolding check_and_transmit_def by (intro db)
  then show ?thesis
    unfolding submit_intent_def by (auto intro!: db split: sum.splits option.splits prod.splits)
qed

lemma switch_contexts:
  "keeps switch_of (build_risk_context E i c side n)" "keeps switch_of (build_gate_context E b)"
  unfolding build_risk_context_def build_gate_context_def by (intro switch_intros switch_events)+

lemma switch_handle_intent: "keeps switch_of (handle_intent E ty price i)"
proof -
  have sent: "keeps switch_of (on_orders (submit_intent m q))" for m q
    using keepsD [OF switch_submit, of m q]
    by (intro keepsI) (fastforce simp: on_orders_def switch_of_def split: option.splits prod.splits)
  have "keeps switch_of (trade_towards E ty price i c)" for c
    unfolding trade_towards_def submit_order_def by (auto intro!: switch_intros switch_contexts sent)
  moreover have "keeps switch_of (correlation_of E i)"
    unfolding correlation_of_def by (auto intro!: switch_intros split: option.splits)
  ultimately have body: "keeps switch_of (sbind (correlation_of E i) (\<lambda>cor. sbind (utc_now E) (\<lambda>now.
      (let (result, v') = validate_intent now i v in
       sbind (smodify (\<lambda>s. s \<lparr> ap_validator := Some v' \<rparr>)) (\<lambda>_.
       sbind (on_store (signal_record_op (signal_row_of E i cor result))) (\<lambda>_.
       if \<not> va_accepted result then sreturn None
       else sbind (sgets ap_contract) (\<lambda>contract.
         case contract of None \<Rightarrow> sreturn None | Some c \<Rightarrow> trade_towards E ty price i c)))))))" for v
    by (auto intro!: switch_intros split: prod.splits option.splits)
  show ?thesis
    using keepsD [OF body] by (intro keepsI) (auto simp: handle_intent_def split: option.splits)
qed

section \<open>The process\<close>

lemma switch_poll: "keeps switch_of (poll_quotes E)"
proof (rule keepsI)
  fix s t and r assume run: "poll_quotes E s = (r, t)"
  have body: "keeps switch_of (sbind (on_market (poll_all (en_broker E) clock)) (\<lambda>qs.
     sbind (smodify (\<lambda>t. t \<lparr> ap_reads := n \<rparr>)) (\<lambda>_. sreturn qs)))" for clock n
    by (intro switch_intros) simp
  from run show "switch_of t = switch_of s" unfolding poll_quotes_def by (rule keepsD [OF body])
qed

lemma switch_feed: "keeps switch_of (feed_strategy E qs)"
proof -
  have intents: "keeps switch_of (handle_intents E is)" for "is"
    by (induction "is") (auto intro!: switch_intros switch_handle_intent)
  have "keeps switch_of (ask_strategy q)" for q
    by (auto simp: keeps_def ask_strategy_def split: option.splits prod.splits)
  then show ?thesis by (induction qs) (auto intro!: switch_intros intents)
qed

lemma switch_tick: "keeps switch_of (tick E)"
proof -
  have lost: "keeps switch_of (handle_disconnect E)"
    unfolding handle_disconnect_def by (intro switch_intros switch_events switch_set_app_state) simp
  have body: "keeps switch_of (sbind (poll_quotes E) (\<lambda>qs. sbind (kill_switch_engaged E) (\<lambda>engaged.
      if engaged then app_set_state App_Halted else feed_strategy E qs)))"
    by (auto intro!: switch_intros switch_poll switch_events switch_feed switch_set_app_state)
  show ?thesis
    using keepsD [OF lost] keepsD [OF body] by (intro keepsI) (auto simp: tick_def split: option.splits if_splits)
qed

lemma switch_maybe_reconcile: "keeps switch_of (maybe_reconcile E)"
proof -
  have due: "keeps switch_of (reconcile_on_timer E)"
    unfolding reconcile_on_timer_def by (intro switch_intros switch_settle switch_reconcile)
  show ?thesis
    by (rule keepsI)
      (auto simp: maybe_reconcile_def Let_def split: if_splits option.splits dest!: keepsD [OF due])
qed

lemma switch_startup: "keeps switch_of (startup E)"
  unfolding startup_def open_session_def
  by (auto intro!: switch_intros switch_events switch_set_app_state)

lemma switch_shutdown: "keeps switch_of (shutdown E)"
proof -
  have body: "keeps switch_of (sbind (smodify (\<lambda>s. s \<lparr> ap_shutting_down := True \<rparr>)) (\<lambda>_.
          sbind (record_event E ''app.shutdown'' ''INFO'') (\<lambda>_.
          sbind (ssuppress (sbind (sgets ap_state) (\<lambda>st.
                   sbind (on_store (set_state ''last_application_state'' (application_state_value st))) (\<lambda>_.
                   sbind (utc_now E) (\<lambda>now. on_store (set_state ''last_shutdown_at'' (en_iso E now))))))) (\<lambda>_.
          sbind (smodify (\<lambda>s. s \<lparr> ap_health_running := (ap_health_running s \<and> en_admin E) \<rparr>)) (\<lambda>_.
          sbind (sgets ap_session) (\<lambda>ss.
          sbind (if ss = None then sreturn () else ssuppress (on_broker (br_disconnect (en_broker E)))) (\<lambda>_.
          smodify (\<lambda>s. s \<lparr> ap_db := db_close (ap_db s) \<rparr>))))))))"
    by (auto intro!: switch_intros switch_events)
  show ?thesis
    unfolding shutdown_def using keepsD [OF body] by (intro keepsI) (auto split: if_splits)
qed

lemma switch_loop_once: "keeps switch_of (loop_once E)"
proof -
  have turn: "keeps switch_of (sbind (if up then sreturn True
      else sbind (connect_with_backoff E) (\<lambda>connected.
           if connected then sbind (after_connect E) (\<lambda>_. sreturn True) else sreturn False))
      (\<lambda>go. if go then sbind (maybe_reconcile E) (\<lambda>_. tick E) else sreturn ()))" for up
    by (auto intro!: switch_intros switch_connect switch_after_connect switch_maybe_reconcile switch_tick)
  show ?thesis
    using keepsD [OF turn] by (intro keepsI) (auto simp: loop_once_def split: if_splits option.splits)
qed

lemma switch_fatal: "keeps switch_of (fatal E e)"
  unfolding fatal_def by (intro switch_intros switch_events switch_set_app_state) simp

text \<open>A whole process, between whose turns another process may work on the same database.\<close>

lemma switch_run_loop:
  assumes "\<And>n s. switch_of s = Some ''true'' \<Longrightarrow> switch_of (world n s) = Some ''true''"
  shows "preserves (\<lambda>s. switch_of s = Some ''true'') (run_loop E world n)"
proof (induction n)
  case 0
  show ?case by (auto simp: preserves_def)
next
  case (Suc n)
  show ?case
  proof (rule preservesI)
    fix s r t assume run: "run_loop E world (Suc n) s = (r, t)" and on: "switch_of s = Some ''true''"
    obtain x s1 where turn: "loop_once E s = (x, s1)" by (metis surj_pair)
    with on have on1: "switch_of s1 = Some ''true''" using keepsD [OF switch_loop_once turn] by simp
    have failed: "keeps switch_of (sbind (fatal E e) (\<lambda>code. sreturn (Some code)))" for e
      by (intro switch_intros switch_fatal)
    show "switch_of t = Some ''true''"
    proof (cases "ap_stop s")
      case True
      with run on show ?thesis by simp
    next
      case False
      with run turn on1 assms [OF on1] show ?thesis
        by (cases x) (auto dest!: keepsD [OF failed] preservesD [OF Suc.IH])
    qed
  qed
qed

section \<open>The operator order\<close>

lemma switch_place_operator_order:
  assumes "place_operator_order E source q d = (r, Some t)"
  shows "switch_of t = switch_key d"
proof -
  have asks: "keeps switch_of (operator_validator E)" "keeps switch_of (operator_intent E q c)"
    "keeps switch_of (ask_approvers E v i c side n)" for E :: "('a, 'c) runtime_env" and c v i side n
    unfolding operator_validator_def operator_intent_def ask_approvers_def
    by (intro switch_intros switch_contexts)+
  have status: "keeps switch_of (await_broker_status E source sub)" for E :: "('a, 'c) runtime_env" and sub
    unfolding await_broker_status_def persist_status_def
    by (auto intro!: switch_intros split: option.splits)
  have after: "keeps switch_of (after_submission E source out)" for E :: "('a, 'c) runtime_env" and out
    unfolding after_submission_def reconcile_after_fill_def Let_def
    by (auto intro!: switch_intros status switch_reconcile split: option.splits)
  have sends: "keeps switch_of (confirm_and_send E source q c plan approvals i)"
    for E :: "('a, 'c) runtime_env" and c plan approvals i
    unfolding confirm_and_send_def by (auto intro!: switch_intros switch_handle_intent after)
  have prepares: "keeps switch_of (prepare_order E source q c)" for E :: "('a, 'c) runtime_env" and c
    unfolding prepare_order_def
    by (auto intro!: switch_intros switch_poll asks sends split: prod.splits)
  have runs: "keeps switch_of (operator_run E source q)" for E :: "('a, 'c) runtime_env"
    unfolding operator_run_def
    by (auto intro!: switch_intros switch_connect switch_after_connect prepares split: option.splits)
  have session: "keeps switch_of (operator_session E source q)" for E :: "('a, 'c) runtime_env"
    unfolding operator_session_def
    by (intro keeps_sbind switch_startup keeps_sfinally runs switch_shutdown)
  from assms keepsD [OF session, of "operator_env E" "make_app d" r t] show ?thesis
    by (auto simp: place_operator_order_def split: if_splits prod.splits)
qed

end
