(* ===== verification/Cli.thy ===== *)
theory Cli
  imports OperatorOrder Checkout Status Posture BarStore
begin

text \<open>
  \<^verbatim>\<open>app/cli.py\<close>: the operator's command line. A command is a value of \<open>command\<close>, what the parser of
  arguments makes of the command line; a run is an action over the database and the broker the
  command opens, and ends with the exit code and what was printed. The printed record holds what the
  payload reports; build information, notes and paths are left out.

  What a command reads besides is an argument: the answer of the running process to \<^verbatim>\<open>GET /status\<close>, the
  rows of a CSV file, the replies of the klines server, the day and JSON parsers, the reading of the
  permission probe. The readings of the clock are numbered within one run.
\<close>

section \<open>Commands\<close>

datatype posture_option = Halted | Paper_Armed

record order_options =
  oo_target_position :: int
  oo_order_type :: order_type
  oo_limit_price :: "string option"
  oo_confirm :: "string option"

datatype bar_source_option = From_Binance | From_CSV

record import_options =
  im_symbol :: string
  im_interval :: string
  im_source :: bar_source_option
  im_days :: int
  im_start :: "string option"
  im_end :: "string option"
  im_limit :: int
  im_csv_path :: "string option"
  im_csv_source_name :: string
  im_csv_columns :: "string option"

text \<open>What the parser fills in for options that are not given.\<close>

definition import_defaults :: import_options where
  "import_defaults =
     \<lparr> im_symbol = ''SOLUSDT'', im_interval = ''1m'', im_source = From_Binance, im_days = 365,
       im_start = None, im_end = None, im_limit = 0, im_csv_path = None,
       im_csv_source_name = ''csv'', im_csv_columns = None \<rparr>"

definition order_defaults :: "int \<Rightarrow> order_options" where
  "order_defaults target =
     \<lparr> oo_target_position = target, oo_order_type = Limit, oo_limit_price = None, oo_confirm = None \<rparr>"

datatype command =
    Show_Status
  | Show_Broker_Status
  | Show_Positions
  | Show_Open_Orders
  | Show_Contracts
  | Show_Kill_Switch
  | Kill_Switch_On string
  | Cancel_All string bool
  | Show_Database
  | Show_Config
  | Verify posture_option
  | Run_Checkout "string option"
  | Place_Order order_options
  | Check_Permission "string option"
  | Import_Bars import_options
  | Show_Bars

section \<open>What is printed\<close>

record durable_status =
  ds_state :: "(string \<times> string) list option"
  ds_database :: "database_info option option"
  ds_open_orders :: "order list option"
  ds_database_failed :: bool

datatype printed =
    P_Live_Status string
  | P_Durable_Status durable_status
  | P_Broker_Status string "int option" "(string \<times> string) list" "event_row list"
  | P_Positions "position list"
  | P_Open_Orders "order list"
  | P_Contracts "qualified_contract list"
  | P_Kill_Switch ks_description safety_summary
  | P_Kill_Switch_Engaged string ks_description
  | P_Confirmation_Required
  | P_No_Broker
  | P_Cancel_Requested string nat int
  | P_Error exn
  | P_Database "database_info option"
  | P_Config config
  | P_Posture string "posture_check list" "string list"
  | P_Checkout_Refused "string list"
  | P_Checkout "probe list"
  | P_Checkout_Error exn
  | P_Refused_Live_Mode
  | P_No_Contract
  | P_Permission "string \<times> int" permission_probe
  | P_Probe_Error exn
  | P_Invalid_Limit_Price string
  | P_Operator_Order operator_answer
  | P_Operator_Order_Error exn
  | P_Invalid_Range
  | P_CSV_Path_Required
  | P_Invalid_CSV_Columns
  | P_Invalid_CSV_Mapping
  | P_Fetch_Failed nat
  | P_Imported nat nat "bar list" bar_series_info
  | P_Bars "bar_series_info list"
  | P_Database_Error
  | P_Fatal_Config

section \<open>The run of a command\<close>

datatype live_reply = Live_Status string | Live_Unavailable | Live_Raises exn

record ('b, 'z) tool_env =
  to_app :: "('b, 'z) runtime_env"
  to_version :: string
  to_status_source :: "'b status_source"
  to_probe :: "instant \<Rightarrow> qualified_contract \<Rightarrow> ('b, permission_probe) action"
  to_live_status :: live_reply
  to_server :: "kline_request \<Rightarrow> page_reply"
  to_file :: "string \<Rightarrow> csv_row list result"
  to_columns :: "string \<Rightarrow> (string \<times> string) list option"
  to_time :: "string \<Rightarrow> instant result"
  to_day :: "string \<Rightarrow> instant result"

record 'b tool =
  tl_data :: bar_db
  tl_broker :: "'b option"

type_synonym ('b, 'a) tool_action = "('b tool, 'a) action"

definition exit_ok :: int where "exit_ok = 0"
definition exit_error :: int where "exit_error = 1"
definition exit_config :: int where "exit_config = 2"

definition on_data :: "(bar_db, 'a) action \<Rightarrow> ('b, 'a) tool_action" where
  "on_data m = (\<lambda>s. case m (tl_data s) of (r, d) \<Rightarrow> (r, s \<lparr> tl_data := d \<rparr>))"

definition on_tables :: "(db, 'a) action \<Rightarrow> (bar_db, 'a) action" where
  "on_tables m = (\<lambda>(d, bars). case m d of (r, d') \<Rightarrow> (r, (d', bars)))"

definition use_broker :: "('b, 'a) action \<Rightarrow> ('b, 'a) tool_action" where
  "use_broker m = (\<lambda>s.
     (case tl_broker s of
        None \<Rightarrow> (Inl AttributeError, s)
      | Some b \<Rightarrow> (case m b of (r, b') \<Rightarrow> (r, s \<lparr> tl_broker := Some b' \<rparr>))))"

text \<open>\<^verbatim>\<open>_open_database\<close>, the body, and the \<^verbatim>\<open>finally\<close> that closes.\<close>

definition closing :: "(bar_db, 'a) action \<Rightarrow> (bar_db, 'a) action" where
  "closing m = sfinally m (\<lambda>(d, bars). (Inr (), (db_close d, bars)))"

definition with_database :: "(bar_db, 'a) action \<Rightarrow> ('b, 'a) tool_action" where
  "with_database m = on_data (sbind (on_tables db_connect) (\<lambda>_. closing m))"

text \<open>\<^verbatim>\<open>except Exception\<close> around a run that reports.\<close>

definition reporting ::
  "(exn \<Rightarrow> printed) \<Rightarrow> ('b, int \<times> printed) tool_action \<Rightarrow> ('b, int \<times> printed) tool_action" where
  "reporting report m = (\<lambda>s.
     (case m s of (Inl e, s') \<Rightarrow> (Inr (exit_error, report e), s') | (Inr x, s') \<Rightarrow> (Inr x, s')))"

section \<open>Reading commands\<close>

definition state_all :: "(db, (string \<times> string) list) action" where
  "state_all = query (\<lambda>s. sort_key fst (t_state s))"

definition contracts_all :: "(db, qualified_contract list) action" where
  "contracts_all = query (\<lambda>s. sort_key expiration (t_contracts s))"

definition recent_bot_events :: "nat \<Rightarrow> (db, event_row list) action" where
  "recent_bot_events limit = query (\<lambda>s. take limit (rev (sort_key ev_occurred_at (t_bot_events s))))"

text \<open>
  \<^verbatim>\<open>status\<close>: the running process, or what the database holds. A failure leaves out what was not read
  yet, and leaves the database open.
\<close>

definition durable_status_of :: "(db, durable_status) action" where
  "durable_status_of = (\<lambda>d.
     let nothing = \<lparr> ds_state = None, ds_database = None, ds_open_orders = None, ds_database_failed = True \<rparr> in
     (case sbind db_connect (\<lambda>_. state_all) d of
        (Inl e, d') \<Rightarrow> if e = DatabaseError then (Inr nothing, d') else (Inl e, d')
      | (Inr st, d1) \<Rightarrow>
          (case database_info_of d1 of
             (Inl e, d') \<Rightarrow> if e = DatabaseError then (Inr (nothing \<lparr> ds_state := Some st \<rparr>), d') else (Inl e, d')
           | (Inr info, d2) \<Rightarrow>
               (case open_orders d2 of
                  (Inl e, d') \<Rightarrow>
                    if e = DatabaseError
                    then (Inr (nothing \<lparr> ds_state := Some st, ds_database := Some info \<rparr>), d') else (Inl e, d')
                | (Inr os, d') \<Rightarrow>
                    (Inr \<lparr> ds_state = Some st, ds_database = Some info, ds_open_orders = Some os,
                           ds_database_failed = False \<rparr>, db_close d')))))"

definition cmd_status :: "('b, 'z) tool_env \<Rightarrow> ('b, int \<times> printed) tool_action" where
  "cmd_status T =
     (case to_live_status T of
        Live_Status x \<Rightarrow> sreturn (exit_ok, P_Live_Status x)
      | Live_Raises e \<Rightarrow> sraise e
      | Live_Unavailable \<Rightarrow>
          sbind (on_data (on_tables durable_status_of)) (\<lambda>p. sreturn (exit_error, P_Durable_Status p)))"

definition broker_implementation :: "config \<Rightarrow> string" where
  "broker_implementation c =
     (if cfg_trading_mode c = Mode_Mock then ''mock''
      else if cfg_trading_mode c = Mode_Disabled then ''none'' else ''ibkr'')"

definition cmd_broker_status :: "config \<Rightarrow> ('b, int \<times> printed) tool_action" where
  "cmd_broker_status c = with_database
     (sbind (on_tables state_all) (\<lambda>st.
      sbind (on_tables (recent_bot_events 10)) (\<lambda>evs.
      sreturn (exit_ok, P_Broker_Status (broker_implementation c) (ib_port c) st evs))))"

definition cmd_positions :: "('b, int \<times> printed) tool_action" where
  "cmd_positions = with_database
     (sbind (on_tables positions_all) (\<lambda>ps. sreturn (exit_ok, P_Positions ps)))"

definition cmd_open_orders :: "('b, int \<times> printed) tool_action" where
  "cmd_open_orders = with_database
     (sbind (on_tables open_orders) (\<lambda>os. sreturn (exit_ok, P_Open_Orders os)))"

definition cmd_contract_info :: "('b, int \<times> printed) tool_action" where
  "cmd_contract_info = with_database
     (sbind (on_tables contracts_all) (\<lambda>cs. sreturn (exit_ok, P_Contracts cs)))"

definition cmd_kill_switch_status :: "config \<Rightarrow> ('b, int \<times> printed) tool_action" where
  "cmd_kill_switch_status c = with_database
     (sbind (on_tables (ks_describe (cfg_kill_switch c) (Some get_state))) (\<lambda>k.
      sbind (on_tables (ks_engaged (cfg_kill_switch c) (Some get_state))) (\<lambda>engaged.
      sreturn (exit_ok, P_Kill_Switch k (safety_summary_of c engaged)))))"

definition cmd_db_info :: "('b, int \<times> printed) tool_action" where
  "cmd_db_info = on_data (closing
     (sbind (on_tables database_info_of) (\<lambda>i. sreturn (exit_ok, P_Database i))))"

definition cmd_config :: "config \<Rightarrow> ('b, int \<times> printed) tool_action" where
  "cmd_config c = sreturn (exit_ok, P_Config c)"

section \<open>The kill switch and the posture\<close>

definition cmd_kill_switch_on :: "('b, 'z) tool_env \<Rightarrow> config \<Rightarrow> string \<Rightarrow> ('b, int \<times> printed) tool_action" where
  "cmd_kill_switch_on T c reason = with_database
     (sbind (on_tables (ks_engage (Some set_state) reason (en_iso (to_app T) (en_clock (to_app T) 0)))) (\<lambda>_.
      sbind (on_tables (ks_describe (cfg_kill_switch c) (Some get_state))) (\<lambda>k.
      sreturn (exit_ok, P_Kill_Switch_Engaged reason k))))"

definition must_hold_when_armed :: "string list" where
  "must_hold_when_armed = [''LIVE_TRADING_ENABLED'', ''CAN_TRANSMIT_LIVE_ORDERS'']"

text \<open>The verdict, the name of the result and the failures it lists.\<close>

fun posture_verdict :: "config \<Rightarrow> posture_option \<Rightarrow> posture_check list \<Rightarrow> bool \<times> string \<times> posture_check list" where
  "posture_verdict c Halted checks =
     (let approved = posture_is_approved checks
      in (approved, if approved then ''APPROVED_POSTURE'' else ''POSTURE_NOT_APPROVED'', failing_checks checks))"
| "posture_verdict c Paper_Armed checks =
     (let live_failures = filter (\<lambda>k. pc_name k \<in> set must_hold_when_armed) (failing_checks checks);
          approved = (live_failures = [] \<and> cfg_trading_mode c \<noteq> Mode_Live)
      in (approved, if approved then ''ARMED_AND_NOT_LIVE'' else ''ARMED_BUT_LIVE_CHECKS_FAILED'', live_failures))"

definition cmd_verify :: "config \<Rightarrow> posture_option \<Rightarrow> ('b, int \<times> printed) tool_action" where
  "cmd_verify c posture =
     sbind (with_database (on_tables (ks_engaged (cfg_kill_switch c) (Some get_state)))) (\<lambda>engaged.
     (let checks = evaluate_posture c engaged in
      case posture_verdict c posture checks of (approved, name, failures) \<Rightarrow>
        sreturn (if approved then exit_ok else exit_error, P_Posture name checks (map pc_name failures))))"

section \<open>Commands that reach a broker\<close>

text \<open>The adapter under the admin client id; no port in a mode without one.\<close>

definition admin_adapter :: "config \<Rightarrow> broker_choice option" where
  "admin_adapter c =
     map_option (\<lambda>port. Use_IBKR (ib_host (cfg_ibkr c)) port (admin_client_id (cfg_ibkr c))
                          (connect_timeout_seconds (cfg_ibkr c)) (expected_account_type (cfg_trading_mode c)))
       (ib_port c)"

definition open_broker :: "('b, 'z) tool_env \<Rightarrow> broker_choice \<Rightarrow> ('b, unit) tool_action" where
  "open_broker T choice = smodify (\<lambda>s. s \<lparr> tl_broker := Some (en_open_broker (to_app T) choice) \<rparr>)"

text \<open>\<^verbatim>\<open>assert port is not None\<close>.\<close>

definition open_adapter :: "('b, 'z) tool_env \<Rightarrow> config \<Rightarrow> ('b, unit) tool_action" where
  "open_adapter T c =
     (case admin_adapter c of None \<Rightarrow> sraise AssertionError | Some choice \<Rightarrow> open_broker T choice)"

definition cancel_all :: "('b, 'z) tool_env \<Rightarrow> config \<Rightarrow> string \<Rightarrow> ('b, int \<times> printed) tool_action" where
  "cancel_all T c reason =
     (let B = en_broker (to_app T) in
      if cfg_trading_mode c = Mode_Disabled then sreturn (exit_ok, P_No_Broker)
      else
        sbind (if cfg_trading_mode c = Mode_Mock then open_broker T Use_Mock else open_adapter T c) (\<lambda>_.
        sbind (use_broker (br_connect B (en_clock (to_app T) 0))) (\<lambda>_.
        sfinally
          (sbind (use_broker (br_open_orders B)) (\<lambda>before.
           sbind (use_broker (br_cancel_all_orders B)) (\<lambda>cancelled.
           sreturn (exit_ok, P_Cancel_Requested reason (length before) cancelled))))
          (use_broker (br_disconnect B)))))"

definition cmd_cancel_all_orders ::
  "('b, 'z) tool_env \<Rightarrow> config \<Rightarrow> string \<Rightarrow> bool \<Rightarrow> ('b, int \<times> printed) tool_action" where
  "cmd_cancel_all_orders T c reason confirm =
     (if \<not> confirm then sreturn (exit_error, P_Confirmation_Required)
      else reporting P_Error (cancel_all T c reason))"

definition cmd_ibkr_checkout ::
  "('b, 'z) tool_env \<Rightarrow> config \<Rightarrow> string option \<Rightarrow> ('b, int \<times> printed) tool_action" where
  "cmd_ibkr_checkout T c month =
     (let blocking = failed_probes (preconditions c) in
      if blocking \<noteq> [] then sreturn (exit_error, P_Checkout_Refused (map pb_name blocking))
      else reporting P_Checkout_Error
        (sbind (open_adapter T c) (\<lambda>_.
         sbind (use_broker (run_checkout (en_broker (to_app T)) (en_clock (to_app T)) c month)) (\<lambda>ps.
         sreturn (if report_ok ps then exit_ok else exit_error, P_Checkout ps)))))"

text \<open>\<^verbatim>\<open>ContractResolver(broker).resolve\<close>: a resolver of its own, with an empty cache.\<close>

definition resolve_once ::
  "'b broker \<Rightarrow> instant \<Rightarrow> string \<Rightarrow> string option \<Rightarrow> ('b, qualified_contract) action" where
  "resolve_once B now symbol month = (\<lambda>b.
     (case resolve (br_qualify B now) symbol month (b, Map.empty) of (r, (b', cache)) \<Rightarrow> (r, b')))"

definition probe_permission ::
  "('b, 'z) tool_env \<Rightarrow> config \<Rightarrow> string option \<Rightarrow> ('b, int \<times> printed) tool_action" where
  "probe_permission T c month =
     (let B = en_broker (to_app T); clock = en_clock (to_app T) in
      case admin_adapter c of
        None \<Rightarrow> sreturn (exit_error, P_No_Broker)
      | Some choice \<Rightarrow>
          sbind (open_broker T choice) (\<lambda>_.
          sbind (use_broker (br_connect B (clock 0))) (\<lambda>_.
          sfinally
            (case month_wanted c month of
               None \<Rightarrow> sreturn (exit_error, P_No_Contract)
             | Some m \<Rightarrow>
                 sbind (use_broker (resolve_once B (clock 1) (default_futures_symbol c) (Some m))) (\<lambda>q.
                 sbind (use_broker (to_probe T (clock 2) q)) (\<lambda>p.
                 sreturn (if pp_permitted p = Some True then exit_ok else exit_error,
                          P_Permission (qc_local_symbol q, con_id q) p))))
            (use_broker (br_disconnect B)))))"

definition cmd_check_permission ::
  "('b, 'z) tool_env \<Rightarrow> config \<Rightarrow> string option \<Rightarrow> ('b, int \<times> printed) tool_action" where
  "cmd_check_permission T c month =
     (if cfg_trading_mode c = Mode_Live then sreturn (exit_error, P_Refused_Live_Mode)
      else reporting P_Probe_Error (probe_permission T c month))"

text \<open>The operator order runs over an application of its own and leaves what that leaves.\<close>

definition operator_request_of :: "order_options \<Rightarrow> decimal option \<Rightarrow> operator_request" where
  "operator_request_of a price =
     \<lparr> op_target = oo_target_position a,
       op_order_type = (if oo_order_type a = Market then Market else Limit),
       op_limit_price = price, op_confirm = oo_confirm a \<rparr>"

definition run_operator_order ::
  "('b, 'z) tool_env \<Rightarrow> config \<Rightarrow> operator_request \<Rightarrow> ('b, operator_answer) tool_action" where
  "run_operator_order T c q = (\<lambda>s.
     (case place_operator_order (to_app T \<lparr> en_config := c \<rparr>) (to_status_source T) q (fst (tl_data s)) of
        (r, None) \<Rightarrow> (r, s)
      | (r, Some a) \<Rightarrow>
          (r, s \<lparr> tl_data := (ap_db a, snd (tl_data s)), tl_broker := map_option ss_broker (ap_session a) \<rparr>)))"

definition cmd_place_order ::
  "('b, 'z) tool_env \<Rightarrow> config \<Rightarrow> order_options \<Rightarrow> ('b, int \<times> printed) tool_action" where
  "cmd_place_order T c a =
     (let send = (\<lambda>price. reporting P_Operator_Order_Error
            (sbind (run_operator_order T c (operator_request_of a price)) (\<lambda>answer.
             sreturn (if answer_result answer \<in> {''SUBMITTED'', ''PREVIEW_ONLY''} then exit_ok else exit_error,
                      P_Operator_Order answer)))) in
      case oo_limit_price a of
        None \<Rightarrow> send None
      | Some t \<Rightarrow>
          (case py_decimal t of
             None \<Rightarrow> sreturn (exit_error, P_Invalid_Limit_Price t)
           | Some p \<Rightarrow> send (Some p)))"

section \<open>Historical bars\<close>

text \<open>\<^verbatim>\<open>end - timedelta(days=n)\<close>.\<close>

definition days_before :: "instant \<Rightarrow> int \<Rightarrow> instant result" where
  "days_before t n =
     (if \<bar>n\<bar> > 999999999 then Inl OverflowError
      else (let u = micros t - n * 86400000000 in
            if - 62135596800000000 \<le> u \<and> u < 253402300800000000 then Inr (Micros u) else Inl OverflowError))"

text \<open>The loop over the generator, which stops asking at the limit.\<close>

fun collect_bars :: "int \<Rightarrow> nat \<Rightarrow> bar list \<Rightarrow> exn option \<Rightarrow> bar list \<times> exn option" where
  "collect_bars limit n [] e = ([], e)"
| "collect_bars limit n (b # bs) e =
     (if limit \<noteq> 0 \<and> limit \<le> int (Suc n) then ([b], None)
      else (case collect_bars limit (Suc n) bs e of (rest, e') \<Rightarrow> (b # rest, e')))"

definition import_range :: "('b, 'z) tool_env \<Rightarrow> import_options \<Rightarrow> (instant \<times> instant) result" where
  "import_range T a =
     ebind (case im_end a of None \<Rightarrow> Inr (en_clock (to_app T) 0) | Some d \<Rightarrow> to_day T d) (\<lambda>finish.
     ebind (case im_start a of None \<Rightarrow> days_before finish (im_days a) | Some d \<Rightarrow> to_day T d) (\<lambda>start.
     Inr (start, finish)))"

text \<open>What the source yields; a file that cannot be opened raises at the first bar.\<close>

definition csv_outcome ::
  "('b, 'z) tool_env \<Rightarrow> csv_source \<Rightarrow> import_options \<Rightarrow> instant \<Rightarrow> instant \<Rightarrow> bar list \<times> exn option" where
  "csv_outcome T S a start finish =
     (case to_file T (or_else (im_csv_path a) []) of
        Inl e \<Rightarrow> ([], Some e)
      | Inr rows \<Rightarrow> csv_fetch (to_time T) S (im_symbol a) (im_interval a) (Aware start) (Aware finish) rows)"

definition source_name_of :: "import_options \<Rightarrow> string" where
  "source_name_of a =
     (case im_source a of
        From_Binance \<Rightarrow> ''binance''
      | From_CSV \<Rightarrow> if im_csv_source_name a = [] then ''csv'' else im_csv_source_name a)"

definition store_bars :: "import_options \<Rightarrow> bar list \<times> exn option \<Rightarrow> (bar_db, int \<times> printed) action" where
  "store_bars a outcome =
     sbind (on_tables migrate) (\<lambda>_.
     (case collect_bars (im_limit a) 0 (fst outcome) (snd outcome) of
        (fetched, Some e) \<Rightarrow>
          if e = HistoricalSourceError then sreturn (exit_error, P_Fetch_Failed (length fetched)) else sraise e
      | (fetched, None) \<Rightarrow>
          sbind (insert_many fetched) (\<lambda>added.
          sbind (series_info (source_name_of a) (im_symbol a) (im_interval a)) (\<lambda>info.
          sreturn (exit_ok, P_Imported (length fetched) added (take 3 fetched) info)))))"

definition cmd_bars_import :: "('b, 'z) tool_env \<Rightarrow> import_options \<Rightarrow> ('b, int \<times> printed) tool_action" where
  "cmd_bars_import T a =
     sbind (slift (import_range T a)) (\<lambda>(start, finish).
     if finish \<le> start then sreturn (exit_error, P_Invalid_Range)
     else (case im_source a of
        From_Binance \<Rightarrow>
          with_database (store_bars a
            (binance_fetch (to_server T) (im_symbol a) (im_interval a) (Aware start) (Aware finish)))
      | From_CSV \<Rightarrow>
          if nonempty (im_csv_path a) = None then sreturn (exit_error, P_CSV_Path_Required)
          else (case (case nonempty (im_csv_columns a) of None \<Rightarrow> Some [] | Some j \<Rightarrow> to_columns T j) of
             None \<Rightarrow> sreturn (exit_error, P_Invalid_CSV_Columns)
           | Some columns \<Rightarrow>
               (case make_csv_source (im_csv_source_name a) columns of
                  Inl e \<Rightarrow> if e = HistoricalSourceError then sreturn (exit_error, P_Invalid_CSV_Mapping) else sraise e
                | Inr S \<Rightarrow> with_database (store_bars a (csv_outcome T S a start finish))))))"

fun series_infos :: "(string \<times> string \<times> string) list \<Rightarrow> (bar_db, bar_series_info list) action" where
  "series_infos [] = sreturn []"
| "series_infos ((source, symbol, interval) # rest) =
     sbind (series_info source symbol interval) (\<lambda>i.
     sbind (series_infos rest) (\<lambda>is. sreturn (i # is)))"

definition cmd_bars_info :: "('b, int \<times> printed) tool_action" where
  "cmd_bars_info = with_database
     (sbind (on_tables migrate) (\<lambda>_.
      sbind stored_series (\<lambda>series.
      sbind (series_infos series) (\<lambda>infos. sreturn (exit_ok, P_Bars infos)))))"

section \<open>The entry point\<close>

fun run_command :: "('b, 'z) tool_env \<Rightarrow> config \<Rightarrow> command \<Rightarrow> ('b, int \<times> printed) tool_action" where
  "run_command T c Show_Status = cmd_status T"
| "run_command T c Show_Broker_Status = cmd_broker_status c"
| "run_command T c Show_Positions = cmd_positions"
| "run_command T c Show_Open_Orders = cmd_open_orders"
| "run_command T c Show_Contracts = cmd_contract_info"
| "run_command T c Show_Kill_Switch = cmd_kill_switch_status c"
| "run_command T c (Kill_Switch_On reason) = cmd_kill_switch_on T c reason"
| "run_command T c (Cancel_All reason confirm) = cmd_cancel_all_orders T c reason confirm"
| "run_command T c Show_Database = cmd_db_info"
| "run_command T c Show_Config = cmd_config c"
| "run_command T c (Verify posture) = cmd_verify c posture"
| "run_command T c (Run_Checkout month) = cmd_ibkr_checkout T c month"
| "run_command T c (Place_Order a) = cmd_place_order T c a"
| "run_command T c (Check_Permission month) = cmd_check_permission T c month"
| "run_command T c (Import_Bars a) = cmd_bars_import T a"
| "run_command T c Show_Bars = cmd_bars_info"

fun is_config_error :: "exn \<Rightarrow> bool" where
  "is_config_error (ConfigError name f) = True"
| "is_config_error _ = False"

definition cli_main :: "('b, 'z) tool_env \<Rightarrow> env \<Rightarrow> command \<Rightarrow> ('b, int \<times> printed) tool_action" where
  "cli_main T environment cmd =
     (case from_env environment of
        Inl e \<Rightarrow> if is_config_error e then sreturn (exit_config, P_Fatal_Config) else sraise e
      | Inr c \<Rightarrow> (\<lambda>s.
          (case run_command T c cmd s of
             (Inl e, s') \<Rightarrow> if e = DatabaseError then (Inr (exit_error, P_Database_Error), s') else (Inl e, s')
           | (Inr x, s') \<Rightarrow> (Inr x, s'))))"

end
