(* ===== verification/CliFacts.thy ===== *)
theory CliFacts
  imports Cli CheckoutFacts StatusFacts BarFacts Latch
begin

text \<open>
  What the commands can and cannot do, over the database and the broker: which of them write, which of
  them can send an order, and that none of them releases the kill switch.
\<close>

section \<open>Views of a run\<close>

lemma preserves_sfinally: "preserves P m \<Longrightarrow> preserves P c \<Longrightarrow> preserves P (sfinally m c)"
  unfolding preserves_def by (fastforce simp: sfinally_def split: prod.splits sum.splits)

lemma preserves_on_data: "(\<And>s d. P s \<Longrightarrow> P (s \<lparr> tl_data := d \<rparr>)) \<Longrightarrow> preserves P (on_data m)"
  by (auto simp: preserves_def on_data_def split: prod.splits)

lemma preserves_reporting: "preserves P m \<Longrightarrow> preserves P (reporting report m)"
  unfolding preserves_def by (fastforce simp: reporting_def split: prod.splits sum.splits)

lemma keeps_reporting: "keeps g m \<Longrightarrow> keeps g (reporting report m)"
  by (auto simp: keeps_def reporting_def split: prod.splits sum.splits)

lemma keeps_on_data:
  assumes m: "keeps h m"
  shows "keeps (\<lambda>s. h (tl_data s)) (on_data m :: ('b, 'a) tool_action)"
proof (rule keepsI)
  fix s t :: "'b tool" and r assume run: "on_data m s = (r, t)"
  obtain x d where "m (tl_data s) = (x, d)" by (metis surj_pair)
  with keepsD [OF m this] run show "h (tl_data t) = h (tl_data s)" by (auto simp: on_data_def)
qed

lemma keeps_use_broker: "keeps (\<lambda>s. h (tl_data s)) (use_broker m)" "keeps (\<lambda>s. h (tl_data s)) (open_broker T choice)"
  by (auto simp: keeps_def use_broker_def open_broker_def split: prod.splits option.splits)

lemma keeps_open_adapter: "keeps (\<lambda>s. h (tl_data s)) (open_adapter T c)"
  unfolding open_adapter_def by (auto intro!: keeps_use_broker split: option.splits)

section \<open>The tables\<close>

text \<open>The tables of the trading process: all but those of the schema versions and of the bars.\<close>

definition trading_tables :: "db \<Rightarrow> db" where
  "trading_tables d = d \<lparr> db_faults := [], db_open := False, schema_versions := [] \<rparr>"

lemma observes_trading [simp]: "observes trading_tables"
  by (simp add: observes_def trading_tables_def)

lemma trading_migrate: "keeps trading_tables migrate"
  by (rule keeps_migrate) (simp_all add: trading_tables_def)

definition both_tables :: "bar_db \<Rightarrow> db \<times> bar list" where
  "both_tables = (\<lambda>(d, bars). (trading_tables d, bars))"

lemma trading_from_tables: "keeps tables_of m \<Longrightarrow> keeps trading_tables m"
  unfolding keeps_def
proof (intro allI impI)
  fix s r t assume "\<forall>s r t. m s = (r, t) \<longrightarrow> tables_of t = tables_of s" and "m s = (r, t)"
  then have "tables_of t = tables_of s" by blast
  then show "trading_tables t = trading_tables s"
    by (cases s; cases t) (simp add: tables_of_def trading_tables_def)
qed

lemma both_on_tables: "keeps trading_tables m \<Longrightarrow> keeps both_tables (on_tables m)"
  by (auto simp: keeps_def on_tables_def both_tables_def split: prod.splits)

lemma both_closing: "keeps both_tables m \<Longrightarrow> keeps both_tables (closing m)"
  unfolding closing_def
  by (rule keeps_sfinally) (auto simp: keeps_def both_tables_def trading_tables_def db_close_def)

lemma both_with_database: "keeps both_tables m \<Longrightarrow> keeps (\<lambda>s. both_tables (tl_data s)) (with_database m)"
  unfolding with_database_def
  by (intro keeps_on_data keeps_sbind both_on_tables both_closing keeps_connect observes_trading)

lemma bar_statement_frame:
  assumes "\<And>bars. snd (f bars) = bars"
  shows "keeps both_tables (bar_statement f)"
proof (rule keepsI)
  fix s t r assume run: "bar_statement f s = (r, t)"
  obtain d bars where s: "s = (d, bars)" by (cases s)
  obtain x d1 where st: "statement (\<lambda>d. (Inr (), d)) d = ((x :: unit result), d1)" by (metis surj_pair)
  have "trading_tables d1 = trading_tables d"
    by (rule keepsD [OF keeps_statement st]) simp_all
  with run s st assms [of bars] show "both_tables t = both_tables s"
    by (cases x) (auto simp: bar_statement_def both_tables_def split: prod.splits)
qed

lemma bar_reads:
  "keeps both_tables (load_bars source symbol interval a b)" "keeps both_tables (series_info source symbol interval)"
  "keeps both_tables stored_series" "keeps both_tables (series_infos keys)"
proof -
  show load: "keeps both_tables (load_bars source symbol interval a b)" for source symbol interval a b
    unfolding load_bars_def by (intro keeps_sbind bar_statement_frame keeps_pure) simp
  show info: "keeps both_tables (series_info source symbol interval)" for source symbol interval
    unfolding series_info_def by (intro keeps_sbind load keeps_pure)
  show "keeps both_tables stored_series"
    unfolding stored_series_def by (intro bar_statement_frame) simp
  show "keeps both_tables (series_infos keys)"
    by (induction keys rule: series_infos.induct) (auto intro!: keeps_sbind info)
qed

lemma table_reads:
  "keeps trading_tables state_all" "keeps trading_tables contracts_all" "keeps trading_tables (recent_bot_events n)"
  "keeps trading_tables positions_all" "keeps trading_tables open_orders"
  "keeps trading_tables (ks_engaged b (Some get_state))" "keeps trading_tables (ks_describe b (Some get_state))"
  "keeps trading_tables database_info_of"
  unfolding state_all_def contracts_all_def recent_bot_events_def
  by (intro keeps_query keeps_reads keeps_switch observes_trading trading_from_tables database_reads)+

lemma durable_reads: "keeps trading_tables durable_status_of"
proof -
  have first: "keeps trading_tables (sbind db_connect (\<lambda>_. state_all))"
    by (intro keeps_sbind keeps_connect table_reads observes_trading)
  have close: "trading_tables (db_close d) = trading_tables d" for d
    by (simp add: trading_tables_def db_close_def)
  show ?thesis
  proof (rule keepsI)
    fix d d' r assume run: "durable_status_of d = (r, d')"
    obtain x d1 where 1: "sbind db_connect (\<lambda>_. state_all) d = (x, d1)" by (metis surj_pair)
    obtain y d2 where 2: "database_info_of d1 = (y, d2)" by (metis surj_pair)
    obtain z d3 where 3: "open_orders d2 = (z, d3)" by (metis surj_pair)
    from run 1 2 3 have "d' = d1 \<or> d' = d2 \<or> d' = d3 \<or> d' = db_close d3"
      by (auto simp: durable_status_of_def Let_def split: sum.splits if_splits)
    then show "trading_tables d' = trading_tables d"
      using keepsD [OF first 1] keepsD [OF table_reads(8) 2] keepsD [OF table_reads(5) 3] close by auto
  qed
qed

lemma both_cancel: "keeps (\<lambda>s. both_tables (tl_data s)) (cancel_all T c reason)"
  unfolding cancel_all_def Let_def
  by (auto intro!: keeps_sbind keeps_sfinally keeps_use_broker keeps_open_adapter)

lemma both_probe: "keeps (\<lambda>s. both_tables (tl_data s)) (probe_permission T c month)"
  unfolding probe_permission_def Let_def
  by (auto intro!: keeps_sbind keeps_sfinally keeps_use_broker split: option.splits)

lemma collected: "set (fst (collect_bars limit n bs e)) \<subseteq> set bs"
  by (induction limit n bs e rule: collect_bars.induct) (auto split: prod.splits)

lemma insert_many_trading:
  assumes "insert_many bs (d, bars) = (r, (d', bars'))"
  shows "trading_tables d' = trading_tables d"
proof -
  have one: "keeps (\<lambda>(d, bars). trading_tables d) (insert_bar b)" for b
  proof (rule keepsI)
    fix s t r assume run: "insert_bar b s = (r, t)"
    obtain d bars where s: "s = (d, bars)" by (cases s)
    obtain x d1 where st: "statement (\<lambda>d. (Inr (), d)) d = ((x :: unit result), d1)" by (metis surj_pair)
    have "trading_tables d1 = trading_tables d"
      by (rule keepsD [OF keeps_statement st]) simp_all
    with run s st show "(case t of (d, bars) \<Rightarrow> trading_tables d) = (case s of (d, bars) \<Rightarrow> trading_tables d)"
      by (cases x) (auto simp: insert_bar_def bar_statement_def split: prod.splits if_splits)
  qed
  have "keeps (\<lambda>(d, bars). trading_tables d) (insert_many bs)"
    by (induction bs) (auto intro!: keeps_sbind one)
  from keepsD [OF this assms] show ?thesis by simp
qed

text \<open>An import adds bars of the source behind those stored, and touches no other table.\<close>

lemma import_adds:
  assumes "store_bars a out (d, bars) = (r, (d', bars'))"
  shows "trading_tables d' = trading_tables d \<and> (\<exists>new. bars' = bars @ new \<and> set new \<subseteq> set (fst out))"
proof -
  obtain x d1 where start: "migrate d = (x, d1)" by (metis surj_pair)
  then have moved: "on_tables migrate (d, bars) = (x, (d1, bars))" by (simp add: on_tables_def)
  have d1: "trading_tables d1 = trading_tables d" by (rule keepsD [OF trading_migrate start])
  obtain fetched e where got: "collect_bars (im_limit a) 0 (fst out) (snd out) = (fetched, e)" by (metis surj_pair)
  have sub: "set fetched \<subseteq> set (fst out)"
    using collected [of "im_limit a" 0 "fst out" "snd out"] by (simp add: got)
  consider (early) "d' = d1" "bars' = bars"
    | (stored) y d2 where "insert_many fetched (d1, bars) = (y, (d2, bars'))" "trading_tables d' = trading_tables d2"
  proof (cases "isl x \<or> e \<noteq> None")
    case True
    with assms moved got that(1) show ?thesis
      by (cases x; cases e) (auto simp: store_bars_def split: if_splits)
  next
    case False
    then obtain v where v: "x = Inr v" "e = None" by (cases x) auto
    obtain y d2 bars2 where ins: "insert_many fetched (d1, bars) = (y, (d2, bars2))" by (metis surj_pair)
    have info: "keeps both_tables (sbind (series_info (source_name_of a) (im_symbol a) (im_interval a))
        (\<lambda>info. sreturn (exit_ok, P_Imported n k bs info)))" for n k bs
      by (intro keeps_sbind bar_reads keeps_pure)
    have "both_tables (d', bars') = both_tables (d2, bars2)"
      using assms moved got v ins
      by (cases y) (auto simp: store_bars_def dest!: keepsD [OF info])
    with ins that(2) show ?thesis by (simp add: both_tables_def)
  qed
  then show ?thesis
  proof cases
    case early
    with d1 show ?thesis by simp
  next
    case stored
    from insert_many_result [OF stored(1)] obtain k where "bars' = add_bars (take k fetched) bars" by blast
    with add_bars_prefix [of "take k fetched" bars] obtain new where "bars' = bars @ new" "set new \<subseteq> set fetched"
      by (metis order_trans set_take_subset)
    with insert_many_trading [OF stored(1)] stored(2) d1 sub show ?thesis by auto
  qed
qed

text \<open>Every other command leaves the tables alone, but the two that are there to write.\<close>

definition writes_tables :: "command \<Rightarrow> bool" where
  "writes_tables cmd =
     (case cmd of Kill_Switch_On reason \<Rightarrow> True | Place_Order a \<Rightarrow> True | _ \<Rightarrow> False)"

definition adds_bars :: "command \<Rightarrow> bool" where
  "adds_bars cmd = (case cmd of Import_Bars a \<Rightarrow> True | _ \<Rightarrow> False)"

lemma commands_keep_both:
  assumes "\<not> writes_tables cmd" "\<not> adds_bars cmd"
  shows "keeps (\<lambda>s. both_tables (tl_data s)) (run_command T c cmd)"
proof -
  have db: "keeps (\<lambda>s. both_tables (tl_data s)) (with_database m)" if "keeps both_tables m" for m :: "(bar_db, 'x) action"
    using that by (rule both_with_database)
  note reads = keeps_sbind keeps_pure both_on_tables table_reads
  show ?thesis
  proof (cases cmd)
    case Show_Status
    have "keeps both_tables (on_tables durable_status_of)" by (intro both_on_tables durable_reads)
    with Show_Status show ?thesis
      by (auto simp: cmd_status_def intro!: keeps_sbind keeps_on_data split: live_reply.splits)
  next
    case Show_Broker_Status
    then show ?thesis by (simp add: cmd_broker_status_def, intro db reads)
  next
    case Show_Positions
    then show ?thesis by (simp add: cmd_positions_def, intro db reads)
  next
    case Show_Open_Orders
    then show ?thesis by (simp add: cmd_open_orders_def, intro db reads)
  next
    case Show_Contracts
    then show ?thesis by (simp add: cmd_contract_info_def, intro db reads)
  next
    case Show_Kill_Switch
    then show ?thesis by (simp add: cmd_kill_switch_status_def, intro db reads)
  next
    case (Cancel_All reason confirm)
    then show ?thesis by (auto simp: cmd_cancel_all_orders_def intro!: keeps_reporting both_cancel)
  next
    case Show_Database
    then show ?thesis by (simp add: cmd_db_info_def, intro keeps_on_data both_closing reads)
  next
    case Show_Config
    then show ?thesis by (simp add: cmd_config_def)
  next
    case (Verify posture)
    then show ?thesis by (simp add: cmd_verify_def Let_def case_prod_beta, intro keeps_sbind keeps_pure db both_on_tables table_reads)
  next
    case (Run_Checkout month)
    then show ?thesis
      by (auto simp: cmd_ibkr_checkout_def Let_def intro!: keeps_reporting keeps_sbind keeps_open_adapter keeps_use_broker)
  next
    case (Check_Permission month)
    then show ?thesis by (auto simp: cmd_check_permission_def intro!: keeps_reporting both_probe)
  next
    case Show_Bars
    then show ?thesis
      by (simp add: cmd_bars_info_def, intro db keeps_sbind both_on_tables trading_migrate bar_reads keeps_pure)
  qed (use assms in \<open>simp_all add: writes_tables_def adds_bars_def\<close>)
qed

section \<open>What the database gains\<close>

text \<open>The trading tables stand, and bars were added behind those there were.\<close>

definition grown :: "bar_db \<Rightarrow> bar_db \<Rightarrow> bool" where
  "grown d d' = (trading_tables (fst d') = trading_tables (fst d) \<and> (\<exists>new. snd d' = snd d @ new))"

lemma grown_refl [simp]: "grown d d"
  by (simp add: grown_def)

lemma grown_both: "keeps both_tables m \<Longrightarrow> preserves (grown d) m"
  by (fastforce simp: preserves_def keeps_def grown_def both_tables_def split: prod.splits)

lemma grown_store_bars: "preserves (grown d) (store_bars a out)"
proof (rule preservesI)
  fix s t r assume run: "store_bars a out s = (r, t)" and "grown d s"
  with import_adds [of a out "fst s" "snd s" r "fst t" "snd t"] show "grown d t"
    by (auto simp: grown_def)
qed

lemma grown_with_database:
  assumes m: "preserves (grown d) m"
  shows "preserves (\<lambda>s. grown d (tl_data s)) (with_database m :: ('b, 'a) tool_action)"
proof (rule preservesI)
  have start: "preserves (grown d) (on_tables db_connect)"
    by (intro grown_both both_on_tables keeps_connect observes_trading)
  have close: "preserves (grown d) (closing m)"
    unfolding closing_def
    by (rule preserves_sfinally [OF m]) (auto simp: preserves_def grown_def trading_tables_def db_close_def)
  fix s t :: "'b tool" and r assume run: "with_database m s = (r, t)" and g: "grown d (tl_data s)"
  have "preserves (grown d) (sbind (on_tables db_connect) (\<lambda>_. closing m))"
    by (intro preserves_sbind start close)
  with run g show "grown d (tl_data t)"
    by (auto simp: with_database_def on_data_def dest: preservesD split: prod.splits)
qed

lemma bars_kept:
  "keeps snd (on_tables m)" "keeps snd m' \<Longrightarrow> keeps (\<lambda>s. snd (tl_data s)) (with_database m')"
proof -
  show tables: "keeps snd (on_tables m)" for m :: "(db, 'x) action"
    by (auto simp: keeps_def on_tables_def split: prod.splits)
  assume "keeps snd m'"
  then have "keeps snd (closing m')"
    unfolding closing_def by (rule keeps_sfinally) (auto simp: keeps_def)
  then show "keeps (\<lambda>s. snd (tl_data s)) (with_database m')"
    unfolding with_database_def by (intro keeps_on_data keeps_sbind tables)
qed

lemma bars_run_operator_order: "keeps (\<lambda>s. snd (tl_data s)) (run_operator_order T c q)"
  by (auto simp: keeps_def run_operator_order_def split: prod.splits option.splits)

lemma import_grown: "preserves (\<lambda>s. grown d (tl_data s)) (cmd_bars_import T a)"
  unfolding cmd_bars_import_def
  by (auto intro!: preserves_sbind preserves_pure grown_with_database grown_store_bars
      split: bar_source_option.splits option.splits sum.splits)

text \<open>The body of \<open>cli_main\<close>, seen through an observation and through an invariant.\<close>

lemma keeps_cli_main:
  "(\<And>c. keeps g (run_command T c cmd)) \<Longrightarrow> keeps g (cli_main T environment cmd)"
  by (auto simp: keeps_def cli_main_def split: sum.splits prod.splits if_splits)

lemma preserves_cli_main:
  "(\<And>c. preserves P (run_command T c cmd)) \<Longrightarrow> preserves P (cli_main T environment cmd)"
  unfolding preserves_def by (fastforce simp: cli_main_def split: sum.splits prod.splits if_splits)

section \<open>The broker a command opens\<close>

text \<open>What a command asks of a broker beside the operations of the checkout.\<close>

locale tool_broker = checkout_broker +
  fixes probe :: "instant \<Rightarrow> qualified_contract \<Rightarrow> ('a, permission_probe) action"
  assumes cancelling: "keeps g (br_cancel_all_orders B)" and probing: "keeps g (probe now c)"

definition broker_shows :: "('b \<Rightarrow> 'v) \<Rightarrow> 'v \<Rightarrow> 'b tool \<Rightarrow> bool" where
  "broker_shows g v s = (\<forall>b. tl_broker s = Some b \<longrightarrow> g b = v)"

lemma shows_use_broker: "keeps g m \<Longrightarrow> preserves (broker_shows g v) (use_broker m)"
  by (auto simp: preserves_def keeps_def use_broker_def broker_shows_def split: option.splits prod.splits)

lemma shows_data: "preserves (broker_shows g v) (on_data m)" "preserves (broker_shows g v) (with_database m')"
  unfolding with_database_def by (intro preserves_on_data; simp add: broker_shows_def)+

context tool_broker
begin

lemma resolve_reads: "keeps g (resolve_once B now symbol month)"
proof -
  have "keeps (\<lambda>x. g (fst x)) (resolve (br_qualify B now) symbol month)"
    using reading(7) [of now] unfolding keeps_def resolve_def
    by (fastforce split: sum.splits option.splits prod.splits)
  then show ?thesis by (auto simp: keeps_def resolve_once_def split: prod.splits)
qed

lemma command_sends_nothing:
  assumes T: "en_broker (to_app T) = B" "to_probe T = probe" "\<And>choice. g (en_open_broker (to_app T) choice) = v"
    and cmd: "\<And>a. cmd \<noteq> Place_Order a"
  shows "preserves (broker_shows g v) (run_command T c cmd)"
proof -
  have opened: "preserves (broker_shows g v) (open_broker T choice)" for choice
    by (auto simp: preserves_def open_broker_def broker_shows_def T(3))
  have adapter: "preserves (broker_shows g v) (open_adapter T c)"
    unfolding open_adapter_def by (auto intro!: opened preserves_pure split: option.splits)
  note rules = preserves_sbind preserves_pure preserves_sfinally preserves_reporting shows_use_broker shows_data
    opened adapter reading cancelling probing checkout_reads resolve_reads
  have cancel: "preserves (broker_shows g v) (cancel_all T c reason)" for reason
    unfolding cancel_all_def Let_def T by (auto intro!: rules)
  have permission: "preserves (broker_shows g v) (probe_permission T c month)" for month
    unfolding probe_permission_def Let_def T by (auto intro!: rules split: option.splits)
  have checkout: "preserves (broker_shows g v) (cmd_ibkr_checkout T c month)" for month
    unfolding cmd_ibkr_checkout_def Let_def T by (auto intro!: rules)
  show ?thesis
  proof (cases cmd)
    case Show_Status
    then show ?thesis by (auto simp: cmd_status_def intro!: rules split: live_reply.splits)
  next
    case (Cancel_All reason confirm)
    then show ?thesis by (auto simp: cmd_cancel_all_orders_def intro!: rules cancel)
  next
    case (Verify posture)
    then show ?thesis by (auto simp: cmd_verify_def Let_def case_prod_beta intro!: rules)
  next
    case (Run_Checkout month)
    then show ?thesis by (simp add: checkout)
  next
    case (Check_Permission month)
    then show ?thesis by (auto simp: cmd_check_permission_def intro!: rules permission)
  next
    case (Import_Bars a)
    then show ?thesis
      by (auto simp: cmd_bars_import_def intro!: rules split: bar_source_option.splits option.splits sum.splits)
  next
    case (Place_Order a)
    then show ?thesis using cmd by blast
  qed (auto simp: cmd_broker_status_def cmd_positions_def cmd_open_orders_def cmd_contract_info_def
      cmd_kill_switch_status_def cmd_kill_switch_on_def cmd_db_info_def cmd_config_def cmd_bars_info_def
      intro!: rules)
qed

end

interpretation ibkr_tool: tool_broker "ibkr_broker G" "Some (await_order_status G)" real_orders "probe_futures_permission G reply_text"
  for G reply_text
proof
  fix now c
  show "keeps real_orders (br_cancel_all_orders (ibkr_broker G))"
    by (simp add: ibkr_broker_def keeps_cancel [where g = real_orders, OF _ keeps_send_real])
  show "keeps real_orders (probe_futures_permission G reply_text now c)"
    by (rule keeps_probe) (simp_all add: probe_writes_no_order)
qed

lemma place_order_leaves:
  assumes run: "cmd_place_order T c a s = (r, t)"
  obtains (unchanged) "t = s"
    | (ordered) price answer u where "place_operator_order (to_app T \<lparr> en_config := c \<rparr>) (to_status_source T)
          (operator_request_of a price) (fst (tl_data s)) = (answer, Some u)"
        "t = s \<lparr> tl_data := (ap_db u, snd (tl_data s)), tl_broker := broker_of u \<rparr>"
proof -
  have "t = s \<or> (\<exists>price answer u. place_operator_order (to_app T \<lparr> en_config := c \<rparr>) (to_status_source T)
          (operator_request_of a price) (fst (tl_data s)) = (answer, Some u) \<and>
        t = s \<lparr> tl_data := (ap_db u, snd (tl_data s)), tl_broker := broker_of u \<rparr>)"
    using run
    by (fastforce simp: cmd_place_order_def Let_def reporting_def sbind_def run_operator_order_def broker_of_def
        split: option.splits prod.splits sum.splits)
  with that show thesis by blast
qed

section \<open>Properties\<close>

definition tool_over :: "('b, 'z) runtime_env \<Rightarrow> 'b status_source \<Rightarrow>
    (instant \<Rightarrow> qualified_contract \<Rightarrow> ('b, permission_probe) action) \<Rightarrow> ('b, 'z) tool_env" where
  "tool_over E source probe =
     \<lparr> to_app = E, to_version = ''1.0'', to_status_source = source, to_probe = probe,
       to_live_status = Live_Unavailable, to_server = (\<lambda>r. Klines []), to_file = (\<lambda>path. Inl OSError),
       to_columns = (\<lambda>t. None), to_time = (\<lambda>t. Inl ValueError), to_day = (\<lambda>t. Inl ValueError) \<rparr>"

definition adapter_tool :: "ib_gateway \<Rightarrow> (ibkr, unit) tool_env" where
  "adapter_tool G = tool_over (adapter_env G) (Some (await_order_status G)) (probe_futures_permission G ''timed out'')"

definition fresh_tool :: "'b tool" where
  "fresh_tool = \<lparr> tl_data = (empty_db, []), tl_broker = None \<rparr>"



text \<open>
  C12: A command writes what it is for: only the operator order and the engaging of the kill switch can
  change a table of the trading process, only an import changes the bars, and an import only adds bars
  behind those there are. So it is whether the command ends with an exit code or with an exception.
\<close>

theorem commands_write_what_they_are_for:
  assumes run: "cli_main T environment cmd s = (r, t)"
  shows "(\<not> writes_tables cmd \<longrightarrow> trading_tables (fst (tl_data t)) = trading_tables (fst (tl_data s)))
    \<and> (\<exists>new. snd (tl_data t) = snd (tl_data s) @ new \<and> (new \<noteq> [] \<longrightarrow> adds_bars cmd))"
proof -
  have bars: "snd (tl_data t) = snd (tl_data s)" if "\<And>c. keeps (\<lambda>s. snd (tl_data s)) (run_command T c cmd)"
    by (rule keepsD [OF keeps_cli_main [OF that] run])
  consider (reads) "\<not> writes_tables cmd" "\<not> adds_bars cmd" | (import) a where "cmd = Import_Bars a"
    | (switch) reason where "cmd = Kill_Switch_On reason" | (order) a where "cmd = Place_Order a"
    by (cases cmd) (simp_all add: writes_tables_def adds_bars_def)
  then show ?thesis
  proof cases
    case reads
    have "both_tables (tl_data t) = both_tables (tl_data s)"
      by (rule keepsD [OF keeps_cli_main [OF commands_keep_both [OF reads]] run])
    then show ?thesis by (simp add: both_tables_def split: prod.splits)
  next
    case import
    then have "preserves (\<lambda>u. grown (tl_data s) (tl_data u)) (cli_main T environment cmd)"
      by (intro preserves_cli_main) (simp add: import_grown)
    from preservesD [OF this run] import show ?thesis by (simp add: grown_def adds_bars_def)
  next
    case switch
    then have "keeps (\<lambda>s. snd (tl_data s)) (run_command T c cmd)" for c
      by (simp add: cmd_kill_switch_on_def) (intro bars_kept keeps_sbind keeps_pure)
    from bars [OF this] switch show ?thesis by (simp add: writes_tables_def)
  next
    case order
    have "keeps (\<lambda>s. snd (tl_data s)) (run_command T c cmd)" for c
      unfolding order by (auto intro!: keepsI elim: place_order_leaves)
    from bars [OF this] order show ?thesis by (simp add: writes_tables_def)
  qed
qed

theorem commands_write_what_they_are_for_witness:
  "t_orders (fst (tl_data (snd (cli_main (adapter_tool (sample_gateway (\<lambda>_. []))) paper_env
     (Cancel_All ''test'' True) fresh_tool)))) = []"
proof -
  let ?T = "adapter_tool (sample_gateway (\<lambda>_. []))" and ?cmd = "Cancel_All ''test'' True"
  obtain r t where run: "cli_main ?T paper_env ?cmd fresh_tool = (r, t)" by (metis surj_pair)
  have "trading_tables (fst (tl_data t)) = trading_tables empty_db"
    using commands_write_what_they_are_for [OF run] by (simp add: writes_tables_def fresh_tool_def)
  then have "t_orders (trading_tables (fst (tl_data t))) = t_orders (trading_tables empty_db)" by simp
  with run show ?thesis by (simp add: trading_tables_def empty_db_def)
qed

section \<open>The posture\<close>

lemma verdict_reached:
  assumes run: "cli_main T environment (Verify posture) s = (Inr (0, out), t)"
  obtains c engaged where "from_env environment = Inr c"
    and "fst (posture_verdict c posture (evaluate_posture c engaged))"
proof (cases "from_env environment")
  case (Inl e)
  with run show thesis by (auto simp: cli_main_def exit_config_def split: if_splits)
next
  case (Inr c)
  with run have "cmd_verify c posture s = (Inr (0, out), t)"
    by (auto simp: cli_main_def exit_error_def split: prod.splits sum.splits if_splits)
  then obtain engaged where "fst (posture_verdict c posture (evaluate_posture c engaged))"
    by (auto simp: cmd_verify_def Let_def case_prod_beta exit_error_def elim!: sbind_InrE split: if_splits)
  with Inr that show thesis by blast
qed

lemma armed_verdict:
  "fst (posture_verdict c Paper_Armed (evaluate_posture c engaged)) \<longleftrightarrow>
     \<not> cfg_live_trading_enabled c \<and> cfg_trading_mode c \<noteq> Mode_Live"
proof -
  let ?checks = "evaluate_posture c engaged"
  have named: "k \<in> set ?checks \<Longrightarrow> pc_name k = ''LIVE_TRADING_ENABLED'' \<Longrightarrow> pc_ok k = (\<not> cfg_live_trading_enabled c)"
    "k \<in> set ?checks \<Longrightarrow> pc_name k = ''CAN_TRANSMIT_LIVE_ORDERS'' \<Longrightarrow> pc_ok k = (\<not> can_transmit_live c engaged)" for k
    by (auto simp: evaluate_posture_def interlock_checks_def approved_zero_limits_def)
  have listed: "\<lparr> pc_name = ''LIVE_TRADING_ENABLED'', pc_ok = (\<not> cfg_live_trading_enabled c) \<rparr> \<in> set ?checks"
    by (simp add: evaluate_posture_def interlock_checks_def)
  have "filter (\<lambda>k. pc_name k \<in> set must_hold_when_armed) (failing_checks ?checks) = [] \<longleftrightarrow> \<not> cfg_live_trading_enabled c"
    using named listed unfolding filter_empty_conv
    by (fastforce simp: failing_checks_def must_hold_when_armed_def can_transmit_live_def)
  then show ?thesis by (simp add: Let_def)
qed

lemma allowed_account:
  "gd_allowed (gate_evaluate c x) \<Longrightarrow> expected_account_type (cfg_trading_mode c) = Some (gx_broker_account_type x)"
  by (cases "cfg_trading_mode c")
    (auto simp: gate_evaluate_def Let_def check_account_identity_def check_mode_def expected_account_type_def
      split: if_splits)

text \<open>
  C11: What the exit code 0 of the verification promises: under the configuration the process was given,
  the mode is not live and no context lets an order through to a live account; and with the default
  posture no context lets any order through. That holds without a further reading of the kill switch.
\<close>

theorem verify_promises_no_live_order:
  assumes "cli_main T environment (Verify posture) s = (Inr (0, out), t)"
  shows "\<exists>c. from_env environment = Inr c \<and> cfg_trading_mode c \<noteq> Mode_Live \<and> \<not> cfg_live_trading_enabled c
    \<and> (\<forall>x. gd_allowed (gate_evaluate c x) \<longrightarrow> posture = Paper_Armed \<and> gx_broker_account_type x \<noteq> Acct_Live)"
proof -
  from assms obtain c engaged where c: "from_env environment = Inr c"
    and verdict: "fst (posture_verdict c posture (evaluate_posture c engaged))" by (rule verdict_reached)
  have safe: "\<not> cfg_live_trading_enabled c \<and> cfg_trading_mode c \<noteq> Mode_Live"
    using verdict armed_verdict [of c engaged]
    by (cases posture) (simp_all add: posture_approved_exact Let_def)
  have "posture = Paper_Armed" if "gd_allowed (gate_evaluate c x)" for x
    using verdict gate_allowed_connected [OF that] by (cases posture) (simp_all add: posture_approved_exact Let_def)
  moreover have "gx_broker_account_type x \<noteq> Acct_Live" if "gd_allowed (gate_evaluate c x)" for x
    using allowed_account [OF that] safe by (cases "cfg_trading_mode c") (auto simp: expected_account_type_def)
  ultimately show ?thesis using c safe by blast
qed

theorem verify_promises_no_live_order_witness:
  "\<exists>c. from_env paper_env = Inr c
    \<and> fst (cli_main (adapter_tool (sample_gateway (\<lambda>_. []))) paper_env (Verify Paper_Armed) fresh_tool) \<noteq> Inl DatabaseError
    \<and> \<not> cfg_live_trading_enabled c"
proof -
  let ?T = "adapter_tool (sample_gateway (\<lambda>_. []))"
  have "(case from_env paper_env of Inl e \<Rightarrow> False
      | Inr c \<Rightarrow> cfg_trading_mode c = Mode_Paper \<and> \<not> cfg_live_trading_enabled c)" by code_simp
  then obtain c where c: "from_env paper_env = Inr c" "cfg_trading_mode c = Mode_Paper" "\<not> cfg_live_trading_enabled c"
    by (cases "from_env paper_env") auto
  obtain engaged t where read: "with_database (on_tables (ks_engaged (cfg_kill_switch c) (Some get_state)))
      (fresh_tool :: ibkr tool) = (Inr engaged, t)"
    by (cases "cfg_kill_switch c") (simp_all add: with_database_def on_data_def sbind_def on_tables_def closing_def
        sfinally_def ks_engaged_def ks_latched_def get_state_def query_def statement_def db_connect_def
        fresh_tool_def empty_db_def)
  have "\<exists>out. cmd_verify c Paper_Armed (fresh_tool :: ibkr tool) = (Inr (0, out), t)"
    using armed_verdict [of c engaged] c read
    by (simp add: cmd_verify_def sbind_def Let_def case_prod_beta exit_ok_def)
  then obtain out where "cli_main ?T paper_env (Verify Paper_Armed) fresh_tool = (Inr (0, out), t)"
    using c by (auto simp: cli_main_def)
  from verify_promises_no_live_order [OF this] this show ?thesis by auto
qed

section \<open>The kill switch over all processes\<close>

text \<open>
  One step of any process that works on the database: a command, or a part of the run of a trading
  process; between steps the process may die and the connection fail. The sets are the surroundings
  the trading processes and the commands run in.
\<close>

inductive system_step :: "('b, 'z) runtime_env set \<Rightarrow> ('c, 'y) tool_env set \<Rightarrow> db \<Rightarrow> db \<Rightarrow> bool"
  for EE TT where
  command: "T \<in> TT \<Longrightarrow> cli_main T environment cmd s = (r, t) \<Longrightarrow> system_step EE TT (fst (tl_data s)) (fst (tl_data t))"
| starting: "E \<in> EE \<Longrightarrow> startup E a = (r1, a') \<Longrightarrow> system_step EE TT (ap_db a) (ap_db a')"
| turning: "E \<in> EE \<Longrightarrow> loop_once E a = (r2, a') \<Longrightarrow> system_step EE TT (ap_db a) (ap_db a')"
| failing: "E \<in> EE \<Longrightarrow> fatal E e a = (r3, a') \<Longrightarrow> system_step EE TT (ap_db a) (ap_db a')"
| stopping: "E \<in> EE \<Longrightarrow> shutdown E a = (r4, a') \<Longrightarrow> system_step EE TT (ap_db a) (ap_db a')"
| monitoring: "E \<in> EE \<Longrightarrow> handle_request E version rs a = (r5, a') \<Longrightarrow> system_step EE TT (ap_db a) (ap_db a')"
| elsewhere: "system_step EE TT d (d \<lparr> db_faults := fs, db_open := b \<rparr>)"

lemma latch_is_key: "state.latch_set d \<longleftrightarrow> switch_key d = Some ''true''"
  by (simp add: state.latch_set_def switch_key_def)

lemma switch_from_tables:
  "trading_tables d = trading_tables d' \<Longrightarrow> switch_key d = switch_key d'"
  "tables_of d = tables_of d' \<Longrightarrow> switch_key d = switch_key d'"
  by (cases d; cases d'; simp add: trading_tables_def tables_of_def switch_key_def)+

definition latch_on :: "'b tool \<Rightarrow> bool" where
  "latch_on s = state.latch_set (fst (tl_data s))"

lemma with_database_run:
  assumes "on_tables db_connect (tl_data s) = (x, d)" and "m d = (y, d')"
  shows "with_database m s = (case x of Inl e \<Rightarrow> (Inl e, s \<lparr> tl_data := d \<rparr>)
    | Inr u \<Rightarrow> (y, s \<lparr> tl_data := (db_close (fst d'), snd d') \<rparr>))"
  using assms
  by (cases d'; cases y)
    (simp_all add: with_database_def on_data_def sbind_def closing_def sfinally_def split: sum.splits)

lemma both_of_latch:
  "keeps switch_key m \<Longrightarrow> keeps (\<lambda>d. switch_key (fst d)) (on_tables m)"
  by (auto simp: keeps_def on_tables_def split: prod.splits)

text \<open>Engaging runs with the database opened before and closed after.\<close>

lemma switch_on_latches:
  assumes run: "cmd_kill_switch_on T c reason s = (r, t)"
  shows "latch_on s \<Longrightarrow> latch_on t" and "r = Inr x \<Longrightarrow> latch_on t"
proof -
  let ?engage = "ks_engage (Some set_state) reason (en_iso (to_app T) (en_clock (to_app T) 0))"
  let ?rest = "sbind (on_tables (ks_describe (cfg_kill_switch c) (Some get_state)))
      (\<lambda>k. sreturn (exit_ok, P_Kill_Switch_Engaged reason k))"
  have rest: "keeps (\<lambda>d. switch_key (fst d)) ?rest"
    by (intro keeps_sbind keeps_pure both_of_latch keeps_switch keeps_reads observes_switch)
  obtain x1 d1 where 1: "on_tables db_connect (tl_data s) = (x1, d1)" by (metis surj_pair)
  have k1: "switch_key (fst d1) = switch_key (fst (tl_data s))"
    by (rule keepsD [OF both_of_latch [OF switch_reading(4)] 1])
  obtain x2 d2 where 2: "?engage (fst d1) = (x2, d2)" by (metis surj_pair)
  then have engage: "on_tables ?engage d1 = (x2, (d2, snd d1))" by (simp add: on_tables_def case_prod_beta)
  obtain x3 d3 where 3: "?rest (d2, snd d1) = (x3, d3)" by (metis surj_pair)
  have k3: "switch_key (fst d3) = switch_key d2" using keepsD [OF rest 3] by simp
  have body: "sbind (on_tables ?engage) (\<lambda>_. ?rest) d1 =
      (case x2 of Inl e \<Rightarrow> (Inl e, (d2, snd d1)) | Inr u \<Rightarrow> (x3, d3))"
    using engage 3 by (cases x2) (simp_all add: sbind_def [of "on_tables ?engage"])
  have same: "switch_key (db_close d) = switch_key d" for d by (simp add: switch_key_def db_close_def)
  obtain y d4 where m: "sbind (on_tables ?engage) (\<lambda>_. ?rest) d1 = (y, d4)" by (metis surj_pair)
  have run': "(r, t) = (case x1 of Inl e \<Rightarrow> (Inl e, s \<lparr> tl_data := d1 \<rparr>)
      | Inr u \<Rightarrow> (y, s \<lparr> tl_data := (db_close (fst d4), snd d4) \<rparr>))"
    using run with_database_run [where m = "sbind (on_tables ?engage) (\<lambda>_. ?rest)", OF 1 m] by (simp add: cmd_kill_switch_on_def)
  have y: "x2 = Inl e \<Longrightarrow> y = Inl e" and k4: "switch_key (fst d4) = switch_key d2" for e
    using m body k3 by (auto split: sum.splits)
  show "latch_on t" if "latch_on s"
    using that run' k1 k4 same state.engage_keeps_latch [OF 2]
    by (cases x1) (auto simp: latch_on_def latch_is_key)
  show "latch_on t" if "r = Inr x"
    using that run' k4 same y 2 state.engage_latches [of reason _ "fst d1" _ d2]
    by (cases x1; cases x2) (auto simp: latch_on_def latch_is_key)
qed

lemma command_keeps_latch:
  assumes run: "cli_main T environment cmd s = (r, t)" and on: "latch_on s"
  shows "latch_on t"
proof -
  have "preserves latch_on (run_command T c cmd)" for c
  proof (rule preservesI)
    fix s t r assume run: "run_command T c cmd s = (r, t)" and on: "latch_on s"
    consider (reads) "\<not> writes_tables cmd" "\<not> adds_bars cmd" | (import) a where "cmd = Import_Bars a"
      | (switch) reason where "cmd = Kill_Switch_On reason" | (order) a where "cmd = Place_Order a"
      by (cases cmd) (simp_all add: writes_tables_def adds_bars_def)
    then show "latch_on t"
    proof cases
      case reads
      have "both_tables (tl_data t) = both_tables (tl_data s)" by (rule keepsD [OF commands_keep_both [OF reads] run])
      then have "trading_tables (fst (tl_data t)) = trading_tables (fst (tl_data s))"
        by (simp add: both_tables_def split: prod.splits)
      from switch_from_tables(1) [OF this] on show ?thesis by (simp add: latch_on_def latch_is_key)
    next
      case import
      with run have "cmd_bars_import T a s = (r, t)" by simp
      from preservesD [OF import_grown this, of "tl_data s"]
      have "switch_key (fst (tl_data t)) = switch_key (fst (tl_data s))"
        by (intro switch_from_tables(1)) (simp add: grown_def)
      with on show ?thesis by (simp add: latch_on_def latch_is_key)
    next
      case switch
      with run on show ?thesis using switch_on_latches(1) by simp
    next
      case order
      with run have "cmd_place_order T c a s = (r, t)" by simp
      then show ?thesis
        using on by (cases rule: place_order_leaves)
          (auto simp: latch_on_def latch_is_key switch_of_def dest: switch_place_operator_order)
    qed
  qed
  from preservesD [OF preserves_cli_main [OF this] run on] show ?thesis .
qed

lemma system_step_keeps_latch: "system_step EE TT d d' \<Longrightarrow> state.latch_set d \<Longrightarrow> state.latch_set d'"
proof (induction rule: system_step.induct)
  case (command T environment cmd s r t)
  then show ?case using command_keeps_latch [of T environment cmd s r t] by (simp add: latch_on_def)
next
  case (monitoring E version rs a r5 a')
  have "keeps visible (handle_request E version rs)"
    using keepsD [OF visible_answer] by (intro keepsI) (auto simp: handle_request_def split: prod.splits sum.splits)
  from keepsD [OF this monitoring(2)] have "tables_of (ap_db a') = tables_of (ap_db a)"
    by (cases a; cases a') (simp add: visible_def)
  from switch_from_tables(2) [OF this] monitoring(3) show ?case by (simp add: latch_is_key)
next
  case (elsewhere d fs b)
  then show ?case by (simp add: latch_is_key switch_key_def)
next
  case (starting E a r1 a')
  then show ?case using keepsD [OF switch_startup starting(2)] by (simp add: latch_is_key switch_of_def)
next
  case (turning E a r2 a')
  then show ?case using keepsD [OF switch_loop_once turning(2)] by (simp add: latch_is_key switch_of_def)
next
  case (failing E e a r3 a')
  then show ?case using keepsD [OF switch_fatal failing(2)] by (simp add: latch_is_key switch_of_def)
next
  case (stopping E a r4 a')
  then show ?case using keepsD [OF switch_shutdown stopping(2)] by (simp add: latch_is_key switch_of_def)
qed

lemma system_keeps_latch: "(system_step EE TT)\<^sup>*\<^sup>* d d' \<Longrightarrow> state.latch_set d \<Longrightarrow> state.latch_set d'"
  by (induction rule: rtranclp_induct) (auto dest: system_step_keeps_latch)

text \<open>
  C4: The kill switch the operator engages from the command line survives every process: after the
  command has returned, whatever commands are given and whatever the trading processes do, ends, deaths
  and failures of the database included, it reads as engaged under every configuration, and no tick of
  an application over that database records an order. No operation of the program releases it.
\<close>

theorem kill_switch_survives_every_process:
  assumes "cli_main T environment (Kill_Switch_On reason) s = (Inr (0, out), t)"
    and "(system_step EE TT)\<^sup>*\<^sup>* (fst (tl_data t)) d"
  shows "fst (ks_engaged configured (Some get_state) d) = Inr True
    \<and> (\<forall>(E :: ('e, 'f) runtime_env) a r a'. ap_db a = d \<and> tick E a = (r, a') \<longrightarrow> t_orders (ap_db a') = t_orders d)"
proof -
  from assms(1) obtain c x where "cmd_kill_switch_on T c reason s = (Inr x, t)"
    by (auto simp: cli_main_def exit_config_def exit_error_def split: sum.splits prod.splits if_splits)
  then have "latch_on t" by (auto dest: switch_on_latches(2))
  with system_keeps_latch [OF assms(2)] have latch: "state.latch_set d" by (simp add: latch_on_def)
  have "t_orders (ap_db a') = t_orders d" if "ap_db a = d" "tick E a = (r, a')"
    for E :: "('e, 'f) runtime_env" and a r a'
    using latched_tick(1) [OF that(2)] that(1) latch by (simp add: latched_def untouched_fields)
  moreover have "fst (ks_engaged configured (Some get_state) d) = Inr True"
    using latch state.engaged_returns [of configured d] state.not_engaged_means [of configured d]
    by (metis (full_types) fst_conv)
  ultimately show ?thesis by blast
qed

definition engaged_tool :: "ibkr tool" where
  "engaged_tool = snd (cli_main (adapter_tool (sample_gateway (\<lambda>_. []))) paper_env (Kill_Switch_On ''stop'') fresh_tool)"

theorem kill_switch_survives_every_process_witness:
  "fst (ks_engaged False (Some get_state) (ap_db (snd (startup sample_env (make_app (fst (tl_data engaged_tool))))))) = Inr True"
proof -
  let ?T = "adapter_tool (sample_gateway (\<lambda>_. []))" and ?d = "fst (tl_data engaged_tool)"
  have "(case fst (cli_main ?T paper_env (Kill_Switch_On ''stop'') fresh_tool) of
      Inl e \<Rightarrow> False | Inr (code, out) \<Rightarrow> code = 0)" by code_simp
  then obtain out where "fst (cli_main ?T paper_env (Kill_Switch_On ''stop'') fresh_tool) = Inr (0, out)"
    by (auto split: sum.splits)
  then have run: "cli_main ?T paper_env (Kill_Switch_On ''stop'') fresh_tool = (Inr (0, out), engaged_tool)"
    unfolding engaged_tool_def by (metis prod.collapse)
  obtain r a where start: "startup sample_env (make_app ?d) = (r, a)" by (metis surj_pair)
  have "system_step {sample_env} {?T} ?d (ap_db a)"
    using system_step.starting [where EE = "{sample_env}" and TT = "{?T}", OF _ start] by (simp add: make_app_def)
  then have "(system_step {sample_env} {?T})\<^sup>*\<^sup>* ?d (ap_db a)" by blast
  from kill_switch_survives_every_process [OF run this, THEN conjunct1, of False] start show ?thesis by simp
qed

end
